(* ===== verification/Prelude.thy ===== *)
theory Prelude
  imports Main "HOL-Library.Char_ord"
begin

text \<open>
  Shared ground of the development: the lemma collections, the byte strings of Go (a Go
  string is a sequence of bytes, here a \<open>char list\<close>), and the parts of the standard
  library the chaincode calls on them: \<open>strings.ToUpper\<close>, \<open>strings.ToLower\<close>,
  \<open>strings.Split\<close>, \<open>encoding/hex\<close>, the decimal printing of \<open>fmt\<close> and
  \<open>math/big\<close>, \<open>big.Int.SetString\<close> and \<open>strconv.ParseInt\<close>.  Letter case is the
  ASCII part of the library's tables: bytes outside ASCII are left as they are.
\<close>

named_theorems ok_simps
  "when a chain of checks and calls succeeds, as a conjunction of its steps"
named_theorems key_simps
  "keys of the world state: injectivity of each scheme, disjointness of two schemes"
named_theorems codec_simps
  "looking a member up in a marshalled document"

subsection \<open>Bytes and letter case\<close>

abbreviation byte_of :: "char \<Rightarrow> nat" where
  "byte_of c \<equiv> of_char c"

definition upper_char :: "char \<Rightarrow> char" where
  "upper_char c = (if 97 \<le> byte_of c \<and> byte_of c \<le> 122 then char_of (byte_of c - 32) else c)"

definition lower_char :: "char \<Rightarrow> char" where
  "lower_char c = (if 65 \<le> byte_of c \<and> byte_of c \<le> 90 then char_of (byte_of c + 32) else c)"

definition to_upper :: "string \<Rightarrow> string" where
  "to_upper s = map upper_char s"

definition to_lower :: "string \<Rightarrow> string" where
  "to_lower s = map lower_char s"

lemma byte_of_less [simp]: "byte_of c < 256"
proof -
  have "byte_of c = byte_of c mod 256"
    by (metis char_of_char of_char_of)
  then show ?thesis
    by (metis mod_less_divisor zero_less_numeral)
qed

lemma char_of_byte_of [simp]: "char_of (byte_of c) = c"
  by (rule char_of_char)

lemma byte_of_char_of [simp]: "n < 256 \<Longrightarrow> byte_of (char_of n) = n"
  by simp

lemma length_to_upper [simp]: "length (to_upper s) = length s"
  by (simp add: to_upper_def)

lemma length_to_lower [simp]: "length (to_lower s) = length s"
  by (simp add: to_lower_def)

lemma to_upper_append [simp]: "to_upper (s @ t) = to_upper s @ to_upper t"
  by (simp add: to_upper_def)

lemma upper_char_idem [simp]: "upper_char (upper_char c) = upper_char c"
  using byte_of_less [of c] by (auto simp: upper_char_def)

lemma to_upper_idem [simp]: "to_upper (to_upper s) = to_upper s"
  by (simp add: to_upper_def)

lemma to_upper_fixed: "\<forall>c \<in> set s. \<not> (97 \<le> byte_of c \<and> byte_of c \<le> 122) \<Longrightarrow> to_upper s = s"
  by (induction s) (auto simp: to_upper_def upper_char_def)

lemma to_lower_fixed: "\<forall>c \<in> set s. \<not> (65 \<le> byte_of c \<and> byte_of c \<le> 90) \<Longrightarrow> to_lower s = s"
  by (induction s) (auto simp: to_lower_def lower_char_def)

subsection \<open>strings.Split on a one-byte separator\<close>

fun split_on :: "char \<Rightarrow> string \<Rightarrow> string list" where
  "split_on d [] = [[]]"
| "split_on d (c # cs) =
     (if c = d then [] # split_on d cs
      else case split_on d cs of [] \<Rightarrow> [[c]] | w # ws \<Rightarrow> (c # w) # ws)"

lemma split_on_not_Nil [simp]: "split_on d s \<noteq> []"
  by (induction s) (auto split: list.splits)

lemma split_on_no_sep: "d \<notin> set s \<Longrightarrow> split_on d s = [s]"
  by (induction s) auto

lemma split_on_append_sep: "d \<notin> set s \<Longrightarrow> split_on d (s @ d # t) = s # split_on d t"
  by (induction s) auto

subsection \<open>Digits\<close>

definition digit_char :: "nat \<Rightarrow> char" where
  "digit_char n = (if n < 10 then char_of (48 + n) else char_of (87 + n))"

definition digit_val :: "char \<Rightarrow> nat option" where
  "digit_val c = (let n = byte_of c in
     if 48 \<le> n \<and> n \<le> 57 then Some (n - 48)
     else if 97 \<le> n \<and> n \<le> 122 then Some (n - 87)
     else if 65 \<le> n \<and> n \<le> 90 then Some (n - 55)
     else None)"

lemma byte_of_digit_char: "n < 16 \<Longrightarrow> byte_of (digit_char n) = (if n < 10 then 48 + n else 87 + n)"
  by (simp add: digit_char_def)

lemma digit_val_digit_char [simp]: "n < 16 \<Longrightarrow> digit_val (digit_char n) = Some n"
  by (auto simp: digit_val_def byte_of_digit_char Let_def)

fun scan_nat :: "nat \<Rightarrow> nat \<Rightarrow> string \<Rightarrow> nat option" where
  "scan_nat b acc [] = Some acc"
| "scan_nat b acc (c # cs) =
     (case digit_val c of
        None \<Rightarrow> None
      | Some d \<Rightarrow> if d < b then scan_nat b (acc * b + d) cs else None)"

definition parse_nat :: "nat \<Rightarrow> string \<Rightarrow> nat option" where
  "parse_nat b s = (if s = [] then None else scan_nat b 0 s)"

fun show_nat :: "nat \<Rightarrow> string" where
  "show_nat n = (if n < 10 then [digit_char n] else show_nat (n div 10) @ [digit_char (n mod 10)])"

declare show_nat.simps [simp del]

definition show_int :: "int \<Rightarrow> string" where
  "show_int i = (if i < 0 then CHR ''-'' # show_nat (nat (- i)) else show_nat (nat i))"

lemma show_nat_not_Nil [simp]: "show_nat n \<noteq> []"
  by (subst show_nat.simps) simp

lemma scan_nat_snoc:
  "d < b \<Longrightarrow> digit_val c = Some d \<Longrightarrow>
   scan_nat b acc (s @ [c]) = map_option (\<lambda>n. n * b + d) (scan_nat b acc s)"
  by (induction s arbitrary: acc) (auto split: option.splits)

lemma scan_show_nat: "scan_nat 10 0 (show_nat n) = Some n"
proof (induction n rule: show_nat.induct)
  case (1 n)
  show ?case
  proof (cases "n < 10")
    case True
    then show ?thesis by (subst show_nat.simps) simp
  next
    case False
    with 1 have "scan_nat 10 0 (show_nat (n div 10)) = Some (n div 10)" by simp
    then have "scan_nat 10 0 (show_nat (n div 10) @ [digit_char (n mod 10)]) =
        Some (n div 10 * 10 + n mod 10)"
      by (subst scan_nat_snoc [where d = "n mod 10"]) simp_all
    with False show ?thesis by (subst show_nat.simps) simp
  qed
qed

lemma parse_show_nat [simp]: "parse_nat 10 (show_nat n) = Some n"
  by (simp add: parse_nat_def scan_show_nat)

lemma show_nat_digits: "c \<in> set (show_nat n) \<Longrightarrow> 48 \<le> byte_of c \<and> byte_of c \<le> 57"
proof (induction n rule: show_nat.induct)
  case (1 n)
  show ?case
  proof (cases "n < 10")
    case True
    with 1(2) show ?thesis by (simp add: show_nat.simps [of n] byte_of_digit_char)
  next
    case False
    with 1 show ?thesis
      by (auto simp: show_nat.simps [of n] byte_of_digit_char)
  qed
qed

lemma show_nat_hd: "0 < n \<Longrightarrow> hd (show_nat n) \<noteq> CHR ''0''"
proof (induction n rule: show_nat.induct)
  case (1 n)
  show ?case
  proof (cases "n < 10")
    case True
    with 1(2) have "byte_of (digit_char n) \<noteq> byte_of CHR ''0''"
      by (simp add: byte_of_digit_char)
    then have "digit_char n \<noteq> CHR ''0''" by metis
    with True show ?thesis by (simp add: show_nat.simps [of n])
  next
    case False
    then have "0 < n div 10" by simp
    with 1 False have "hd (show_nat (n div 10)) \<noteq> CHR ''0''" by simp
    with False show ?thesis by (simp add: show_nat.simps [of n])
  qed
qed

lemma length_show_nat_bounds:
  "10 ^ k \<le> n \<Longrightarrow> n < 10 ^ Suc k \<Longrightarrow> length (show_nat n) = Suc k"
proof (induction k arbitrary: n)
  case 0
  then show ?case by (simp add: show_nat.simps [of n])
next
  case (Suc k)
  then have "10 ^ k \<le> n div 10" and "n div 10 < 10 ^ Suc k"
    by (simp_all add: less_mult_imp_div_less div_le_mono
        div_le_mono [of "10 * 10 ^ k" n 10, simplified])
  with Suc.IH have "length (show_nat (n div 10)) = Suc k" by blast
  moreover have "\<not> n < 10"
    using Suc.prems(1) by (metis One_nat_def Suc_eq_plus1 leD le_add2 le_trans mult.right_neutral
        mult_le_mono2 one_le_numeral one_le_power power_Suc)
  ultimately show ?case by (simp add: show_nat.simps [of n])
qed

end
