(* ===== verification/GoLib.thy ===== *)
theory GoLib
  imports Prelude "HOL-Library.Word"
begin

text \<open>
  The standard-library functions the chaincode relies on, translated as far as it uses them:
  \<open>big.Int.SetString\<close> in base 10 and base 0, \<open>big.Int.UnmarshalJSON\<close>,
  \<open>big.Rat.SetString\<close> on decimal text, \<open>strconv.ParseInt\<close> (with the value it
  returns beside an error), \<open>strconv.ParseBool\<close>, \<open>encoding/hex\<close>, and the instants of
  package \<open>time\<close> with the wrap-around of its 64-bit seconds counter.
\<close>

subsection \<open>math/big: reading integers\<close>

fun scan_sign :: "string \<Rightarrow> bool \<times> string" where
  "scan_sign (c # cs) =
     (if c = CHR ''-'' then (True, cs) else if c = CHR ''+'' then (False, cs) else (False, c # cs))"
| "scan_sign [] = (False, [])"

definition signed :: "bool \<Rightarrow> nat \<Rightarrow> int" where
  "signed neg n = (if neg then - int n else int n)"

definition set_string10 :: "string \<Rightarrow> int option" where
  "set_string10 s = (case scan_sign s of (neg, ds) \<Rightarrow> map_option (signed neg) (parse_nat 10 ds))"

text \<open>Base 0: the prefix of the digits selects the base.\<close>

fun scan_base :: "string \<Rightarrow> nat option" where
  "scan_base [] = None"
| "scan_base [c] = parse_nat 10 [c]"
| "scan_base (c # d # ds) =
     (if c \<noteq> CHR ''0'' then parse_nat 10 (c # d # ds)
      else if d = CHR ''x'' \<or> d = CHR ''X'' then parse_nat 16 ds
      else if d = CHR ''b'' \<or> d = CHR ''B'' then parse_nat 2 ds
      else parse_nat 8 (d # ds))"

definition set_string0 :: "string \<Rightarrow> int option" where
  "set_string0 s = (case scan_sign s of (neg, ds) \<Rightarrow> map_option (signed neg) (scan_base ds))"

lemma scan_sign_digit:
  "s \<noteq> [] \<Longrightarrow> 48 \<le> byte_of (hd s) \<Longrightarrow> scan_sign s = (False, s)"
  by (cases s) auto

lemma scan_sign_show_nat [simp]: "scan_sign (show_nat n) = (False, show_nat n)"
  using show_nat_digits [of "hd (show_nat n)" n] by (intro scan_sign_digit) auto

lemma set_string10_show_int [simp]: "set_string10 (show_int i) = Some i"
  by (auto simp: set_string10_def show_int_def signed_def)

lemma scan_base_show_nat [simp]: "scan_base (show_nat n) = Some n"
proof (cases "n < 10")
  case True
  then have "show_nat n = [digit_char n]" by (subst show_nat.simps) simp
  then show ?thesis using parse_show_nat [of n] by simp
next
  case False
  then obtain c d ds where s: "show_nat n = c # d # ds"
    by (metis append_is_Nil_conv length_show_nat_bounds list.exhaust neq_Nil_conv not_Cons_self2
        append_eq_Cons_conv show_nat.simps show_nat_not_Nil)
  with show_nat_hd [of n] False have "c \<noteq> CHR ''0''" by simp
  with s show ?thesis using parse_show_nat [of n] by simp
qed

lemma set_string0_show_int [simp]: "set_string0 (show_int i) = Some i"
  by (auto simp: set_string0_def show_int_def signed_def)

subsection \<open>math/big: rational numbers\<close>

text \<open>
  A \<open>big.Rat\<close> is kept in lowest terms with a positive denominator.  \<open>rat_set_string\<close>
  reads the decimal forms: a fraction \<open>a/b\<close>, or a decimal with optional fraction digits
  and decimal exponent.
\<close>

type_synonym bigrat = "int \<times> int"

definition rat_norm :: "int \<Rightarrow> int \<Rightarrow> bigrat" where
  "rat_norm a b = (let g = gcd a b; s = (if b < 0 then - 1 else 1) in (s * (a div g), s * (b div g)))"

definition rat_num :: "bigrat \<Rightarrow> int" where "rat_num r = fst r"

definition rat_denom :: "bigrat \<Rightarrow> int" where "rat_denom r = snd r"

text \<open>The digits of a mantissa: their value and how many of them follow the point.\<close>

fun scan_mantissa :: "bool \<Rightarrow> nat \<Rightarrow> nat \<Rightarrow> nat \<Rightarrow> string \<Rightarrow> nat \<times> nat \<times> nat \<times> string" where
  "scan_mantissa dot acc cnt frac [] = (acc, cnt, frac, [])"
| "scan_mantissa dot acc cnt frac (c # cs) =
     (if c = CHR ''.'' \<and> \<not> dot then scan_mantissa True acc cnt frac cs
      else if 48 \<le> byte_of c \<and> byte_of c \<le> 57
      then scan_mantissa dot (acc * 10 + (byte_of c - 48)) (cnt + 1) (if dot then frac + 1 else frac) cs
      else (acc, cnt, frac, c # cs))"

definition scan_exponent :: "string \<Rightarrow> int option" where
  "scan_exponent s = (case s of [] \<Rightarrow> Some 0
     | c # cs \<Rightarrow> if c = CHR ''e'' \<or> c = CHR ''E'' then set_string10 cs else None)"

definition rat_set_string :: "string \<Rightarrow> bigrat option" where
  "rat_set_string s =
     (if CHR ''/'' \<in> set s
      then let a = takeWhile (\<lambda>c. c \<noteq> CHR ''/'') s;
               b = drop (length a + 1) s
           in case (set_string10 a, parse_nat 10 b) of
                (Some n, Some d) \<Rightarrow> if d = 0 then None else Some (rat_norm n (int d))
              | _ \<Rightarrow> None
      else case scan_sign s of (neg, ds) \<Rightarrow>
           (case scan_mantissa False 0 0 0 ds of (m, cnt, frac, rest) \<Rightarrow>
             if cnt = 0 then None
             else case scan_exponent rest of
                    None \<Rightarrow> None
                  | Some e \<Rightarrow>
                      let k = e - int frac in
                      if 0 \<le> k then Some (rat_norm (signed neg m * 10 ^ nat k) 1)
                      else Some (rat_norm (signed neg m) (10 ^ nat (- k)))))"

lemma rat_norm_denom_pos:
  assumes "b \<noteq> 0" shows "0 < rat_denom (rat_norm a b)"
proof -
  have g: "0 < gcd a b" using assms by (simp add: gcd_pos_int)
  obtain d where b: "b = gcd a b * d" by (metis dvd_def gcd_dvd2)
  with g have d: "b div gcd a b = d" by (metis less_irrefl nonzero_mult_div_cancel_left)
  from b g have "0 < b \<longleftrightarrow> 0 < d" by (metis zero_less_mult_pos mult_pos_pos)
  moreover from b assms have "d \<noteq> 0" by auto
  ultimately show ?thesis
    using assms d by (auto simp: rat_norm_def rat_denom_def Let_def)
qed

lemma rat_set_string_denom_pos: "rat_set_string s = Some r \<Longrightarrow> 0 < rat_denom r"
  by (auto simp: rat_set_string_def Let_def rat_norm_denom_pos
      split: if_splits option.splits prod.splits)

lemma rat_norm_floor:
  assumes "0 < b"
  shows "a * rat_num (rat_norm n b) div rat_denom (rat_norm n b) = a * n div b"
proof -
  let ?g = "gcd n b"
  have g: "0 < ?g" using assms by (simp add: gcd_pos_int)
  have n: "n = ?g * (n div ?g)" and b: "b = ?g * (b div ?g)" by simp_all
  have "a * n div b = (?g * (a * (n div ?g))) div (?g * (b div ?g))"
    by (metis b mult.left_commute n)
  also have "\<dots> = a * (n div ?g) div (b div ?g)"
    using g by (simp only: div_mult_mult1_if) simp
  finally show ?thesis
    using assms by (simp add: rat_norm_def rat_num_def rat_denom_def Let_def)
qed

subsection \<open>strconv\<close>

datatype 'a numres = NumOk 'a | NumSyntax | NumRange

text \<open>\<open>ParseUint(s, 10, 64)\<close>: digits are read left to right, the first problem wins.\<close>

fun parse_uint_loop :: "nat \<Rightarrow> string \<Rightarrow> nat numres" where
  "parse_uint_loop acc [] = NumOk acc"
| "parse_uint_loop acc (c # cs) =
     (if \<not> (48 \<le> byte_of c \<and> byte_of c \<le> 57) then NumSyntax
      else let n = acc * 10 + (byte_of c - 48) in
        if 2 ^ 64 \<le> n then NumRange else parse_uint_loop n cs)"

definition parse_uint64 :: "string \<Rightarrow> nat numres" where
  "parse_uint64 s = (if s = [] then NumSyntax else parse_uint_loop 0 s)"

text \<open>
  \<open>ParseInt(s, 10, 64)\<close> returns a value beside its error: zero for malformed text, the
  nearest bound for a number out of range.
\<close>

definition parse_int64 :: "string \<Rightarrow> int \<times> bool" where
  "parse_int64 s =
     (if s = [] then (0, False)
      else case scan_sign s of (neg, ds) \<Rightarrow>
        (case parse_uint64 ds of
           NumSyntax \<Rightarrow> (0, False)
         | NumRange \<Rightarrow> (if neg then - (2 ^ 63) else 2 ^ 63 - 1, False)
         | NumOk n \<Rightarrow>
             if \<not> neg \<and> 2 ^ 63 \<le> n then (2 ^ 63 - 1, False)
             else if neg \<and> 2 ^ 63 < n then (- (2 ^ 63), False)
             else (signed neg n, True)))"

definition parse_int64_opt :: "string \<Rightarrow> int option" where
  "parse_int64_opt s = (case parse_int64 s of (v, ok) \<Rightarrow> if ok then Some v else None)"

definition parse_bool :: "string \<Rightarrow> bool option" where
  "parse_bool s =
     (if s \<in> {''1'', ''t'', ''T'', ''true'', ''TRUE'', ''True''} then Some True
      else if s \<in> {''0'', ''f'', ''F'', ''false'', ''FALSE'', ''False''} then Some False
      else None)"

lemma scan_nat_ge: "scan_nat 10 k t = Some m \<Longrightarrow> k \<le> m"
proof (induction t arbitrary: k)
  case Nil
  then show ?case by simp
next
  case (Cons d t)
  then obtain v where "scan_nat 10 (k * 10 + v) t = Some m"
    by (auto split: option.splits if_splits)
  then have "k * 10 + v \<le> m" by (rule Cons.IH)
  then show ?case by simp
qed

lemma parse_uint_loop_scan:
  assumes "\<forall>c \<in> set s. 48 \<le> byte_of c \<and> byte_of c \<le> 57"
    and "scan_nat 10 acc s = Some n" and "n < 2 ^ 64"
  shows "parse_uint_loop acc s = NumOk n"
  using assms
proof (induction s arbitrary: acc)
  case Nil
  then show ?case by simp
next
  case (Cons c cs)
  let ?v = "acc * 10 + (byte_of c - 48)"
  from Cons.prems have dv: "digit_val c = Some (byte_of c - 48)"
    by (simp add: digit_val_def Let_def)
  with Cons.prems have scan: "scan_nat 10 ?v cs = Some n"
    by (simp split: if_splits)
  then have "?v < 2 ^ 64" using scan_nat_ge Cons.prems(3) by (meson le_less_trans)
  moreover have "parse_uint_loop ?v cs = NumOk n"
    using Cons.IH [OF _ scan] Cons.prems by simp
  ultimately show ?case using Cons.prems(1) by (simp add: Let_def)
qed

lemma parse_int64_show_nat: "n < 2 ^ 63 \<Longrightarrow> parse_int64_opt (show_nat n) = Some (int n)"
  using parse_uint_loop_scan [of "show_nat n" 0 n]
  by (simp add: parse_int64_opt_def parse_int64_def parse_uint64_def scan_show_nat
      show_nat_digits signed_def)

subsection \<open>encoding/hex\<close>

definition hex_val :: "char \<Rightarrow> nat option" where
  "hex_val c = (case digit_val c of Some d \<Rightarrow> if d < 16 then Some d else None | None \<Rightarrow> None)"

fun hex_decode :: "string \<Rightarrow> string option" where
  "hex_decode [] = Some []"
| "hex_decode [c] = None"
| "hex_decode (c # d # s) =
     (case (hex_val c, hex_val d) of
        (Some x, Some y) \<Rightarrow> map_option ((#) (char_of (16 * x + y))) (hex_decode s)
      | _ \<Rightarrow> None)"

definition hex_byte :: "char \<Rightarrow> string" where
  "hex_byte c = [digit_char (byte_of c div 16), digit_char (byte_of c mod 16)]"

definition hex_encode :: "string \<Rightarrow> string" where
  "hex_encode bs = concat (map hex_byte bs)"

text \<open>The verbs \<open>%X\<close> on bytes and \<open>%02X\<close> on one byte.\<close>

definition hex_upper :: "string \<Rightarrow> string" where
  "hex_upper bs = to_upper (hex_encode bs)"

lemma hex_encode_simps [simp]:
  "hex_encode [] = []" "hex_encode (c # bs) = hex_byte c @ hex_encode bs"
  by (simp_all add: hex_encode_def)

lemma length_hex_encode [simp]: "length (hex_encode bs) = 2 * length bs"
  by (induction bs) (simp_all add: hex_byte_def)

lemma length_hex_upper [simp]: "length (hex_upper bs) = 2 * length bs"
  by (simp add: hex_upper_def)

lemma take_hex_encode: "take (2 * n) (hex_encode bs) = hex_encode (take n bs)"
proof (induction bs arbitrary: n)
  case Nil
  then show ?case by simp
next
  case (Cons c bs)
  then show ?case by (cases n) (simp_all add: hex_byte_def)
qed

lemma hex_val_digit_char [simp]: "n < 16 \<Longrightarrow> hex_val (digit_char n) = Some n"
  by (simp add: hex_val_def)

lemma byte_of_upper_char:
  "byte_of (upper_char c) =
     (if 97 \<le> byte_of c \<and> byte_of c \<le> 122 then byte_of c - 32 else byte_of c)"
  using byte_of_less [of c] by (auto simp: upper_char_def)

lemma byte_of_lower_char:
  "byte_of (lower_char c) =
     (if 65 \<le> byte_of c \<and> byte_of c \<le> 90 then byte_of c + 32 else byte_of c)"
  by (simp add: lower_char_def)

lemma digit_val_upper [simp]: "digit_val (upper_char c) = digit_val c"
  by (auto simp: digit_val_def byte_of_upper_char Let_def)

lemma digit_val_lower [simp]: "digit_val (lower_char c) = digit_val c"
  by (auto simp: digit_val_def byte_of_lower_char Let_def)

lemma hex_val_upper [simp]: "hex_val (upper_char c) = hex_val c"
  by (simp add: hex_val_def)

lemma hex_val_lower [simp]: "hex_val (lower_char c) = hex_val c"
  by (simp add: hex_val_def)

lemma hex_decode_upper [simp]: "hex_decode (to_upper s) = hex_decode s"
  by (induction s rule: hex_decode.induct) (auto simp: to_upper_def split: option.splits)

lemma hex_decode_lower [simp]: "hex_decode (to_lower s) = hex_decode s"
  by (induction s rule: hex_decode.induct) (auto simp: to_lower_def split: option.splits)

lemma hex_val_nibbles [simp]:
  "hex_val (digit_char (byte_of c div 16)) = Some (byte_of c div 16)"
  "hex_val (digit_char (byte_of c mod 16)) = Some (byte_of c mod 16)"
  using byte_of_less [of c] by (simp_all add: less_mult_imp_div_less)

lemma hex_decode_encode [simp]: "hex_decode (hex_encode bs) = Some bs"
  by (induction bs) (simp_all add: hex_byte_def)

lemma hex_decode_upper_encode [simp]: "hex_decode (hex_upper bs) = Some bs"
  by (simp add: hex_upper_def)

lemma hex_decode_append:
  "even (length s) \<Longrightarrow> hex_decode (s @ t) =
     (case (hex_decode s, hex_decode t) of (Some a, Some b) \<Rightarrow> Some (a @ b) | _ \<Rightarrow> None)"
  by (induction s rule: hex_decode.induct) (auto split: option.splits)

lemma length_hex_decode: "hex_decode s = Some bs \<Longrightarrow> length s = 2 * length bs"
  by (induction s arbitrary: bs rule: hex_decode.induct) (auto split: option.splits)

lemma lower_char_hex_digit: "hex_val c = Some d \<Longrightarrow> digit_char d = lower_char c"
  by (auto simp: hex_val_def digit_val_def Let_def digit_char_def lower_char_def
      split: option.splits if_splits)

lemma hex_encode_decode: "hex_decode s = Some bs \<Longrightarrow> hex_encode bs = to_lower s"
proof (induction s arbitrary: bs rule: hex_decode.induct)
  case (3 c d s)
  then obtain x y bs' where x: "hex_val c = Some x" and y: "hex_val d = Some y"
    and s: "hex_decode s = Some bs'" and bs: "bs = char_of (16 * x + y) # bs'"
    by (auto split: option.splits)
  from x y have "x < 16" "y < 16" by (auto simp: hex_val_def split: option.splits if_splits)
  then have "hex_byte (char_of (16 * x + y)) = [lower_char c, lower_char d]"
    using x y by (simp add: hex_byte_def lower_char_hex_digit)
  moreover have "hex_encode bs' = to_lower s" using 3(1) x y s by blast
  ultimately show ?case using bs by (simp add: to_lower_def)
qed (simp_all add: to_lower_def)

subsection \<open>Instants of package time\<close>

text \<open>
  An instant is its distance from the Unix epoch in nanoseconds.  \<open>time.Unix\<close> stores the
  seconds in a 64-bit counter based on the year 1, so a very large argument wraps around.
\<close>

datatype gotime = GoTime (nanos: int)

instantiation gotime :: linorder
begin

definition less_eq_gotime :: "gotime \<Rightarrow> gotime \<Rightarrow> bool" where
  "less_eq_gotime s t \<longleftrightarrow> nanos s \<le> nanos t"

definition less_gotime :: "gotime \<Rightarrow> gotime \<Rightarrow> bool" where
  "less_gotime s t \<longleftrightarrow> nanos s < nanos t"

instance
  by standard (auto simp: less_eq_gotime_def less_gotime_def gotime.expand)

end

definition int64 :: "int \<Rightarrow> int" where
  "int64 i = sint (word_of_int i :: 64 word)"

definition unix_to_internal :: int where
  "unix_to_internal = 62135596800"

definition time_unix :: "int \<Rightarrow> int \<Rightarrow> gotime" where
  "time_unix sec nsec =
     GoTime ((int64 (sec + nsec div 10 ^ 9 + unix_to_internal) - unix_to_internal) * 10 ^ 9
             + nsec mod 10 ^ 9)"

definition unix_nano :: "gotime \<Rightarrow> int" where
  "unix_nano t = int64 (nanos t)"

definition time_add :: "gotime \<Rightarrow> int \<Rightarrow> gotime" where
  "time_add t d = GoTime (nanos t + d)"

lemma int64_id: "- (2 ^ 63) \<le> i \<Longrightarrow> i < 2 ^ 63 \<Longrightarrow> int64 i = i"
  by (simp add: int64_def sint_sbintrunc' signed_take_bit_int_eq_self)

lemma time_unix_exact:
  assumes "\<bar>sec\<bar> \<le> 2 ^ 62" and "0 \<le> nsec" and "nsec < 10 ^ 9"
  shows "time_unix sec nsec = GoTime (sec * 10 ^ 9 + nsec)"
proof -
  have "nsec div 10 ^ 9 = 0" and "nsec mod 10 ^ 9 = nsec" using assms by simp_all
  moreover have "int64 (sec + unix_to_internal) = sec + unix_to_internal"
    using assms by (intro int64_id) (auto simp: unix_to_internal_def)
  ultimately show ?thesis by (simp add: time_unix_def)
qed

lemma time_unix_wraps: "nanos (time_unix (2 ^ 63 - 1) 0) < 0"
  by (simp add: time_unix_def int64_def unix_to_internal_def)

end
