(* ===== verification/Errors.thy ===== *)
theory Errors
  imports GoLib
begin

text \<open>
  The error values of \<open>errors.go\<close> and of package \<open>errors\<close>.  A \<open>Plain\<close> error
  comes from \<open>errors.New\<close> or from code outside the repository; \<open>Wrapped e m\<close> is
  \<open>errors.Wrap(e, m)\<close>, which hides the dynamic type of \<open>e\<close>.  \<open>Panicked\<close> is not an
  error value: it marks a run-time panic (a nil dereference, a failed type assertion, a slice
  out of range) on its way up to \<open>Invoke\<close>, and no operation below turns it into an error.
\<close>

datatype goerr =
    NotIssuedTokenError string
  | NotInitLastPrunedFeeIDError string
  | InvalidAccessError
  | SupplyError string
  | InvalidAccountAddrError string
  | ExistedAccountError string
  | NotExistedAccountError string
  | NotExistedPayError string
  | NotExistedFeeError string
  | DuplicateWrapCompleteError
  | DuplicateUnwrapCompleteError
  | Plain string
  | Wrapped goerr string
  | Panicked

fun err_text :: "goerr \<Rightarrow> string" where
  "err_text (NotIssuedTokenError code) = ''the token ['' @ code @ ''] is not issued''"
| "err_text (NotInitLastPrunedFeeIDError code) =
     ''the last pruned fee id of the token ['' @ code @ ''] is not initialized''"
| "err_text InvalidAccessError = ''invalid access''"
| "err_text (SupplyError reason) = reason"
| "err_text (InvalidAccountAddrError reason) =
     (if 0 < length reason then ''invalid account address: ['' @ reason @ '']''
      else ''invalid account address'')"
| "err_text (ExistedAccountError addr) = ''the account ['' @ addr @ ''] already exists''"
| "err_text (NotExistedAccountError addr) =
     (if 0 < length addr then ''the account ['' @ addr @ ''] does not exist''
      else ''the account does not exist'')"
| "err_text (NotExistedPayError i) =
     (if 0 < length i then ''the pay id ['' @ i @ ''] does not exist''
      else ''the pay does not exist'')"
| "err_text (NotExistedFeeError i) =
     (if 0 < length i then ''the fee id ['' @ i @ ''] does not exist''
      else ''the fee does not exist'')"
| "err_text DuplicateWrapCompleteError = ''already completed wrap''"
| "err_text DuplicateUnwrapCompleteError = ''already completed unwrap''"
| "err_text (Plain m) = m"
| "err_text (Wrapped e m) = m @ '': '' @ err_text e"
| "err_text Panicked = []"

text \<open>The types that embed \<open>ResponsibleErrorImpl\<close>; a wrapped error is not one of them.\<close>

fun is_responsible :: "goerr \<Rightarrow> bool" where
  "is_responsible (Plain m) = False"
| "is_responsible (Wrapped e m) = False"
| "is_responsible Panicked = False"
| "is_responsible _ = True"

fun err_wrap :: "goerr \<Rightarrow> string \<Rightarrow> goerr" where
  "err_wrap Panicked m = Panicked"
| "err_wrap e m = Wrapped e m"

lemma err_wrap_Panicked_iff [simp]: "err_wrap e m = Panicked \<longleftrightarrow> e = Panicked"
  by (cases e) simp_all

lemma err_wrap_not_responsible [simp]: "\<not> is_responsible (err_wrap e m)"
  by (cases e) simp_all

subsection \<open>Successful results of a chain of steps\<close>

text \<open>
  Every stub operation is a chain of steps, each of which may return early with an error.
  These rules turn \<open>chain = Inr y\<close> into the conjunction of its steps, without case splits.
\<close>

lemma case_sum_Inr [ok_simps]:
  "(\<And>e. h e \<noteq> Inr y) \<Longrightarrow>
   ((case m of Inl e \<Rightarrow> h e | Inr a \<Rightarrow> g a) = Inr y) \<longleftrightarrow> (\<exists>a. m = Inr a \<and> g a = Inr y)"
  by (cases m) auto

lemma if_Inl_Inr [ok_simps]:
  "((if c then Inl e else m) = Inr y) \<longleftrightarrow> \<not> c \<and> m = Inr y"
  by simp

lemma case_option_Inl_Inr [ok_simps]:
  "((case m of None \<Rightarrow> Inl e | Some a \<Rightarrow> g a) = Inr y) \<longleftrightarrow> (\<exists>a. m = Some a \<and> g a = Inr y)"
  by (cases m) auto

lemma case_prod_Inr [ok_simps]:
  "((case p of (a, b) \<Rightarrow> g a b) = Inr y) \<longleftrightarrow> (\<exists>a b. p = (a, b) \<and> g a b = Inr y)"
  by (cases p) auto

lemma map_sum_Inr [ok_simps]: "map_sum id f m = Inr y \<longleftrightarrow> (\<exists>x. m = Inr x \<and> f x = y)"
  by (cases m) auto

end
