(* ===== verification/Json.thy ===== *)
theory Json
  imports Errors
begin

text \<open>
  The JSON values of the documents in the world state and of the messages to other
  chaincodes.  A value is kept as a tree; the text of \<open>encoding/json\<close> appears only where
  bytes leave the chaincode.  A string in the format of \<open>txtime\<close> is kept as the instant it
  denotes (\<open>JTime\<close>).  Decoding works as \<open>json.Unmarshal\<close> into a struct does: a member
  that is missing, or null for a field without its own decoder, leaves the field as it was;
  of two members with one name the last one counts; a member of the wrong type is an error.
\<close>

datatype json =
    JNull
  | JBool bool
  | JNum int
  | JStr string
  | JTime gotime
  | JArr "json list"
  | JObj "(string \<times> json) list"

type_synonym members = "(string \<times> json) list"

fun jlast :: "string \<Rightarrow> members \<Rightarrow> json option" where
  "jlast k [] = None"
| "jlast k ((k', v) # ms) =
     (case jlast k ms of Some w \<Rightarrow> Some w | None \<Rightarrow> if k' = k then Some v else None)"

text \<open>
  A struct is marshalled member by member; a member tagged \<open>omitempty\<close> whose value is
  empty (here \<open>None\<close>) is left out.
\<close>

fun members_of :: "(string \<times> json option) list \<Rightarrow> members" where
  "members_of [] = []"
| "members_of ((k, None) # fs) = members_of fs"
| "members_of ((k, Some v) # fs) = (k, v) # members_of fs"

definition obj :: "(string \<times> json option) list \<Rightarrow> json" where
  "obj fs = JObj (members_of fs)"

lemma jlast_members_Cons [codec_simps]:
  "jlast k (members_of ((k', v) # fs)) =
     (if k' = k then (case jlast k (members_of fs) of Some w \<Rightarrow> Some w | None \<Rightarrow> v)
      else jlast k (members_of fs))"
  by (cases v) (auto split: option.splits)

lemma jlast_members_Nil [codec_simps]: "jlast k (members_of []) = None"
  by simp

declare members_of.simps [simp del]

subsection \<open>Decoding one field\<close>

abbreviation type_error :: goerr where
  "type_error \<equiv> Plain ''json: cannot unmarshal value''"

fun dec_str :: "string \<Rightarrow> json option \<Rightarrow> goerr + string" where
  "dec_str old None = Inr old"
| "dec_str old (Some JNull) = Inr old"
| "dec_str old (Some (JStr s)) = Inr s"
| "dec_str old (Some _) = Inl type_error"

text \<open>An integer field of \<open>w\<close> bits: out of range is a type error.\<close>

fun dec_int :: "int \<Rightarrow> int \<Rightarrow> int \<Rightarrow> json option \<Rightarrow> goerr + int" where
  "dec_int lo hi old None = Inr old"
| "dec_int lo hi old (Some JNull) = Inr old"
| "dec_int lo hi old (Some (JNum n)) = (if lo \<le> n \<and> n \<le> hi then Inr n else Inl type_error)"
| "dec_int lo hi old (Some _) = Inl type_error"

fun dec_byte :: "nat \<Rightarrow> json option \<Rightarrow> goerr + nat" where
  "dec_byte old j = map_sum id nat (dec_int 0 255 (int old) j)"

text \<open>
  \<open>Amount.UnmarshalJSON\<close> strips the first and the last byte of the member's text and reads
  the rest with \<open>big.Int.UnmarshalJSON\<close> (base 0).  For a JSON number this cuts digits off;
  null, the booleans and nested values have no integer between their outer bytes.
\<close>

fun amount_unmarshal :: "json \<Rightarrow> goerr + int" where
  "amount_unmarshal (JStr s) =
     (case set_string0 s of Some n \<Rightarrow> Inr n | None \<Rightarrow> Inl (Plain ''math/big: cannot unmarshal''))"
| "amount_unmarshal (JNum n) =
     (case set_string0 (butlast (tl (show_int n))) of
        Some m \<Rightarrow> Inr m | None \<Rightarrow> Inl (Plain ''math/big: cannot unmarshal''))"
| "amount_unmarshal _ = Inl (Plain ''math/big: cannot unmarshal'')"

definition NewAmount :: "string \<Rightarrow> goerr + int" where
  "NewAmount val =
     (if 0 < length val
      then (case set_string10 val of
              None \<Rightarrow> Inl (Plain ''invalid amount value: must be integer'') | Some n \<Rightarrow> Inr n)
      else Inr 0)"

definition amount_marshal :: "int \<Rightarrow> json" where
  "amount_marshal a = JStr (show_int a)"

lemma amount_roundtrip [simp]: "amount_unmarshal (amount_marshal a) = Inr a"
  by (simp add: amount_marshal_def)

fun dec_amount :: "int \<Rightarrow> json option \<Rightarrow> goerr + int" where
  "dec_amount old None = Inr old"
| "dec_amount old (Some j) = amount_unmarshal j"

text \<open>A pointer field: null makes it nil.\<close>

fun dec_amount_ptr :: "int option \<Rightarrow> json option \<Rightarrow> goerr + int option" where
  "dec_amount_ptr old None = Inr old"
| "dec_amount_ptr old (Some JNull) = Inr None"
| "dec_amount_ptr old (Some j) = map_sum id Some (amount_unmarshal j)"

fun dec_time_ptr :: "gotime option \<Rightarrow> json option \<Rightarrow> goerr + gotime option" where
  "dec_time_ptr old None = Inr old"
| "dec_time_ptr old (Some JNull) = Inr None"
| "dec_time_ptr old (Some (JTime t)) = Inr (Some t)"
| "dec_time_ptr old (Some _) = Inl (Plain ''parsing time'')"

lemma dec_amount_Some [simp]: "dec_amount old (Some (amount_marshal a)) = Inr a"
  by simp

lemma dec_amount_ptr_Some [simp]: "dec_amount_ptr old (Some (amount_marshal a)) = Inr (Some a)"
  by (simp add: amount_marshal_def)

subsection \<open>Members of optional fields\<close>

definition omit_str :: "string \<Rightarrow> json option" where
  "omit_str s = (if s = [] then None else Some (JStr s))"

definition omit_time :: "gotime option \<Rightarrow> json option" where
  "omit_time t = map_option JTime t"

definition omit_amount :: "int option \<Rightarrow> json option" where
  "omit_amount a = map_option amount_marshal a"

lemma dec_str_omit [simp]: "dec_str [] (omit_str s) = Inr s"
  by (simp add: omit_str_def)

lemma dec_time_omit [simp]: "dec_time_ptr None (omit_time t) = Inr t"
  by (cases t) (simp_all add: omit_time_def)

lemma dec_amount_ptr_omit [simp]: "dec_amount_ptr None (omit_amount a) = Inr a"
  by (cases a) (simp_all add: omit_amount_def amount_marshal_def)

text \<open>The struct decoders share the treatment of the document around the members.\<close>

definition dec_struct :: "('a \<Rightarrow> members \<Rightarrow> goerr + 'a) \<Rightarrow> 'a \<Rightarrow> json \<Rightarrow> goerr + 'a" where
  "dec_struct d old j =
     (case j of JObj ms \<Rightarrow> d old ms | JNull \<Rightarrow> Inr old | _ \<Rightarrow> Inl type_error)"

lemma dec_struct_obj [simp]: "dec_struct d old (obj fs) = d old (members_of fs)"
  by (simp add: dec_struct_def obj_def)

subsection \<open>The contract of a codec\<close>

text \<open>
  What a stub relies on when it keeps a struct in the world state: decoding the marshalled
  struct into a zero struct gives the struct back, for the structs whose fixed-width fields
  are in range (\<open>ok\<close>).
\<close>

locale codec =
  fixes marshal :: "'a \<Rightarrow> json"
    and unmarshal :: "json \<Rightarrow> goerr + 'a"
    and ok :: "'a \<Rightarrow> bool"
  assumes unmarshal_marshal: "ok x \<Longrightarrow> unmarshal (marshal x) = Inr x"
begin

lemma marshal_inj: "ok x \<Longrightarrow> ok y \<Longrightarrow> marshal x = marshal y \<longleftrightarrow> x = y"
  by (metis unmarshal_marshal sum.inject(2))

lemma unmarshal_marshal_iff: "ok x \<Longrightarrow> unmarshal (marshal x) = Inr y \<longleftrightarrow> x = y"
  by (simp add: unmarshal_marshal)

end

interpretation amount_codec: codec amount_marshal amount_unmarshal "\<lambda>_. True"
  by unfold_locales simp

end
