(* ===== verification/Shim.thy ===== *)
theory Shim
  imports Json
begin

text \<open>
  The chaincode's environment.  The Fabric shim, the CouchDB state database, the chaincodes
  called by name, the hash functions and the iteration order of Go maps are not code of this
  repository: they are the fields of the record \<open>stub\<close>, an argument of every operation.
  Within one transaction \<open>GetState\<close> answers from the committed ledger (the shim documents
  that it does not see the transaction's own writes), so it is a function of the key, and the
  calls of \<open>PutState\<close> and \<open>DelState\<close> are collected in a list, the transaction's
  write set.  A response with an error status is not endorsed, so only a successful outcome
  carries a write set.
\<close>

subsection \<open>Rich queries\<close>

text \<open>
  The Mango queries of \<open>queries.go\<close> by their structure: a conjunction of conditions on
  members, the sort order, the index.  \<open>CRaw\<close> is text pasted into the query.
\<close>

datatype cond = CEq json | CRaw string | CExists | CGt json | CGte json | CLt json | CLte json

record query =
  q_selector :: "(string \<times> cond) list"
  q_sort :: "(string \<times> string) list"
  q_index :: "string list"

record stub =
  st_function :: string
  st_params :: "string list"
  st_txid :: string
  st_timestamp :: "goerr + int \<times> int"
  st_now :: int
  st_get :: "string \<Rightarrow> goerr + json option"
  st_put_err :: "string \<Rightarrow> json \<Rightarrow> goerr option"
  st_del_err :: "string \<Rightarrow> goerr option"
  st_query :: "query \<Rightarrow> goerr + (goerr + json) list"
  st_query_page :: "query \<Rightarrow> int \<Rightarrow> string \<Rightarrow> goerr + json option \<times> (goerr + json) list"
  st_invoke :: "string \<Rightarrow> string list \<Rightarrow> int \<times> string \<times> string"
  st_ccid :: "goerr + string"
  st_dev :: bool
  st_json :: "string \<Rightarrow> goerr + json"
  st_text :: "json \<Rightarrow> string"
  st_shake :: "nat \<Rightarrow> string \<Rightarrow> string"
  st_keccak :: "string \<Rightarrow> string"
  st_iter :: "string list \<Rightarrow> string list"

subsection \<open>Write sets and ledgers\<close>

datatype write_op = Put string json | Del string

type_synonym writes = "write_op list"
type_synonym ledger = "string \<Rightarrow> json option"

fun apply_write :: "ledger \<Rightarrow> write_op \<Rightarrow> ledger" where
  "apply_write L (Put k v) = L(k \<mapsto> v)"
| "apply_write L (Del k) = L(k := None)"

definition commit :: "ledger \<Rightarrow> writes \<Rightarrow> ledger" where
  "commit L ws = foldl apply_write L ws"

fun write_key :: "write_op \<Rightarrow> string" where
  "write_key (Put k v) = k"
| "write_key (Del k) = k"

lemma commit_Nil [simp]: "commit L [] = L"
  by (simp add: commit_def)

lemma commit_Cons [simp]: "commit L (w # ws) = commit (apply_write L w) ws"
  by (simp add: commit_def)

lemma commit_append [simp]: "commit L (ws @ ws') = commit (commit L ws) ws'"
  by (simp add: commit_def)

lemma commit_other: "k \<notin> write_key ` set ws \<Longrightarrow> commit L ws k = L k"
proof (induction ws arbitrary: L)
  case Nil
  then show ?case by simp
next
  case (Cons w ws)
  then show ?case by (cases w) simp_all
qed

text \<open>The ledger a stub answers from; a key whose read fails counts as absent.\<close>

definition ledger_of :: "stub \<Rightarrow> ledger" where
  "ledger_of st k = (case st_get st k of Inl e \<Rightarrow> None | Inr d \<Rightarrow> d)"

lemma ledger_of_Inr [simp]: "st_get st k = Inr d \<Longrightarrow> ledger_of st k = d"
  by (simp add: ledger_of_def)

definition get_state :: "stub \<Rightarrow> string \<Rightarrow> goerr + json option" where
  "get_state st k = st_get st k"

definition put_state :: "stub \<Rightarrow> writes \<Rightarrow> string \<Rightarrow> json \<Rightarrow> goerr + writes" where
  "put_state st ws k v = (case st_put_err st k v of Some e \<Rightarrow> Inl e | None \<Rightarrow> Inr (ws @ [Put k v]))"

definition del_state :: "stub \<Rightarrow> writes \<Rightarrow> string \<Rightarrow> goerr + writes" where
  "del_state st ws k = (case st_del_err st k of Some e \<Rightarrow> Inl e | None \<Rightarrow> Inr (ws @ [Del k]))"

lemma put_state_Inr [ok_simps]:
  "put_state st ws k v = Inr ws' \<longleftrightarrow> st_put_err st k v = None \<and> ws' = ws @ [Put k v]"
  by (auto simp: put_state_def split: option.splits)

lemma del_state_Inr [ok_simps]:
  "del_state st ws k = Inr ws' \<longleftrightarrow> st_del_err st k = None \<and> ws' = ws @ [Del k]"
  by (auto simp: del_state_def split: option.splits)

subsection \<open>Responses\<close>

datatype payload = NoPayload | TextPayload string | JsonPayload json

datatype outcome = Success payload writes | Failure string | Panic

text \<open>
  \<open>responseError(err, msg)\<close> of \<open>main.go\<close>: the message of a responsible error is
  appended to \<open>msg\<close>.  \<open>shim.Error(err.Error())\<close> and \<open>shim.Error(msg)\<close> after a
  failed call are \<open>fail_text\<close> and \<open>fail_msg\<close>.  A panic passes through all three.
\<close>

definition responseError :: "goerr \<Rightarrow> string \<Rightarrow> outcome" where
  "responseError e msg =
     (if e = Panicked then Panic
      else if is_responsible e
      then (if 0 < length msg then Failure (msg @ ''|'' @ err_text e) else Failure (err_text e))
      else Failure msg)"

definition fail_text :: "goerr \<Rightarrow> outcome" where
  "fail_text e = (if e = Panicked then Panic else Failure (err_text e))"

definition fail_msg :: "goerr \<Rightarrow> string \<Rightarrow> outcome" where
  "fail_msg e msg = (if e = Panicked then Panic else Failure msg)"

lemma failures_not_Success [simp]:
  "responseError e msg \<noteq> Success p ws" "fail_text e \<noteq> Success p ws" "fail_msg e msg \<noteq> Success p ws"
  by (simp_all add: responseError_def fail_text_def fail_msg_def)

lemma failures_Panic_iff [simp]:
  "responseError e msg = Panic \<longleftrightarrow> e = Panicked"
  "fail_text e = Panic \<longleftrightarrow> e = Panicked"
  "fail_msg e msg = Panic \<longleftrightarrow> e = Panicked"
  by (simp_all add: responseError_def fail_text_def fail_msg_def)

lemma case_sum_Success [ok_simps]:
  "(\<And>e. h e \<noteq> Success p ws) \<Longrightarrow>
   ((case m of Inl e \<Rightarrow> h e | Inr a \<Rightarrow> g a) = Success p ws) \<longleftrightarrow>
   (\<exists>a. m = Inr a \<and> g a = Success p ws)"
  by (cases m) auto

lemma if_Failure_Success [ok_simps]:
  "((if c then Failure m else r) = Success p ws) \<longleftrightarrow> \<not> c \<and> r = Success p ws"
  "((if c then Panic else r) = Success p ws) \<longleftrightarrow> \<not> c \<and> r = Success p ws"
  by simp_all

lemma case_option_Success [ok_simps]:
  "((case m of None \<Rightarrow> Failure f | Some a \<Rightarrow> g a) = Success p ws) \<longleftrightarrow>
   (\<exists>a. m = Some a \<and> g a = Success p ws)"
  "((case m of None \<Rightarrow> Panic | Some a \<Rightarrow> g a) = Success p ws) \<longleftrightarrow>
   (\<exists>a. m = Some a \<and> g a = Success p ws)"
  by (cases m; auto)+

lemma case_prod_Success [ok_simps]:
  "((case q of (a, b) \<Rightarrow> g a b) = Success p ws) \<longleftrightarrow> (\<exists>a b. q = (a, b) \<and> g a b = Success p ws)"
  by (cases q) auto

lemma if_cases_Success:
  "((if c then r else r') = Success p ws) \<longleftrightarrow> c \<and> r = Success p ws \<or> \<not> c \<and> r' = Success p ws"
  by simp

end
