(* ===== verification/CcPkg.thy ===== *)
theory CcPkg
  imports Shim
begin

text \<open>
  The packages of \<open>kiesnet-ccpkg\<close> the chaincode is built on: \<open>stringset\<close> (a Go map
  used as a set, here the list of its elements without repetition), \<open>txtime\<close> (the time of
  the transaction, checked against the peer's clock), \<open>kid\<close> and \<open>contract\<close> (calls of
  the identity and the contract chaincode).
\<close>

subsection \<open>stringset\<close>

type_synonym stringset = "string list"

definition set_add :: "string \<Rightarrow> stringset \<Rightarrow> stringset" where
  "set_add x s = (if x \<in> set s then s else s @ [x])"

definition append_slice :: "stringset \<Rightarrow> string list \<Rightarrow> stringset" where
  "append_slice s items = fold set_add items s"

definition append_set :: "stringset \<Rightarrow> stringset \<Rightarrow> stringset" where
  "append_set s t = append_slice s t"

definition new_set :: "string list \<Rightarrow> stringset" where
  "new_set items = append_slice [] items"

definition set_contains :: "stringset \<Rightarrow> string \<Rightarrow> bool" where
  "set_contains s x \<longleftrightarrow> x \<in> set s"

definition set_remove :: "stringset \<Rightarrow> string \<Rightarrow> stringset" where
  "set_remove s x = removeAll x s"

definition set_size :: "stringset \<Rightarrow> nat" where
  "set_size s = length s"

text \<open>The order of the elements is the iteration order of a Go map.\<close>

definition set_strings :: "stub \<Rightarrow> stringset \<Rightarrow> string list" where
  "set_strings st s = st_iter st s"

definition set_marshal :: "stub \<Rightarrow> stringset \<Rightarrow> json" where
  "set_marshal st s = JArr (map JStr (set_strings st s))"

fun dec_str_elems :: "json list \<Rightarrow> goerr + string list" where
  "dec_str_elems [] = Inr []"
| "dec_str_elems (j # js) =
     (case dec_str [] (Some j) of Inl e \<Rightarrow> Inl e | Inr x \<Rightarrow>
      case dec_str_elems js of Inl e \<Rightarrow> Inl e | Inr xs \<Rightarrow> Inr (x # xs))"

fun set_unmarshal :: "stringset \<Rightarrow> json \<Rightarrow> goerr + stringset" where
  "set_unmarshal s (JArr js) = map_sum id (append_slice s) (dec_str_elems js)"
| "set_unmarshal s JNull = Inr s"
| "set_unmarshal s _ = Inl type_error"

text \<open>What the runtime promises of a map iteration: every key once.\<close>

definition iter_ok :: "stub \<Rightarrow> bool" where
  "iter_ok st \<longleftrightarrow> (\<forall>s. distinct s \<longrightarrow> distinct (st_iter st s) \<and> set (st_iter st s) = set s)"

lemma set_set_add [simp]: "set (set_add x s) = insert x (set s)"
  by (auto simp: set_add_def)

lemma distinct_set_add [simp]: "distinct (set_add x s) \<longleftrightarrow> distinct s"
  by (auto simp: set_add_def)

lemma set_append_slice [simp]: "set (append_slice s xs) = set s \<union> set xs"
  by (induction xs arbitrary: s) (simp_all add: append_slice_def)

lemma distinct_append_slice [simp]: "distinct (append_slice s xs) \<longleftrightarrow> distinct s"
  by (induction xs arbitrary: s) (simp_all add: append_slice_def)

lemma set_append_set [simp]: "set (append_set s t) = set s \<union> set t"
  by (simp add: append_set_def)

lemma distinct_append_set [simp]: "distinct (append_set s t) \<longleftrightarrow> distinct s"
  by (simp add: append_set_def)

lemma set_new_set [simp]: "set (new_set xs) = set xs"
  by (simp add: new_set_def)

lemma distinct_new_set [simp]: "distinct (new_set xs)"
  by (simp add: new_set_def)

lemma set_set_remove [simp]: "set (set_remove s x) = set s - {x}"
  by (auto simp: set_remove_def)

lemma distinct_set_remove [simp]: "distinct s \<Longrightarrow> distinct (set_remove s x)"
  by (simp add: set_remove_def distinct_removeAll)

lemma append_slice_distinct:
  "distinct xs \<Longrightarrow> set xs \<inter> set s = {} \<Longrightarrow> append_slice s xs = s @ xs"
  by (induction xs arbitrary: s) (auto simp: append_slice_def set_add_def)

lemma dec_str_elems_map [simp]: "dec_str_elems (map JStr xs) = Inr xs"
  by (induction xs) simp_all

lemma set_size_card: "distinct s \<Longrightarrow> set_size s = card (set s)"
  by (simp add: set_size_def distinct_card)

lemma set_roundtrip:
  assumes "iter_ok st" and "distinct s"
  shows "set_unmarshal [] (set_marshal st s) = Inr (st_iter st s)"
proof -
  have "distinct (st_iter st s)" using assms by (simp add: iter_ok_def)
  then show ?thesis
    by (simp add: set_marshal_def set_strings_def append_slice_distinct)
qed

subsection \<open>txtime\<close>

text \<open>\<open>Minutes()\<close> printed with \<open>%.0f\<close>: rounded to the nearest, ties to even.\<close>

definition show_minutes :: "int \<Rightarrow> string" where
  "show_minutes d =
     (let m = 60 * 10 ^ 9; q = d div m; r = d mod m in
      show_int (if 2 * r < m then q else if m < 2 * r then q + 1 else if even q then q else q + 1))"

definition get_time :: "stub \<Rightarrow> goerr + gotime" where
  "get_time st =
     (case st_timestamp st of Inl e \<Rightarrow> Inl e | Inr (sec, ns) \<Rightarrow>
      let t = time_unix sec ns; diff = st_now st - nanos t in
      if 5 * 60 * 10 ^ 9 < diff \<or> diff < - (5 * 60 * 10 ^ 9)
      then Inl (Plain (''txtime is out of bound ['' @ show_minutes diff @ '']''))
      else Inr t)"

definition time_cmp :: "gotime \<Rightarrow> gotime \<Rightarrow> int" where
  "time_cmp s t = (if s < t then - 1 else if t < s then 1 else 0)"

lemma time_cmp_simps [simp]:
  "0 < time_cmp s t \<longleftrightarrow> t < s" "time_cmp s t < 0 \<longleftrightarrow> s < t" "0 \<le> time_cmp s t \<longleftrightarrow> t \<le> s"
  by (auto simp: time_cmp_def)

lemma get_time_near_clock:
  "get_time st = Inr t \<Longrightarrow> \<bar>st_now st - nanos t\<bar> \<le> 300000000000"
  by (auto simp: get_time_def Let_def split: sum.splits prod.splits if_splits)

subsection \<open>kid\<close>

definition kid_cc :: "stub \<Rightarrow> string" where
  "kid_cc st = (if st_dev st then ''kiesnet-cc-id'' else ''kiesnet-id'')"

definition get_kid :: "stub \<Rightarrow> bool \<Rightarrow> goerr + string" where
  "get_kid st secure =
     (case st_invoke st (kid_cc st) (if secure then [''kid'', ''1''] else [''kid'']) of
        (status, body, msg) \<Rightarrow> if status = 200 then Inr body else Inl (Plain msg))"

subsection \<open>contract\<close>

record Contract =
  con_payload :: string
  con_map :: members

text \<open>The type assertions of the accessors panic on a member of another type.\<close>

definition con_GetID :: "Contract \<Rightarrow> goerr + string" where
  "con_GetID c = (case jlast ''@contract'' (con_map c) of Some (JStr s) \<Rightarrow> Inr s | _ \<Rightarrow> Inl Panicked)"

definition con_GetExpiryTime :: "Contract \<Rightarrow> goerr + gotime" where
  "con_GetExpiryTime c =
     (case jlast ''expiry_time'' (con_map c) of
        Some (JTime t) \<Rightarrow> Inr t
      | Some (JStr s) \<Rightarrow> Inl (Plain ''parsing time'')
      | _ \<Rightarrow> Inl Panicked)"

definition contract_cc :: "stub \<Rightarrow> string" where
  "contract_cc st = (if st_dev st then ''kiesnet-cc-contract'' else ''kiesnet-contract'')"

definition json_object :: "json \<Rightarrow> goerr + members" where
  "json_object j = (case j of JObj ms \<Rightarrow> Inr ms | JNull \<Rightarrow> Inr [] | _ \<Rightarrow> Inl type_error)"

definition create_contract :: "stub \<Rightarrow> string \<Rightarrow> int \<Rightarrow> stringset \<Rightarrow> goerr + Contract" where
  "create_contract st doc expiry signers =
     (if set_size signers < 2 then Inl (Plain ''signers must be 2+'')
      else case st_invoke st (contract_cc st)
                  (''create'' # doc # show_int expiry # st_iter st signers) of
        (status, body, msg) \<Rightarrow>
          if status = 200
          then (case st_json st body of Inl e \<Rightarrow> Inl e | Inr j \<Rightarrow>
                case json_object j of Inl e \<Rightarrow> Inl e | Inr m \<Rightarrow>
                Inr \<lparr>con_payload = body, con_map = m\<rparr>)
          else Inl (Plain msg))"

lemma create_contract_signers:
  "create_contract st doc expiry signers = Inr c \<Longrightarrow> 2 \<le> set_size signers"
  by (simp add: create_contract_def split: if_splits)

end
