(* ===== verification/Docs_Money.thy ===== *)
theory Docs_Money
  imports CcPkg
begin

text \<open>
  The documents that hold amounts: balances, balance logs and pending balances
  (\<open>balance.go\<close>), pays (\<open>pay.go\<close>), fees (\<open>fee.go\<close>) and the last pruned fee id
  (\<open>last_pruned_fee_id.go\<close>), each as a record with the source's fields, its marshalling
  with the source's tags, its decoding, and the round trip as an interpretation of
  \<open>codec\<close>.  An amount is a \<open>big.Int\<close>, here \<open>int\<close>; a pointer field is an option.
\<close>

subsection \<open>Balance\<close>

record Balance =
  bal_DOCTYPEID :: string
  bal_Amount :: int
  bal_CreatedTime :: "gotime option"
  bal_UpdatedTime :: "gotime option"
  bal_LastPrunedPayID :: string

definition zero_Balance :: Balance where
  "zero_Balance = \<lparr>bal_DOCTYPEID = [], bal_Amount = 0, bal_CreatedTime = None,
     bal_UpdatedTime = None, bal_LastPrunedPayID = []\<rparr>"

definition marshal_Balance :: "Balance \<Rightarrow> json" where
  "marshal_Balance b = obj [
     (''@balance'', Some (JStr (bal_DOCTYPEID b))),
     (''amount'', Some (amount_marshal (bal_Amount b))),
     (''created_time'', omit_time (bal_CreatedTime b)),
     (''updated_time'', omit_time (bal_UpdatedTime b)),
     (''last_pruned_pay_id'', omit_str (bal_LastPrunedPayID b))]"

definition dec_Balance :: "Balance \<Rightarrow> members \<Rightarrow> goerr + Balance" where
  "dec_Balance old ms =
     (case dec_str (bal_DOCTYPEID old) (jlast ''@balance'' ms) of Inl e \<Rightarrow> Inl e | Inr i \<Rightarrow>
     (case dec_amount (bal_Amount old) (jlast ''amount'' ms) of Inl e \<Rightarrow> Inl e | Inr a \<Rightarrow>
     (case dec_time_ptr (bal_CreatedTime old) (jlast ''created_time'' ms) of Inl e \<Rightarrow> Inl e | Inr ct \<Rightarrow>
     (case dec_time_ptr (bal_UpdatedTime old) (jlast ''updated_time'' ms) of Inl e \<Rightarrow> Inl e | Inr ut \<Rightarrow>
     (case dec_str (bal_LastPrunedPayID old) (jlast ''last_pruned_pay_id'' ms) of Inl e \<Rightarrow> Inl e | Inr l \<Rightarrow>
      Inr \<lparr>bal_DOCTYPEID = i, bal_Amount = a, bal_CreatedTime = ct, bal_UpdatedTime = ut,
           bal_LastPrunedPayID = l\<rparr>)))))"

definition unmarshal_Balance :: "json \<Rightarrow> goerr + Balance" where
  "unmarshal_Balance j = dec_struct dec_Balance zero_Balance j"

interpretation balance_codec: codec marshal_Balance unmarshal_Balance "\<lambda>_. True"
  by unfold_locales
     (simp add: marshal_Balance_def unmarshal_Balance_def dec_Balance_def zero_Balance_def codec_simps)

subsection \<open>Balance log\<close>

definition BalanceLogTypeMint :: int where "BalanceLogTypeMint = 0"
definition BalanceLogTypeBurn :: int where "BalanceLogTypeBurn = 1"
definition BalanceLogTypeSend :: int where "BalanceLogTypeSend = 2"
definition BalanceLogTypeReceive :: int where "BalanceLogTypeReceive = 3"
definition BalanceLogTypeDeposit :: int where "BalanceLogTypeDeposit = 4"
definition BalanceLogTypeWithdraw :: int where "BalanceLogTypeWithdraw = 5"
definition BalanceLogTypePay :: int where "BalanceLogTypePay = 6"
definition BalanceLogTypeRefund :: int where "BalanceLogTypeRefund = 7"
definition BalanceLogTypePrunePay :: int where "BalanceLogTypePrunePay = 8"
definition BalanceLogTypePruneFee :: int where "BalanceLogTypePruneFee = 9"
definition BalanceLogTypeWrap :: int where "BalanceLogTypeWrap = 10"
definition BalanceLogTypeUnwrap :: int where "BalanceLogTypeUnwrap = 11"
definition BalanceLogTypeWrapComplete :: int where "BalanceLogTypeWrapComplete = 12"
definition BalanceLogTypeUnwrapComplete :: int where "BalanceLogTypeUnwrapComplete = 13"

lemmas log_types =
  BalanceLogTypeMint_def BalanceLogTypeBurn_def BalanceLogTypeSend_def BalanceLogTypeReceive_def
  BalanceLogTypeDeposit_def BalanceLogTypeWithdraw_def BalanceLogTypePay_def
  BalanceLogTypeRefund_def BalanceLogTypePrunePay_def BalanceLogTypePruneFee_def
  BalanceLogTypeWrap_def BalanceLogTypeUnwrap_def BalanceLogTypeWrapComplete_def
  BalanceLogTypeUnwrapComplete_def

record BalanceLog =
  bl_DOCTYPEID :: string
  bl_Type :: int
  bl_RID :: string
  bl_Diff :: int
  bl_Fee :: "int option"
  bl_Amount :: int
  bl_Memo :: string
  bl_CreatedTime :: "gotime option"
  bl_PruneStartID :: string
  bl_PruneEndID :: string
  bl_PayID :: string
  bl_OrderID :: string
  bl_ExtCode :: string
  bl_ExtTxID :: string

definition zero_BalanceLog :: BalanceLog where
  "zero_BalanceLog = \<lparr>bl_DOCTYPEID = [], bl_Type = 0, bl_RID = [], bl_Diff = 0, bl_Fee = None,
     bl_Amount = 0, bl_Memo = [], bl_CreatedTime = None, bl_PruneStartID = [], bl_PruneEndID = [],
     bl_PayID = [], bl_OrderID = [], bl_ExtCode = [], bl_ExtTxID = []\<rparr>"

definition marshal_BalanceLog :: "BalanceLog \<Rightarrow> json" where
  "marshal_BalanceLog b = obj [
     (''@balance_log'', Some (JStr (bl_DOCTYPEID b))),
     (''type'', Some (JNum (bl_Type b))),
     (''rid'', Some (JStr (bl_RID b))),
     (''diff'', Some (amount_marshal (bl_Diff b))),
     (''fee'', omit_amount (bl_Fee b)),
     (''amount'', Some (amount_marshal (bl_Amount b))),
     (''memo'', omit_str (bl_Memo b)),
     (''created_time'', omit_time (bl_CreatedTime b)),
     (''prune_start_id'', omit_str (bl_PruneStartID b)),
     (''prune_end_id'', omit_str (bl_PruneEndID b)),
     (''pay_id'', omit_str (bl_PayID b)),
     (''order_id'', omit_str (bl_OrderID b)),
     (''ext_code'', omit_str (bl_ExtCode b)),
     (''ext_tx_id'', omit_str (bl_ExtTxID b))]"

definition dec_BalanceLog :: "BalanceLog \<Rightarrow> members \<Rightarrow> goerr + BalanceLog" where
  "dec_BalanceLog old ms =
     (case dec_str (bl_DOCTYPEID old) (jlast ''@balance_log'' ms) of Inl e \<Rightarrow> Inl e | Inr i \<Rightarrow>
     (case dec_int (- 128) 127 (bl_Type old) (jlast ''type'' ms) of Inl e \<Rightarrow> Inl e | Inr ty \<Rightarrow>
     (case dec_str (bl_RID old) (jlast ''rid'' ms) of Inl e \<Rightarrow> Inl e | Inr r \<Rightarrow>
     (case dec_amount (bl_Diff old) (jlast ''diff'' ms) of Inl e \<Rightarrow> Inl e | Inr d \<Rightarrow>
     (case dec_amount_ptr (bl_Fee old) (jlast ''fee'' ms) of Inl e \<Rightarrow> Inl e | Inr f \<Rightarrow>
     (case dec_amount (bl_Amount old) (jlast ''amount'' ms) of Inl e \<Rightarrow> Inl e | Inr a \<Rightarrow>
     (case dec_str (bl_Memo old) (jlast ''memo'' ms) of Inl e \<Rightarrow> Inl e | Inr m \<Rightarrow>
     (case dec_time_ptr (bl_CreatedTime old) (jlast ''created_time'' ms) of Inl e \<Rightarrow> Inl e | Inr ct \<Rightarrow>
     (case dec_str (bl_PruneStartID old) (jlast ''prune_start_id'' ms) of Inl e \<Rightarrow> Inl e | Inr ps \<Rightarrow>
     (case dec_str (bl_PruneEndID old) (jlast ''prune_end_id'' ms) of Inl e \<Rightarrow> Inl e | Inr pe \<Rightarrow>
     (case dec_str (bl_PayID old) (jlast ''pay_id'' ms) of Inl e \<Rightarrow> Inl e | Inr p \<Rightarrow>
     (case dec_str (bl_OrderID old) (jlast ''order_id'' ms) of Inl e \<Rightarrow> Inl e | Inr oid \<Rightarrow>
     (case dec_str (bl_ExtCode old) (jlast ''ext_code'' ms) of Inl e \<Rightarrow> Inl e | Inr ec \<Rightarrow>
     (case dec_str (bl_ExtTxID old) (jlast ''ext_tx_id'' ms) of Inl e \<Rightarrow> Inl e | Inr et \<Rightarrow>
      Inr \<lparr>bl_DOCTYPEID = i, bl_Type = ty, bl_RID = r, bl_Diff = d, bl_Fee = f, bl_Amount = a,
           bl_Memo = m, bl_CreatedTime = ct, bl_PruneStartID = ps, bl_PruneEndID = pe,
           bl_PayID = p, bl_OrderID = oid, bl_ExtCode = ec, bl_ExtTxID = et\<rparr>))))))))))))))"

definition unmarshal_BalanceLog :: "json \<Rightarrow> goerr + BalanceLog" where
  "unmarshal_BalanceLog j = dec_struct dec_BalanceLog zero_BalanceLog j"

interpretation log_codec: codec marshal_BalanceLog unmarshal_BalanceLog
    "\<lambda>b. - 128 \<le> bl_Type b \<and> bl_Type b \<le> 127"
  by unfold_locales
     (simp add: marshal_BalanceLog_def unmarshal_BalanceLog_def dec_BalanceLog_def
       zero_BalanceLog_def codec_simps)

subsection \<open>Pending balance\<close>

definition PendingBalanceTypeAccount :: int where "PendingBalanceTypeAccount = 0"
definition PendingBalanceTypeContract :: int where "PendingBalanceTypeContract = 1"

record PendingBalance =
  pb_DOCTYPEID :: string
  pb_Type :: int
  pb_Account :: string
  pb_RID :: string
  pb_Amount :: int
  pb_Fee :: "int option"
  pb_Memo :: string
  pb_OrderID :: string
  pb_CreatedTime :: "gotime option"
  pb_PendingTime :: "gotime option"

definition zero_PendingBalance :: PendingBalance where
  "zero_PendingBalance = \<lparr>pb_DOCTYPEID = [], pb_Type = 0, pb_Account = [], pb_RID = [],
     pb_Amount = 0, pb_Fee = None, pb_Memo = [], pb_OrderID = [], pb_CreatedTime = None,
     pb_PendingTime = None\<rparr>"

definition marshal_PendingBalance :: "PendingBalance \<Rightarrow> json" where
  "marshal_PendingBalance p = obj [
     (''@pending_balance'', Some (JStr (pb_DOCTYPEID p))),
     (''type'', Some (JNum (pb_Type p))),
     (''account'', Some (JStr (pb_Account p))),
     (''rid'', Some (JStr (pb_RID p))),
     (''amount'', Some (amount_marshal (pb_Amount p))),
     (''fee'', omit_amount (pb_Fee p)),
     (''memo'', Some (JStr (pb_Memo p))),
     (''order_id'', omit_str (pb_OrderID p)),
     (''created_time'', omit_time (pb_CreatedTime p)),
     (''pending_time'', omit_time (pb_PendingTime p))]"

definition dec_PendingBalance :: "PendingBalance \<Rightarrow> members \<Rightarrow> goerr + PendingBalance" where
  "dec_PendingBalance old ms =
     (case dec_str (pb_DOCTYPEID old) (jlast ''@pending_balance'' ms) of Inl e \<Rightarrow> Inl e | Inr i \<Rightarrow>
     (case dec_int (- 128) 127 (pb_Type old) (jlast ''type'' ms) of Inl e \<Rightarrow> Inl e | Inr ty \<Rightarrow>
     (case dec_str (pb_Account old) (jlast ''account'' ms) of Inl e \<Rightarrow> Inl e | Inr ac \<Rightarrow>
     (case dec_str (pb_RID old) (jlast ''rid'' ms) of Inl e \<Rightarrow> Inl e | Inr r \<Rightarrow>
     (case dec_amount (pb_Amount old) (jlast ''amount'' ms) of Inl e \<Rightarrow> Inl e | Inr a \<Rightarrow>
     (case dec_amount_ptr (pb_Fee old) (jlast ''fee'' ms) of Inl e \<Rightarrow> Inl e | Inr f \<Rightarrow>
     (case dec_str (pb_Memo old) (jlast ''memo'' ms) of Inl e \<Rightarrow> Inl e | Inr m \<Rightarrow>
     (case dec_str (pb_OrderID old) (jlast ''order_id'' ms) of Inl e \<Rightarrow> Inl e | Inr oid \<Rightarrow>
     (case dec_time_ptr (pb_CreatedTime old) (jlast ''created_time'' ms) of Inl e \<Rightarrow> Inl e | Inr ct \<Rightarrow>
     (case dec_time_ptr (pb_PendingTime old) (jlast ''pending_time'' ms) of Inl e \<Rightarrow> Inl e | Inr pt \<Rightarrow>
      Inr \<lparr>pb_DOCTYPEID = i, pb_Type = ty, pb_Account = ac, pb_RID = r, pb_Amount = a, pb_Fee = f,
           pb_Memo = m, pb_OrderID = oid, pb_CreatedTime = ct, pb_PendingTime = pt\<rparr>))))))))))"

definition unmarshal_PendingBalance :: "json \<Rightarrow> goerr + PendingBalance" where
  "unmarshal_PendingBalance j = dec_struct dec_PendingBalance zero_PendingBalance j"

interpretation pending_codec: codec marshal_PendingBalance unmarshal_PendingBalance
    "\<lambda>p. - 128 \<le> pb_Type p \<and> pb_Type p \<le> 127"
  by unfold_locales
     (simp add: marshal_PendingBalance_def unmarshal_PendingBalance_def dec_PendingBalance_def
       zero_PendingBalance_def codec_simps)

subsection \<open>Pay\<close>

record Pay =
  pay_DOCTYPEID :: string
  pay_PayID :: string
  pay_Amount :: int
  pay_Fee :: int
  pay_TotalRefund :: int
  pay_RID :: string
  pay_ParentID :: string
  pay_OrderID :: string
  pay_Memo :: string
  pay_CreatedTime :: "gotime option"

definition zero_Pay :: Pay where
  "zero_Pay = \<lparr>pay_DOCTYPEID = [], pay_PayID = [], pay_Amount = 0, pay_Fee = 0,
     pay_TotalRefund = 0, pay_RID = [], pay_ParentID = [], pay_OrderID = [], pay_Memo = [],
     pay_CreatedTime = None\<rparr>"

definition marshal_Pay :: "Pay \<Rightarrow> json" where
  "marshal_Pay p = obj [
     (''@pay'', Some (JStr (pay_DOCTYPEID p))),
     (''pay_id'', Some (JStr (pay_PayID p))),
     (''amount'', Some (amount_marshal (pay_Amount p))),
     (''fee'', Some (amount_marshal (pay_Fee p))),
     (''total_refund'', Some (amount_marshal (pay_TotalRefund p))),
     (''rid'', Some (JStr (pay_RID p))),
     (''parent_id'', omit_str (pay_ParentID p)),
     (''order_id'', omit_str (pay_OrderID p)),
     (''memo'', Some (JStr (pay_Memo p))),
     (''created_time'', omit_time (pay_CreatedTime p))]"

definition dec_Pay :: "Pay \<Rightarrow> members \<Rightarrow> goerr + Pay" where
  "dec_Pay old ms =
     (case dec_str (pay_DOCTYPEID old) (jlast ''@pay'' ms) of Inl e \<Rightarrow> Inl e | Inr x1 \<Rightarrow>
     (case dec_str (pay_PayID old) (jlast ''pay_id'' ms) of Inl e \<Rightarrow> Inl e | Inr x2 \<Rightarrow>
     (case dec_amount (pay_Amount old) (jlast ''amount'' ms) of Inl e \<Rightarrow> Inl e | Inr x3 \<Rightarrow>
     (case dec_amount (pay_Fee old) (jlast ''fee'' ms) of Inl e \<Rightarrow> Inl e | Inr x4 \<Rightarrow>
     (case dec_amount (pay_TotalRefund old) (jlast ''total_refund'' ms) of Inl e \<Rightarrow> Inl e | Inr x5 \<Rightarrow>
     (case dec_str (pay_RID old) (jlast ''rid'' ms) of Inl e \<Rightarrow> Inl e | Inr x6 \<Rightarrow>
     (case dec_str (pay_ParentID old) (jlast ''parent_id'' ms) of Inl e \<Rightarrow> Inl e | Inr x7 \<Rightarrow>
     (case dec_str (pay_OrderID old) (jlast ''order_id'' ms) of Inl e \<Rightarrow> Inl e | Inr x8 \<Rightarrow>
     (case dec_str (pay_Memo old) (jlast ''memo'' ms) of Inl e \<Rightarrow> Inl e | Inr x9 \<Rightarrow>
     (case dec_time_ptr (pay_CreatedTime old) (jlast ''created_time'' ms) of Inl e \<Rightarrow> Inl e | Inr x10 \<Rightarrow>
      Inr \<lparr>pay_DOCTYPEID = x1, pay_PayID = x2, pay_Amount = x3, pay_Fee = x4,
           pay_TotalRefund = x5, pay_RID = x6, pay_ParentID = x7, pay_OrderID = x8, pay_Memo =
           x9, pay_CreatedTime = x10\<rparr>))))))))))"

definition unmarshal_Pay :: "json \<Rightarrow> goerr + Pay" where
  "unmarshal_Pay j = dec_struct dec_Pay zero_Pay j"

interpretation pay_codec: codec marshal_Pay unmarshal_Pay
    "\<lambda>_. True"
  by unfold_locales
     (simp add: marshal_Pay_def unmarshal_Pay_def dec_Pay_def zero_Pay_def
       codec_simps)

definition NewPay ::
  "string \<Rightarrow> string \<Rightarrow> int \<Rightarrow> int \<Rightarrow> string \<Rightarrow> string \<Rightarrow> string \<Rightarrow> string \<Rightarrow> gotime \<Rightarrow> Pay" where
  "NewPay ident payid amount fee rid pid orderID memo ts =
     \<lparr>pay_DOCTYPEID = ident, pay_PayID = payid, pay_Amount = amount, pay_Fee = fee,
      pay_TotalRefund = 0, pay_RID = rid, pay_ParentID = pid, pay_OrderID = orderID,
      pay_Memo = memo, pay_CreatedTime = Some ts\<rparr>"

subsection \<open>Fee\<close>

text \<open>The creation time of a fee has no \<open>omitempty\<close>: a nil pointer is marshalled as null.\<close>

record Fee =
  fee_DOCTYPEID :: string
  fee_FeeID :: string
  fee_Account :: string
  fee_Amount :: int
  fee_CreatedTime :: "gotime option"

definition zero_Fee :: Fee where
  "zero_Fee = \<lparr>fee_DOCTYPEID = [], fee_FeeID = [], fee_Account = [], fee_Amount = 0,
     fee_CreatedTime = None\<rparr>"

definition marshal_Fee :: "Fee \<Rightarrow> json" where
  "marshal_Fee f = obj [
     (''@fee'', Some (JStr (fee_DOCTYPEID f))),
     (''fee_id'', Some (JStr (fee_FeeID f))),
     (''account'', Some (JStr (fee_Account f))),
     (''amount'', Some (amount_marshal (fee_Amount f))),
     (''created_time'', Some (case fee_CreatedTime f of None \<Rightarrow> JNull | Some t \<Rightarrow> JTime t))]"

definition dec_Fee :: "Fee \<Rightarrow> members \<Rightarrow> goerr + Fee" where
  "dec_Fee old ms =
     (case dec_str (fee_DOCTYPEID old) (jlast ''@fee'' ms) of Inl e \<Rightarrow> Inl e | Inr x1 \<Rightarrow>
     (case dec_str (fee_FeeID old) (jlast ''fee_id'' ms) of Inl e \<Rightarrow> Inl e | Inr x2 \<Rightarrow>
     (case dec_str (fee_Account old) (jlast ''account'' ms) of Inl e \<Rightarrow> Inl e | Inr x3 \<Rightarrow>
     (case dec_amount (fee_Amount old) (jlast ''amount'' ms) of Inl e \<Rightarrow> Inl e | Inr x4 \<Rightarrow>
     (case dec_time_ptr (fee_CreatedTime old) (jlast ''created_time'' ms) of Inl e \<Rightarrow> Inl e | Inr x5 \<Rightarrow>
      Inr \<lparr>fee_DOCTYPEID = x1, fee_FeeID = x2, fee_Account = x3, fee_Amount = x4,
           fee_CreatedTime = x5\<rparr>)))))"

definition unmarshal_Fee :: "json \<Rightarrow> goerr + Fee" where
  "unmarshal_Fee j = dec_struct dec_Fee zero_Fee j"

interpretation fee_codec: codec marshal_Fee unmarshal_Fee "\<lambda>_. True"
  by unfold_locales
     (simp add: marshal_Fee_def unmarshal_Fee_def dec_Fee_def zero_Fee_def codec_simps
       split: option.splits)

subsection \<open>Last pruned fee id\<close>

record LastPrunedFeeID =
  lpf_DOCTYPEID :: string
  lpf_FeeID :: string
  lpf_UpdatedTime :: "gotime option"

definition zero_LastPrunedFeeID :: LastPrunedFeeID where
  "zero_LastPrunedFeeID = \<lparr>lpf_DOCTYPEID = [], lpf_FeeID = [], lpf_UpdatedTime =
     None\<rparr>"

definition marshal_LastPrunedFeeID :: "LastPrunedFeeID \<Rightarrow> json" where
  "marshal_LastPrunedFeeID l = obj [
     (''@last_pruned_fee_id'', Some (JStr (lpf_DOCTYPEID l))),
     (''fee_id'', Some (JStr (lpf_FeeID l))),
     (''updated_time'', omit_time (lpf_UpdatedTime l))]"

definition dec_LastPrunedFeeID :: "LastPrunedFeeID \<Rightarrow> members \<Rightarrow> goerr + LastPrunedFeeID" where
  "dec_LastPrunedFeeID old ms =
     (case dec_str (lpf_DOCTYPEID old) (jlast ''@last_pruned_fee_id'' ms) of Inl e \<Rightarrow> Inl e | Inr x1 \<Rightarrow>
     (case dec_str (lpf_FeeID old) (jlast ''fee_id'' ms) of Inl e \<Rightarrow> Inl e | Inr x2 \<Rightarrow>
     (case dec_time_ptr (lpf_UpdatedTime old) (jlast ''updated_time'' ms) of Inl e \<Rightarrow> Inl e | Inr x3 \<Rightarrow>
      Inr \<lparr>lpf_DOCTYPEID = x1, lpf_FeeID = x2, lpf_UpdatedTime = x3\<rparr>)))"

definition unmarshal_LastPrunedFeeID :: "json \<Rightarrow> goerr + LastPrunedFeeID" where
  "unmarshal_LastPrunedFeeID j = dec_struct dec_LastPrunedFeeID zero_LastPrunedFeeID j"

interpretation lpf_codec: codec marshal_LastPrunedFeeID unmarshal_LastPrunedFeeID
    "\<lambda>_. True"
  by unfold_locales
     (simp add: marshal_LastPrunedFeeID_def unmarshal_LastPrunedFeeID_def dec_LastPrunedFeeID_def zero_LastPrunedFeeID_def
       codec_simps)

end
