(* ===== verification/Address.thy ===== *)
theory Address
  imports CcPkg
begin

text \<open>
  Token codes (\<open>ValidateTokenCode\<close> of \<open>token.go\<close>) and account addresses
  (\<open>address.go\<close>): a token code followed by 50 hex digits that hold the account type, a
  20-byte identity and a 4-byte checksum.  The hash function SHAKE-256 is a parameter of the
  stub; what is used of it is that it returns as many bytes as asked for.
\<close>

definition shake_ok :: "stub \<Rightarrow> bool" where
  "shake_ok st \<longleftrightarrow> (\<forall>n s. length (st_shake st n s) = n)"

subsection \<open>Token codes\<close>

definition code_char :: "char \<Rightarrow> bool" where
  "code_char c \<longleftrightarrow> (65 \<le> byte_of c \<and> byte_of c \<le> 90) \<or> (48 \<le> byte_of c \<and> byte_of c \<le> 57)"

definition token_code_ok :: "string \<Rightarrow> bool" where
  "token_code_ok s \<longleftrightarrow> 3 \<le> length s \<and> length s \<le> 6 \<and> list_all code_char s"

definition ValidateTokenCode :: "string \<Rightarrow> goerr + string" where
  "ValidateTokenCode code =
     (let code = to_upper code in
      if \<not> token_code_ok code then Inl (Plain ''token code must be 3~6 length alphanum'')
      else Inr code)"

lemma token_code_upper [simp]: "token_code_ok s \<Longrightarrow> to_upper s = s"
  by (rule to_upper_fixed) (auto simp: token_code_ok_def code_char_def list_all_iff)

lemma ValidateTokenCode_Inr:
  "ValidateTokenCode s = Inr code \<longleftrightarrow> code = to_upper s \<and> token_code_ok (to_upper s)"
  by (auto simp: ValidateTokenCode_def Let_def)

subsection \<open>Addresses\<close>

record Address =
  addr_Code :: string
  addr_Type :: nat
  addr_Hash :: string

definition AccountTypeUnknown :: nat where "AccountTypeUnknown = 0"
definition AccountTypePersonal :: nat where "AccountTypePersonal = 1"
definition AccountTypeJoint :: nat where "AccountTypeJoint = 2"

lemmas account_types = AccountTypeUnknown_def AccountTypePersonal_def AccountTypeJoint_def

definition addr_Checksum :: "stub \<Rightarrow> Address \<Rightarrow> string \<Rightarrow> string" where
  "addr_Checksum st a hash = st_shake st 4 (addr_Code a @ [char_of (addr_Type a)] @ hash)"

definition NewAddress :: "stub \<Rightarrow> string \<Rightarrow> nat \<Rightarrow> string \<Rightarrow> Address" where
  "NewAddress st code ty ident =
     (let idh = (case hex_decode ident of
                   Some b \<Rightarrow> if length b \<noteq> 20 then st_shake st 20 ident else b
                 | None \<Rightarrow> st_shake st 20 ident);
          a = \<lparr>addr_Code = code, addr_Type = ty, addr_Hash = []\<rparr>
      in a\<lparr>addr_Hash := idh @ addr_Checksum st a idh\<rparr>)"

definition addr_Validate :: "stub \<Rightarrow> Address \<Rightarrow> goerr option" where
  "addr_Validate st a =
     (case ValidateTokenCode (addr_Code a) of
        Inl e \<Rightarrow> Some (InvalidAccountAddrError ''token code'')
      | Inr c \<Rightarrow>
          if addr_Type a \<le> AccountTypeUnknown \<or> AccountTypeJoint < addr_Type a
          then Some (InvalidAccountAddrError ''account type'')
          else let checksum = addr_Checksum st a (take 20 (addr_Hash a)) in
            if length checksum \<le> length (addr_Hash a) \<and>
               drop (length (addr_Hash a) - length checksum) (addr_Hash a) = checksum
            then None
            else Some (InvalidAccountAddrError ''checksum''))"

definition ParseAddress :: "stub \<Rightarrow> string \<Rightarrow> goerr + Address" where
  "ParseAddress st s =
     (let s = to_upper s; l = length s in
      if l < 50 then Inl (InvalidAccountAddrError ''length'')
      else let i = l - 50 in
        case hex_decode (drop i s) of
          None \<Rightarrow> Inl (InvalidAccountAddrError ''hex'')
        | Some idh \<Rightarrow>
            let a = \<lparr>addr_Code = take i s, addr_Type = byte_of (idh ! 0), addr_Hash = drop 1 idh\<rparr> in
            case addr_Validate st a of Some e \<Rightarrow> Inl e | None \<Rightarrow> Inr a)"

definition ParseCode :: "string \<Rightarrow> goerr + string" where
  "ParseCode s =
     (let l = length s in
      if l < 50 then Inl (InvalidAccountAddrError ''length'') else Inr (to_upper (take (l - 50) s)))"

definition addr_ID :: "Address \<Rightarrow> string" where
  "addr_ID a = hex_encode (take 20 (addr_Hash a))"

definition addr_Equal :: "Address \<Rightarrow> Address \<Rightarrow> bool" where
  "addr_Equal a b \<longleftrightarrow>
     addr_Code a = addr_Code b \<and> addr_Type a = addr_Type b \<and> addr_Hash a = addr_Hash b"

definition addr_String :: "Address \<Rightarrow> string" where
  "addr_String a = addr_Code a @ hex_upper [char_of (addr_Type a)] @ hex_upper (addr_Hash a)"

lemma addr_Equal_iff [simp]: "addr_Equal a b \<longleftrightarrow> a = b"
  by (auto simp: addr_Equal_def)

subsection \<open>Printing and parsing\<close>

text \<open>
  A canonical address: an upper-case token code, a known account type, and a hash of 24 bytes
  that ends with its checksum.
\<close>

definition addr_ok :: "stub \<Rightarrow> Address \<Rightarrow> bool" where
  "addr_ok st a \<longleftrightarrow>
     token_code_ok (addr_Code a) \<and> length (addr_Hash a) = 24 \<and>
     AccountTypeUnknown < addr_Type a \<and> addr_Type a \<le> AccountTypeJoint \<and>
     addr_Validate st a = None"

lemma addr_ok_type: "addr_ok st a \<Longrightarrow> 1 \<le> addr_Type a \<and> addr_Type a \<le> 2"
  by (auto simp: addr_ok_def account_types)

lemma length_addr_String: "addr_ok st a \<Longrightarrow> length (addr_String a) = length (addr_Code a) + 50"
  by (simp add: addr_String_def addr_ok_def)

lemma upper_hex_upper [simp]: "to_upper (hex_upper bs) = hex_upper bs"
  by (simp add: hex_upper_def)

lemma upper_addr_String: "addr_ok st a \<Longrightarrow> to_upper (addr_String a) = addr_String a"
  by (simp add: addr_String_def addr_ok_def)

lemma hex_upper_Cons: "hex_upper [c] @ hex_upper bs = hex_upper (c # bs)"
  by (simp add: hex_upper_def)

lemma ParseAddress_String:
  assumes ok: "addr_ok st a"
  shows "ParseAddress st (addr_String a) = Inr a"
proof -
  let ?h = "char_of (addr_Type a) # addr_Hash a"
  have s: "addr_String a = addr_Code a @ hex_upper ?h"
    unfolding addr_String_def by (simp only: hex_upper_Cons)
  have len: "length (hex_upper ?h) = 50" using ok by (simp add: addr_ok_def)
  have i: "length (addr_String a) - 50 = length (addr_Code a)" and l: "50 \<le> length (addr_String a)"
    using len by (simp_all add: s)
  have tk: "take (length (addr_Code a)) (addr_String a) = addr_Code a"
    and dr: "hex_decode (drop (length (addr_Code a)) (addr_String a)) = Some ?h"
    by (simp_all add: s)
  have ty: "byte_of (?h ! 0) = addr_Type a" using addr_ok_type [OF ok] by simp
  have v: "addr_Validate st a = None" using ok by (simp add: addr_ok_def)
  show ?thesis
    unfolding ParseAddress_def Let_def upper_addr_String [OF ok] i tk dr option.case ty
    using l v by (cases a) simp
qed

lemma ParseAddress_ok:
  assumes "ParseAddress st s = Inr a" and "shake_ok st"
  shows "addr_ok st a \<and> addr_String a = to_upper s"
proof -
  let ?s = "to_upper s"
  let ?i = "length ?s - 50"
  from assms(1) obtain idh where l: "50 \<le> length ?s" and d: "hex_decode (drop ?i ?s) = Some idh"
    and a: "a = \<lparr>addr_Code = take ?i ?s, addr_Type = byte_of (idh ! 0), addr_Hash = drop 1 idh\<rparr>"
    and v: "addr_Validate st a = None"
    by (auto simp: ParseAddress_def Let_def split: if_splits option.splits)
  have len: "length idh = 25" using length_hex_decode [OF d] l by simp
  then obtain c h where idh: "idh = c # h" by (cases idh) auto
  have code: "token_code_ok (addr_Code a)"
    using v a by (auto simp: addr_Validate_def ValidateTokenCode_def Let_def to_upper_def
        take_map o_def split: if_splits)
  have ty: "AccountTypeUnknown < addr_Type a \<and> addr_Type a \<le> AccountTypeJoint"
    using v by (auto simp: addr_Validate_def split: sum.splits if_splits)
  have "hex_upper (c # h) = to_upper (to_lower (drop ?i ?s))"
    using hex_encode_decode [OF d] by (simp add: hex_upper_def idh)
  also have "\<dots> = drop ?i ?s"
  proof -
    have "upper_char (lower_char (upper_char x)) = upper_char x" for x
      using byte_of_less [of x] by (auto simp: upper_char_def lower_char_def)
    then show ?thesis by (simp add: to_upper_def to_lower_def drop_map)
  qed
  finally have "addr_String a = ?s"
    using a idh by (simp add: addr_String_def hex_upper_Cons del: hex_upper_def)
  moreover have "addr_ok st a" using code ty v len a idh by (simp add: addr_ok_def)
  ultimately show ?thesis by simp
qed

lemma ParseAddress_upper [simp]: "ParseAddress st (to_upper s) = ParseAddress st s"
  by (simp add: ParseAddress_def)

lemma addr_String_inj:
  "addr_ok st a \<Longrightarrow> addr_ok st b \<Longrightarrow> addr_String a = addr_String b \<longleftrightarrow> a = b"
  by (metis ParseAddress_String sum.inject(2))

lemma ParseCode_String: "addr_ok st a \<Longrightarrow> ParseCode (addr_String a) = Inr (addr_Code a)"
  by (simp add: ParseCode_def length_addr_String Let_def addr_ok_def)
     (simp add: addr_String_def)

lemma NewAddress_fields [simp]:
  "addr_Code (NewAddress st code ty k) = code" "addr_Type (NewAddress st code ty k) = ty"
  by (simp_all add: NewAddress_def Let_def)

lemma NewAddress_ok:
  assumes "shake_ok st" and "token_code_ok code" and "ty = 1 \<or> ty = 2"
  shows "addr_ok st (NewAddress st code ty k)"
proof -
  let ?idh = "case hex_decode k of
      Some b \<Rightarrow> if length b \<noteq> 20 then st_shake st 20 k else b | None \<Rightarrow> st_shake st 20 k"
  have "length ?idh = 20" using assms(1) by (auto simp: shake_ok_def split: option.splits)
  with assms show ?thesis
    by (auto simp: NewAddress_def Let_def addr_ok_def account_types addr_Validate_def
        ValidateTokenCode_def addr_Checksum_def shake_ok_def)
qed

text \<open>A KID proper is 40 lower-case hex digits: then the address carries it.\<close>

definition kid_ok :: "string \<Rightarrow> bool" where
  "kid_ok k \<longleftrightarrow> length k = 40 \<and> to_lower k = k \<and> hex_decode k \<noteq> None"

lemma NewAddress_hash:
  "kid_ok k \<Longrightarrow> take 20 (addr_Hash (NewAddress st code ty k)) = the (hex_decode k)"
proof -
  assume "kid_ok k"
  then obtain y where "hex_decode k = Some y" and "length y = 20"
    using length_hex_decode [of k] by (auto simp: kid_ok_def)
  then show ?thesis by (simp add: NewAddress_def Let_def)
qed

lemma addr_ID_NewAddress: "kid_ok k \<Longrightarrow> addr_ID (NewAddress st code ty k) = k"
  using hex_encode_decode [of k "the (hex_decode k)"]
  by (auto simp: addr_ID_def NewAddress_hash kid_ok_def)

lemma NewAddress_inj:
  "kid_ok k \<Longrightarrow> kid_ok k' \<Longrightarrow> NewAddress st code ty k = NewAddress st code' ty' k' \<Longrightarrow> k = k'"
  by (metis addr_ID_NewAddress)

end
