(* ===== verification/Docs_Account.thy ===== *)
theory Docs_Account
  imports Docs_Money Address
begin

text \<open>
  The documents of accounts (\<open>account.go\<close>): personal accounts, joint accounts with their
  set of holders, and the holder relationship.  A value of the interface
  \<open>AccountInterface\<close> carries its dynamic type.
\<close>

subsection \<open>Personal account\<close>

record Account =
  acc_DOCTYPEID :: string
  acc_Token :: string
  acc_Type :: nat
  acc_CreatedTime :: "gotime option"
  acc_UpdatedTime :: "gotime option"
  acc_SuspendedTime :: "gotime option"

definition zero_Account :: Account where
  "zero_Account = \<lparr>acc_DOCTYPEID = [], acc_Token = [], acc_Type = 0, acc_CreatedTime =
     None, acc_UpdatedTime = None, acc_SuspendedTime = None\<rparr>"

definition marshal_Account :: "Account \<Rightarrow> json" where
  "marshal_Account a = obj [
     (''@account'', Some (JStr (acc_DOCTYPEID a))),
     (''token'', Some (JStr (acc_Token a))),
     (''type'', Some (JNum (int (acc_Type a)))),
     (''created_time'', omit_time (acc_CreatedTime a)),
     (''updated_time'', omit_time (acc_UpdatedTime a)),
     (''suspended_time'', omit_time (acc_SuspendedTime a))]"

definition dec_Account :: "Account \<Rightarrow> members \<Rightarrow> goerr + Account" where
  "dec_Account old ms =
     (case dec_str (acc_DOCTYPEID old) (jlast ''@account'' ms) of Inl e \<Rightarrow> Inl e | Inr x1 \<Rightarrow>
     (case dec_str (acc_Token old) (jlast ''token'' ms) of Inl e \<Rightarrow> Inl e | Inr x2 \<Rightarrow>
     (case dec_byte (acc_Type old) (jlast ''type'' ms) of Inl e \<Rightarrow> Inl e | Inr x3 \<Rightarrow>
     (case dec_time_ptr (acc_CreatedTime old) (jlast ''created_time'' ms) of Inl e \<Rightarrow> Inl e | Inr x4 \<Rightarrow>
     (case dec_time_ptr (acc_UpdatedTime old) (jlast ''updated_time'' ms) of Inl e \<Rightarrow> Inl e | Inr x5 \<Rightarrow>
     (case dec_time_ptr (acc_SuspendedTime old) (jlast ''suspended_time'' ms) of Inl e \<Rightarrow> Inl e | Inr x6 \<Rightarrow>
      Inr \<lparr>acc_DOCTYPEID = x1, acc_Token = x2, acc_Type = x3, acc_CreatedTime = x4,
           acc_UpdatedTime = x5, acc_SuspendedTime = x6\<rparr>))))))"

definition unmarshal_Account :: "json \<Rightarrow> goerr + Account" where
  "unmarshal_Account j = dec_struct dec_Account zero_Account j"

interpretation account_codec: codec marshal_Account unmarshal_Account
    "\<lambda>a. acc_Type a < 256"
  by unfold_locales
     (simp add: marshal_Account_def unmarshal_Account_def dec_Account_def zero_Account_def
       codec_simps)

text \<open>\<open>Holder()\<close> slices the identity out of the address; the slice panics on a short one.\<close>

definition acc_Holder :: "Account \<Rightarrow> goerr + string" where
  "acc_Holder a =
     (if length (acc_DOCTYPEID a) < 48 then Inl Panicked
      else let i = length (acc_DOCTYPEID a) - 48 in
        Inr (to_lower (take 40 (drop i (acc_DOCTYPEID a)))))"

subsection \<open>Joint account\<close>

text \<open>
  \<open>JointAccount\<close> embeds \<open>Account\<close>.  A document without the member \<open>holders\<close>
  (none is ever written) decodes to the empty set here, to a nil pointer in Go.
\<close>

record JointAccount =
  jac_Account :: Account
  jac_Holders :: stringset

definition marshal_JointAccount :: "stub \<Rightarrow> JointAccount \<Rightarrow> json" where
  "marshal_JointAccount st j = (let a = jac_Account j in obj [
     (''@account'', Some (JStr (acc_DOCTYPEID a))),
     (''token'', Some (JStr (acc_Token a))),
     (''type'', Some (JNum (int (acc_Type a)))),
     (''created_time'', omit_time (acc_CreatedTime a)),
     (''updated_time'', omit_time (acc_UpdatedTime a)),
     (''suspended_time'', omit_time (acc_SuspendedTime a)),
     (''holders'', Some (set_marshal st (jac_Holders j)))])"

definition dec_JointAccount :: "JointAccount \<Rightarrow> members \<Rightarrow> goerr + JointAccount" where
  "dec_JointAccount old ms =
     (case dec_Account (jac_Account old) ms of Inl e \<Rightarrow> Inl e | Inr a \<Rightarrow>
     (case (case jlast ''holders'' ms of None \<Rightarrow> Inr (jac_Holders old)
                                      | Some h \<Rightarrow> set_unmarshal (jac_Holders old) h) of
        Inl e \<Rightarrow> Inl e | Inr hs \<Rightarrow>
      Inr \<lparr>jac_Account = a, jac_Holders = hs\<rparr>))"

definition unmarshal_JointAccount :: "json \<Rightarrow> goerr + JointAccount" where
  "unmarshal_JointAccount j =
     dec_struct dec_JointAccount \<lparr>jac_Account = zero_Account, jac_Holders = []\<rparr> j"

text \<open>The set of holders survives; its order is the one the map was iterated in.\<close>

lemma joint_roundtrip:
  assumes "iter_ok st" and "distinct (jac_Holders j)" and "acc_Type (jac_Account j) < 256"
  shows "unmarshal_JointAccount (marshal_JointAccount st j) =
    Inr (j\<lparr>jac_Holders := st_iter st (jac_Holders j)\<rparr>)"
  using assms set_roundtrip [OF assms(1,2)]
  by (simp add: marshal_JointAccount_def unmarshal_JointAccount_def dec_JointAccount_def
      dec_Account_def zero_Account_def Let_def codec_simps)

subsection \<open>AccountInterface\<close>

datatype AccountI = PAC Account | JAC JointAccount

fun ai_account :: "AccountI \<Rightarrow> Account" where
  "ai_account (PAC a) = a"
| "ai_account (JAC j) = jac_Account j"

definition ai_GetID :: "AccountI \<Rightarrow> string" where
  "ai_GetID a = acc_DOCTYPEID (ai_account a)"

definition ai_GetToken :: "AccountI \<Rightarrow> string" where
  "ai_GetToken a = acc_Token (ai_account a)"

definition ai_GetType :: "AccountI \<Rightarrow> nat" where
  "ai_GetType a = acc_Type (ai_account a)"

definition ai_IsSuspended :: "AccountI \<Rightarrow> bool" where
  "ai_IsSuspended a \<longleftrightarrow> acc_SuspendedTime (ai_account a) \<noteq> None"

fun ai_HasHolder :: "AccountI \<Rightarrow> string \<Rightarrow> goerr + bool" where
  "ai_HasHolder (PAC a) kid = (case acc_Holder a of Inl e \<Rightarrow> Inl e | Inr h \<Rightarrow> Inr (h = kid))"
| "ai_HasHolder (JAC j) kid = Inr (set_contains (jac_Holders j) kid)"

fun marshal_AccountI :: "stub \<Rightarrow> AccountI \<Rightarrow> json" where
  "marshal_AccountI st (PAC a) = marshal_Account a"
| "marshal_AccountI st (JAC j) = marshal_JointAccount st j"

lemma ai_simps [simp]:
  "ai_GetID (PAC a) = acc_DOCTYPEID a" "ai_GetID (JAC j) = acc_DOCTYPEID (jac_Account j)"
  "ai_GetToken (PAC a) = acc_Token a" "ai_GetToken (JAC j) = acc_Token (jac_Account j)"
  "ai_GetType (PAC a) = acc_Type a" "ai_GetType (JAC j) = acc_Type (jac_Account j)"
  by (simp_all add: ai_GetID_def ai_GetToken_def ai_GetType_def)

text \<open>The personal account of a KID proper has that KID as its holder.\<close>

lemma acc_Holder_NewAddress:
  assumes "kid_ok k" and "shake_ok st" and "token_code_ok code"
    and "acc_DOCTYPEID a = addr_String (NewAddress st code AccountTypePersonal k)"
  shows "acc_Holder a = Inr k"
proof -
  let ?a = "NewAddress st code AccountTypePersonal k"
  have ok: "addr_ok st ?a" using assms by (intro NewAddress_ok) (auto simp: account_types)
  then have h: "length (addr_Hash ?a) = 24" by (simp add: addr_ok_def)
  have s: "acc_DOCTYPEID a = (code @ hex_upper [char_of AccountTypePersonal]) @ hex_upper (addr_Hash ?a)"
    using assms(4) by (simp add: addr_String_def)
  have "take 40 (hex_upper (addr_Hash ?a)) = hex_upper (take 20 (addr_Hash ?a))"
    using take_hex_encode [of 20 "addr_Hash ?a"] by (simp add: hex_upper_def to_upper_def take_map)
  moreover have "to_lower (hex_upper bs) = hex_encode bs" for bs
    using hex_encode_decode [of "hex_upper bs" bs] by simp
  ultimately have "to_lower (take 40 (hex_upper (addr_Hash ?a))) = k"
    using addr_ID_NewAddress [OF assms(1)] by (simp add: addr_ID_def)
  then show ?thesis using h by (simp add: acc_Holder_def Let_def s)
qed

subsection \<open>Holder relationship\<close>

record Holder =
  hld_DOCTYPEID :: string
  hld_Address :: string
  hld_Token :: string
  hld_Type :: nat
  hld_CreatedTime :: "gotime option"

definition zero_Holder :: Holder where
  "zero_Holder = \<lparr>hld_DOCTYPEID = [], hld_Address = [], hld_Token = [], hld_Type = 0,
     hld_CreatedTime = None\<rparr>"

definition marshal_Holder :: "Holder \<Rightarrow> json" where
  "marshal_Holder h = obj [
     (''@holder'', Some (JStr (hld_DOCTYPEID h))),
     (''address'', Some (JStr (hld_Address h))),
     (''token'', Some (JStr (hld_Token h))),
     (''type'', Some (JNum (int (hld_Type h)))),
     (''created_time'', omit_time (hld_CreatedTime h))]"

definition dec_Holder :: "Holder \<Rightarrow> members \<Rightarrow> goerr + Holder" where
  "dec_Holder old ms =
     (case dec_str (hld_DOCTYPEID old) (jlast ''@holder'' ms) of Inl e \<Rightarrow> Inl e | Inr x1 \<Rightarrow>
     (case dec_str (hld_Address old) (jlast ''address'' ms) of Inl e \<Rightarrow> Inl e | Inr x2 \<Rightarrow>
     (case dec_str (hld_Token old) (jlast ''token'' ms) of Inl e \<Rightarrow> Inl e | Inr x3 \<Rightarrow>
     (case dec_byte (hld_Type old) (jlast ''type'' ms) of Inl e \<Rightarrow> Inl e | Inr x4 \<Rightarrow>
     (case dec_time_ptr (hld_CreatedTime old) (jlast ''created_time'' ms) of Inl e \<Rightarrow> Inl e | Inr x5 \<Rightarrow>
      Inr \<lparr>hld_DOCTYPEID = x1, hld_Address = x2, hld_Token = x3, hld_Type = x4,
           hld_CreatedTime = x5\<rparr>)))))"

definition unmarshal_Holder :: "json \<Rightarrow> goerr + Holder" where
  "unmarshal_Holder j = dec_struct dec_Holder zero_Holder j"

interpretation holder_codec: codec marshal_Holder unmarshal_Holder
    "\<lambda>h. hld_Type h < 256"
  by unfold_locales
     (simp add: marshal_Holder_def unmarshal_Holder_def dec_Holder_def zero_Holder_def
       codec_simps)

definition NewHolder :: "string \<Rightarrow> AccountI \<Rightarrow> Holder" where
  "NewHolder kid a =
     \<lparr>hld_DOCTYPEID = kid, hld_Address = ai_GetID a, hld_Token = ai_GetToken a,
      hld_Type = ai_GetType a, hld_CreatedTime = None\<rparr>"

end
