(* ===== verification/Docs_Token.thy ===== *)
theory Docs_Token
  imports Docs_Account "HOL-Library.AList"
begin

text \<open>
  The documents of tokens (\<open>token.go\<close>, the policies of \<open>fee.go\<close> and \<open>wrap.go\<close>) and
  of the wrap bridge (\<open>wrap.go\<close>), with the parsers of the policies and the validation of
  external addresses and transaction ids.  A Go map is an association list with distinct keys.
\<close>

subsection \<open>Maps as JSON objects\<close>

definition marshal_map :: "('a \<Rightarrow> json) \<Rightarrow> (string \<times> 'a) list \<Rightarrow> json" where
  "marshal_map f m = JObj (map (\<lambda>(k, v). (k, f v)) m)"

fun dec_map :: "(json \<Rightarrow> goerr + 'a) \<Rightarrow> (string \<times> 'a) list \<Rightarrow> members \<Rightarrow> goerr + (string \<times> 'a) list"
where
  "dec_map d m [] = Inr m"
| "dec_map d m ((k, j) # ms) =
     (case d j of Inl e \<Rightarrow> Inl e | Inr v \<Rightarrow> dec_map d (AList.update k v m) ms)"

lemma update_append: "k \<notin> fst ` set m \<Longrightarrow> AList.update k v m = m @ [(k, v)]"
  by (induction m) auto

lemma dec_map_marshal:
  assumes "\<forall>(k, v) \<in> set l. d (f v) = Inr v" and "distinct (map fst l)"
    and "fst ` set m \<inter> fst ` set l = {}"
  shows "dec_map d m (map (\<lambda>(k, v). (k, f v)) l) = Inr (m @ l)"
  using assms
proof (induction l arbitrary: m)
  case Nil
  then show ?case by simp
next
  case (Cons p l)
  obtain k v where p: "p = (k, v)" by (cases p)
  with Cons.prems have "d (f v) = Inr v" and "AList.update k v m = m @ [(k, v)]"
    by (auto simp: update_append)
  moreover have "dec_map d (m @ [(k, v)]) (map (\<lambda>(k, v). (k, f v)) l) = Inr ((m @ [(k, v)]) @ l)"
    using Cons.prems p by (intro Cons.IH) auto
  ultimately show ?case by (simp add: p)
qed

subsection \<open>Fee policy\<close>

record FeeRate =
  fr_Rate :: string
  fr_MaxAmount :: int

definition zero_FeeRate :: FeeRate where
  "zero_FeeRate = \<lparr>fr_Rate = [], fr_MaxAmount = 0\<rparr>"

definition marshal_FeeRate :: "FeeRate \<Rightarrow> json" where
  "marshal_FeeRate f = obj [
     (''rate'', Some (JStr (fr_Rate f))),
     (''max_amount'', Some (JNum (fr_MaxAmount f)))]"

definition dec_FeeRate :: "FeeRate \<Rightarrow> members \<Rightarrow> goerr + FeeRate" where
  "dec_FeeRate old ms =
     (case dec_str (fr_Rate old) (jlast ''rate'' ms) of Inl e \<Rightarrow> Inl e | Inr x1 \<Rightarrow>
     (case dec_int (- (2 ^ 63)) (2 ^ 63 - 1) (fr_MaxAmount old) (jlast ''max_amount'' ms) of Inl e \<Rightarrow> Inl e | Inr x2 \<Rightarrow>
      Inr \<lparr>fr_Rate = x1, fr_MaxAmount = x2\<rparr>))"

definition unmarshal_FeeRate :: "json \<Rightarrow> goerr + FeeRate" where
  "unmarshal_FeeRate j = dec_struct dec_FeeRate zero_FeeRate j"

interpretation rate_codec: codec marshal_FeeRate unmarshal_FeeRate
    "\<lambda>r. - (2 ^ 63) \<le> fr_MaxAmount r \<and> fr_MaxAmount r < 2 ^ 63"
  by unfold_locales
     (simp add: marshal_FeeRate_def unmarshal_FeeRate_def dec_FeeRate_def zero_FeeRate_def
       codec_simps)

record FeePolicy =
  fp_TargetAddress :: string
  fp_Rates :: "(string \<times> FeeRate) list"

definition marshal_FeePolicy :: "FeePolicy \<Rightarrow> json" where
  "marshal_FeePolicy p = obj [
     (''target_address'', Some (JStr (fp_TargetAddress p))),
     (''rates'', Some (marshal_map marshal_FeeRate (fp_Rates p)))]"

fun dec_rates :: "(string \<times> FeeRate) list \<Rightarrow> json option \<Rightarrow> goerr + (string \<times> FeeRate) list" where
  "dec_rates old None = Inr old"
| "dec_rates old (Some JNull) = Inr []"
| "dec_rates old (Some (JObj ms)) = dec_map unmarshal_FeeRate old ms"
| "dec_rates old (Some _) = Inl type_error"

definition dec_FeePolicy :: "FeePolicy \<Rightarrow> members \<Rightarrow> goerr + FeePolicy" where
  "dec_FeePolicy old ms =
     (case dec_str (fp_TargetAddress old) (jlast ''target_address'' ms) of Inl e \<Rightarrow> Inl e | Inr x1 \<Rightarrow>
     (case dec_rates (fp_Rates old) (jlast ''rates'' ms) of Inl e \<Rightarrow> Inl e | Inr x2 \<Rightarrow>
      Inr \<lparr>fp_TargetAddress = x1, fp_Rates = x2\<rparr>))"

definition unmarshal_FeePolicy :: "json \<Rightarrow> goerr + FeePolicy" where
  "unmarshal_FeePolicy j = dec_struct dec_FeePolicy \<lparr>fp_TargetAddress = [], fp_Rates = []\<rparr> j"

definition rate_ok :: "FeeRate \<Rightarrow> bool" where
  "rate_ok r \<longleftrightarrow> - (2 ^ 63) \<le> fr_MaxAmount r \<and> fr_MaxAmount r < 2 ^ 63"

definition policy_ok :: "FeePolicy \<Rightarrow> bool" where
  "policy_ok p \<longleftrightarrow> distinct (map fst (fp_Rates p)) \<and> (\<forall>(k, r) \<in> set (fp_Rates p). rate_ok r)"

lemma dec_rates_marshal [simp]:
  "policy_ok p \<Longrightarrow> dec_rates [] (Some (marshal_map marshal_FeeRate (fp_Rates p))) = Inr (fp_Rates p)"
  by (auto simp: marshal_map_def policy_ok_def rate_ok_def intro!: dec_map_marshal [where m = "[]", simplified]
      rate_codec.unmarshal_marshal)

interpretation policy_codec: codec marshal_FeePolicy unmarshal_FeePolicy policy_ok
  by unfold_locales
     (simp add: marshal_FeePolicy_def unmarshal_FeePolicy_def dec_FeePolicy_def codec_simps)

text \<open>\<open>isValidFn\<close> and \<open>ParseFeePolicy\<close>.\<close>

definition isValidFn :: "string \<Rightarrow> bool" where
  "isValidFn fn \<longleftrightarrow> fn = ''transfer'' \<or> fn = ''pay''"

text \<open>One entry of the policy text; an entry without an equals sign is skipped.\<close>

definition parse_fee :: "string \<Rightarrow> goerr + (string \<times> FeeRate) option" where
  "parse_fee f =
     (let kv = split_on CHR ''='' f in
      if 1 < length kv
      then if \<not> isValidFn (kv ! 0) then Inl (Plain ''invalid fee rate type'')
           else let rm = split_on CHR '','' (kv ! 1); rate = rm ! 0 in
             if rat_set_string rate = None then Inl (Plain ''failed to parse rate'')
             else if 1 < length rm
             then (case parse_int64_opt (rm ! 1) of
                     None \<Rightarrow> Inl (Plain ''failed to parse max fee amount'')
                   | Some mx \<Rightarrow> Inr (Some (kv ! 0, \<lparr>fr_Rate = rate, fr_MaxAmount = mx\<rparr>)))
             else Inr (Some (kv ! 0, \<lparr>fr_Rate = rate, fr_MaxAmount = 0\<rparr>))
      else Inr None)"

fun parse_fees :: "string list \<Rightarrow> (string \<times> FeeRate) list \<Rightarrow> goerr + (string \<times> FeeRate) list" where
  "parse_fees [] rates = Inr rates"
| "parse_fees (f # fees) rates =
     (case parse_fee f of
        Inl e \<Rightarrow> Inl e
      | Inr None \<Rightarrow> parse_fees fees rates
      | Inr (Some (fn, r)) \<Rightarrow> parse_fees fees (AList.update fn r rates))"

definition ParseFeePolicy :: "string \<Rightarrow> goerr + FeePolicy" where
  "ParseFeePolicy s =
     (case parse_fees (split_on CHR '';'' s) [] of Inl e \<Rightarrow> Inl e | Inr rates \<Rightarrow>
      Inr \<lparr>fp_TargetAddress = [], fp_Rates = rates\<rparr>)"

lemma parse_int64_range: "parse_int64_opt s = Some v \<Longrightarrow> - (2 ^ 63) \<le> v \<and> v < 2 ^ 63"
  by (auto simp: parse_int64_opt_def parse_int64_def signed_def
      split: if_splits prod.splits numres.splits)

definition rates_valid :: "(string \<times> FeeRate) list \<Rightarrow> bool" where
  "rates_valid rates \<longleftrightarrow> distinct (map fst rates) \<and>
     (\<forall>(fn, r) \<in> set rates. isValidFn fn \<and> rat_set_string (fr_Rate r) \<noteq> None \<and> rate_ok r)"

lemma rates_valid_update:
  assumes "rates_valid rates" and "isValidFn fn" and "rat_set_string (fr_Rate r) \<noteq> None" and "rate_ok r"
  shows "rates_valid (AList.update fn r rates)"
proof -
  have "set (AList.update fn r rates) \<subseteq> insert (fn, r) (set rates)"
    by (induction rates) auto
  with assms show ?thesis by (auto simp: rates_valid_def distinct_update)
qed

lemma parse_fee_valid:
  "parse_fee f = Inr (Some (fn, r)) \<Longrightarrow> isValidFn fn \<and> rat_set_string (fr_Rate r) \<noteq> None \<and> rate_ok r"
  using parse_int64_range
  by (auto simp: parse_fee_def Let_def rate_ok_def split: if_splits option.splits)

lemma parse_fees_valid: "rates_valid rates \<Longrightarrow> parse_fees fees rates = Inr rates' \<Longrightarrow> rates_valid rates'"
proof (induction fees arbitrary: rates)
  case Nil
  then show ?case by simp
next
  case (Cons f fees)
  then show ?case
    by (auto split: sum.splits option.splits) (meson parse_fee_valid rates_valid_update)
qed

subsection \<open>Wrap policy\<close>

record WrapPolicy =
  wp_WrapAddress :: string
  wp_ExtChain :: string

definition zero_WrapPolicy :: WrapPolicy where
  "zero_WrapPolicy = \<lparr>wp_WrapAddress = [], wp_ExtChain = []\<rparr>"

definition marshal_WrapPolicy :: "WrapPolicy \<Rightarrow> json" where
  "marshal_WrapPolicy w = obj [
     (''wrap_address'', Some (JStr (wp_WrapAddress w))),
     (''ext_chain'', Some (JStr (wp_ExtChain w)))]"

definition dec_WrapPolicy :: "WrapPolicy \<Rightarrow> members \<Rightarrow> goerr + WrapPolicy" where
  "dec_WrapPolicy old ms =
     (case dec_str (wp_WrapAddress old) (jlast ''wrap_address'' ms) of Inl e \<Rightarrow> Inl e | Inr x1 \<Rightarrow>
     (case dec_str (wp_ExtChain old) (jlast ''ext_chain'' ms) of Inl e \<Rightarrow> Inl e | Inr x2 \<Rightarrow>
      Inr \<lparr>wp_WrapAddress = x1, wp_ExtChain = x2\<rparr>))"

definition unmarshal_WrapPolicy :: "json \<Rightarrow> goerr + WrapPolicy" where
  "unmarshal_WrapPolicy j = dec_struct dec_WrapPolicy zero_WrapPolicy j"

interpretation wpolicy_codec: codec marshal_WrapPolicy unmarshal_WrapPolicy
    "\<lambda>_. True"
  by unfold_locales
     (simp add: marshal_WrapPolicy_def unmarshal_WrapPolicy_def dec_WrapPolicy_def zero_WrapPolicy_def
       codec_simps)

text \<open>
  \<open>NewWrapBridge\<close> walks a Go map, in the runtime's order; a policy that is not a string
  fails its type assertion.
\<close>

definition map_entries :: "stub \<Rightarrow> members \<Rightarrow> members" where
  "map_entries st ms = map (\<lambda>k. (k, the (jlast k ms))) (st_iter st (new_set (map fst ms)))"

fun wrap_bridge_loop ::
  "members \<Rightarrow> (string \<times> WrapPolicy) list \<Rightarrow> goerr + (string \<times> WrapPolicy) list" where
  "wrap_bridge_loop [] wb = Inr wb"
| "wrap_bridge_loop ((extCode, JStr s) # ms) wb =
     (let vals = split_on CHR '';'' s in
      if length vals = 2
      then wrap_bridge_loop ms (AList.update (to_upper extCode)
             \<lparr>wp_WrapAddress = vals ! 0, wp_ExtChain = vals ! 1\<rparr> wb)
      else Inl (Plain ''failed to parse wrap bridge''))"
| "wrap_bridge_loop ((extCode, _) # ms) wb = Inl Panicked"

definition NewWrapBridge :: "stub \<Rightarrow> members \<Rightarrow> goerr + (string \<times> WrapPolicy) list" where
  "NewWrapBridge st data = wrap_bridge_loop (map_entries st data) []"

subsection \<open>Token\<close>

record Token =
  tok_DOCTYPEID :: string
  tok_Decimal :: int
  tok_MaxSupply :: int
  tok_Supply :: int
  tok_LastPrunedFeeID :: string
  tok_GenesisAccount :: string
  tok_FeePolicy :: "FeePolicy option"
  tok_WrapBridge :: "(string \<times> WrapPolicy) list option"
  tok_CreatedTime :: "gotime option"
  tok_UpdatedTime :: "gotime option"

definition zero_Token :: Token where
  "zero_Token = \<lparr>tok_DOCTYPEID = [], tok_Decimal = 0, tok_MaxSupply = 0, tok_Supply = 0,
     tok_LastPrunedFeeID = [], tok_GenesisAccount = [], tok_FeePolicy = None,
     tok_WrapBridge = None, tok_CreatedTime = None, tok_UpdatedTime = None\<rparr>"

text \<open>An empty map is as empty as a nil one: \<open>omitempty\<close> drops both.\<close>

definition omit_bridge :: "(string \<times> WrapPolicy) list option \<Rightarrow> json option" where
  "omit_bridge wb = (case wb of None \<Rightarrow> None
     | Some m \<Rightarrow> if m = [] then None else Some (marshal_map marshal_WrapPolicy m))"

definition marshal_Token :: "Token \<Rightarrow> json" where
  "marshal_Token t = obj [
     (''@token'', Some (JStr (tok_DOCTYPEID t))),
     (''decimal'', Some (JNum (tok_Decimal t))),
     (''max_supply'', Some (amount_marshal (tok_MaxSupply t))),
     (''supply'', Some (amount_marshal (tok_Supply t))),
     (''last_pruned_fee_id'', omit_str (tok_LastPrunedFeeID t)),
     (''genesis_account'', Some (JStr (tok_GenesisAccount t))),
     (''fee_policy'', map_option marshal_FeePolicy (tok_FeePolicy t)),
     (''wrap_bridge'', omit_bridge (tok_WrapBridge t)),
     (''created_time'', omit_time (tok_CreatedTime t)),
     (''updated_time'', omit_time (tok_UpdatedTime t))]"

fun dec_policy_ptr :: "FeePolicy option \<Rightarrow> json option \<Rightarrow> goerr + FeePolicy option" where
  "dec_policy_ptr old None = Inr old"
| "dec_policy_ptr old (Some JNull) = Inr None"
| "dec_policy_ptr None (Some j) = map_sum id Some (unmarshal_FeePolicy j)"
| "dec_policy_ptr (Some p) (Some j) = map_sum id Some (dec_struct dec_FeePolicy p j)"

fun dec_bridge ::
  "(string \<times> WrapPolicy) list option \<Rightarrow> json option \<Rightarrow> goerr + (string \<times> WrapPolicy) list option"
where
  "dec_bridge old None = Inr old"
| "dec_bridge old (Some JNull) = Inr None"
| "dec_bridge old (Some (JObj ms)) =
     map_sum id Some (dec_map unmarshal_WrapPolicy (case old of None \<Rightarrow> [] | Some m \<Rightarrow> m) ms)"
| "dec_bridge old (Some _) = Inl type_error"

definition dec_Token :: "Token \<Rightarrow> members \<Rightarrow> goerr + Token" where
  "dec_Token old ms =
     (case dec_str (tok_DOCTYPEID old) (jlast ''@token'' ms) of Inl e \<Rightarrow> Inl e | Inr x1 \<Rightarrow>
     (case dec_int (- (2 ^ 63)) (2 ^ 63 - 1) (tok_Decimal old) (jlast ''decimal'' ms) of Inl e \<Rightarrow> Inl e | Inr x2 \<Rightarrow>
     (case dec_amount (tok_MaxSupply old) (jlast ''max_supply'' ms) of Inl e \<Rightarrow> Inl e | Inr x3 \<Rightarrow>
     (case dec_amount (tok_Supply old) (jlast ''supply'' ms) of Inl e \<Rightarrow> Inl e | Inr x4 \<Rightarrow>
     (case dec_str (tok_LastPrunedFeeID old) (jlast ''last_pruned_fee_id'' ms) of Inl e \<Rightarrow> Inl e | Inr x5 \<Rightarrow>
     (case dec_str (tok_GenesisAccount old) (jlast ''genesis_account'' ms) of Inl e \<Rightarrow> Inl e | Inr x6 \<Rightarrow>
     (case dec_policy_ptr (tok_FeePolicy old) (jlast ''fee_policy'' ms) of Inl e \<Rightarrow> Inl e | Inr x7 \<Rightarrow>
     (case dec_bridge (tok_WrapBridge old) (jlast ''wrap_bridge'' ms) of Inl e \<Rightarrow> Inl e | Inr x8 \<Rightarrow>
     (case dec_time_ptr (tok_CreatedTime old) (jlast ''created_time'' ms) of Inl e \<Rightarrow> Inl e | Inr x9 \<Rightarrow>
     (case dec_time_ptr (tok_UpdatedTime old) (jlast ''updated_time'' ms) of Inl e \<Rightarrow> Inl e | Inr x10 \<Rightarrow>
      Inr \<lparr>tok_DOCTYPEID = x1, tok_Decimal = x2, tok_MaxSupply = x3, tok_Supply = x4,
           tok_LastPrunedFeeID = x5, tok_GenesisAccount = x6, tok_FeePolicy = x7,
           tok_WrapBridge = x8, tok_CreatedTime = x9, tok_UpdatedTime = x10\<rparr>))))))))))"

definition unmarshal_Token :: "json \<Rightarrow> goerr + Token" where
  "unmarshal_Token j = dec_struct dec_Token zero_Token j"

definition bridge_ok :: "(string \<times> WrapPolicy) list option \<Rightarrow> bool" where
  "bridge_ok wb \<longleftrightarrow> (case wb of None \<Rightarrow> True | Some m \<Rightarrow> m \<noteq> [] \<and> distinct (map fst m))"

definition token_ok :: "Token \<Rightarrow> bool" where
  "token_ok t \<longleftrightarrow> - (2 ^ 63) \<le> tok_Decimal t \<and> tok_Decimal t < 2 ^ 63 \<and>
     (\<forall>p. tok_FeePolicy t = Some p \<longrightarrow> policy_ok p) \<and> bridge_ok (tok_WrapBridge t)"

lemma dec_policy_ptr_obj: "dec_policy_ptr None (Some (obj fs)) = map_sum id Some (unmarshal_FeePolicy (obj fs))"
  by (simp add: obj_def)

lemma dec_policy_ptr_marshal [simp]:
  assumes "\<forall>p. fp = Some p \<longrightarrow> policy_ok p"
  shows "dec_policy_ptr None (map_option marshal_FeePolicy fp) = Inr fp"
proof (cases fp)
  case None
  then show ?thesis by simp
next
  case (Some p)
  then have "unmarshal_FeePolicy (marshal_FeePolicy p) = Inr p"
    using assms policy_codec.unmarshal_marshal by simp
  then have "dec_policy_ptr None (Some (marshal_FeePolicy p)) = Inr (Some p)"
    unfolding marshal_FeePolicy_def dec_policy_ptr_obj by simp
  with Some show ?thesis by simp
qed

lemma dec_bridge_marshal [simp]: "bridge_ok wb \<Longrightarrow> dec_bridge None (omit_bridge wb) = Inr wb"
  by (auto simp: bridge_ok_def omit_bridge_def marshal_map_def wpolicy_codec.unmarshal_marshal
      dec_map_marshal [where m = "[]", simplified] split: option.splits)

interpretation token_codec: codec marshal_Token unmarshal_Token token_ok
  by unfold_locales
     (simp add: marshal_Token_def unmarshal_Token_def dec_Token_def zero_Token_def token_ok_def
       codec_simps)

definition getWrapPolicy :: "Token \<Rightarrow> string \<Rightarrow> goerr + WrapPolicy" where
  "getWrapPolicy t extCode =
     (case tok_WrapBridge t of
        None \<Rightarrow> Inl (Plain ''wrap_bridge is not installed'')
      | Some wb \<Rightarrow>
          (case map_of wb (to_upper extCode) of
             None \<Rightarrow> Inl (Plain ''wrap_bridge has no policy of given ext_code'')
           | Some policy \<Rightarrow> Inr policy))"

definition GetWrapAddress :: "stub \<Rightarrow> Token \<Rightarrow> string \<Rightarrow> goerr + Address" where
  "GetWrapAddress st t extCode =
     (case getWrapPolicy t extCode of Inl e \<Rightarrow> Inl e | Inr policy \<Rightarrow>
      ParseAddress st (wp_WrapAddress policy))"

subsection \<open>Wrap and unwrap\<close>

record Wrap =
  wr_DOCTYPEID :: string
  wr_Address :: string
  wr_Amount :: int
  wr_ExtCode :: string
  wr_ExtID :: string
  wr_CompleteTxID :: string
  wr_Memo :: string
  wr_OrderID :: string

definition zero_Wrap :: Wrap where
  "zero_Wrap = \<lparr>wr_DOCTYPEID = [], wr_Address = [], wr_Amount = 0, wr_ExtCode = [],
     wr_ExtID = [], wr_CompleteTxID = [], wr_Memo = [], wr_OrderID = []\<rparr>"

definition marshal_Wrap :: "Wrap \<Rightarrow> json" where
  "marshal_Wrap w = obj [
     (''@wrap'', Some (JStr (wr_DOCTYPEID w))),
     (''address'', Some (JStr (wr_Address w))),
     (''amount'', Some (amount_marshal (wr_Amount w))),
     (''ext_code'', Some (JStr (wr_ExtCode w))),
     (''ext_id'', Some (JStr (wr_ExtID w))),
     (''complete_tx_id'', omit_str (wr_CompleteTxID w)),
     (''memo'', Some (JStr (wr_Memo w))),
     (''order_id'', omit_str (wr_OrderID w))]"

definition dec_Wrap :: "Wrap \<Rightarrow> members \<Rightarrow> goerr + Wrap" where
  "dec_Wrap old ms =
     (case dec_str (wr_DOCTYPEID old) (jlast ''@wrap'' ms) of Inl e \<Rightarrow> Inl e | Inr x1 \<Rightarrow>
     (case dec_str (wr_Address old) (jlast ''address'' ms) of Inl e \<Rightarrow> Inl e | Inr x2 \<Rightarrow>
     (case dec_amount (wr_Amount old) (jlast ''amount'' ms) of Inl e \<Rightarrow> Inl e | Inr x3 \<Rightarrow>
     (case dec_str (wr_ExtCode old) (jlast ''ext_code'' ms) of Inl e \<Rightarrow> Inl e | Inr x4 \<Rightarrow>
     (case dec_str (wr_ExtID old) (jlast ''ext_id'' ms) of Inl e \<Rightarrow> Inl e | Inr x5 \<Rightarrow>
     (case dec_str (wr_CompleteTxID old) (jlast ''complete_tx_id'' ms) of Inl e \<Rightarrow> Inl e | Inr x6 \<Rightarrow>
     (case dec_str (wr_Memo old) (jlast ''memo'' ms) of Inl e \<Rightarrow> Inl e | Inr x7 \<Rightarrow>
     (case dec_str (wr_OrderID old) (jlast ''order_id'' ms) of Inl e \<Rightarrow> Inl e | Inr x8 \<Rightarrow>
      Inr \<lparr>wr_DOCTYPEID = x1, wr_Address = x2, wr_Amount = x3, wr_ExtCode = x4, wr_ExtID
           = x5, wr_CompleteTxID = x6, wr_Memo = x7, wr_OrderID = x8\<rparr>))))))))"

definition unmarshal_Wrap :: "json \<Rightarrow> goerr + Wrap" where
  "unmarshal_Wrap j = dec_struct dec_Wrap zero_Wrap j"

interpretation wrap_codec: codec marshal_Wrap unmarshal_Wrap
    "\<lambda>_. True"
  by unfold_locales
     (simp add: marshal_Wrap_def unmarshal_Wrap_def dec_Wrap_def zero_Wrap_def
       codec_simps)

record Unwrap =
  uw_DOCTYPEID :: string
  uw_CompleteTxID :: string

definition zero_Unwrap :: Unwrap where
  "zero_Unwrap = \<lparr>uw_DOCTYPEID = [], uw_CompleteTxID = []\<rparr>"

definition marshal_Unwrap :: "Unwrap \<Rightarrow> json" where
  "marshal_Unwrap u = obj [
     (''@unwrap'', Some (JStr (uw_DOCTYPEID u))),
     (''complete_tx_id'', omit_str (uw_CompleteTxID u))]"

definition dec_Unwrap :: "Unwrap \<Rightarrow> members \<Rightarrow> goerr + Unwrap" where
  "dec_Unwrap old ms =
     (case dec_str (uw_DOCTYPEID old) (jlast ''@unwrap'' ms) of Inl e \<Rightarrow> Inl e | Inr x1 \<Rightarrow>
     (case dec_str (uw_CompleteTxID old) (jlast ''complete_tx_id'' ms) of Inl e \<Rightarrow> Inl e | Inr x2 \<Rightarrow>
      Inr \<lparr>uw_DOCTYPEID = x1, uw_CompleteTxID = x2\<rparr>))"

definition unmarshal_Unwrap :: "json \<Rightarrow> goerr + Unwrap" where
  "unmarshal_Unwrap j = dec_struct dec_Unwrap zero_Unwrap j"

interpretation unwrap_codec: codec marshal_Unwrap unmarshal_Unwrap
    "\<lambda>_. True"
  by unfold_locales
     (simp add: marshal_Unwrap_def unmarshal_Unwrap_def dec_Unwrap_def zero_Unwrap_def
       codec_simps)

subsection \<open>External addresses and transaction ids\<close>

definition hex_digit_any :: "char \<Rightarrow> bool" where
  "hex_digit_any c \<longleftrightarrow> hex_val c \<noteq> None"

definition hex_digit_lower :: "char \<Rightarrow> bool" where
  "hex_digit_lower c \<longleftrightarrow> hex_val c \<noteq> None \<and> \<not> (65 \<le> byte_of c \<and> byte_of c \<le> 90)"

definition isValidEOAFormat :: "string \<Rightarrow> bool" where
  "isValidEOAFormat s \<longleftrightarrow> length s = 42 \<and> take 2 s = ''0x'' \<and> list_all hex_digit_any (drop 2 s)"

text \<open>The letters of the address are capitals where the digit of the hash is above 7.\<close>

fun eip55_mix :: "nat \<Rightarrow> string \<Rightarrow> string \<Rightarrow> string" where
  "eip55_mix i h [] = []"
| "eip55_mix i h (c # cs) =
     (let hb = byte_of (h ! (i div 2)); nib = (if even i then hb div 16 else hb mod 16) in
      (if 57 < byte_of c \<and> 7 < nib then char_of (byte_of c - 32) else c) # eip55_mix (i + 1) h cs)"

definition eip55Checksum :: "stub \<Rightarrow> string \<Rightarrow> string" where
  "eip55Checksum st unprefix =
     (let unchecked = to_lower unprefix in eip55_mix 0 (st_keccak st unchecked) unchecked)"

definition validateEOA :: "stub \<Rightarrow> string \<Rightarrow> goerr option" where
  "validateEOA st addr =
     (if \<not> isValidEOAFormat addr then Some (Plain ''address format error'')
      else let unprefix = drop 2 addr in
        if to_lower unprefix = unprefix \<or> to_upper unprefix = unprefix then None
        else if eip55Checksum st unprefix \<noteq> unprefix then Some (Plain ''address checksum error'')
        else None)"

definition NormalizeExtAddress :: "stub \<Rightarrow> string \<Rightarrow> goerr + string" where
  "NormalizeExtAddress st addr =
     (case validateEOA st addr of Some e \<Rightarrow> Inl e | None \<Rightarrow> Inr (to_lower addr))"

definition isValidExtTxIDFormat :: "string \<Rightarrow> bool" where
  "isValidExtTxIDFormat s \<longleftrightarrow> length s = 66 \<and> take 2 s = ''0x'' \<and> list_all hex_digit_lower (drop 2 s)"

definition validateExtTxID :: "string \<Rightarrow> goerr option" where
  "validateExtTxID txid =
     (if \<not> isValidExtTxIDFormat txid then Some (Plain ''txid format error'') else None)"

definition NormalizeExtTxID :: "string \<Rightarrow> goerr + string" where
  "NormalizeExtTxID txid =
     (let txid = to_lower txid in
      case validateExtTxID txid of Some e \<Rightarrow> Inl e | None \<Rightarrow> Inr txid)"

lemma to_lower_idem [simp]: "to_lower (to_lower s) = to_lower s"
proof -
  have "lower_char (lower_char c) = lower_char c" for c
    by (auto simp: lower_char_def)
  then show ?thesis by (simp add: to_lower_def)
qed

end
