(* ===== verification/Store.thy ===== *)
theory Store
  imports Docs_Token
begin

text \<open>
  The world-state keys and the accessors of every stub: the \<open>CreateKey\<close>, \<open>Get\<close>,
  \<open>Put\<close> and \<open>Delete\<close> operations of \<open>account_stub.go\<close>, \<open>balance_stub.go\<close>,
  \<open>fee_stub.go\<close>, \<open>last_pruend_fee_id_stub.go\<close>, \<open>pay_stub.go\<close>, \<open>token_stub.go\<close> and
  \<open>wrap_stub.go\<close>.  Marshalling a document cannot fail, so the branches for that are
  absent.  The interface the operations above rely on is the locale \<open>doc_store\<close>, which is
  interpreted on each of these pairs of accessors.
\<close>

subsection \<open>Keys\<close>

definition acc_key :: "string \<Rightarrow> string" where "acc_key i = ''ACC_'' @ i"
definition hld_key :: "string \<Rightarrow> string \<Rightarrow> string" where "hld_key i a = ''HLD_'' @ i @ ''_'' @ a"
definition bal_key :: "string \<Rightarrow> string" where "bal_key i = ''BLC_'' @ i"
definition log_key :: "string \<Rightarrow> int \<Rightarrow> string" where
  "log_key i n = ''BLOG_'' @ i @ ''_'' @ show_int n"
definition pb_key :: "string \<Rightarrow> string" where "pb_key i = ''PBLC_'' @ i"
definition fee_key :: "string \<Rightarrow> string" where "fee_key i = ''FEE_'' @ i"
definition lpf_key :: "string \<Rightarrow> string" where "lpf_key i = ''LPF_'' @ i"
definition pay_key :: "string \<Rightarrow> string" where "pay_key i = (if i = [] then [] else ''PAY_'' @ i)"
definition tok_key :: "string \<Rightarrow> string" where "tok_key i = ''TKN_'' @ i"
definition wrap_key :: "string \<Rightarrow> string" where "wrap_key i = ''WRAP_'' @ i"
definition unwrap_key :: "string \<Rightarrow> string" where "unwrap_key i = ''UNWRAP_'' @ i"

lemmas key_defs = acc_key_def hld_key_def bal_key_def log_key_def pb_key_def fee_key_def lpf_key_def
  pay_key_def tok_key_def wrap_key_def unwrap_key_def

lemma key_inj [key_simps]:
  "acc_key i = acc_key j \<longleftrightarrow> i = j" "bal_key i = bal_key j \<longleftrightarrow> i = j"
  "pb_key i = pb_key j \<longleftrightarrow> i = j" "fee_key i = fee_key j \<longleftrightarrow> i = j"
  "lpf_key i = lpf_key j \<longleftrightarrow> i = j" "pay_key i = pay_key j \<longleftrightarrow> i = j"
  "tok_key i = tok_key j \<longleftrightarrow> i = j" "wrap_key i = wrap_key j \<longleftrightarrow> i = j"
  "unwrap_key i = unwrap_key j \<longleftrightarrow> i = j"
  by (auto simp: key_defs)

text \<open>The first letters of a key decide its scheme.\<close>

definition key_tag :: "string \<Rightarrow> string" where
  "key_tag k = takeWhile (\<lambda>c. c \<noteq> CHR ''_'') k"

lemma key_tag [key_simps]:
  "key_tag (acc_key i) = ''ACC''" "key_tag (hld_key i a) = ''HLD''" "key_tag (bal_key i) = ''BLC''"
  "key_tag (log_key i n) = ''BLOG''" "key_tag (pb_key i) = ''PBLC''" "key_tag (fee_key i) = ''FEE''"
  "key_tag (lpf_key i) = ''LPF''" "key_tag (tok_key i) = ''TKN''" "key_tag (wrap_key i) = ''WRAP''"
  "key_tag (unwrap_key i) = ''UNWRAP''" "key_tag (pay_key i) = (if i = [] then [] else ''PAY'')"
  by (simp_all add: key_tag_def key_defs)

lemma key_tag_neq: "key_tag k \<noteq> key_tag k' \<Longrightarrow> k \<noteq> k'"
  by auto

subsection \<open>The contract of a document store\<close>

text \<open>
  \<open>put\<close> adds one write of the marshalled document under the key of its id; \<open>get\<close>
  reads and decodes the document under a key.
\<close>

locale doc_store = codec marshal unmarshal ok
  for marshal :: "'a \<Rightarrow> json" and unmarshal :: "json \<Rightarrow> goerr + 'a" and ok :: "'a \<Rightarrow> bool" +
  fixes mkkey :: "string \<Rightarrow> string"
    and ident :: "'a \<Rightarrow> string"
    and put :: "stub \<Rightarrow> writes \<Rightarrow> 'a \<Rightarrow> goerr + writes"
    and get :: "stub \<Rightarrow> string \<Rightarrow> goerr + 'a"
  assumes mkkey_inj: "mkkey i = mkkey j \<longleftrightarrow> i = j"
    and put_Inr: "put st ws x = Inr ws' \<longleftrightarrow>
      st_put_err st (mkkey (ident x)) (marshal x) = None \<and>
      ws' = ws @ [Put (mkkey (ident x)) (marshal x)]"
    and get_Inr: "get st i = Inr x \<longleftrightarrow>
      (\<exists>j. st_get st (mkkey i) = Inr (Some j) \<and> unmarshal j = Inr x)"
begin

lemma get_after_put:
  assumes "put st ws x = Inr ws'" and "ok x"
    and "st_get st' (mkkey (ident x)) = Inr (commit L ws' (mkkey (ident x)))"
  shows "get st' (ident x) = Inr x"
  using assms by (auto simp: put_Inr get_Inr unmarshal_marshal)

lemma put_frame:
  assumes "put st ws x = Inr ws'" and "k \<noteq> mkkey (ident x)"
  shows "commit L ws' k = commit L ws k"
  using assms by (auto simp: put_Inr)

lemma get_frame:
  assumes "put st ws x = Inr ws'" and "i \<noteq> ident x"
    and "st_get st1 (mkkey i) = Inr (commit L ws (mkkey i))"
    and "st_get st2 (mkkey i) = Inr (commit L ws' (mkkey i))"
  shows "get st2 i = Inr y \<longleftrightarrow> get st1 i = Inr y"
proof -
  have "st_get st2 (mkkey i) = st_get st1 (mkkey i)"
    using assms put_frame [OF assms(1)] by (simp add: mkkey_inj)
  then show ?thesis by (simp add: get_Inr)
qed

lemma get_Inr_ledger: "get st i = Inr x \<Longrightarrow> \<exists>j. ledger_of st (mkkey i) = Some j \<and> unmarshal j = Inr x"
  by (auto simp: get_Inr)

end

subsection \<open>Balances\<close>

definition GetBalanceState :: "stub \<Rightarrow> string \<Rightarrow> goerr + json" where
  "GetBalanceState st i = 
     (case get_state st (bal_key i) of
        Inl e \<Rightarrow> Inl (err_wrap e ''failed to get the balance state'') | Inr data \<Rightarrow>
     (case data of None \<Rightarrow> Inl (Plain ''balance is not exists'') | Some d \<Rightarrow>
     Inr d))"

definition GetBalance :: "stub \<Rightarrow> string \<Rightarrow> goerr + Balance" where
  "GetBalance st i = 
     (case GetBalanceState st i of Inl e \<Rightarrow> Inl e | Inr data \<Rightarrow>
     (case unmarshal_Balance data of
        Inl e \<Rightarrow> Inl (err_wrap e ''failed to unmarshal the balance'') | Inr b \<Rightarrow>
     Inr b))"

definition PutBalance :: "stub \<Rightarrow> writes \<Rightarrow> Balance \<Rightarrow> goerr + writes" where
  "PutBalance st ws b = 
     (case put_state st ws (bal_key (bal_DOCTYPEID b)) (marshal_Balance b) of
        Inl e \<Rightarrow> Inl (err_wrap e ''failed to put the balance state'') | Inr ws \<Rightarrow>
     Inr ws)"

interpretation balance_store: doc_store marshal_Balance unmarshal_Balance "\<lambda>_. True"
    bal_key bal_DOCTYPEID PutBalance GetBalance
  by unfold_locales
     (auto simp: PutBalance_def GetBalance_def GetBalanceState_def get_state_def ok_simps key_simps)

text \<open>
  \<open>PutBalanceLog\<close> refuses to overwrite the log of the same account and nanosecond.  The
  creation time is a pointer that is dereferenced for the key.
\<close>

definition PutBalanceLog :: "stub \<Rightarrow> writes \<Rightarrow> BalanceLog \<Rightarrow> goerr + writes" where
  "PutBalanceLog st ws log = 
     (case bl_CreatedTime log of None \<Rightarrow> Inl Panicked | Some ct \<Rightarrow>
     (let key = log_key (bl_DOCTYPEID log) (unix_nano ct) in
     (case get_state st key of
        Inl e \<Rightarrow> Inl (err_wrap e ''failed to get the balance log state'') | Inr data \<Rightarrow>
     (if data \<noteq> None then Inl (Plain ''balance log key conflict'') else
     (case put_state st ws key (marshal_BalanceLog log) of
        Inl e \<Rightarrow> Inl (err_wrap e ''failed to put the balance log state'') | Inr ws \<Rightarrow>
     Inr ws)))))"

lemma PutBalanceLog_Inr [ok_simps]:
  "PutBalanceLog st ws log = Inr ws' \<longleftrightarrow>
     (\<exists>ct. bl_CreatedTime log = Some ct \<and>
       st_get st (log_key (bl_DOCTYPEID log) (unix_nano ct)) = Inr None \<and>
       st_put_err st (log_key (bl_DOCTYPEID log) (unix_nano ct)) (marshal_BalanceLog log) = None \<and>
       ws' = ws @ [Put (log_key (bl_DOCTYPEID log) (unix_nano ct)) (marshal_BalanceLog log)])"
  by (auto simp: PutBalanceLog_def get_state_def Let_def ok_simps split: option.splits)

subsection \<open>Pending balances\<close>

definition GetPendingBalance :: "stub \<Rightarrow> string \<Rightarrow> goerr + PendingBalance" where
  "GetPendingBalance st i = 
     (case get_state st (pb_key i) of
        Inl e \<Rightarrow> Inl (err_wrap e ''failed to get the pending balance state'') | Inr data \<Rightarrow>
     (case data of None \<Rightarrow> Inl (Plain ''the pending balance is not exists'') | Some d \<Rightarrow>
     (case unmarshal_PendingBalance d of
        Inl e \<Rightarrow> Inl (err_wrap e ''failed to unmarshal the balance'') | Inr b \<Rightarrow>
     Inr b)))"

definition PutPendingBalance :: "stub \<Rightarrow> writes \<Rightarrow> PendingBalance \<Rightarrow> goerr + writes" where
  "PutPendingBalance st ws p = 
     (case put_state st ws (pb_key (pb_DOCTYPEID p)) (marshal_PendingBalance p) of
        Inl e \<Rightarrow> Inl (err_wrap e ''failed to put the pending balance state'') | Inr ws \<Rightarrow>
     Inr ws)"

definition DeletePendingBalance :: "stub \<Rightarrow> writes \<Rightarrow> PendingBalance \<Rightarrow> goerr + writes" where
  "DeletePendingBalance st ws p = 
     (case del_state st ws (pb_key (pb_DOCTYPEID p)) of
        Inl e \<Rightarrow> Inl (err_wrap e ''failed to delete the pending balance'') | Inr ws \<Rightarrow>
     Inr ws)"

interpretation pending_store: doc_store marshal_PendingBalance unmarshal_PendingBalance
    "\<lambda>p. - 128 \<le> pb_Type p \<and> pb_Type p \<le> 127"
    pb_key pb_DOCTYPEID PutPendingBalance GetPendingBalance
  by unfold_locales
     (auto simp: PutPendingBalance_def GetPendingBalance_def get_state_def ok_simps key_simps)

lemma DeletePendingBalance_Inr [ok_simps]:
  "DeletePendingBalance st ws p = Inr ws' \<longleftrightarrow>
     st_del_err st (pb_key (pb_DOCTYPEID p)) = None \<and> ws' = ws @ [Del (pb_key (pb_DOCTYPEID p))]"
  by (auto simp: DeletePendingBalance_def ok_simps)

subsection \<open>Fees and the last pruned fee id\<close>

definition PutFee :: "stub \<Rightarrow> writes \<Rightarrow> Fee \<Rightarrow> goerr + writes" where
  "PutFee st ws f = 
     (case put_state st ws (fee_key (fee_FeeID f)) (marshal_Fee f) of
        Inl e \<Rightarrow> Inl (err_wrap e ''failed to put the fee state'') | Inr ws \<Rightarrow>
     Inr ws)"

lemma PutFee_Inr [ok_simps]:
  "PutFee st ws f = Inr ws' \<longleftrightarrow>
     st_put_err st (fee_key (fee_FeeID f)) (marshal_Fee f) = None \<and>
     ws' = ws @ [Put (fee_key (fee_FeeID f)) (marshal_Fee f)]"
  by (auto simp: PutFee_def ok_simps)

definition GetLastPrunedFeeIDState :: "stub \<Rightarrow> string \<Rightarrow> goerr + json" where
  "GetLastPrunedFeeIDState st code = 
     (case get_state st (lpf_key code) of
        Inl e \<Rightarrow> Inl (err_wrap e ''failed to get the last pruned fee id state'') | Inr data \<Rightarrow>
     (case data of None \<Rightarrow> Inl (NotInitLastPrunedFeeIDError code) | Some d \<Rightarrow>
     Inr d))"

definition GetLastPrunedFeeID :: "stub \<Rightarrow> string \<Rightarrow> goerr + LastPrunedFeeID" where
  "GetLastPrunedFeeID st code = 
     (case GetLastPrunedFeeIDState st code of Inl e \<Rightarrow> Inl e | Inr data \<Rightarrow>
     (case unmarshal_LastPrunedFeeID data of
        Inl e \<Rightarrow> Inl (err_wrap e ''failed to unmarshal the last pruned fee id'') | Inr l \<Rightarrow>
     Inr l))"

definition PutLastPrunedFeeID :: "stub \<Rightarrow> writes \<Rightarrow> LastPrunedFeeID \<Rightarrow> goerr + writes" where
  "PutLastPrunedFeeID st ws l = 
     (case put_state st ws (lpf_key (lpf_DOCTYPEID l)) (marshal_LastPrunedFeeID l) of
        Inl e \<Rightarrow> Inl (err_wrap e ''failed to put the last pruned fee id state'') | Inr ws \<Rightarrow>
     Inr ws)"

definition CreateLastPrunedFeeID ::
  "stub \<Rightarrow> writes \<Rightarrow> string \<Rightarrow> string \<Rightarrow> goerr + LastPrunedFeeID \<times> writes" where
  "CreateLastPrunedFeeID st ws tokenCode feeID = 
     (case get_time st of
        Inl e \<Rightarrow> Inl (err_wrap e ''failed to get the timestamp'') | Inr ts \<Rightarrow>
     (let l = \<lparr>lpf_DOCTYPEID = tokenCode, lpf_FeeID = feeID, lpf_UpdatedTime = Some ts\<rparr> in
     (case PutLastPrunedFeeID st ws l of Inl e \<Rightarrow> Inl e | Inr ws \<Rightarrow>
     Inr (l, ws))))"

interpretation lpf_store: doc_store marshal_LastPrunedFeeID unmarshal_LastPrunedFeeID "\<lambda>_. True"
    lpf_key lpf_DOCTYPEID PutLastPrunedFeeID GetLastPrunedFeeID
  by unfold_locales
     (auto simp: PutLastPrunedFeeID_def GetLastPrunedFeeID_def GetLastPrunedFeeIDState_def
       get_state_def ok_simps key_simps)

subsection \<open>Tokens\<close>

definition GetTokenState :: "stub \<Rightarrow> string \<Rightarrow> goerr + json" where
  "GetTokenState st code = 
     (case get_state st (tok_key code) of
        Inl e \<Rightarrow> Inl (err_wrap e ''failed to get the token state'') | Inr data \<Rightarrow>
     (case data of None \<Rightarrow> Inl (NotIssuedTokenError code) | Some d \<Rightarrow>
     Inr d))"

definition GetToken :: "stub \<Rightarrow> string \<Rightarrow> goerr + Token" where
  "GetToken st code = 
     (case GetTokenState st code of Inl e \<Rightarrow> Inl e | Inr data \<Rightarrow>
     (case unmarshal_Token data of
        Inl e \<Rightarrow> Inl (err_wrap e ''failed to unmarshal the token'') | Inr t \<Rightarrow>
     Inr t))"

definition PutToken :: "stub \<Rightarrow> writes \<Rightarrow> Token \<Rightarrow> goerr + writes" where
  "PutToken st ws t = 
     (case put_state st ws (tok_key (tok_DOCTYPEID t)) (marshal_Token t) of
        Inl e \<Rightarrow> Inl (err_wrap e ''failed to put the token state'') | Inr ws \<Rightarrow>
     Inr ws)"

interpretation token_store: doc_store marshal_Token unmarshal_Token token_ok
    tok_key tok_DOCTYPEID PutToken GetToken
  by unfold_locales
     (auto simp: PutToken_def GetToken_def GetTokenState_def get_state_def ok_simps key_simps)

subsection \<open>Pays\<close>

definition GetPayState :: "stub \<Rightarrow> string \<Rightarrow> goerr + json" where
  "GetPayState st i = 
     (case get_state st (pay_key i) of
        Inl e \<Rightarrow> Inl (err_wrap e ''failed to get the pay state'') | Inr data \<Rightarrow>
     (case data of None \<Rightarrow> Inl (NotExistedPayError i) | Some d \<Rightarrow>
     Inr d))"

definition GetPay :: "stub \<Rightarrow> string \<Rightarrow> goerr + Pay" where
  "GetPay st i = 
     (case GetPayState st i of Inl e \<Rightarrow> Inl e | Inr data \<Rightarrow>
     (case unmarshal_Pay data of
        Inl e \<Rightarrow> Inl (err_wrap e ''failed to unmarshal the pay'') | Inr p \<Rightarrow>
     Inr p))"

definition PutParentPay :: "stub \<Rightarrow> writes \<Rightarrow> string \<Rightarrow> Pay \<Rightarrow> goerr + writes" where
  "PutParentPay st ws key p = 
     (case put_state st ws key (marshal_Pay p) of
        Inl e \<Rightarrow> Inl (err_wrap e ''failed to put the balance state'') | Inr ws \<Rightarrow>
     Inr ws)"

definition PutPay :: "stub \<Rightarrow> writes \<Rightarrow> Pay \<Rightarrow> goerr + writes" where
  "PutPay st ws p = 
     (case put_state st ws (pay_key (pay_PayID p)) (marshal_Pay p) of
        Inl e \<Rightarrow> Inl (err_wrap e ''failed to put the balance state'') | Inr ws \<Rightarrow>
     Inr ws)"

interpretation pay_store: doc_store marshal_Pay unmarshal_Pay "\<lambda>_. True"
    pay_key pay_PayID PutPay GetPay
  by unfold_locales
     (auto simp: PutPay_def GetPay_def GetPayState_def get_state_def ok_simps key_simps)

lemma PutParentPay_Inr [ok_simps]:
  "PutParentPay st ws k p = Inr ws' \<longleftrightarrow>
     st_put_err st k (marshal_Pay p) = None \<and> ws' = ws @ [Put k (marshal_Pay p)]"
  by (auto simp: PutParentPay_def ok_simps)

subsection \<open>Wraps\<close>

definition GetWrap :: "stub \<Rightarrow> string \<Rightarrow> goerr + Wrap" where
  "GetWrap st txid = 
     (case get_state st (wrap_key txid) of Inl e \<Rightarrow> Inl e | Inr data \<Rightarrow>
     (case data of None \<Rightarrow> Inl (Plain ''wrap is not exist'') | Some d \<Rightarrow>
     (case unmarshal_Wrap d of
        Inl e \<Rightarrow> Inl (err_wrap e ''failed to unmarshal the wrap'') | Inr w \<Rightarrow>
     Inr w)))"

definition PutWrap :: "stub \<Rightarrow> writes \<Rightarrow> Wrap \<Rightarrow> goerr + writes" where
  "PutWrap st ws w = 
     (case put_state st ws (wrap_key (wr_DOCTYPEID w)) (marshal_Wrap w) of
        Inl e \<Rightarrow> Inl (err_wrap e ''failed to put the wrap state'') | Inr ws \<Rightarrow>
     Inr ws)"

definition PutUnwrap :: "stub \<Rightarrow> writes \<Rightarrow> Unwrap \<Rightarrow> goerr + writes" where
  "PutUnwrap st ws u = 
     (case put_state st ws (unwrap_key (uw_DOCTYPEID u)) (marshal_Unwrap u) of
        Inl e \<Rightarrow> Inl (err_wrap e ''failed to put the unwrap state'') | Inr ws \<Rightarrow>
     Inr ws)"

interpretation wrap_store: doc_store marshal_Wrap unmarshal_Wrap "\<lambda>_. True"
    wrap_key wr_DOCTYPEID PutWrap GetWrap
  by unfold_locales (auto simp: PutWrap_def GetWrap_def get_state_def ok_simps key_simps)

lemma PutUnwrap_Inr [ok_simps]:
  "PutUnwrap st ws u = Inr ws' \<longleftrightarrow>
     st_put_err st (unwrap_key (uw_DOCTYPEID u)) (marshal_Unwrap u) = None \<and>
     ws' = ws @ [Put (unwrap_key (uw_DOCTYPEID u)) (marshal_Unwrap u)]"
  by (auto simp: PutUnwrap_def ok_simps)

subsection \<open>Accounts and holders\<close>

definition GetAccountState :: "stub \<Rightarrow> string \<Rightarrow> goerr + json" where
  "GetAccountState st addr = 
     (case get_state st (acc_key addr) of
        Inl e \<Rightarrow> Inl (err_wrap e ''failed to get the account state'') | Inr data \<Rightarrow>
     (case data of None \<Rightarrow> Inl (NotExistedAccountError addr) | Some d \<Rightarrow>
     Inr d))"

definition GetAccount :: "stub \<Rightarrow> Address \<Rightarrow> goerr + AccountI" where
  "GetAccount st addr = 
     (case GetAccountState st (addr_String addr) of
        Inl e \<Rightarrow> Inl e | Inr data \<Rightarrow>
     (if addr_Type addr = AccountTypePersonal then
        (case unmarshal_Account data of
           Inl e \<Rightarrow> Inl (err_wrap e ''failed to unmarshal the account'') | Inr a \<Rightarrow> Inr (PAC a))
      else if addr_Type addr = AccountTypeJoint then
        (case unmarshal_JointAccount data of
           Inl e \<Rightarrow> Inl (err_wrap e ''failed to unmarshal the account'') | Inr j \<Rightarrow> Inr (JAC j))
      else Inl (InvalidAccountAddrError [])))"

definition PutAccount :: "stub \<Rightarrow> writes \<Rightarrow> AccountI \<Rightarrow> goerr + writes" where
  "PutAccount st ws a = 
     (case put_state st ws (acc_key (ai_GetID a)) (marshal_AccountI st a) of
        Inl e \<Rightarrow> Inl (err_wrap e ''failed to put the account state'') | Inr ws \<Rightarrow>
     Inr ws)"

definition PutHolder :: "stub \<Rightarrow> writes \<Rightarrow> Holder \<Rightarrow> goerr + writes" where
  "PutHolder st ws h = 
     (case put_state st ws (hld_key (hld_DOCTYPEID h) (hld_Address h)) (marshal_Holder h) of
        Inl e \<Rightarrow> Inl (err_wrap e ''failed to put the holder state'') | Inr ws \<Rightarrow>
     Inr ws)"

lemma PutAccount_Inr [ok_simps]:
  "PutAccount st ws a = Inr ws' \<longleftrightarrow>
     st_put_err st (acc_key (ai_GetID a)) (marshal_AccountI st a) = None \<and>
     ws' = ws @ [Put (acc_key (ai_GetID a)) (marshal_AccountI st a)]"
  by (auto simp: PutAccount_def ok_simps)

lemma PutHolder_Inr [ok_simps]:
  "PutHolder st ws h = Inr ws' \<longleftrightarrow>
     st_put_err st (hld_key (hld_DOCTYPEID h) (hld_Address h)) (marshal_Holder h) = None \<and>
     ws' = ws @ [Put (hld_key (hld_DOCTYPEID h) (hld_Address h)) (marshal_Holder h)]"
  by (auto simp: PutHolder_def ok_simps)

lemma GetAccount_Inr:
  "GetAccount st addr = Inr a \<longleftrightarrow>
     (\<exists>d. st_get st (acc_key (addr_String addr)) = Inr (Some d) \<and>
       ((\<exists>p. addr_Type addr = AccountTypePersonal \<and> unmarshal_Account d = Inr p \<and> a = PAC p) \<or>
        (\<exists>j. addr_Type addr = AccountTypeJoint \<and> unmarshal_JointAccount d = Inr j \<and> a = JAC j)))"
  by (auto simp: GetAccount_def GetAccountState_def get_state_def account_types ok_simps)

lemmas put_simps = balance_store.put_Inr pending_store.put_Inr lpf_store.put_Inr token_store.put_Inr
  pay_store.put_Inr wrap_store.put_Inr

lemmas get_simps = balance_store.get_Inr pending_store.get_Inr lpf_store.get_Inr token_store.get_Inr
  pay_store.get_Inr wrap_store.get_Inr

declare put_simps [ok_simps]

end
