(* ===== verification/Queries.thy ===== *)
theory Queries
  imports Store
begin

text \<open>
  The rich queries of \<open>queries.go\<close> by structure, and the result of a paginated query
  (\<open>query_result.go\<close>).  A missing bound of a time range is the Unix epoch or the last
  nanosecond of the year 9999.  What the state database answers is a parameter
  (\<open>st_query\<close>); \<open>matches\<close> gives the meaning of a selector on a document, for the
  hypotheses about those answers.
\<close>

subsection \<open>Selectors\<close>

text \<open>
  Comparisons are made between times only: those are the operands the queries use.
\<close>

fun cond_holds :: "json option \<Rightarrow> cond \<Rightarrow> bool" where
  "cond_holds v (CEq j) \<longleftrightarrow> v = Some j"
| "cond_holds v (CRaw s) \<longleftrightarrow> (case (v, set_string10 s) of (Some (JNum n), Some m) \<Rightarrow> n = m | _ \<Rightarrow> False)"
| "cond_holds v CExists \<longleftrightarrow> v \<noteq> None"
| "cond_holds v (CGt j) \<longleftrightarrow> (case (v, j) of (Some (JTime t), JTime b) \<Rightarrow> b < t | _ \<Rightarrow> False)"
| "cond_holds v (CGte j) \<longleftrightarrow> (case (v, j) of (Some (JTime t), JTime b) \<Rightarrow> b \<le> t | _ \<Rightarrow> False)"
| "cond_holds v (CLt j) \<longleftrightarrow> (case (v, j) of (Some (JTime t), JTime b) \<Rightarrow> t < b | _ \<Rightarrow> False)"
| "cond_holds v (CLte j) \<longleftrightarrow> (case (v, j) of (Some (JTime t), JTime b) \<Rightarrow> t \<le> b | _ \<Rightarrow> False)"

definition matches :: "query \<Rightarrow> json \<Rightarrow> bool" where
  "matches q j =
     (case j of JObj ms \<Rightarrow> list_all (\<lambda>(k, c). cond_holds (jlast k ms) c) (q_selector q) | _ \<Rightarrow> False)"

definition asc :: "string \<Rightarrow> string \<times> string" where "asc f = (f, ''asc'')"
definition desc :: "string \<Rightarrow> string \<times> string" where "desc f = (f, ''desc'')"

definition first_time :: gotime where "first_time = time_unix 0 0"
definition last_time :: gotime where "last_time = time_unix 253402300799 999999999"

definition time_or :: "gotime \<Rightarrow> gotime option \<Rightarrow> gotime" where
  "time_or d t = (case t of None \<Rightarrow> d | Some x \<Rightarrow> x)"

subsection \<open>The query constructors\<close>

definition CreateQueryDocumentByID :: "string \<Rightarrow> query" where
  "CreateQueryDocumentByID i =
     \<lparr>q_selector = [(''_id'', CEq (JStr i))], q_sort = [], q_index = []\<rparr>"

definition type_cond :: "string \<Rightarrow> (string \<times> cond) list" where
  "type_cond typeStr = (if typeStr \<noteq> [] then [(''type'', CRaw typeStr)] else [])"

definition logs_sort :: "string \<Rightarrow> (string \<times> string) list" where
  "logs_sort typeStr =
     (if typeStr \<noteq> [] then [desc ''@balance_log'', desc ''type'', desc ''created_time'']
      else [desc ''@balance_log'', desc ''created_time''])"

definition logs_index :: "string \<Rightarrow> string list" where
  "logs_index typeStr = [''balance'', if typeStr \<noteq> [] then ''logs-type'' else ''logs'']"

definition CreateQueryBalanceLogsByID :: "string \<Rightarrow> string \<Rightarrow> query" where
  "CreateQueryBalanceLogsByID i typeStr =
     \<lparr>q_selector = [(''@balance_log'', CEq (JStr i))] @ type_cond typeStr,
      q_sort = logs_sort typeStr, q_index = logs_index typeStr\<rparr>"

definition CreateQueryBalanceLogByOrderID :: "string \<Rightarrow> string \<Rightarrow> query" where
  "CreateQueryBalanceLogByOrderID orderID typeStr =
     \<lparr>q_selector = [(''order_id'', CEq (JStr orderID))] @ type_cond typeStr,
      q_sort = [asc ''order_id''], q_index = [''balance'', ''order-id'']\<rparr>"

definition CreateQueryBalanceLogsByIDAndTimes ::
  "string \<Rightarrow> string \<Rightarrow> gotime option \<Rightarrow> gotime option \<Rightarrow> query" where
  "CreateQueryBalanceLogsByIDAndTimes i typeStr stime etime =
     \<lparr>q_selector = [(''@balance_log'', CEq (JStr i))] @ type_cond typeStr @
        [(''created_time'', CGte (JTime (time_or first_time stime))),
         (''created_time'', CLt (JTime (time_or last_time etime)))],
      q_sort = logs_sort typeStr, q_index = logs_index typeStr\<rparr>"

definition CreateQueryHoldersByID :: "string \<Rightarrow> query" where
  "CreateQueryHoldersByID i =
     \<lparr>q_selector = [(''@holder'', CEq (JStr i))],
      q_sort = [asc ''@holder'', asc ''token'', asc ''type''], q_index = [''account'', ''holder'']\<rparr>"

definition CreateQueryHoldersByIDAndTokenCode :: "string \<Rightarrow> string \<Rightarrow> query" where
  "CreateQueryHoldersByIDAndTokenCode i tokenCode =
     \<lparr>q_selector = [(''@holder'', CEq (JStr i)), (''token'', CEq (JStr tokenCode))],
      q_sort = [asc ''@holder'', asc ''token'', asc ''type''], q_index = [''account'', ''holder'']\<rparr>"

definition CreateQueryPendingBalancesByAddress :: "string \<Rightarrow> string \<Rightarrow> query" where
  "CreateQueryPendingBalancesByAddress addr sorting =
     \<lparr>q_selector = [(''@pending_balance'', CExists), (''account'', CEq (JStr addr))],
      q_sort = (if ''created_time'' = sorting then [desc ''account'', desc ''created_time'']
                else [asc ''account'', asc ''pending_time'']),
      q_index = [''pending-balance'']\<rparr>"

definition CreateQueryPrunePays :: "string \<Rightarrow> gotime \<Rightarrow> gotime \<Rightarrow> query" where
  "CreateQueryPrunePays i stime etime =
     \<lparr>q_selector = [(''@pay'', CEq (JStr i)), (''created_time'', CGt (JTime stime)),
        (''created_time'', CLte (JTime etime))],
      q_sort = [], q_index = [''pay'', ''list'']\<rparr>"

definition CreateQueryPaysByIDAndTime ::
  "string \<Rightarrow> string \<Rightarrow> gotime option \<Rightarrow> gotime option \<Rightarrow> query" where
  "CreateQueryPaysByIDAndTime i sortOrder stime etime =
     \<lparr>q_selector = [(''@pay'', CEq (JStr i)),
        (''created_time'', CGte (JTime (time_or first_time stime))),
        (''created_time'', CLte (JTime (time_or last_time etime)))],
      q_sort = [(''created_time'', sortOrder)], q_index = [''pay'', ''list'']\<rparr>"

definition CreateQueryPaysByID :: "string \<Rightarrow> string \<Rightarrow> query" where
  "CreateQueryPaysByID i sortOrder =
     \<lparr>q_selector = [(''@pay'', CEq (JStr i))],
      q_sort = [(''@pay'', sortOrder), (''created_time'', sortOrder)], q_index = [''pay'', ''list'']\<rparr>"

definition CreateQueryPayByOrderID :: "string \<Rightarrow> query" where
  "CreateQueryPayByOrderID orderID =
     \<lparr>q_selector = [(''order_id'', CEq (JStr orderID))], q_sort = [asc ''order_id''],
      q_index = [''pay'', ''order-id'']\<rparr>"

definition CreateQueryPruneFee :: "string \<Rightarrow> gotime \<Rightarrow> gotime \<Rightarrow> query" where
  "CreateQueryPruneFee tokenCode stime etime =
     \<lparr>q_selector = [(''@fee'', CEq (JStr tokenCode)), (''created_time'', CGt (JTime stime)),
        (''created_time'', CLte (JTime etime))],
      q_sort = [asc ''created_time''], q_index = [''fee'', ''list'']\<rparr>"

definition CreateQueryFeesByCodeAndTimes ::
  "string \<Rightarrow> gotime option \<Rightarrow> gotime option \<Rightarrow> query" where
  "CreateQueryFeesByCodeAndTimes tokenCode stime etime =
     \<lparr>q_selector = [(''@fee'', CEq (JStr tokenCode)),
        (''created_time'', CGte (JTime (time_or first_time stime))),
        (''created_time'', CLte (JTime (time_or last_time etime)))],
      q_sort = [desc ''@fee'', desc ''created_time''], q_index = [''fee'', ''list'']\<rparr>"

definition CreateQueryFeesByCode :: "string \<Rightarrow> query" where
  "CreateQueryFeesByCode tokenCode =
     \<lparr>q_selector = [(''@fee'', CEq (JStr tokenCode))],
      q_sort = [desc ''@fee'', desc ''created_time''], q_index = [''fee'', ''list'']\<rparr>"

subsection \<open>Query results\<close>

record QueryResult =
  qr_Meta :: "json option"
  qr_Records :: "json list"

fun collect_records :: "(goerr + json) list \<Rightarrow> goerr + json list" where
  "collect_records [] = Inr []"
| "collect_records (r # rs) = 
     (case r of Inl e \<Rightarrow> Inl e | Inr j \<Rightarrow>
     (case collect_records rs of Inl e \<Rightarrow> Inl e | Inr js \<Rightarrow>
     Inr (j # js)))"

definition NewQueryResult :: "json option \<Rightarrow> (goerr + json) list \<Rightarrow> goerr + QueryResult" where
  "NewQueryResult meta iter = 
     (case collect_records iter of Inl e \<Rightarrow> Inl e | Inr js \<Rightarrow>
     Inr \<lparr>qr_Meta = meta, qr_Records = js\<rparr>)"

definition marshal_QueryResult :: "QueryResult \<Rightarrow> json" where
  "marshal_QueryResult r = obj [(''meta'', qr_Meta r), (''records'', Some (JArr (qr_Records r)))]"

text \<open>The fetch size of every list: a default below 1, at most 200.\<close>

definition clamp_fetch :: "int \<Rightarrow> int \<Rightarrow> int" where
  "clamp_fetch dflt n = (let n = (if n < 1 then dflt else n) in if 200 < n then 200 else n)"

definition query_page :: "stub \<Rightarrow> query \<Rightarrow> int \<Rightarrow> string \<Rightarrow> goerr + QueryResult" where
  "query_page st q fetchSize bookmark = 
     (case st_query_page st q fetchSize bookmark of
        Inl e \<Rightarrow> Inl e | Inr (meta, iter) \<Rightarrow>
     NewQueryResult meta iter)"

lemma clamp_fetch_bounds:
  "1 \<le> dflt \<Longrightarrow> dflt \<le> 200 \<Longrightarrow> 1 \<le> clamp_fetch dflt n \<and> clamp_fetch dflt n \<le> 200"
  by (simp add: clamp_fetch_def Let_def)

lemma collect_records_map [simp]: "collect_records (map Inr js) = Inr js"
  by (induction js) simp_all

end
