(* ===== verification/Fees.thy ===== *)
theory Fees
  imports Queries
begin

text \<open>
  The operations of \<open>FeeStub\<close> (\<open>fee_stub.go\<close>): the creation of a fee document, the fee
  of a transfer or pay by the token's policy, and the sum over the fees of a time range.
\<close>

definition FeePruneSize :: nat where "FeePruneSize = 900"
definition FeeFetchSize :: int where "FeeFetchSize = 20"

subsection \<open>Creating a fee\<close>

definition fee_id :: "gotime \<Rightarrow> string \<Rightarrow> string" where
  "fee_id ts txid = show_int (unix_nano ts) @ txid"

text \<open>A zero fee is not recorded.  The error of \<open>ParseCode\<close> is dropped: the code is empty then.\<close>

definition CreateFee :: "stub \<Rightarrow> writes \<Rightarrow> string \<Rightarrow> int \<Rightarrow> goerr + Fee option \<times> writes" where
  "CreateFee st ws addr amount =
     (if amount = 0 then Inr (None, ws) else 
     (case get_time st of
        Inl e \<Rightarrow> Inl (err_wrap e ''failed to get the timestamp'') | Inr ts \<Rightarrow>
     (let code = (case ParseCode addr of Inl e \<Rightarrow> [] | Inr c \<Rightarrow> c);
          fee = \<lparr>fee_DOCTYPEID = code, fee_FeeID = fee_id ts (st_txid st), fee_Account = addr,
                 fee_Amount = amount, fee_CreatedTime = Some ts\<rparr> in
     (case PutFee st ws fee of
        Inl e \<Rightarrow> Inl (err_wrap e ''failed to create fee'') | Inr ws \<Rightarrow>
     Inr (Some fee, ws)))))"

lemma CreateFee_Inr [ok_simps]:
  "CreateFee st ws addr amount = Inr (r, ws') \<longleftrightarrow>
     (if amount = 0 then r = None \<and> ws' = ws
      else \<exists>ts fee. get_time st = Inr ts \<and> r = Some fee \<and>
        fee = \<lparr>fee_DOCTYPEID = (case ParseCode addr of Inl e \<Rightarrow> [] | Inr c \<Rightarrow> c),
               fee_FeeID = fee_id ts (st_txid st), fee_Account = addr, fee_Amount = amount,
               fee_CreatedTime = Some ts\<rparr> \<and>
        st_put_err st (fee_key (fee_id ts (st_txid st))) (marshal_Fee fee) = None \<and>
        ws' = ws @ [Put (fee_key (fee_id ts (st_txid st))) (marshal_Fee fee)])"
  by (auto simp: CreateFee_def Let_def ok_simps)

subsection \<open>The fee of an amount\<close>

text \<open>\<open>MulRat\<close>: the product by the numerator, divided by the (positive) denominator, rounded down.\<close>

definition MulRat :: "int \<Rightarrow> bigrat \<Rightarrow> int" where
  "MulRat a r = (a * rat_num r) div rat_denom r"

definition rate_fee :: "FeeRate \<Rightarrow> bigrat \<Rightarrow> int \<Rightarrow> int" where
  "rate_fee fr r amount =
     (let feeAmount = MulRat amount r in
      if feeAmount < 0 then 0
      else if 0 < fr_MaxAmount fr \<and> fr_MaxAmount fr < feeAmount then fr_MaxAmount fr
      else feeAmount)"

text \<open>A stored rate that does not parse gives a nil rational, which \<open>MulRat\<close> dereferences.\<close>

definition CalcFee :: "stub \<Rightarrow> Address \<Rightarrow> string \<Rightarrow> int \<Rightarrow> goerr + int" where
  "CalcFee st payer fn amount = 
     (case GetToken st (addr_Code payer) of Inl e \<Rightarrow> Inl e | Inr token \<Rightarrow>
     (case tok_FeePolicy token of
        None \<Rightarrow> Inr 0
      | Some policy \<Rightarrow>
          (case map_of (fp_Rates policy) fn of
             None \<Rightarrow> Inr 0
           | Some feeRate \<Rightarrow>
               if tok_GenesisAccount token \<noteq> addr_String payer \<and>
                  fp_TargetAddress policy \<noteq> addr_String payer
               then (case rat_set_string (fr_Rate feeRate) of
                       None \<Rightarrow> Inl Panicked
                     | Some r \<Rightarrow> Inr (rate_fee feeRate r amount))
               else Inr 0)))"

lemma rate_fee_nonneg: "0 \<le> rate_fee fr r amount"
  by (simp add: rate_fee_def Let_def)

lemma rate_fee_max: "0 < fr_MaxAmount fr \<Longrightarrow> rate_fee fr r amount \<le> fr_MaxAmount fr"
  by (simp add: rate_fee_def Let_def)

lemma CalcFee_nonneg: "CalcFee st payer fn amount = Inr f \<Longrightarrow> 0 \<le> f"
  using rate_fee_nonneg by (auto simp: CalcFee_def split: sum.splits option.splits if_splits)

lemma CalcFee_zero: "CalcFee st payer fn 0 = Inr f \<Longrightarrow> f = 0"
  by (auto simp: CalcFee_def rate_fee_def MulRat_def split: sum.splits option.splits if_splits)

lemma MulRat_floor:
  assumes "0 < rat_denom r"
  shows "MulRat a r * rat_denom r \<le> a * rat_num r \<and> a * rat_num r < (MulRat a r + 1) * rat_denom r"
proof -
  have "0 \<le> (a * rat_num r) mod rat_denom r" "(a * rat_num r) mod rat_denom r < rat_denom r"
    using assms by simp_all
  moreover have "MulRat a r * rat_denom r + (a * rat_num r) mod rat_denom r = a * rat_num r"
    by (simp add: MulRat_def)
  ultimately show ?thesis by (simp add: distrib_right)
qed

subsection \<open>Sums of fees\<close>

record FeeSum =
  fs_Sum :: int
  fs_Count :: nat
  fs_Start :: string
  fs_End :: string
  fs_HasMore :: bool

definition zero_FeeSum :: FeeSum where
  "zero_FeeSum = \<lparr>fs_Sum = 0, fs_Count = 0, fs_Start = [], fs_End = [], fs_HasMore = False\<rparr>"

text \<open>
  The loop of \<open>GetFeeSumByTime\<close>: every document is decoded into the same variable, so a
  member missing from one keeps the value of the one before.
\<close>

fun fee_loop :: "(goerr + json) list \<Rightarrow> Fee \<Rightarrow> nat \<Rightarrow> int \<Rightarrow> FeeSum \<Rightarrow> goerr + FeeSum" where
  "fee_loop [] fee cnt sm s = Inr (s\<lparr>fs_Count := cnt, fs_Sum := sm\<rparr>)"
| "fee_loop (r # rs) fee cnt sm s =
     (let cnt = cnt + 1 in 
     (case r of Inl e \<Rightarrow> Inl e | Inr kv \<Rightarrow>
     (case dec_struct dec_Fee fee kv of Inl e \<Rightarrow> Inl e | Inr fee \<Rightarrow>
     (let s = (if cnt = 1 then s\<lparr>fs_Start := fee_FeeID fee\<rparr> else s) in
      if FeePruneSize < cnt
      then Inr (s\<lparr>fs_HasMore := True, fs_Count := cnt - 1, fs_Sum := sm\<rparr>)
      else fee_loop rs fee cnt (sm + fee_Amount fee) (s\<lparr>fs_End := fee_FeeID fee\<rparr>)))))"

definition GetFeeSumByTime :: "stub \<Rightarrow> string \<Rightarrow> gotime \<Rightarrow> gotime \<Rightarrow> goerr + FeeSum" where
  "GetFeeSumByTime st tokenCode stime etime = 
     (case st_query st (CreateQueryPruneFee tokenCode stime etime) of
        Inl e \<Rightarrow> Inl e | Inr iter \<Rightarrow>
     fee_loop iter zero_Fee 0 0 zero_FeeSum)"

definition GetQueryFees ::
  "stub \<Rightarrow> string \<Rightarrow> string \<Rightarrow> int \<Rightarrow> gotime option \<Rightarrow> gotime option \<Rightarrow> goerr + QueryResult" where
  "GetQueryFees st tokenCode bookmark fetchSize stime etime =
     query_page st
       (if stime \<noteq> None \<or> etime \<noteq> None then CreateQueryFeesByCodeAndTimes tokenCode stime etime
        else CreateQueryFeesByCode tokenCode)
       (clamp_fetch FeeFetchSize fetchSize) bookmark"

text \<open>A stored fee overwrites the whole loop variable, so the sum is that of the documents read.\<close>

lemma dec_Fee_marshal [simp]:
  "dec_struct dec_Fee old (marshal_Fee f) = Inr f"
  by (simp add: marshal_Fee_def dec_Fee_def codec_simps split: option.splits)

lemma fee_loop_sum:
  assumes "cnt \<le> FeePruneSize"
  shows "fee_loop (map (Inr \<circ> marshal_Fee) fs) fee cnt sm s =
    Inr (s\<lparr>fs_Sum := sm + sum_list (map fee_Amount (take (FeePruneSize - cnt) fs)),
           fs_Count := min FeePruneSize (cnt + length fs),
           fs_Start := (if cnt = 0 \<and> fs \<noteq> [] then fee_FeeID (hd fs) else fs_Start s),
           fs_End := (if fs = [] \<or> cnt = FeePruneSize then fs_End s
                      else fee_FeeID (last (take (FeePruneSize - cnt) fs))),
           fs_HasMore := (if FeePruneSize < cnt + length fs then True else fs_HasMore s)\<rparr>)"
  using assms
proof (induction fs arbitrary: fee cnt sm s)
  case Nil
  then show ?case by simp
next
  case (Cons f fs)
  show ?case
  proof (cases "cnt = FeePruneSize")
    case True
    then show ?thesis by (simp add: FeePruneSize_def)
  next
    case False
    with Cons.prems have le: "cnt + 1 \<le> FeePruneSize" by simp
    then have t: "take (FeePruneSize - cnt) (f # fs) = f # take (FeePruneSize - (cnt + 1)) fs"
      by (simp add: take_Cons' Suc_diff_Suc)
    have e: "take (FeePruneSize - (cnt + 1)) fs = [] \<longleftrightarrow> fs = [] \<or> cnt + 1 = FeePruneSize"
      using le by auto
    show ?thesis
      using Cons.IH [OF le] le False t e by (simp add: Let_def)
  qed
qed

end
