(* ===== verification/Value.thy ===== *)
theory Value
  imports Store
begin

text \<open>
  The abstract specification of the documents that hold money.  \<open>worth c k v\<close> is the amount
  of token \<open>c\<close> the document \<open>v\<close> under the key \<open>k\<close> stands for: what a balance holds,
  what a pending balance locks (with its fee), a fee not yet collected, a pay, the amount of a
  wrap that is not complete, and, negatively, the supply of the token.  \<open>delta c L ws\<close> is the
  change a write set makes to the sum of these over the ledger \<open>L\<close>, and \<open>total\<close> is that
  sum for a finite ledger.  An operation conserves money when its delta is zero: every unit it
  takes out of one document it puts into another.
\<close>

subsection \<open>Keys of different schemes differ\<close>

lemma key_neq [key_simps]:
  "acc_key i \<noteq> hld_key j b" "acc_key i \<noteq> bal_key j" "acc_key i \<noteq> log_key j m" 
  "acc_key i \<noteq> pb_key j" "acc_key i \<noteq> fee_key j" "acc_key i \<noteq> lpf_key j" 
  "acc_key i \<noteq> pay_key j" "acc_key i \<noteq> tok_key j" "acc_key i \<noteq> wrap_key j" 
  "acc_key i \<noteq> unwrap_key j" "hld_key i a \<noteq> acc_key j" 
  "hld_key i a \<noteq> bal_key j" "hld_key i a \<noteq> log_key j m" 
  "hld_key i a \<noteq> pb_key j" "hld_key i a \<noteq> fee_key j" 
  "hld_key i a \<noteq> lpf_key j" "hld_key i a \<noteq> pay_key j" 
  "hld_key i a \<noteq> tok_key j" "hld_key i a \<noteq> wrap_key j" 
  "hld_key i a \<noteq> unwrap_key j" "bal_key i \<noteq> acc_key j" 
  "bal_key i \<noteq> hld_key j b" "bal_key i \<noteq> log_key j m" "bal_key i \<noteq> pb_key j" 
  "bal_key i \<noteq> fee_key j" "bal_key i \<noteq> lpf_key j" "bal_key i \<noteq> pay_key j" 
  "bal_key i \<noteq> tok_key j" "bal_key i \<noteq> wrap_key j" "bal_key i \<noteq> unwrap_key j" 
  "log_key i n \<noteq> acc_key j" "log_key i n \<noteq> hld_key j b" 
  "log_key i n \<noteq> bal_key j" "log_key i n \<noteq> pb_key j" 
  "log_key i n \<noteq> fee_key j" "log_key i n \<noteq> lpf_key j" 
  "log_key i n \<noteq> pay_key j" "log_key i n \<noteq> tok_key j" 
  "log_key i n \<noteq> wrap_key j" "log_key i n \<noteq> unwrap_key j" 
  "pb_key i \<noteq> acc_key j" "pb_key i \<noteq> hld_key j b" "pb_key i \<noteq> bal_key j" 
  "pb_key i \<noteq> log_key j m" "pb_key i \<noteq> fee_key j" "pb_key i \<noteq> lpf_key j" 
  "pb_key i \<noteq> pay_key j" "pb_key i \<noteq> tok_key j" "pb_key i \<noteq> wrap_key j" 
  "pb_key i \<noteq> unwrap_key j" "fee_key i \<noteq> acc_key j" "fee_key i \<noteq> hld_key j b" 
  "fee_key i \<noteq> bal_key j" "fee_key i \<noteq> log_key j m" "fee_key i \<noteq> pb_key j" 
  "fee_key i \<noteq> lpf_key j" "fee_key i \<noteq> pay_key j" "fee_key i \<noteq> tok_key j" 
  "fee_key i \<noteq> wrap_key j" "fee_key i \<noteq> unwrap_key j" "lpf_key i \<noteq> acc_key j" 
  "lpf_key i \<noteq> hld_key j b" "lpf_key i \<noteq> bal_key j" "lpf_key i \<noteq> log_key j m" 
  "lpf_key i \<noteq> pb_key j" "lpf_key i \<noteq> fee_key j" "lpf_key i \<noteq> pay_key j" 
  "lpf_key i \<noteq> tok_key j" "lpf_key i \<noteq> wrap_key j" "lpf_key i \<noteq> unwrap_key j" 
  "pay_key i \<noteq> acc_key j" "pay_key i \<noteq> hld_key j b" "pay_key i \<noteq> bal_key j" 
  "pay_key i \<noteq> log_key j m" "pay_key i \<noteq> pb_key j" "pay_key i \<noteq> fee_key j" 
  "pay_key i \<noteq> lpf_key j" "pay_key i \<noteq> tok_key j" "pay_key i \<noteq> wrap_key j" 
  "pay_key i \<noteq> unwrap_key j" "tok_key i \<noteq> acc_key j" 
  "tok_key i \<noteq> hld_key j b" "tok_key i \<noteq> bal_key j" "tok_key i \<noteq> log_key j m" 
  "tok_key i \<noteq> pb_key j" "tok_key i \<noteq> fee_key j" "tok_key i \<noteq> lpf_key j" 
  "tok_key i \<noteq> pay_key j" "tok_key i \<noteq> wrap_key j" "tok_key i \<noteq> unwrap_key j" 
  "wrap_key i \<noteq> acc_key j" "wrap_key i \<noteq> hld_key j b" 
  "wrap_key i \<noteq> bal_key j" "wrap_key i \<noteq> log_key j m" "wrap_key i \<noteq> pb_key j" 
  "wrap_key i \<noteq> fee_key j" "wrap_key i \<noteq> lpf_key j" "wrap_key i \<noteq> pay_key j" 
  "wrap_key i \<noteq> tok_key j" "wrap_key i \<noteq> unwrap_key j" 
  "unwrap_key i \<noteq> acc_key j" "unwrap_key i \<noteq> hld_key j b" 
  "unwrap_key i \<noteq> bal_key j" "unwrap_key i \<noteq> log_key j m" 
  "unwrap_key i \<noteq> pb_key j" "unwrap_key i \<noteq> fee_key j" 
  "unwrap_key i \<noteq> lpf_key j" "unwrap_key i \<noteq> pay_key j" 
  "unwrap_key i \<noteq> tok_key j" "unwrap_key i \<noteq> wrap_key j"
  by (auto simp: key_defs)

subsection \<open>The worth of a document\<close>

text \<open>An address is its token code and 50 hexadecimal digits; case does not matter.\<close>

definition tcode :: "string \<Rightarrow> string" where
  "tcode addr = to_upper (take (length addr - 50) addr)"

lemma to_upper_take: "to_upper (take n s) = take n (to_upper s)"
  by (simp add: to_upper_def take_map)

lemma tcode_upper [simp]: "tcode (to_upper s) = tcode s"
  by (simp add: tcode_def to_upper_take)

lemma tcode_addr_String: "addr_ok st a \<Longrightarrow> tcode (addr_String a) = addr_Code a"
  by (simp add: tcode_def to_upper_take upper_addr_String length_addr_String) (simp add: addr_String_def)

lemma ParseCode_tcode: "(case ParseCode s of Inl e \<Rightarrow> [] | Inr c \<Rightarrow> c) = tcode s"
  by (simp add: ParseCode_def tcode_def to_upper_def Let_def)

definition in_code :: "string \<Rightarrow> string \<Rightarrow> int \<Rightarrow> int" where
  "in_code c addr x = (if tcode addr = c then x else 0)"

lemma in_code_arith:
  "in_code c a (x + y) = in_code c a x + in_code c a y" "in_code c a (- x) = - in_code c a x"
  "in_code c a (x - y) = in_code c a x - in_code c a y" "in_code c a 0 = 0"
  by (simp_all add: in_code_def)

lemma in_code_cong: "tcode a = tcode b \<Longrightarrow> in_code c a x = in_code c b x"
  by (simp add: in_code_def)

definition fee_or_0 :: "int option \<Rightarrow> int" where
  "fee_or_0 f = (case f of None \<Rightarrow> 0 | Some x \<Rightarrow> x)"

lemma fee_or_0_simps [simp]: "fee_or_0 None = 0" "fee_or_0 (Some x) = x"
  by (simp_all add: fee_or_0_def)

definition worth_bal :: "string \<Rightarrow> Balance \<Rightarrow> int" where
  "worth_bal c b = in_code c (bal_DOCTYPEID b) (bal_Amount b)"

definition worth_pb :: "string \<Rightarrow> PendingBalance \<Rightarrow> int" where
  "worth_pb c p = in_code c (pb_Account p) (pb_Amount p + fee_or_0 (pb_Fee p))"

definition worth_fee :: "string \<Rightarrow> Fee \<Rightarrow> int" where
  "worth_fee c f = in_code c (fee_Account f) (fee_Amount f)"

definition worth_pay :: "string \<Rightarrow> Pay \<Rightarrow> int" where
  "worth_pay c p = in_code c (pay_DOCTYPEID p) (pay_Amount p)"

definition worth_wrap :: "string \<Rightarrow> Wrap \<Rightarrow> int" where
  "worth_wrap c w = (if wr_CompleteTxID w = [] then in_code c (wr_Address w) (wr_Amount w) else 0)"

definition worth_tok :: "string \<Rightarrow> Token \<Rightarrow> int" where
  "worth_tok c t = (if tok_DOCTYPEID t = c then - tok_Supply t else 0)"

definition worth_doc :: "('a \<Rightarrow> int) \<Rightarrow> goerr + 'a \<Rightarrow> int" where
  "worth_doc f r = (case r of Inl e \<Rightarrow> 0 | Inr x \<Rightarrow> f x)"

lemma worth_doc_Inr [simp]: "worth_doc f (Inr x) = f x"
  by (simp add: worth_doc_def)

definition worth :: "string \<Rightarrow> string \<Rightarrow> json option \<Rightarrow> int" where
  "worth c k v =
     (case v of None \<Rightarrow> 0 | Some j \<Rightarrow>
      if key_tag k = ''BLC'' then worth_doc (worth_bal c) (unmarshal_Balance j)
      else if key_tag k = ''PBLC'' then worth_doc (worth_pb c) (unmarshal_PendingBalance j)
      else if key_tag k = ''FEE'' then worth_doc (worth_fee c) (unmarshal_Fee j)
      else if key_tag k = ''PAY'' then worth_doc (worth_pay c) (unmarshal_Pay j)
      else if key_tag k = ''WRAP'' then worth_doc (worth_wrap c) (unmarshal_Wrap j)
      else if key_tag k = ''TKN'' then worth_doc (worth_tok c) (unmarshal_Token j)
      else 0)"

lemma worth_None [simp]: "worth c k None = 0"
  by (simp add: worth_def)

lemma worth_free [simp]:
  "worth c (log_key i n) v = 0" "worth c (acc_key i) v = 0" "worth c (hld_key i a) v = 0"
  "worth c (lpf_key i) v = 0" "worth c (unwrap_key i) v = 0"
  by (simp_all add: worth_def key_simps split: option.split)

lemma worth_Some [simp]:
  "worth c (bal_key i) (Some (marshal_Balance b)) = worth_bal c b"
  "worth c (fee_key i) (Some (marshal_Fee f)) = worth_fee c f"
  "i \<noteq> [] \<Longrightarrow> worth c (pay_key i) (Some (marshal_Pay p)) = worth_pay c p"
  "worth c (wrap_key i) (Some (marshal_Wrap w)) = worth_wrap c w"
  "- 128 \<le> pb_Type q \<Longrightarrow> pb_Type q \<le> 127 \<Longrightarrow>
     worth c (pb_key i) (Some (marshal_PendingBalance q)) = worth_pb c q"
  "token_ok t \<Longrightarrow> worth c (tok_key i) (Some (marshal_Token t)) = worth_tok c t"
  by (simp_all add: worth_def key_simps balance_codec.unmarshal_marshal fee_codec.unmarshal_marshal
      pay_codec.unmarshal_marshal wrap_codec.unmarshal_marshal pending_codec.unmarshal_marshal
      token_codec.unmarshal_marshal)

subsection \<open>The change a write set makes\<close>

fun delta :: "string \<Rightarrow> ledger \<Rightarrow> writes \<Rightarrow> int" where
  "delta c L [] = 0"
| "delta c L (w # ws) =
     worth c (write_key w) (apply_write L w (write_key w)) - worth c (write_key w) (L (write_key w)) +
     delta c (apply_write L w) ws"

lemma delta_append: "delta c L (ws @ ws') = delta c L ws + delta c (commit L ws) ws'"
  by (induction ws arbitrary: L) simp_all

definition total :: "string \<Rightarrow> ledger \<Rightarrow> int" where
  "total c L = (\<Sum>k\<in>dom L. worth c k (L k))"

lemma total_superset: "finite A \<Longrightarrow> dom L \<subseteq> A \<Longrightarrow> total c L = (\<Sum>k\<in>A. worth c k (L k))"
  unfolding total_def by (rule sum.mono_neutral_left) (auto simp: dom_def)

lemma finite_dom_apply [simp]: "finite (dom (apply_write L w)) \<longleftrightarrow> finite (dom L)"
  by (cases w) simp_all

lemma total_apply:
  assumes "finite (dom L)"
  shows "total c (apply_write L w) - total c L =
    worth c (write_key w) (apply_write L w (write_key w)) - worth c (write_key w) (L (write_key w))"
proof -
  let ?k = "write_key w" and ?A = "insert (write_key w) (dom L)"
  have fin: "finite ?A" using assms by simp
  have same: "apply_write L w k = L k" if "k \<noteq> ?k" for k using that by (cases w) simp_all
  have sub: "dom (apply_write L w) \<subseteq> ?A" by (cases w) auto
  have "total c (apply_write L w) = (\<Sum>k\<in>?A. worth c k (apply_write L w k))"
    using fin sub by (rule total_superset)
  also have "\<dots> = worth c ?k (apply_write L w ?k) + (\<Sum>k\<in>?A - {?k}. worth c k (apply_write L w k))"
    using fin by (subst sum.remove [of _ ?k]) auto
  also have "(\<Sum>k\<in>?A - {?k}. worth c k (apply_write L w k)) = (\<Sum>k\<in>?A - {?k}. worth c k (L k))"
    by (rule sum.cong) (auto simp: same)
  moreover have "total c L = worth c ?k (L ?k) + (\<Sum>k\<in>?A - {?k}. worth c k (L k))"
    using total_superset [OF fin, of L c] sum.remove [OF fin, of ?k "\<lambda>k. worth c k (L k)"] by auto
  ultimately show ?thesis by simp
qed

lemma total_commit: "finite (dom L) \<Longrightarrow> total c (commit L ws) = total c L + delta c L ws"
proof (induction ws arbitrary: L)
  case Nil
  then show ?case by simp
next
  case (Cons w ws)
  then have "total c (commit (apply_write L w) ws) = total c (apply_write L w) + delta c (apply_write L w) ws"
    by simp
  then show ?case using total_apply [OF Cons.prems, of c w] by simp
qed

subsection \<open>The worth of what a transaction reads\<close>

lemma worth_read [simp]:
  "worth c (bal_key i) (ledger_of st (bal_key i)) = worth_doc (worth_bal c) (GetBalance st i)"
  "worth c (pb_key i) (ledger_of st (pb_key i)) = worth_doc (worth_pb c) (GetPendingBalance st i)"
  "worth c (wrap_key i) (ledger_of st (wrap_key i)) = worth_doc (worth_wrap c) (GetWrap st i)"
  "worth c (tok_key i) (ledger_of st (tok_key i)) = worth_doc (worth_tok c) (GetToken st i)"
  "i \<noteq> [] \<Longrightarrow> worth c (pay_key i) (ledger_of st (pay_key i)) = worth_doc (worth_pay c) (GetPay st i)"
  by (auto simp: worth_def worth_doc_def ledger_of_def key_simps get_state_def GetBalance_def
      GetBalanceState_def GetPendingBalance_def GetWrap_def GetToken_def GetTokenState_def
      GetPay_def GetPayState_def split: sum.splits option.splits)

subsection \<open>Documents kept under their own keys\<close>

text \<open>
  The invariant of the world state every operation relies on when it writes back what it has
  read: a document is kept under the key of its own id.
\<close>

definition keyed_doc :: "string \<Rightarrow> json \<Rightarrow> bool" where
  "keyed_doc k j \<longleftrightarrow>
     (\<forall>i b. k = bal_key i \<longrightarrow> unmarshal_Balance j = Inr b \<longrightarrow> bal_DOCTYPEID b = i) \<and>
     (\<forall>i p. k = pb_key i \<longrightarrow> unmarshal_PendingBalance j = Inr p \<longrightarrow> pb_DOCTYPEID p = i) \<and>
     (\<forall>i p. k = pay_key i \<longrightarrow> i \<noteq> [] \<longrightarrow> unmarshal_Pay j = Inr p \<longrightarrow> pay_PayID p = i) \<and>
     (\<forall>i w. k = wrap_key i \<longrightarrow> unmarshal_Wrap j = Inr w \<longrightarrow> wr_DOCTYPEID w = i) \<and>
     (\<forall>i t. k = tok_key i \<longrightarrow> unmarshal_Token j = Inr t \<longrightarrow> tok_DOCTYPEID t = i) \<and>
     (\<forall>i l. k = lpf_key i \<longrightarrow> unmarshal_LastPrunedFeeID j = Inr l \<longrightarrow> lpf_DOCTYPEID l = i) \<and>
     (\<forall>i a. k = acc_key i \<longrightarrow> unmarshal_Account j = Inr a \<longrightarrow> acc_DOCTYPEID a = i) \<and>
     (\<forall>i a. k = acc_key i \<longrightarrow> unmarshal_JointAccount j = Inr a \<longrightarrow> acc_DOCTYPEID (jac_Account a) = i)"

definition keyed :: "ledger \<Rightarrow> bool" where
  "keyed L \<longleftrightarrow> (\<forall>k j. L k = Some j \<longrightarrow> keyed_doc k j)"

fun keyed_write :: "write_op \<Rightarrow> bool" where
  "keyed_write (Put k j) = keyed_doc k j"
| "keyed_write (Del k) = True"

lemma keyed_commit: "keyed L \<Longrightarrow> \<forall>w\<in>set ws. keyed_write w \<Longrightarrow> keyed (commit L ws)"
proof (induction ws arbitrary: L)
  case Nil
  then show ?case by simp
next
  case (Cons w ws)
  then have "keyed (apply_write L w)" by (cases w) (auto simp: keyed_def)
  with Cons show ?case by simp
qed

lemma keyed_reads:
  assumes "keyed (ledger_of st)"
  shows "GetBalance st i = Inr b \<Longrightarrow> bal_DOCTYPEID b = i"
    and "GetPendingBalance st i = Inr p \<Longrightarrow> pb_DOCTYPEID p = i"
    and "GetPay st i = Inr q \<Longrightarrow> i \<noteq> [] \<Longrightarrow> pay_PayID q = i"
    and "GetWrap st i = Inr w \<Longrightarrow> wr_DOCTYPEID w = i"
    and "GetToken st i = Inr t \<Longrightarrow> tok_DOCTYPEID t = i"
    and "GetLastPrunedFeeID st i = Inr l \<Longrightarrow> lpf_DOCTYPEID l = i"
  using assms
  by (auto simp: keyed_def keyed_doc_def dest!: balance_store.get_Inr_ledger
      pending_store.get_Inr_ledger pay_store.get_Inr_ledger wrap_store.get_Inr_ledger
      token_store.get_Inr_ledger lpf_store.get_Inr_ledger)

lemma keyed_account:
  assumes "keyed (ledger_of st)" and "GetAccount st addr = Inr a"
  shows "ai_GetID a = addr_String addr"
  using assms by (auto simp: GetAccount_Inr keyed_def keyed_doc_def dest!: ledger_of_Inr)

text \<open>The id of a document is a plain string member, so it survives whatever the other members hold.\<close>

lemma ids_survive:
  "unmarshal_PendingBalance (marshal_PendingBalance p) = Inr p' \<Longrightarrow> pb_DOCTYPEID p' = pb_DOCTYPEID p"
  "unmarshal_Account (marshal_Account a) = Inr a' \<Longrightarrow> acc_DOCTYPEID a' = acc_DOCTYPEID a"
  "unmarshal_JointAccount (marshal_Account a) = Inr j' \<Longrightarrow> acc_DOCTYPEID (jac_Account j') = acc_DOCTYPEID a"
  "unmarshal_Account (marshal_JointAccount st j) = Inr a' \<Longrightarrow> acc_DOCTYPEID a' = acc_DOCTYPEID (jac_Account j)"
  "unmarshal_JointAccount (marshal_JointAccount st j) = Inr j' \<Longrightarrow>
     acc_DOCTYPEID (jac_Account j') = acc_DOCTYPEID (jac_Account j)"
  by (auto simp: unmarshal_PendingBalance_def marshal_PendingBalance_def dec_PendingBalance_def
      zero_PendingBalance_def unmarshal_Account_def marshal_Account_def dec_Account_def zero_Account_def
      unmarshal_JointAccount_def marshal_JointAccount_def dec_JointAccount_def Let_def codec_simps ok_simps)

lemma token_survives:
  assumes "unmarshal_Token (marshal_Token t) = Inr t'"
  shows "tok_DOCTYPEID t' = tok_DOCTYPEID t" "tok_Supply t' = tok_Supply t" "tok_MaxSupply t' = tok_MaxSupply t"
  using assms
  by (auto simp: unmarshal_Token_def marshal_Token_def dec_Token_def zero_Token_def codec_simps ok_simps)

lemma keyed_puts [simp]:
  "keyed_doc (bal_key (bal_DOCTYPEID b)) (marshal_Balance b)"
  "keyed_doc (pb_key (pb_DOCTYPEID p)) (marshal_PendingBalance p)"
  "keyed_doc (pay_key (pay_PayID q)) (marshal_Pay q)"
  "keyed_doc (wrap_key (wr_DOCTYPEID w)) (marshal_Wrap w)"
  "keyed_doc (tok_key (tok_DOCTYPEID t)) (marshal_Token t)"
  "keyed_doc (acc_key (ai_GetID a)) (marshal_AccountI st a)"
  "keyed_doc (log_key i n) j" "keyed_doc (hld_key i a') j"
  "keyed_doc (lpf_key (lpf_DOCTYPEID l)) (marshal_LastPrunedFeeID l)" "keyed_doc (unwrap_key i) j" "keyed_doc (fee_key i) j"
  by (cases a; auto simp: keyed_doc_def key_simps balance_codec.unmarshal_marshal pay_codec.unmarshal_marshal
      wrap_codec.unmarshal_marshal lpf_codec.unmarshal_marshal ids_survive token_survives)+

lemmas worth_defs = worth_bal_def worth_pb_def worth_fee_def worth_pay_def worth_wrap_def worth_tok_def

end
