(* ===== verification/Balances.thy ===== *)
theory Balances
  imports Fees Value
begin

text \<open>
  The constructors of balance logs and pending balances (\<open>balance.go\<close>) and the operations of
  \<open>BalanceStub\<close> (\<open>balance_stub.go\<close>).  A balance passed by pointer and changed in place is
  an argument; its new value is in the write set, and is returned only where a caller reads it
  again.  Every operation is shown to conserve money.
\<close>

definition MemoMaxLength :: nat where "MemoMaxLength = 1024"
definition BalanceLogsFetchSize :: int where "BalanceLogsFetchSize = 20"
definition PendingBalancesFetchSize :: int where "PendingBalancesFetchSize = 20"

subsection \<open>Balance logs\<close>

definition NewBalanceSupplyLog :: "Balance \<Rightarrow> int \<Rightarrow> BalanceLog" where
  "NewBalanceSupplyLog bal diff =
     (if diff < 0
      then zero_BalanceLog\<lparr>bl_DOCTYPEID := bal_DOCTYPEID bal, bl_Type := BalanceLogTypeBurn,
             bl_Diff := diff, bl_Amount := bal_Amount bal\<rparr>
      else zero_BalanceLog\<lparr>bl_DOCTYPEID := bal_DOCTYPEID bal, bl_Type := BalanceLogTypeMint,
             bl_Diff := diff, bl_Amount := bal_Amount bal\<rparr>)"

definition NewBalanceTransferLog ::
  "Balance \<Rightarrow> Balance \<Rightarrow> int \<Rightarrow> int option \<Rightarrow> string \<Rightarrow> string \<Rightarrow> BalanceLog" where
  "NewBalanceTransferLog sender receiver diff fee memo orderID =
     (if diff < 0
      then zero_BalanceLog\<lparr>bl_DOCTYPEID := bal_DOCTYPEID sender, bl_Type := BalanceLogTypeSend,
             bl_RID := bal_DOCTYPEID receiver, bl_Diff := diff, bl_Fee := fee,
             bl_Amount := bal_Amount sender, bl_Memo := memo, bl_OrderID := orderID\<rparr>
      else zero_BalanceLog\<lparr>bl_DOCTYPEID := bal_DOCTYPEID receiver, bl_Type := BalanceLogTypeReceive,
             bl_RID := bal_DOCTYPEID sender, bl_Diff := diff, bl_Amount := bal_Amount receiver,
             bl_Memo := memo, bl_OrderID := orderID\<rparr>)"

definition NewBalanceDepositLog :: "Balance \<Rightarrow> PendingBalance \<Rightarrow> BalanceLog" where
  "NewBalanceDepositLog bal pb =
     zero_BalanceLog\<lparr>bl_DOCTYPEID := bal_DOCTYPEID bal, bl_Type := BalanceLogTypeDeposit,
       bl_RID := pb_RID pb, bl_Diff := - pb_Amount pb, bl_Fee := pb_Fee pb,
       bl_Amount := bal_Amount bal, bl_Memo := pb_Memo pb, bl_OrderID := pb_OrderID pb\<rparr>"

definition NewBalanceWithdrawLog :: "Balance \<Rightarrow> PendingBalance \<Rightarrow> BalanceLog" where
  "NewBalanceWithdrawLog bal pb =
     (let diff = (case pb_Fee pb of None \<Rightarrow> pb_Amount pb | Some f \<Rightarrow> pb_Amount pb + f) in
      zero_BalanceLog\<lparr>bl_DOCTYPEID := bal_DOCTYPEID bal, bl_Type := BalanceLogTypeWithdraw,
        bl_RID := pb_RID pb, bl_Diff := diff, bl_Amount := bal_Amount bal,
        bl_Memo := pb_Memo pb, bl_OrderID := pb_OrderID pb\<rparr>)"

definition NewBalancePayLog :: "Balance \<Rightarrow> Pay \<Rightarrow> BalanceLog" where
  "NewBalancePayLog bal pay =
     zero_BalanceLog\<lparr>bl_DOCTYPEID := bal_DOCTYPEID bal, bl_Type := BalanceLogTypePay,
       bl_RID := pay_DOCTYPEID pay, bl_Diff := - pay_Amount pay, bl_Amount := bal_Amount bal,
       bl_Memo := pay_Memo pay, bl_PayID := pay_PayID pay, bl_OrderID := pay_OrderID pay\<rparr>"

definition NewBalanceRefundLog :: "Balance \<Rightarrow> Pay \<Rightarrow> BalanceLog" where
  "NewBalanceRefundLog bal pay =
     zero_BalanceLog\<lparr>bl_DOCTYPEID := bal_DOCTYPEID bal, bl_Type := BalanceLogTypeRefund,
       bl_RID := pay_DOCTYPEID pay, bl_Diff := - pay_Amount pay, bl_Amount := bal_Amount bal,
       bl_Memo := pay_Memo pay, bl_PayID := pay_PayID pay, bl_OrderID := pay_OrderID pay\<rparr>"

definition NewBalancePrunePayLog :: "Balance \<Rightarrow> int \<Rightarrow> string \<Rightarrow> string \<Rightarrow> BalanceLog" where
  "NewBalancePrunePayLog bal amount startID endID =
     zero_BalanceLog\<lparr>bl_DOCTYPEID := bal_DOCTYPEID bal, bl_Type := BalanceLogTypePrunePay,
       bl_Diff := amount, bl_Amount := bal_Amount bal, bl_PruneStartID := startID,
       bl_PruneEndID := endID\<rparr>"

definition NewBalancePruneFeeLog :: "Balance \<Rightarrow> int \<Rightarrow> string \<Rightarrow> string \<Rightarrow> BalanceLog" where
  "NewBalancePruneFeeLog bal amount startID endID =
     zero_BalanceLog\<lparr>bl_DOCTYPEID := bal_DOCTYPEID bal, bl_Type := BalanceLogTypePruneFee,
       bl_Diff := amount, bl_Amount := bal_Amount bal, bl_PruneStartID := startID,
       bl_PruneEndID := endID\<rparr>"

definition NewBalanceWrapLog ::
  "Balance \<Rightarrow> int \<Rightarrow> string \<Rightarrow> string \<Rightarrow> string \<Rightarrow> string \<Rightarrow> BalanceLog" where
  "NewBalanceWrapLog bal diff extCode extID memo orderID =
     zero_BalanceLog\<lparr>bl_DOCTYPEID := bal_DOCTYPEID bal, bl_Type := BalanceLogTypeWrap,
       bl_RID := extID, bl_Diff := diff, bl_Amount := bal_Amount bal, bl_ExtCode := extCode,
       bl_Memo := memo, bl_OrderID := orderID\<rparr>"

definition NewBalanceUnwrapLog ::
  "Balance \<Rightarrow> int \<Rightarrow> string \<Rightarrow> string \<Rightarrow> string \<Rightarrow> BalanceLog" where
  "NewBalanceUnwrapLog bal diff extCode extID extTxID =
     zero_BalanceLog\<lparr>bl_DOCTYPEID := bal_DOCTYPEID bal, bl_Type := BalanceLogTypeUnwrap,
       bl_RID := extID, bl_Diff := diff, bl_Amount := bal_Amount bal, bl_ExtCode := extCode,
       bl_ExtTxID := extTxID\<rparr>"

definition NewBalanceWrapCompleteLog :: "Balance \<Rightarrow> Wrap \<Rightarrow> int option \<Rightarrow> BalanceLog" where
  "NewBalanceWrapCompleteLog bal wrap fee =
     zero_BalanceLog\<lparr>bl_DOCTYPEID := bal_DOCTYPEID bal, bl_Type := BalanceLogTypeWrapComplete,
       bl_RID := wr_DOCTYPEID wrap, bl_Diff := wr_Amount wrap, bl_Fee := fee,
       bl_Amount := bal_Amount bal, bl_ExtCode := wr_ExtCode wrap,
       bl_ExtTxID := wr_CompleteTxID wrap, bl_OrderID := wr_OrderID wrap\<rparr>"

definition NewBalanceUnwrapCompleteLog ::
  "Balance \<Rightarrow> Balance \<Rightarrow> int \<Rightarrow> string \<Rightarrow> string \<Rightarrow> BalanceLog" where
  "NewBalanceUnwrapCompleteLog wrapper receiver diff extCode extTxID =
     zero_BalanceLog\<lparr>bl_DOCTYPEID := bal_DOCTYPEID wrapper,
       bl_Type := BalanceLogTypeUnwrapComplete, bl_RID := bal_DOCTYPEID receiver,
       bl_Diff := diff, bl_Amount := bal_Amount wrapper, bl_ExtCode := extCode,
       bl_ExtTxID := extTxID\<rparr>"

subsection \<open>Pending balances\<close>

text \<open>
  The relative of a pending balance is an account or a contract: the constructor takes its
  dynamic type and the result of its \<open>GetID\<close>, which panics for a contract without an id.
\<close>

datatype relative = RelBalance Balance | RelContract Contract

fun rel_type :: "relative \<Rightarrow> int" where
  "rel_type (RelBalance b) = PendingBalanceTypeAccount"
| "rel_type (RelContract c) = PendingBalanceTypeContract"

fun rel_GetID :: "relative \<Rightarrow> goerr + string" where
  "rel_GetID (RelBalance b) = Inr (bal_DOCTYPEID b)"
| "rel_GetID (RelContract c) = con_GetID c"

definition NewPendingBalance ::
  "string \<Rightarrow> string \<Rightarrow> relative \<Rightarrow> int \<Rightarrow> int option \<Rightarrow> string \<Rightarrow> string \<Rightarrow> gotime option \<Rightarrow>
   goerr + PendingBalance" where
  "NewPendingBalance ident owner rel amount fee memo orderID pTime = 
     (case rel_GetID rel of Inl e \<Rightarrow> Inl e | Inr rid \<Rightarrow>
     Inr \<lparr>pb_DOCTYPEID = ident, pb_Type = rel_type rel, pb_Account = owner, pb_RID = rid,
          pb_Amount = amount, pb_Fee = fee, pb_Memo = memo, pb_OrderID = orderID,
          pb_CreatedTime = None, pb_PendingTime = pTime\<rparr>)"

lemma rel_type_range [simp]: "- 128 \<le> rel_type r" "rel_type r \<le> 127"
  by (cases r; simp add: PendingBalanceTypeAccount_def PendingBalanceTypeContract_def)+

lemma pending_type_range [simp]:
  "- 128 \<le> PendingBalanceTypeAccount" "PendingBalanceTypeAccount \<le> 127"
  "- 128 \<le> PendingBalanceTypeContract" "PendingBalanceTypeContract \<le> 127"
  by (simp_all add: PendingBalanceTypeAccount_def PendingBalanceTypeContract_def)

subsection \<open>BalanceStub\<close>

definition CreateBalance :: "stub \<Rightarrow> writes \<Rightarrow> string \<Rightarrow> goerr + Balance \<times> writes" where
  "CreateBalance st ws i = 
     (case get_time st of
        Inl e \<Rightarrow> Inl (err_wrap e ''failed to get the timestamp'') | Inr ts \<Rightarrow>
     (let b = zero_Balance\<lparr>bal_DOCTYPEID := i, bal_CreatedTime := Some ts, bal_UpdatedTime := Some ts\<rparr> in
     (case PutBalance st ws b of
        Inl e \<Rightarrow> Inl (err_wrap e ''failed to create a balance'') | Inr ws \<Rightarrow>
     Inr (b, ws))))"

text \<open>The first record of a query decides: the iteration returns within its first turn.\<close>

definition first_log :: "stub \<Rightarrow> query \<Rightarrow> goerr + BalanceLog" where
  "first_log st q = 
     (case st_query st q of Inl e \<Rightarrow> Inl e | Inr iter \<Rightarrow>
     (case iter of
        [] \<Rightarrow> Inl (Plain ''balance is not exists'')
      | r # rs \<Rightarrow> (case r of Inl e \<Rightarrow> Inl e | Inr kv \<Rightarrow> unmarshal_BalanceLog kv)))"

definition GetQueryBalaceLogByDocumentID :: "stub \<Rightarrow> string \<Rightarrow> goerr + BalanceLog" where
  "GetQueryBalaceLogByDocumentID st i = first_log st (CreateQueryDocumentByID i)"

definition GetQueryBalaceLogByOrderID :: "stub \<Rightarrow> string \<Rightarrow> string \<Rightarrow> goerr + BalanceLog" where
  "GetQueryBalaceLogByOrderID st orderID typeStr =
     first_log st (CreateQueryBalanceLogByOrderID orderID typeStr)"

definition GetQueryBalanceLogs ::
  "stub \<Rightarrow> string \<Rightarrow> string \<Rightarrow> string \<Rightarrow> int \<Rightarrow> gotime option \<Rightarrow> gotime option \<Rightarrow> goerr + QueryResult"
where
  "GetQueryBalanceLogs st i typeStr bookmark fetchSize stime etime =
     query_page st
       (if stime \<noteq> None \<or> etime \<noteq> None then CreateQueryBalanceLogsByIDAndTimes i typeStr stime etime
        else CreateQueryBalanceLogsByID i typeStr)
       (clamp_fetch BalanceLogsFetchSize fetchSize) bookmark"

definition GetQueryPendingBalances ::
  "stub \<Rightarrow> string \<Rightarrow> string \<Rightarrow> string \<Rightarrow> int \<Rightarrow> goerr + QueryResult" where
  "GetQueryPendingBalances st addr sorting bookmark fetchSize =
     query_page st (CreateQueryPendingBalancesByAddress addr sorting)
       (clamp_fetch PendingBalancesFetchSize fetchSize) bookmark"

definition Supply :: "stub \<Rightarrow> writes \<Rightarrow> Balance \<Rightarrow> int \<Rightarrow> goerr + BalanceLog \<times> writes" where
  "Supply st ws bal amount = 
     (case get_time st of
        Inl e \<Rightarrow> Inl (err_wrap e ''failed to get the timestamp'') | Inr ts \<Rightarrow>
     (let bal = bal\<lparr>bal_Amount := bal_Amount bal + amount, bal_UpdatedTime := Some ts\<rparr> in
     (case PutBalance st ws bal of Inl e \<Rightarrow> Inl e | Inr ws \<Rightarrow>
     (let log = (NewBalanceSupplyLog bal amount)\<lparr>bl_CreatedTime := Some ts\<rparr> in
     (case PutBalanceLog st ws log of Inl e \<Rightarrow> Inl e | Inr ws \<Rightarrow>
     Inr (log, ws))))))"

text \<open>A pending time not after the transaction's time is no lock.\<close>

definition locked :: "gotime option \<Rightarrow> gotime \<Rightarrow> bool" where
  "locked pendingTime ts \<longleftrightarrow> (case pendingTime of None \<Rightarrow> False | Some t \<Rightarrow> 0 < time_cmp t ts)"

text \<open>
  The receiving half of \<open>Transfer\<close> and \<open>TransferPendingBalance\<close>: a time lock makes a
  pending balance owned by the receiver, otherwise the receiver's balance grows and is logged.
\<close>

definition transfer_receive ::
  "stub \<Rightarrow> writes \<Rightarrow> gotime \<Rightarrow> Balance \<Rightarrow> Balance \<Rightarrow> int \<Rightarrow> string \<Rightarrow> string \<Rightarrow> gotime option \<Rightarrow>
   goerr + Balance \<times> writes" where
  "transfer_receive st ws ts sender receiver amount memo orderID pendingTime =
     (if locked pendingTime ts
      then 
     (case NewPendingBalance (st_txid st) (bal_DOCTYPEID receiver) (RelBalance sender) amount None memo orderID pendingTime of
        Inl e \<Rightarrow> Inl e | Inr pb \<Rightarrow>
     (let pb = pb\<lparr>pb_CreatedTime := Some ts\<rparr> in
     (case PutPendingBalance st ws pb of Inl e \<Rightarrow> Inl e | Inr ws \<Rightarrow>
     Inr (receiver, ws))))
      else
     (let receiver = receiver\<lparr>bal_Amount := bal_Amount receiver + amount, bal_UpdatedTime := Some ts\<rparr> in 
     (case PutBalance st ws receiver of Inl e \<Rightarrow> Inl e | Inr ws \<Rightarrow>
     (let rbl = (NewBalanceTransferLog sender receiver amount None memo orderID)
                  \<lparr>bl_CreatedTime := Some ts\<rparr> in
     (case PutBalanceLog st ws rbl of Inl e \<Rightarrow> Inl e | Inr ws \<Rightarrow>
     Inr (receiver, ws))))))"

definition Transfer ::
  "stub \<Rightarrow> writes \<Rightarrow> Balance \<Rightarrow> Balance \<Rightarrow> int \<Rightarrow> int \<Rightarrow> string \<Rightarrow> string \<Rightarrow> gotime option \<Rightarrow>
   goerr + BalanceLog \<times> writes" where
  "Transfer st ws sender receiver amount fee memo orderID pendingTime = 
     (case get_time st of
        Inl e \<Rightarrow> Inl (err_wrap e ''failed to get the timestamp'') | Inr ts \<Rightarrow>
     (case transfer_receive st ws ts sender receiver amount memo orderID pendingTime of
        Inl e \<Rightarrow> Inl e | Inr (receiver, ws) \<Rightarrow>
     (let amount = - amount;
          sender = sender\<lparr>bal_Amount := bal_Amount sender + amount + - fee, bal_UpdatedTime := Some ts\<rparr> in
     (case PutBalance st ws sender of Inl e \<Rightarrow> Inl e | Inr ws \<Rightarrow>
     (let sbl = (NewBalanceTransferLog sender receiver amount (Some fee) memo orderID)
                  \<lparr>bl_CreatedTime := Some ts\<rparr> in
     (case PutBalanceLog st ws sbl of Inl e \<Rightarrow> Inl e | Inr ws \<Rightarrow>
     (case CreateFee st ws (bal_DOCTYPEID sender) fee of
        Inl e \<Rightarrow> Inl e | Inr (f, ws) \<Rightarrow>
     Inr (sbl, ws))))))))"

definition TransferPendingBalance ::
  "stub \<Rightarrow> writes \<Rightarrow> PendingBalance \<Rightarrow> Balance \<Rightarrow> Balance \<Rightarrow> gotime option \<Rightarrow> goerr + writes" where
  "TransferPendingBalance st ws pb sender receiver pendingTime = 
     (case get_time st of
        Inl e \<Rightarrow> Inl (err_wrap e ''failed to get the timestamp'') | Inr ts \<Rightarrow>
     (case transfer_receive st ws ts sender receiver (pb_Amount pb) (pb_Memo pb) (pb_OrderID pb) pendingTime of
        Inl e \<Rightarrow> Inl e | Inr (receiver, ws) \<Rightarrow>
     (case (case pb_Fee pb of None \<Rightarrow> Inr ws | Some f \<Rightarrow> map_sum id snd (CreateFee st ws (pb_Account pb) f)) of
        Inl e \<Rightarrow> Inl e | Inr ws \<Rightarrow>
     DeletePendingBalance st ws pb)))"

text \<open>\<open>applied\<close> is the amount with its fee.\<close>

definition applied :: "int \<Rightarrow> int option \<Rightarrow> int" where
  "applied amount fee = (case fee of None \<Rightarrow> amount | Some f \<Rightarrow> amount + f)"

definition Deposit ::
  "stub \<Rightarrow> writes \<Rightarrow> string \<Rightarrow> Balance \<Rightarrow> Contract \<Rightarrow> int \<Rightarrow> int option \<Rightarrow> string \<Rightarrow> string \<Rightarrow>
   goerr + BalanceLog \<times> writes" where
  "Deposit st ws i sender con amount fee memo orderID = 
     (case get_time st of
        Inl e \<Rightarrow> Inl (err_wrap e ''failed to get the timestamp'') | Inr ts \<Rightarrow>
     (case con_GetExpiryTime con of
        Inl e \<Rightarrow> Inl (err_wrap e ''failed to get the expiry time'') | Inr expiryTime \<Rightarrow>
     (case NewPendingBalance i (bal_DOCTYPEID sender) (RelContract con) amount fee memo orderID (Some expiryTime) of
        Inl e \<Rightarrow> Inl e | Inr pb \<Rightarrow>
     (let pb = pb\<lparr>pb_CreatedTime := Some ts\<rparr> in
     (case PutPendingBalance st ws pb of
        Inl e \<Rightarrow> Inl (err_wrap e ''failed to create the pending balance'') | Inr ws \<Rightarrow>
     (let sender = sender\<lparr>bal_Amount := bal_Amount sender + - applied amount fee,
                          bal_UpdatedTime := Some ts\<rparr> in
     (case PutBalance st ws sender of Inl e \<Rightarrow> Inl e | Inr ws \<Rightarrow>
     (let log = (NewBalanceDepositLog sender pb)\<lparr>bl_CreatedTime := Some ts\<rparr> in
     (case PutBalanceLog st ws log of Inl e \<Rightarrow> Inl e | Inr ws \<Rightarrow>
     Inr (log, ws))))))))))"

definition Withdraw :: "stub \<Rightarrow> writes \<Rightarrow> PendingBalance \<Rightarrow> goerr + BalanceLog \<times> writes" where
  "Withdraw st ws pb = 
     (case get_time st of
        Inl e \<Rightarrow> Inl (err_wrap e ''failed to get the timestamp'') | Inr ts \<Rightarrow>
     (case GetBalance st (pb_Account pb) of Inl e \<Rightarrow> Inl e | Inr bal \<Rightarrow>
     (let bal = bal\<lparr>bal_Amount := bal_Amount bal + applied (pb_Amount pb) (pb_Fee pb),
                    bal_UpdatedTime := Some ts\<rparr> in
     (case PutBalance st ws bal of Inl e \<Rightarrow> Inl e | Inr ws \<Rightarrow>
     (let log = (NewBalanceWithdrawLog bal pb)\<lparr>bl_CreatedTime := Some ts\<rparr> in
     (case PutBalanceLog st ws log of Inl e \<Rightarrow> Inl e | Inr ws \<Rightarrow>
     (case DeletePendingBalance st ws pb of Inl e \<Rightarrow> Inl e | Inr ws \<Rightarrow>
     Inr (log, ws))))))))"

subsection \<open>Conservation\<close>

text \<open>
  \<open>fresh st\<close>: the keys derived from the transaction's own id are not on the ledger
  (Fabric refuses a repeated transaction id).
\<close>

definition fresh :: "stub \<Rightarrow> bool" where
  "fresh st \<longleftrightarrow> (let L = ledger_of st in
     L (pb_key (st_txid st)) = None \<and> L (wrap_key (st_txid st)) = None \<and>
     (\<forall>ts. get_time st = Inr ts \<longrightarrow> L (fee_key (fee_id ts (st_txid st))) = None \<and>
           L (pay_key (fee_id ts (st_txid st))) = None))"

lemma fresh_simps:
  "fresh st \<Longrightarrow> ledger_of st (pb_key (st_txid st)) = None"
  "fresh st \<Longrightarrow> ledger_of st (wrap_key (st_txid st)) = None"
  "fresh st \<Longrightarrow> get_time st = Inr ts \<Longrightarrow> ledger_of st (fee_key (fee_id ts (st_txid st))) = None"
  "fresh st \<Longrightarrow> get_time st = Inr ts \<Longrightarrow> ledger_of st (pay_key (fee_id ts (st_txid st))) = None"
  by (simp_all add: fresh_def Let_def)

lemma show_int_neq_Nil [simp]: "show_int i \<noteq> []"
  by (simp add: show_int_def)

lemma fee_id_neq_Nil [simp]: "fee_id ts x \<noteq> []"
  by (simp add: fee_id_def)

lemma log_fields [simp]:
  "bl_DOCTYPEID (NewBalanceSupplyLog b d) = bal_DOCTYPEID b"
  "bl_DOCTYPEID (NewBalanceTransferLog s r d f m i) = (if d < 0 then bal_DOCTYPEID s else bal_DOCTYPEID r)"
  "bl_DOCTYPEID (NewBalanceDepositLog b pb) = bal_DOCTYPEID b"
  "bl_DOCTYPEID (NewBalanceWithdrawLog b pb) = bal_DOCTYPEID b"
  "bl_DOCTYPEID (NewBalancePayLog b p) = bal_DOCTYPEID b"
  "bl_DOCTYPEID (NewBalanceRefundLog b p) = bal_DOCTYPEID b"
  "bl_DOCTYPEID (NewBalancePrunePayLog b a s1 s2) = bal_DOCTYPEID b"
  "bl_DOCTYPEID (NewBalancePruneFeeLog b a s1 s2) = bal_DOCTYPEID b"
  "bl_DOCTYPEID (NewBalanceWrapLog b d c i m n) = bal_DOCTYPEID b"
  "bl_DOCTYPEID (NewBalanceUnwrapLog b d c i t) = bal_DOCTYPEID b"
  "bl_DOCTYPEID (NewBalanceWrapCompleteLog b w f) = bal_DOCTYPEID b"
  "bl_DOCTYPEID (NewBalanceUnwrapCompleteLog b r d c t) = bal_DOCTYPEID b"
  by (simp_all add: NewBalanceSupplyLog_def NewBalanceTransferLog_def NewBalanceDepositLog_def
      NewBalanceWithdrawLog_def NewBalancePayLog_def NewBalanceRefundLog_def
      NewBalancePrunePayLog_def NewBalancePruneFeeLog_def NewBalanceWrapLog_def
      NewBalanceUnwrapLog_def NewBalanceWrapCompleteLog_def NewBalanceUnwrapCompleteLog_def Let_def)

lemmas delta_simps = worth_defs in_code_arith key_simps fresh_simps

lemma fresh_worth [simp]:
  "fresh st \<Longrightarrow> worth_doc (worth_pb c) (GetPendingBalance st (st_txid st)) = 0"
  "fresh st \<Longrightarrow> worth_doc (worth_wrap c) (GetWrap st (st_txid st)) = 0"
  "fresh st \<Longrightarrow> get_time st = Inr ts \<Longrightarrow>
     worth_doc (worth_pay c) (GetPay st (fee_id ts (st_txid st))) = 0"
  by (simp_all flip: worth_read add: fresh_simps)

lemma Transfer_delta:
  assumes "Transfer st [] s r a fee memo oid pt = Inr (log, ws)"
    and "GetBalance st (bal_DOCTYPEID s) = Inr s" "GetBalance st (bal_DOCTYPEID r) = Inr r"
    and "bal_DOCTYPEID s \<noteq> bal_DOCTYPEID r"
    and C: "tcode (bal_DOCTYPEID s) = tcode (bal_DOCTYPEID r)" and "fresh st"
  shows "delta c (ledger_of st) ws = 0"
  using assms
  by (auto simp: Transfer_def transfer_receive_def NewPendingBalance_def Let_def ok_simps delta_simps
      in_code_cong [OF C] split: if_splits)

lemma TransferPendingBalance_delta:
  assumes "TransferPendingBalance st [] pb s r pt = Inr ws"
    and "GetPendingBalance st (pb_DOCTYPEID pb) = Inr pb" "GetBalance st (bal_DOCTYPEID r) = Inr r"
    and "pb_DOCTYPEID pb \<noteq> st_txid st"
    and C: "tcode (pb_Account pb) = tcode (bal_DOCTYPEID r)" and "fresh st"
  shows "delta c (ledger_of st) ws = 0"
  using assms
  by (auto simp: TransferPendingBalance_def transfer_receive_def NewPendingBalance_def Let_def
      ok_simps delta_simps in_code_cong [OF C] split: if_splits option.splits)

lemma Deposit_delta:
  assumes "Deposit st [] i s con a fee memo oid = Inr (log, ws)"
    and "GetBalance st (bal_DOCTYPEID s) = Inr s" and "ledger_of st (pb_key i) = None"
  shows "delta c (ledger_of st) ws = 0"
  using assms
  by (auto simp: Deposit_def NewPendingBalance_def Let_def ok_simps delta_simps applied_def
      worth_read(2) [symmetric] simp del: worth_read(2) split: if_splits option.splits)

lemma Withdraw_delta:
  assumes "Withdraw st [] pb = Inr (log, ws)"
    and "GetPendingBalance st (pb_DOCTYPEID pb) = Inr pb" and K: "keyed (ledger_of st)"
  shows "delta c (ledger_of st) ws = 0"
  using assms
  by (auto simp: Withdraw_def Let_def ok_simps delta_simps applied_def keyed_reads(1) [OF K]
      split: if_splits option.splits)

end
