(* ===== verification/Accounts.thy ===== *)
theory Accounts
  imports Balances
begin

text \<open>
  The operations of \<open>AccountStub\<close> (\<open>account_stub.go\<close>).  The token code the stub carries
  is the argument \<open>tok\<close>.
\<close>

definition AccountsFetchSize :: int where "AccountsFetchSize = 20"

fun is_NotExistedAccount :: "goerr \<Rightarrow> bool" where
  "is_NotExistedAccount (NotExistedAccountError a) = True"
| "is_NotExistedAccount _ = False"

subsection \<open>Creation\<close>

definition CreateAccount ::
  "stub \<Rightarrow> writes \<Rightarrow> string \<Rightarrow> string \<Rightarrow> goerr + (Account \<times> Balance) \<times> writes" where
  "CreateAccount st ws tok kid = 
     (case get_time st of
        Inl e \<Rightarrow> Inl (err_wrap e ''failed to get the timestamp'') | Inr ts \<Rightarrow>
     (let addr = NewAddress st tok AccountTypePersonal kid in
      case GetAccount st addr of
        Inr a \<Rightarrow> Inl (ExistedAccountError (addr_String addr))
      | Inl err \<Rightarrow>
          if \<not> is_NotExistedAccount err then Inl (err_wrap err ''failed to get an existed account'')
          else (let account = \<lparr>acc_DOCTYPEID = addr_String addr, acc_Token = tok,
                  acc_Type = AccountTypePersonal, acc_CreatedTime = Some ts,
                  acc_UpdatedTime = Some ts, acc_SuspendedTime = None\<rparr> in
     (case PutAccount st ws (PAC account) of
        Inl e \<Rightarrow> Inl (err_wrap e ''failed to create an account'') | Inr ws \<Rightarrow>
     (case CreateBalance st ws (acc_DOCTYPEID account) of
        Inl e \<Rightarrow> Inl (err_wrap e ''failed to create an account balance'') | Inr (balance, ws) \<Rightarrow>
     (let holder = (NewHolder kid (PAC account))\<lparr>hld_CreatedTime := Some ts\<rparr> in
     (case PutHolder st ws holder of
        Inl e \<Rightarrow> Inl (err_wrap e ''failed to create the holder'') | Inr ws \<Rightarrow>
     Inr ((account, balance), ws))))))))"

text \<open>The relationships of the holders are put in the iteration order of the set.\<close>

fun put_holders :: "stub \<Rightarrow> writes \<Rightarrow> AccountI \<Rightarrow> gotime \<Rightarrow> string list \<Rightarrow> goerr + writes" where
  "put_holders st ws account ts [] = Inr ws"
| "put_holders st ws account ts (kid # kids) = 
     (case PutHolder st ws ((NewHolder kid account)\<lparr>hld_CreatedTime := Some ts\<rparr>) of
        Inl e \<Rightarrow> Inl (err_wrap e ''failed to create the holder'') | Inr ws \<Rightarrow>
     put_holders st ws account ts kids)"

definition CreateJointAccount ::
  "stub \<Rightarrow> writes \<Rightarrow> string \<Rightarrow> stringset \<Rightarrow> goerr + (JointAccount \<times> Balance) \<times> writes" where
  "CreateJointAccount st ws tok holders = 
     (case get_time st of
        Inl e \<Rightarrow> Inl (err_wrap e ''failed to get the timestamp'') | Inr ts \<Rightarrow>
     (let addr = NewAddress st tok AccountTypeJoint (st_txid st) in
      case GetAccount st addr of
        Inr a \<Rightarrow> Inl (Plain ''failed to create a random address'')
      | Inl err \<Rightarrow>
          if \<not> is_NotExistedAccount err then Inl (err_wrap err ''failed to get an existed account'')
          else (let account = \<lparr>jac_Account = \<lparr>acc_DOCTYPEID = addr_String addr, acc_Token = tok,
                  acc_Type = AccountTypeJoint, acc_CreatedTime = Some ts,
                  acc_UpdatedTime = Some ts, acc_SuspendedTime = None\<rparr>, jac_Holders = holders\<rparr> in
     (case PutAccount st ws (JAC account) of
        Inl e \<Rightarrow> Inl (err_wrap e ''failed to create an account'') | Inr ws \<Rightarrow>
     (case CreateBalance st ws (ai_GetID (JAC account)) of
        Inl e \<Rightarrow> Inl (err_wrap e ''failed to create an account balance'') | Inr (balance, ws) \<Rightarrow>
     (case put_holders st ws (JAC account) ts (set_strings st holders) of
        Inl e \<Rightarrow> Inl e | Inr ws \<Rightarrow>
     Inr ((account, balance), ws)))))))"

subsection \<open>Queries\<close>

definition GetQueryHolderAccounts ::
  "stub \<Rightarrow> string \<Rightarrow> string \<Rightarrow> string \<Rightarrow> int \<Rightarrow> goerr + QueryResult" where
  "GetQueryHolderAccounts st tok kid bookmark fetchSize =
     query_page st
       (if 0 < length tok then CreateQueryHoldersByIDAndTokenCode kid tok
        else CreateQueryHoldersByID kid)
       (clamp_fetch AccountsFetchSize fetchSize) bookmark"

definition GetSignableIDs :: "stub \<Rightarrow> string \<Rightarrow> string \<Rightarrow> goerr + string list" where
  "GetSignableIDs st tok addr = 
     (case ParseAddress st addr of
        Inl e \<Rightarrow> Inl (err_wrap e (''failed to parse the account address: ['' @ addr @ '']'')) | Inr a \<Rightarrow>
     (if addr_Code a \<noteq> tok then Inl (Plain (''mismatched token account: ['' @ addr @ '']'')) else
     (case GetAccount st a of
        Inl e \<Rightarrow> Inl (err_wrap e (''failed to get the account: ['' @ addr @ '']'')) | Inr account \<Rightarrow>
     (case account of
        PAC pac \<Rightarrow> (case acc_Holder pac of Inl e \<Rightarrow> Inl e | Inr h \<Rightarrow> Inr [h])
      | JAC jac \<Rightarrow> Inr (set_strings st (jac_Holders jac))))))"

subsection \<open>Suspension\<close>

definition SuspendAccount :: "stub \<Rightarrow> writes \<Rightarrow> string \<Rightarrow> string \<Rightarrow> goerr + Account \<times> writes" where
  "SuspendAccount st ws tok kid = 
     (case get_time st of
        Inl e \<Rightarrow> Inl (err_wrap e ''failed to get the timestamp'') | Inr ts \<Rightarrow>
     (case GetAccount st (NewAddress st tok AccountTypePersonal kid) of
        Inl e \<Rightarrow> Inl (err_wrap e ''failed to get the personal account'') | Inr account \<Rightarrow>
     (case account of JAC j \<Rightarrow> Inl Panicked | PAC pac \<Rightarrow>
      if acc_SuspendedTime pac \<noteq> None then Inl (Plain ''already suspended'')
      else (let pac = pac\<lparr>acc_SuspendedTime := Some ts, acc_UpdatedTime := Some ts\<rparr> in
     (case PutAccount st ws (PAC pac) of
        Inl e \<Rightarrow> Inl (err_wrap e ''failed to update the account'') | Inr ws \<Rightarrow>
     Inr (pac, ws))))))"

definition UnsuspendAccount :: "stub \<Rightarrow> writes \<Rightarrow> string \<Rightarrow> string \<Rightarrow> goerr + Account \<times> writes" where
  "UnsuspendAccount st ws tok kid = 
     (case get_time st of
        Inl e \<Rightarrow> Inl (err_wrap e ''failed to get the timestamp'') | Inr ts \<Rightarrow>
     (case GetAccount st (NewAddress st tok AccountTypePersonal kid) of
        Inl e \<Rightarrow> Inl (err_wrap e ''failed to get the personal account'') | Inr account \<Rightarrow>
     (case account of JAC j \<Rightarrow> Inl Panicked | PAC pac \<Rightarrow>
      if acc_SuspendedTime pac = None then Inl (Plain ''not suspended'')
      else (let pac = pac\<lparr>acc_SuspendedTime := None, acc_UpdatedTime := Some ts\<rparr> in
     (case PutAccount st ws (PAC pac) of
        Inl e \<Rightarrow> Inl (err_wrap e ''failed to update the account'') | Inr ws \<Rightarrow>
     Inr (pac, ws))))))"

subsection \<open>Holders of a joint account\<close>

definition touch :: "JointAccount \<Rightarrow> gotime \<Rightarrow> JointAccount" where
  "touch j ts = j\<lparr>jac_Account := (jac_Account j)\<lparr>acc_UpdatedTime := Some ts\<rparr>\<rparr>"

definition AddHolder :: "stub \<Rightarrow> writes \<Rightarrow> JointAccount \<Rightarrow> string \<Rightarrow> goerr + JointAccount \<times> writes" where
  "AddHolder st ws account kid =
     (if set_contains (jac_Holders account) kid then Inl (Plain ''already existed holder'') else 
     (case get_time st of
        Inl e \<Rightarrow> Inl (err_wrap e ''failed to get the timestamp'') | Inr ts \<Rightarrow>
     (let account = touch (account\<lparr>jac_Holders := set_add kid (jac_Holders account)\<rparr>) ts in
     (case PutAccount st ws (JAC account) of
        Inl e \<Rightarrow> Inl (err_wrap e ''failed to update the account'') | Inr ws \<Rightarrow>
     (let holder = (NewHolder kid (JAC account))\<lparr>hld_CreatedTime := Some ts\<rparr> in
     (case PutHolder st ws holder of
        Inl e \<Rightarrow> Inl (err_wrap e ''failed to create the relationship'') | Inr ws \<Rightarrow>
     Inr (account, ws)))))))"

definition RemoveHolder :: "stub \<Rightarrow> writes \<Rightarrow> JointAccount \<Rightarrow> string \<Rightarrow> goerr + JointAccount \<times> writes" where
  "RemoveHolder st ws account kid =
     (if \<not> set_contains (jac_Holders account) kid then Inl (Plain ''not existed holder'') else 
     (case get_time st of
        Inl e \<Rightarrow> Inl (err_wrap e ''failed to get the timestamp'') | Inr ts \<Rightarrow>
     (let account = touch (account\<lparr>jac_Holders := set_remove (jac_Holders account) kid\<rparr>) ts in
     (case PutAccount st ws (JAC account) of
        Inl e \<Rightarrow> Inl (err_wrap e ''failed to update the account'') | Inr ws \<Rightarrow>
     (case del_state st ws (hld_key kid (ai_GetID (JAC account))) of
        Inl e \<Rightarrow> Inl (err_wrap e ''failed to delete the relationship'') | Inr ws \<Rightarrow>
     Inr (account, ws))))))"

subsection \<open>Lemmas\<close>

lemma case_err_Inr [ok_simps]:
  "((case m of Inl e \<Rightarrow> g e | Inr a \<Rightarrow> Inl (h a)) = Inr y) \<longleftrightarrow> (\<exists>e. m = Inl e \<and> g e = Inr y)"
  by (cases m) auto

lemma case_AccountI_Inr [ok_simps]:
  "((case a of PAC p \<Rightarrow> g p | JAC j \<Rightarrow> Inl e) = Inr y) \<longleftrightarrow> (\<exists>p. a = PAC p \<and> g p = Inr y)"
  "((case a of PAC p \<Rightarrow> Panic | JAC j \<Rightarrow> h j) = Success q ws) \<longleftrightarrow>
     (\<exists>j. a = JAC j \<and> h j = Success q ws)"
  "((case a of PAC p \<Rightarrow> g' p | JAC j \<Rightarrow> Panic) = Success q ws) \<longleftrightarrow>
     (\<exists>p. a = PAC p \<and> g' p = Success q ws)"
  "((case a of PAC p \<Rightarrow> Failure m | JAC j \<Rightarrow> h j) = Success q ws) \<longleftrightarrow>
     (\<exists>j. a = JAC j \<and> h j = Success q ws)"
  by (cases a; auto)+

lemma is_NotExistedAccount_iff [simp]: "is_NotExistedAccount e \<longleftrightarrow> (\<exists>a. e = NotExistedAccountError a)"
  by (cases e) auto

lemma put_holders_Inr:
  "put_holders st ws a ts ks = Inr ws' \<Longrightarrow>
   ws' = ws @ map (\<lambda>k. Put (hld_key k (ai_GetID a)) (marshal_Holder ((NewHolder k a)\<lparr>hld_CreatedTime := Some ts\<rparr>))) ks"
proof (induction ks arbitrary: ws)
  case Nil
  then show ?case by simp
next
  case (Cons k ks)
  then show ?case by (auto simp: ok_simps NewHolder_def dest!: Cons.IH)
qed

lemma err_wrap_not_NotExisted [simp]: "err_wrap e m \<noteq> NotExistedAccountError a"
  by (cases e) simp_all

text \<open>An account that is not found is one whose key is free.\<close>

lemma GetAccount_NotExisted:
  "GetAccount st addr = Inl (NotExistedAccountError a) \<Longrightarrow>
   ledger_of st (acc_key (addr_String addr)) = None \<or> (\<exists>e. st_get st (acc_key (addr_String addr)) = Inl e)"
  by (auto simp: GetAccount_def GetAccountState_def get_state_def ledger_of_def
      split: sum.splits option.splits if_splits)

lemma SuspendAccount_Inr:
  "SuspendAccount st ws tok kid = Inr (pac', ws') \<longleftrightarrow>
     (\<exists>ts pac. get_time st = Inr ts \<and>
        GetAccount st (NewAddress st tok AccountTypePersonal kid) = Inr (PAC pac) \<and>
        acc_SuspendedTime pac = None \<and>
        pac' = pac\<lparr>acc_SuspendedTime := Some ts, acc_UpdatedTime := Some ts\<rparr> \<and>
        PutAccount st ws (PAC pac') = Inr ws')"
  by (auto simp: SuspendAccount_def Let_def ok_simps)

lemma UnsuspendAccount_Inr:
  "UnsuspendAccount st ws tok kid = Inr (pac', ws') \<longleftrightarrow>
     (\<exists>ts pac. get_time st = Inr ts \<and>
        GetAccount st (NewAddress st tok AccountTypePersonal kid) = Inr (PAC pac) \<and>
        acc_SuspendedTime pac \<noteq> None \<and>
        pac' = pac\<lparr>acc_SuspendedTime := None, acc_UpdatedTime := Some ts\<rparr> \<and>
        PutAccount st ws (PAC pac') = Inr ws')"
  by (auto simp: UnsuspendAccount_def Let_def ok_simps)

end
