(* ===== verification/Tokens.thy ===== *)
theory Tokens
  imports Accounts
begin

text \<open>
  The operations of \<open>TokenStub\<close> (\<open>token_stub.go\<close>) and the helpers of \<open>token_tx.go\<close> that
  read a token's parameters from its own chaincode (\<open>knt-<code>\<close>).
\<close>

subsection \<open>TokenStub\<close>

text \<open>The addresses of a map of policies must have accounts; the walk is in map order.\<close>

fun check_wrap_accounts :: "stub \<Rightarrow> string list \<Rightarrow> (string \<times> WrapPolicy) list \<Rightarrow> goerr option" where
  "check_wrap_accounts st [] wb = None"
| "check_wrap_accounts st (k # ks) wb =
     (case map_of wb k of None \<Rightarrow> check_wrap_accounts st ks wb | Some policy \<Rightarrow>
      (case GetAccountState st (wp_WrapAddress policy) of
         Inl e \<Rightarrow> Some e | Inr d \<Rightarrow> check_wrap_accounts st ks wb))"

definition check_wrap_bridge :: "stub \<Rightarrow> (string \<times> WrapPolicy) list option \<Rightarrow> goerr option" where
  "check_wrap_bridge st wb =
     (case wb of None \<Rightarrow> None | Some m \<Rightarrow> check_wrap_accounts st (st_iter st (map fst m)) m)"

text \<open>A policy without a target address is given the genesis account's.\<close>

definition set_target :: "stub \<Rightarrow> FeePolicy option \<Rightarrow> string \<Rightarrow> goerr + FeePolicy option" where
  "set_target st feePolicy genesis =
     (case feePolicy of
        None \<Rightarrow> Inr None
      | Some p \<Rightarrow>
          if 0 < length (fp_TargetAddress p)
          then (case GetAccountState st (fp_TargetAddress p) of Inl e \<Rightarrow> Inl e | Inr d \<Rightarrow> Inr (Some p))
          else Inr (Some (p\<lparr>fp_TargetAddress := genesis\<rparr>)))"

definition CreateToken ::
  "stub \<Rightarrow> writes \<Rightarrow> string \<Rightarrow> int \<Rightarrow> int \<Rightarrow> int \<Rightarrow> FeePolicy option \<Rightarrow>
   (string \<times> WrapPolicy) list option \<Rightarrow> stringset \<Rightarrow> goerr + Token \<times> writes" where
  "CreateToken st ws code decimal maxSupply supply feePolicy wrapBridge holders = 
     (case CreateJointAccount st ws code holders of
        Inl e \<Rightarrow> Inl (err_wrap e ''failed to create the genesis account'') | Inr ((account, balance), ws) \<Rightarrow>
     (case set_target st feePolicy (ai_GetID (JAC account)) of
        Inl e \<Rightarrow> Inl e | Inr feePolicy \<Rightarrow>
     (case check_wrap_bridge st wrapBridge of Some e \<Rightarrow> Inl e | None \<Rightarrow>
     (case (if 0 < supply then map_sum id snd (Supply st ws balance supply) else Inr ws) of
        Inl e \<Rightarrow> Inl (err_wrap e ''failed to mint initial supply'') | Inr ws \<Rightarrow>
     (case get_time st of
        Inl e \<Rightarrow> Inl (err_wrap e ''failed to get the timestamp'') | Inr ts \<Rightarrow>
     (let token = \<lparr>tok_DOCTYPEID = code, tok_Decimal = decimal, tok_MaxSupply = maxSupply,
            tok_Supply = supply, tok_LastPrunedFeeID = [], tok_GenesisAccount = ai_GetID (JAC account),
            tok_FeePolicy = feePolicy, tok_WrapBridge = wrapBridge, tok_CreatedTime = Some ts,
            tok_UpdatedTime = Some ts\<rparr> in
     (case PutToken st ws token of
        Inl e \<Rightarrow> Inl (err_wrap e ''failed to create the token'') | Inr ws \<Rightarrow>
     Inr (token, ws))))))))"

text \<open>At most what the genesis account holds is burnt; burning nothing changes nothing.\<close>

definition Burn ::
  "stub \<Rightarrow> writes \<Rightarrow> Token \<Rightarrow> Balance \<Rightarrow> int \<Rightarrow> goerr + (Token \<times> BalanceLog option) \<times> writes" where
  "Burn st ws token bal amount = 
     (case get_time st of
        Inl e \<Rightarrow> Inl (err_wrap e ''failed to get the timestamp'') | Inr ts \<Rightarrow>
     (if tok_Supply token = 0 then Inl (SupplyError ''no supply'') else
     (let amount = (if bal_Amount bal < amount then bal_Amount bal else amount) in
      if amount \<le> 0 then Inr ((token, None), ws) else
     (let amount = - amount in
     (case Supply st ws bal amount of
        Inl e \<Rightarrow> Inl (err_wrap e ''failed to burn'') | Inr (log, ws) \<Rightarrow>
     (let token = token\<lparr>tok_Supply := tok_Supply token + amount, tok_UpdatedTime := Some ts\<rparr> in
     (case PutToken st ws token of
        Inl e \<Rightarrow> Inl (err_wrap e ''failed to update the token'') | Inr ws \<Rightarrow>
     Inr ((token, Some log), ws))))))))"

text \<open>The amount minted is cut at the maximum supply.\<close>

definition Mint ::
  "stub \<Rightarrow> writes \<Rightarrow> Token \<Rightarrow> Balance \<Rightarrow> int \<Rightarrow> goerr + (Token \<times> BalanceLog) \<times> writes" where
  "Mint st ws token bal amount = 
     (case get_time st of
        Inl e \<Rightarrow> Inl (err_wrap e ''failed to get the timestamp'') | Inr ts \<Rightarrow>
     (if tok_MaxSupply token \<le> tok_Supply token then Inl (SupplyError ''max supplied'') else
     (let supply = tok_Supply token + amount;
          (amount, supply) =
            (if tok_MaxSupply token < supply
             then (amount + tok_MaxSupply token + - supply, tok_MaxSupply token)
             else (amount, supply));
          token = token\<lparr>tok_Supply := supply, tok_UpdatedTime := Some ts\<rparr> in
     (case PutToken st ws token of
        Inl e \<Rightarrow> Inl (err_wrap e ''failed to update the token'') | Inr ws \<Rightarrow>
     (case Supply st ws bal amount of
        Inl e \<Rightarrow> Inl (err_wrap e ''failed to mint'') | Inr (log, ws) \<Rightarrow>
     Inr ((token, log), ws))))))"

subsection \<open>The token's own chaincode\<close>

definition knt_cc :: "stub \<Rightarrow> string \<Rightarrow> string" where
  "knt_cc st code = (if st_dev st then ''knt-cc-'' @ to_lower code else ''knt-'' @ to_lower code)"

definition invokeKNT :: "stub \<Rightarrow> string \<Rightarrow> string list \<Rightarrow> goerr + string" where
  "invokeKNT st code params =
     (case st_invoke st (knt_cc st code) params of (status, body, msg) \<Rightarrow>
      if status = 200 then Inr body else Inl (Plain msg))"

text \<open>A type assertion to string panics on any other value, and on a missing one.\<close>

definition as_string :: "json option \<Rightarrow> goerr + string" where
  "as_string v = (case v of Some (JStr s) \<Rightarrow> Inr s | _ \<Rightarrow> Inl Panicked)"

text \<open>\<open>m[k] != nil\<close>: a missing member and a null are both nil.\<close>

definition non_nil :: "json option \<Rightarrow> json option" where
  "non_nil v = (case v of Some JNull \<Rightarrow> None | _ \<Rightarrow> v)"

record TokenMeta =
  tm_decimal :: int
  tm_maxSupply :: int
  tm_supply :: int
  tm_policy :: "FeePolicy option"
  tm_wrapBridge :: "(string \<times> WrapPolicy) list option"

definition meta_decimal :: "string \<Rightarrow> goerr + int" where
  "meta_decimal s =
     (case parse_int64_opt s of
        None \<Rightarrow> Inl (Plain ''decimal must be integer between 0 and 18'')
      | Some d \<Rightarrow> if d < 0 \<or> 18 < d then Inl (Plain ''decimal must be integer between 0 and 18'') else Inr d)"

definition meta_max_supply :: "string \<Rightarrow> goerr + int" where
  "meta_max_supply s =
     (case NewAmount s of
        Inl e \<Rightarrow> Inl (Plain ''max supply must be positive integer'')
      | Inr m \<Rightarrow> if m < 0 then Inl (Plain ''max supply must be positive integer'') else Inr m)"

definition meta_supply :: "int \<Rightarrow> string \<Rightarrow> goerr + int" where
  "meta_supply maxSupply s =
     (case NewAmount s of
        Inl e \<Rightarrow> Inl (Plain ''initial supply must be positive integer and less(or equal) than max supply'')
      | Inr m \<Rightarrow>
          if m < 0 \<or> maxSupply < m
          then Inl (Plain ''initial supply must be positive integer and less(or equal) than max supply'')
          else Inr m)"

definition meta_policy :: "members \<Rightarrow> string \<Rightarrow> goerr + FeePolicy option" where
  "meta_policy m fee =
     (if 0 < length fee then 
     (case ParseFeePolicy fee of Inl e \<Rightarrow> Inl e | Inr policy \<Rightarrow>
     (case non_nil (jlast ''target_address'' m) of
        None \<Rightarrow> Inr (Some policy)
      | Some j \<Rightarrow> (case as_string (Some j) of Inl e \<Rightarrow> Inl e | Inr a \<Rightarrow>
                   Inr (Some (policy\<lparr>fp_TargetAddress := a\<rparr>)))))
      else Inr None)"

definition meta_bridge :: "stub \<Rightarrow> members \<Rightarrow> goerr + (string \<times> WrapPolicy) list option" where
  "meta_bridge st m =
     (case non_nil (jlast ''wrap_bridge'' m) of
        None \<Rightarrow> Inr None
      | Some (JObj wb) \<Rightarrow> map_sum id Some (NewWrapBridge st wb)
      | Some _ \<Rightarrow> Inl (Plain ''cannot type casting wrap_bridge to map[string]interface''))"

definition getValidatedTokenMeta :: "stub \<Rightarrow> string \<Rightarrow> goerr + TokenMeta" where
  "getValidatedTokenMeta st code = 
     (case invokeKNT st code [''token''] of
        Inl e \<Rightarrow> Inl (err_wrap e ''failed to get the token meta'') | Inr meta \<Rightarrow>
     (case st_json st meta of
        Inl e \<Rightarrow> Inl (err_wrap e ''failed to unmarshal the token meta'') | Inr j \<Rightarrow>
     (case json_object j of
        Inl e \<Rightarrow> Inl (err_wrap e ''failed to unmarshal the token meta'') | Inr m \<Rightarrow>
     (case as_string (jlast ''decimal'' m) of Inl e \<Rightarrow> Inl e | Inr s \<Rightarrow>
     (case meta_decimal s of Inl e \<Rightarrow> Inl e | Inr decimal \<Rightarrow>
     (case as_string (jlast ''max_supply'' m) of Inl e \<Rightarrow> Inl e | Inr s \<Rightarrow>
     (case meta_max_supply s of Inl e \<Rightarrow> Inl e | Inr maxSupply \<Rightarrow>
     (case as_string (jlast ''initial_supply'' m) of Inl e \<Rightarrow> Inl e | Inr s \<Rightarrow>
     (case meta_supply maxSupply s of Inl e \<Rightarrow> Inl e | Inr supply \<Rightarrow>
     (case as_string (jlast ''fee'' m) of Inl e \<Rightarrow> Inl e | Inr fee \<Rightarrow>
     (case meta_policy m fee of Inl e \<Rightarrow> Inl e | Inr policy \<Rightarrow>
     (case meta_bridge st m of Inl e \<Rightarrow> Inl e | Inr wrapBridge \<Rightarrow>
     Inr \<lparr>tm_decimal = decimal, tm_maxSupply = maxSupply, tm_supply = supply, tm_policy = policy,
          tm_wrapBridge = wrapBridge\<rparr>))))))))))))"

subsection \<open>Lemmas\<close>

lemma case_option_goerr_Inr [ok_simps]:
  "((case x of None \<Rightarrow> m | Some e \<Rightarrow> Inl e) = Inr y) \<longleftrightarrow> x = None \<and> m = Inr y"
  by (cases x) auto

lemma meta_bounds:
  assumes "getValidatedTokenMeta st code = Inr tm"
  shows "0 \<le> tm_decimal tm \<and> tm_decimal tm \<le> 18"
    and "0 \<le> tm_supply tm \<and> tm_supply tm \<le> tm_maxSupply tm"
  using assms
  by (auto simp: getValidatedTokenMeta_def meta_decimal_def meta_max_supply_def meta_supply_def
      ok_simps split: option.splits sum.splits if_splits)

lemma rates_valid_policy_ok: "rates_valid (fp_Rates p) \<Longrightarrow> policy_ok p"
  by (auto simp: rates_valid_def policy_ok_def)

lemma ParseFeePolicy_valid: "ParseFeePolicy s = Inr p \<Longrightarrow> rates_valid (fp_Rates p)"
  by (auto simp: ParseFeePolicy_def rates_valid_def ok_simps dest!: parse_fees_valid [rotated])

lemma meta_policy_ok:
  assumes "meta_policy m fee = Inr (Some p)"
  shows "policy_ok p"
proof -
  obtain q where "ParseFeePolicy fee = Inr q" "fp_Rates p = fp_Rates q"
    using assms by (auto simp: meta_policy_def ok_simps split: if_splits option.splits)
  then show ?thesis using ParseFeePolicy_valid rates_valid_policy_ok by fastforce
qed

subsection \<open>Conservation\<close>

lemma token_ok_supply [simp]: "token_ok (t\<lparr>tok_Supply := s, tok_UpdatedTime := u\<rparr>) \<longleftrightarrow> token_ok t"
  by (simp add: token_ok_def)

lemma Burn_delta:
  assumes "Burn st [] t b a = Inr (r, ws)" and "token_ok t"
    and "GetToken st (tok_DOCTYPEID t) = Inr t" "GetBalance st (bal_DOCTYPEID b) = Inr b"
    and "tcode (bal_DOCTYPEID b) = tok_DOCTYPEID t"
  shows "delta c (ledger_of st) ws = 0"
  using assms
  by (auto simp: Burn_def Supply_def Let_def ok_simps delta_simps in_code_def split: if_splits)

lemma Mint_delta:
  assumes "Mint st [] t b a = Inr (r, ws)" and "token_ok t"
    and "GetToken st (tok_DOCTYPEID t) = Inr t" "GetBalance st (bal_DOCTYPEID b) = Inr b"
    and "tcode (bal_DOCTYPEID b) = tok_DOCTYPEID t"
  shows "delta c (ledger_of st) ws = 0"
  using assms
  by (auto simp: Mint_def Supply_def Let_def ok_simps delta_simps in_code_def split: if_splits)

end
