(* ===== verification/Pays.thy ===== *)
theory Pays
  imports Balances
begin

text \<open>
  The operations of \<open>PayStub\<close> (\<open>pay_stub.go\<close>): pays, refunds, pays out of a pending balance,
  the sum over the pays of a time range, and the queries.
\<close>

definition PaysPruneSize :: nat where "PaysPruneSize = 900"
definition PaysFetchSize :: int where "PaysFetchSize = 20"

definition GetPayByOrderID :: "stub \<Rightarrow> string \<Rightarrow> goerr + Pay" where
  "GetPayByOrderID st orderID = 
     (case st_query st (CreateQueryPayByOrderID orderID) of
        Inl e \<Rightarrow> Inl e | Inr iter \<Rightarrow>
     (case iter of
        [] \<Rightarrow> Inl (Plain ''cannot find pay of the order id'')
      | r # rs \<Rightarrow> (case r of Inl e \<Rightarrow> Inl e | Inr kv \<Rightarrow> unmarshal_Pay kv)))"

subsection \<open>Pay and refund\<close>

text \<open>The fee is only recorded in the pay: the receiver is charged when the pays are pruned.\<close>

definition PayOp ::
  "stub \<Rightarrow> writes \<Rightarrow> Balance \<Rightarrow> string \<Rightarrow> int \<Rightarrow> int \<Rightarrow> string \<Rightarrow> string \<Rightarrow>
   goerr + (Pay \<times> BalanceLog) \<times> writes" where
  "PayOp st ws sender receiver amount fee orderID memo = 
     (case get_time st of
        Inl e \<Rightarrow> Inl (err_wrap e ''failed to get the timestamp'') | Inr ts \<Rightarrow>
     (let pay = NewPay receiver (fee_id ts (st_txid st)) amount fee (bal_DOCTYPEID sender) [] orderID memo ts in
     (case PutPay st ws pay of
        Inl e \<Rightarrow> Inl (err_wrap e ''failed to put new pay'') | Inr ws \<Rightarrow>
     (let sender = sender\<lparr>bal_Amount := bal_Amount sender + - amount, bal_UpdatedTime := Some ts\<rparr> in
     (case PutBalance st ws sender of
        Inl e \<Rightarrow> Inl (err_wrap e ''failed to update sender balance'') | Inr ws \<Rightarrow>
     (let sbl = (NewBalancePayLog sender pay)\<lparr>bl_CreatedTime := Some ts\<rparr> in
     (case PutBalanceLog st ws sbl of
        Inl e \<Rightarrow> Inl (err_wrap e ''failed to update sender balance log'') | Inr ws \<Rightarrow>
     Inr ((pay, sbl), ws))))))))"

text \<open>
  A refund is a pay of the negated amount and fee; the refunded total of the parent grows.
\<close>

definition Refund ::
  "stub \<Rightarrow> writes \<Rightarrow> Balance \<Rightarrow> Balance \<Rightarrow> int \<Rightarrow> int \<Rightarrow> string \<Rightarrow> string \<Rightarrow> Pay \<Rightarrow>
   goerr + BalanceLog \<times> writes" where
  "Refund st ws sender receiver amount fee memo orderID parentPay = 
     (case get_time st of
        Inl e \<Rightarrow> Inl (err_wrap e ''failed to get the timestamp'') | Inr ts \<Rightarrow>
     (let pay = NewPay (bal_DOCTYPEID sender) (fee_id ts (st_txid st)) (- amount) (- fee)
                  (bal_DOCTYPEID receiver) (pay_PayID parentPay) orderID memo ts in
     (case PutPay st ws pay of
        Inl e \<Rightarrow> Inl (err_wrap e ''failed to put new refund'') | Inr ws \<Rightarrow>
     (let parentPay = parentPay\<lparr>pay_TotalRefund := pay_TotalRefund parentPay + amount\<rparr> in
     (case PutParentPay st ws (pay_key (pay_PayID parentPay)) parentPay of
        Inl e \<Rightarrow> Inl (err_wrap e ''failed to update parent pay'') | Inr ws \<Rightarrow>
     (let receiver = receiver\<lparr>bal_Amount := bal_Amount receiver + amount, bal_UpdatedTime := Some ts\<rparr> in
     (case PutBalance st ws receiver of
        Inl e \<Rightarrow> Inl (err_wrap e ''failed to update receiver balance'') | Inr ws \<Rightarrow>
     (let rbl = (NewBalanceRefundLog receiver pay)\<lparr>bl_CreatedTime := Some ts\<rparr> in
     (case PutBalanceLog st ws rbl of
        Inl e \<Rightarrow> Inl (err_wrap e ''failed to update receiver's balance log'') | Inr ws \<Rightarrow>
     Inr (rbl, ws))))))))))"

definition PayPendingBalance ::
  "stub \<Rightarrow> writes \<Rightarrow> PendingBalance \<Rightarrow> Balance \<Rightarrow> int \<Rightarrow> string \<Rightarrow> string \<Rightarrow> string \<Rightarrow>
   goerr + (Pay \<times> BalanceLog) \<times> writes" where
  "PayPendingBalance st ws pbalance sender fee merchant orderID memo = 
     (case get_time st of Inl e \<Rightarrow> Inl e | Inr ts \<Rightarrow>
     (let pay = NewPay merchant (fee_id ts (st_txid st)) (pb_Amount pbalance) fee
                  (pb_Account pbalance) [] orderID memo ts in
     (case PutPay st ws pay of
        Inl e \<Rightarrow> Inl (err_wrap e ''failed to put new pay'') | Inr ws \<Rightarrow>
     (case del_state st ws (pb_key (pb_DOCTYPEID pbalance)) of
        Inl e \<Rightarrow> Inl (err_wrap e ''failed to delete the pending balance'') | Inr ws \<Rightarrow>
     (let sbl = (NewBalancePayLog sender pay)\<lparr>bl_CreatedTime := Some ts\<rparr> in
     Inr ((pay, sbl), ws))))))"

subsection \<open>Sums of pays\<close>

record PaySum =
  ps_Sum :: int
  ps_Fee :: int
  ps_Count :: nat
  ps_Start :: string
  ps_End :: string
  ps_HasMore :: bool

definition zero_PaySum :: PaySum where
  "zero_PaySum = \<lparr>ps_Sum = 0, ps_Fee = 0, ps_Count = 0, ps_Start = [], ps_End = [], ps_HasMore = False\<rparr>"

fun pay_loop :: "(goerr + json) list \<Rightarrow> Pay \<Rightarrow> nat \<Rightarrow> int \<Rightarrow> int \<Rightarrow> PaySum \<Rightarrow> goerr + PaySum" where
  "pay_loop [] c cnt sm fee cs = Inr (cs\<lparr>ps_Count := cnt, ps_Sum := sm, ps_Fee := fee\<rparr>)"
| "pay_loop (r # rs) c cnt sm fee cs =
     (let cnt = cnt + 1 in 
     (case r of Inl e \<Rightarrow> Inl e | Inr kv \<Rightarrow>
     (case dec_struct dec_Pay c kv of Inl e \<Rightarrow> Inl e | Inr c \<Rightarrow>
     (let cs = (if cnt = 1 then cs\<lparr>ps_Start := pay_PayID c\<rparr> else cs) in
      if PaysPruneSize < cnt
      then Inr (cs\<lparr>ps_HasMore := True, ps_Count := cnt - 1, ps_Sum := sm, ps_Fee := fee\<rparr>)
      else pay_loop rs c cnt (sm + pay_Amount c) (fee + pay_Fee c) (cs\<lparr>ps_End := pay_PayID c\<rparr>)))))"

definition GetPaySumByTime :: "stub \<Rightarrow> string \<Rightarrow> gotime \<Rightarrow> gotime \<Rightarrow> goerr + PaySum" where
  "GetPaySumByTime st i stime etime = 
     (case st_query st (CreateQueryPrunePays i stime etime) of
        Inl e \<Rightarrow> Inl e | Inr iter \<Rightarrow>
     pay_loop iter zero_Pay 0 0 0 zero_PaySum)"

definition GetPaysByTime ::
  "stub \<Rightarrow> string \<Rightarrow> string \<Rightarrow> string \<Rightarrow> gotime option \<Rightarrow> gotime option \<Rightarrow> int \<Rightarrow> goerr + QueryResult" where
  "GetPaysByTime st i sortOrder bookmark stime etime fetchSize =
     query_page st
       (if stime \<noteq> None \<or> etime \<noteq> None then CreateQueryPaysByIDAndTime i sortOrder stime etime
        else CreateQueryPaysByID i sortOrder)
       (clamp_fetch PaysFetchSize fetchSize) bookmark"

text \<open>
  \<open>parent_id\<close> and \<open>order_id\<close> are left out when empty, so a loop variable may keep the ones
  of the pay before; the members the sum uses are always there.
\<close>

definition pay_same :: "Pay \<Rightarrow> Pay \<Rightarrow> bool" where
  "pay_same p q \<longleftrightarrow> pay_PayID p = pay_PayID q \<and> pay_Amount p = pay_Amount q \<and> pay_Fee p = pay_Fee q"

lemma dec_int_self [simp]: "dec_amount old (Some (amount_marshal a)) = Inr a"
  by simp

lemma dec_str_omit_old: "\<exists>y. dec_str old (omit_str s) = Inr y"
  by (simp add: omit_str_def)

lemma dec_time_omit_old: "\<exists>y. dec_time_ptr old (omit_time t) = Inr y"
  by (cases t) (simp_all add: omit_time_def)

lemma dec_Pay_marshal: "\<exists>q. dec_struct dec_Pay old (marshal_Pay p) = Inr q \<and> pay_same q p"
proof -
  obtain y1 where 1: "dec_str (pay_ParentID old) (omit_str (pay_ParentID p)) = Inr y1"
    using dec_str_omit_old by blast
  obtain y2 where 2: "dec_str (pay_OrderID old) (omit_str (pay_OrderID p)) = Inr y2"
    using dec_str_omit_old by blast
  obtain y3 where 3: "dec_time_ptr (pay_CreatedTime old) (omit_time (pay_CreatedTime p)) = Inr y3"
    using dec_time_omit_old by blast
  show ?thesis
    by (simp add: marshal_Pay_def dec_Pay_def codec_simps pay_same_def 1 2 3)
qed

definition pays_before :: "nat \<Rightarrow> Pay list \<Rightarrow> Pay list" where
  "pays_before cnt ps = take (PaysPruneSize - cnt) ps"

lemma pays_before_Cons: "cnt + 1 \<le> PaysPruneSize \<Longrightarrow> pays_before cnt (p # ps) = p # pays_before (cnt + 1) ps"
  by (simp add: pays_before_def take_Cons' Suc_diff_Suc)

lemma pay_loop_sum:
  assumes "cnt \<le> PaysPruneSize"
  shows "pay_loop (map (Inr \<circ> marshal_Pay) ps) c cnt sm fee cs =
    Inr \<lparr>ps_Sum = sm + sum_list (map pay_Amount (pays_before cnt ps)),
         ps_Fee = fee + sum_list (map pay_Fee (pays_before cnt ps)),
         ps_Count = min PaysPruneSize (cnt + length ps),
         ps_Start = (if cnt = 0 \<and> ps \<noteq> [] then pay_PayID (hd ps) else ps_Start cs),
         ps_End = (if ps = [] \<or> cnt = PaysPruneSize then ps_End cs
                   else pay_PayID (last (pays_before cnt ps))),
         ps_HasMore = (if PaysPruneSize < cnt + length ps then True else ps_HasMore cs)\<rparr>"
  using assms
proof (induction ps arbitrary: c cnt sm fee cs)
  case Nil
  then show ?case by (simp add: pays_before_def)
next
  case (Cons p ps)
  obtain q where q: "dec_struct dec_Pay c (marshal_Pay p) = Inr q" "pay_same q p"
    using dec_Pay_marshal by blast
  show ?case
  proof (cases "cnt = PaysPruneSize")
    case True
    with q show ?thesis by (simp add: PaysPruneSize_def pays_before_def)
  next
    case False
    with Cons.prems have le: "cnt + 1 \<le> PaysPruneSize" by simp
    then have e: "pays_before (cnt + 1) ps = [] \<longleftrightarrow> ps = [] \<or> cnt + 1 = PaysPruneSize"
      by (auto simp: pays_before_def)
    show ?thesis
      using Cons.IH [OF le] le False pays_before_Cons [OF le] q e by (simp add: Let_def pay_same_def)
  qed
qed

subsection \<open>Conservation\<close>

lemma PayOp_delta:
  assumes "PayOp st [] s r a fee oid memo = Inr (res, ws)"
    and "GetBalance st (bal_DOCTYPEID s) = Inr s"
    and C: "tcode (bal_DOCTYPEID s) = tcode r" and "fresh st"
  shows "delta c (ledger_of st) ws = 0"
  using assms
  by (auto simp: PayOp_def NewPay_def Let_def ok_simps delta_simps in_code_cong [OF C])

lemma Refund_delta:
  assumes "Refund st [] s r a fee memo oid p = Inr (log, ws)"
    and "GetBalance st (bal_DOCTYPEID r) = Inr r"
    and "GetPay st (pay_PayID p) = Inr p" "pay_PayID p \<noteq> []"
    and C: "tcode (bal_DOCTYPEID s) = tcode (bal_DOCTYPEID r)" and "fresh st"
    and "\<And>ts. get_time st = Inr ts \<Longrightarrow> pay_PayID p \<noteq> fee_id ts (st_txid st)"
  shows "delta c (ledger_of st) ws = 0"
  using assms
  by (auto simp: Refund_def NewPay_def Let_def ok_simps delta_simps in_code_cong [OF C])

lemma PayPendingBalance_delta:
  assumes "PayPendingBalance st [] pb s fee m oid memo = Inr (res, ws)"
    and "GetPendingBalance st (pb_DOCTYPEID pb) = Inr pb"
    and C: "tcode (pb_Account pb) = tcode m" and "fresh st"
  shows "delta c (ledger_of st) ws = - in_code c m (fee_or_0 (pb_Fee pb))"
  using assms
  by (auto simp: PayPendingBalance_def NewPay_def Let_def ok_simps delta_simps in_code_cong [OF C])

end
