(* ===== verification/Wraps.thy ===== *)
theory Wraps
  imports Balances
begin

text \<open>
  The operations of \<open>WrapStub\<close> (\<open>wrap_stub.go\<close>): tokens leave for another chain with
  \<open>WrapOp\<close>, whose record waits for \<open>WrapComplete\<close>, and come back with \<open>UnwrapOp\<close>.
\<close>

definition WrapOp ::
  "stub \<Rightarrow> writes \<Rightarrow> Balance \<Rightarrow> int \<Rightarrow> string \<Rightarrow> string \<Rightarrow> string \<Rightarrow> string \<Rightarrow>
   goerr + BalanceLog \<times> writes" where
  "WrapOp st ws sender amount extCode extID memo orderID = 
     (case get_time st of
        Inl e \<Rightarrow> Inl (err_wrap e ''failed to get the timestamp'') | Inr ts \<Rightarrow>
     (let wrap = \<lparr>wr_DOCTYPEID = st_txid st, wr_Address = bal_DOCTYPEID sender, wr_Amount = amount,
                  wr_ExtCode = extCode, wr_ExtID = extID, wr_CompleteTxID = [], wr_Memo = memo,
                  wr_OrderID = orderID\<rparr> in
     (case PutWrap st ws wrap of Inl e \<Rightarrow> Inl e | Inr ws \<Rightarrow>
     (let amount = - amount;
          sender = sender\<lparr>bal_Amount := bal_Amount sender + amount, bal_UpdatedTime := Some ts\<rparr> in
     (case PutBalance st ws sender of Inl e \<Rightarrow> Inl e | Inr ws \<Rightarrow>
     (let sbl = (NewBalanceWrapLog sender amount extCode extID memo orderID)\<lparr>bl_CreatedTime := Some ts\<rparr> in
     (case PutBalanceLog st ws sbl of Inl e \<Rightarrow> Inl e | Inr ws \<Rightarrow>
     Inr (sbl, ws))))))))"

text \<open>
  The amount of a wrap, less the fee, is credited to the wrapper.  An empty external
  transaction id marks an impossible wrap, completed by its own id.
\<close>

definition WrapComplete ::
  "stub \<Rightarrow> writes \<Rightarrow> Wrap \<Rightarrow> Balance \<Rightarrow> int \<Rightarrow> string \<Rightarrow> goerr + BalanceLog \<times> writes" where
  "WrapComplete st ws wrap wBal fee extTxID =
     (if wr_CompleteTxID wrap \<noteq> [] then Inl DuplicateWrapCompleteError else 
     (case get_time st of
        Inl e \<Rightarrow> Inl (err_wrap e ''failed to get the timestamp'') | Inr ts \<Rightarrow>
     (let diff = wr_Amount wrap + - fee in
      if diff \<le> 0 then Inl (Plain ''wrap amount is less than or equal to fee'') else
     (let wrap = (if extTxID \<noteq> [] then wrap\<lparr>wr_CompleteTxID := extTxID\<rparr>
                  else wrap\<lparr>wr_CompleteTxID := wr_DOCTYPEID wrap\<rparr>) in
     (case PutWrap st ws wrap of Inl e \<Rightarrow> Inl e | Inr ws \<Rightarrow>
     (let wBal = wBal\<lparr>bal_Amount := bal_Amount wBal + diff, bal_UpdatedTime := Some ts\<rparr> in
     (case PutBalance st ws wBal of Inl e \<Rightarrow> Inl e | Inr ws \<Rightarrow>
     (let sbl = (NewBalanceWrapCompleteLog wBal wrap (Some fee))\<lparr>bl_CreatedTime := Some ts\<rparr> in
     (case PutBalanceLog st ws sbl of Inl e \<Rightarrow> Inl e | Inr ws \<Rightarrow>
     (case CreateFee st ws (bal_DOCTYPEID wBal) fee of
        Inl e \<Rightarrow> Inl e | Inr (f, ws) \<Rightarrow>
     Inr (sbl, ws)))))))))))"

definition UnwrapOp ::
  "stub \<Rightarrow> writes \<Rightarrow> Balance \<Rightarrow> Balance \<Rightarrow> int \<Rightarrow> string \<Rightarrow> string \<Rightarrow> string \<Rightarrow>
   goerr + BalanceLog \<times> writes" where
  "UnwrapOp st ws wrapper receiver amount extCode extID extTxID = 
     (case get_time st of
        Inl e \<Rightarrow> Inl (err_wrap e ''failed to get the timestamp'') | Inr ts \<Rightarrow>
     (let receiver = receiver\<lparr>bal_Amount := bal_Amount receiver + amount, bal_UpdatedTime := Some ts\<rparr> in
     (case PutBalance st ws receiver of Inl e \<Rightarrow> Inl e | Inr ws \<Rightarrow>
     (let rbl = (NewBalanceUnwrapLog receiver amount extCode extID extTxID)\<lparr>bl_CreatedTime := Some ts\<rparr> in
     (case PutBalanceLog st ws rbl of Inl e \<Rightarrow> Inl e | Inr ws \<Rightarrow>
     (let amount = - amount;
          wrapper = wrapper\<lparr>bal_Amount := bal_Amount wrapper + amount, bal_UpdatedTime := Some ts\<rparr> in
     (case PutBalance st ws wrapper of Inl e \<Rightarrow> Inl e | Inr ws \<Rightarrow>
     (let wbl = (NewBalanceUnwrapCompleteLog wrapper receiver amount extCode extTxID)
                  \<lparr>bl_CreatedTime := Some ts\<rparr> in
     (case PutBalanceLog st ws wbl of Inl e \<Rightarrow> Inl e | Inr ws \<Rightarrow>
     Inr (rbl, ws))))))))))"

definition UnwrapImpossible ::
  "stub \<Rightarrow> writes \<Rightarrow> Balance \<Rightarrow> string \<Rightarrow> string \<Rightarrow> string \<Rightarrow> goerr + BalanceLog \<times> writes" where
  "UnwrapImpossible st ws wrapper extCode extID extTxID = 
     (case get_time st of
        Inl e \<Rightarrow> Inl (err_wrap e ''failed to get the timestamp'') | Inr ts \<Rightarrow>
     (let wbl = (NewBalanceUnwrapCompleteLog wrapper wrapper 0 extCode extTxID)
                  \<lparr>bl_CreatedTime := Some ts\<rparr> in
     (case PutBalanceLog st ws wbl of Inl e \<Rightarrow> Inl e | Inr ws \<Rightarrow>
     Inr (wbl, ws))))"

definition WrapPendingBalance ::
  "stub \<Rightarrow> writes \<Rightarrow> PendingBalance \<Rightarrow> Balance \<Rightarrow> string \<Rightarrow> string \<Rightarrow> string \<Rightarrow> string \<Rightarrow>
   goerr + Wrap \<times> writes" where
  "WrapPendingBalance st ws pb sender extCode extID memo orderID =
     (let wrap = \<lparr>wr_DOCTYPEID = st_txid st, wr_Address = bal_DOCTYPEID sender,
                  wr_Amount = pb_Amount pb, wr_ExtCode = extCode, wr_ExtID = extID,
                  wr_CompleteTxID = [], wr_Memo = memo, wr_OrderID = orderID\<rparr> in 
     (case PutWrap st ws wrap of Inl e \<Rightarrow> Inl e | Inr ws \<Rightarrow>
     (case DeletePendingBalance st ws pb of
        Inl e \<Rightarrow> Inl (err_wrap e ''failed to delete the pending balance'') | Inr ws \<Rightarrow>
     Inr (wrap, ws))))"

subsection \<open>Conservation\<close>

lemma WrapOp_delta:
  assumes "WrapOp st [] s a ec ei memo oid = Inr (log, ws)"
    and "GetBalance st (bal_DOCTYPEID s) = Inr s" and "fresh st"
  shows "delta c (ledger_of st) ws = 0"
  using assms by (auto simp: WrapOp_def Let_def ok_simps delta_simps)

lemma WrapComplete_delta:
  assumes "WrapComplete st [] w b fee tx = Inr (log, ws)"
    and "GetWrap st (wr_DOCTYPEID w) = Inr w" "wr_DOCTYPEID w \<noteq> []"
    and "GetBalance st (bal_DOCTYPEID b) = Inr b"
    and C: "tcode (wr_Address w) = tcode (bal_DOCTYPEID b)" and "fresh st"
  shows "delta c (ledger_of st) ws = 0"
  using assms
  by (auto simp: WrapComplete_def Let_def ok_simps delta_simps in_code_cong [OF C] split: if_splits)

lemma UnwrapOp_delta:
  assumes "UnwrapOp st [Put (unwrap_key i) u] w r a ec ei tx = Inr (log, ws)"
    and "GetBalance st (bal_DOCTYPEID w) = Inr w" "GetBalance st (bal_DOCTYPEID r) = Inr r"
    and "bal_DOCTYPEID w \<noteq> bal_DOCTYPEID r"
    and C: "tcode (bal_DOCTYPEID w) = tcode (bal_DOCTYPEID r)"
  shows "delta c (ledger_of st) ws = 0"
  using assms by (auto simp: UnwrapOp_def Let_def ok_simps delta_simps in_code_cong [OF C])

lemma UnwrapImpossible_delta:
  "UnwrapImpossible st [Put (unwrap_key i) u] w ec ei tx = Inr (log, ws) \<Longrightarrow> delta c (ledger_of st) ws = 0"
  by (auto simp: UnwrapImpossible_def Let_def ok_simps delta_simps)

lemma WrapPendingBalance_delta:
  assumes "WrapPendingBalance st [] pb s ec ei memo oid = Inr (w, ws)"
    and "GetPendingBalance st (pb_DOCTYPEID pb) = Inr pb" and C: "tcode (pb_Account pb) = tcode (bal_DOCTYPEID s)"
    and "fresh st"
  shows "delta c (ledger_of st) ws = - in_code c (bal_DOCTYPEID s) (fee_or_0 (pb_Fee pb))"
  using assms by (auto simp: WrapPendingBalance_def Let_def ok_simps delta_simps in_code_cong [OF C])

end
