(* ===== verification/TxCommon.thy ===== *)
theory TxCommon
  imports Tokens Pays Wraps
begin

text \<open>
  What the transaction handlers share: the parsing of optional parameters, the addresses given
  as a token code or an address, the signers of a contract, and the creation of a contract
  (\<open>invokeContract\<close> of \<open>contract_tx.go\<close>).  A chain of nested \<open>if len(params) > i\<close> is a
  helper that returns the options; its error values are the texts of the error responses.
\<close>

subsection \<open>Parameters\<close>

definition memo_of :: "string \<Rightarrow> string" where
  "memo_of s = (if MemoMaxLength < length s then take MemoMaxLength s else s)"

lemma memo_of_bound: "length (memo_of s) \<le> MemoMaxLength"
  by (simp add: memo_of_def)

definition opt_seconds :: "string \<Rightarrow> string \<Rightarrow> goerr + gotime option" where
  "opt_seconds msg s =
     (if 0 < length s
      then (case parse_int64_opt s of None \<Rightarrow> Inl (Plain msg) | Some seconds \<Rightarrow> Inr (Some (time_unix seconds 0)))
      else Inr None)"

text \<open>Bookmark, fetch size, start and end time, from the parameter number \<open>i\<close> on.\<close>

record ListOpts =
  lo_bookmark :: string
  lo_fetchSize :: int
  lo_stime :: "gotime option"
  lo_etime :: "gotime option"

definition list_opts :: "nat \<Rightarrow> string list \<Rightarrow> goerr + ListOpts" where
  "list_opts i ps =
     (let r = \<lparr>lo_bookmark = [], lo_fetchSize = 0, lo_stime = None, lo_etime = None\<rparr> in
      if length ps \<le> i then Inr r else
     (let r = r\<lparr>lo_bookmark := ps ! i\<rparr> in
      if length ps \<le> i + 1 then Inr r else
     (case parse_int64_opt (ps ! (i + 1)) of None \<Rightarrow> Inl (Plain ''invalid fetch size'') | Some n \<Rightarrow>
     (let r = r\<lparr>lo_fetchSize := n\<rparr> in
      if length ps \<le> i + 2 then Inr r else 
     (case opt_seconds ''invalid start time: need seconds since 1970'' (ps ! (i + 2)) of
        Inl e \<Rightarrow> Inl e | Inr stime \<Rightarrow>
     (let r = r\<lparr>lo_stime := stime\<rparr> in
      if length ps \<le> i + 3 then Inr r else
     (case opt_seconds ''invalid end time: need seconds since 1970'' (ps ! (i + 3)) of
        Inl e \<Rightarrow> Inl e | Inr etime \<Rightarrow>
     (case (stime, etime) of
        (Some s, Some t) \<Rightarrow> if 0 \<le> time_cmp s t then Inl (Plain ''invalid time parameters'')
                            else Inr (r\<lparr>lo_etime := etime\<rparr>)
      | _ \<Rightarrow> Inr (r\<lparr>lo_etime := etime\<rparr>)))))))))"

text \<open>A token code stands for the invoker's personal account of that token.\<close>

definition param_address :: "stub \<Rightarrow> string \<Rightarrow> string \<Rightarrow> goerr + Address" where
  "param_address st kid p =
     (case ValidateTokenCode p of
        Inr code \<Rightarrow> Inr (NewAddress st code AccountTypePersonal kid)
      | Inl e \<Rightarrow> ParseAddress st p)"

subsection \<open>Signers and contracts\<close>

definition base_signers :: "string \<Rightarrow> AccountI \<Rightarrow> stringset" where
  "base_signers kid sender =
     (case sender of JAC j \<Rightarrow> append_set (new_set [kid]) (jac_Holders j) | PAC a \<Rightarrow> new_set [kid])"

fun add_signers :: "stub \<Rightarrow> string \<Rightarrow> stringset \<Rightarrow> string list \<Rightarrow> goerr + stringset" where
  "add_signers st tok signers [] = Inr signers"
| "add_signers st tok signers (addr # addrs) = 
     (case GetSignableIDs st tok addr of Inl e \<Rightarrow> Inl e | Inr kids \<Rightarrow>
     add_signers st tok (append_slice signers kids) addrs)"

text \<open>The addresses are put in a set first; the set is walked in map order.\<close>

definition extra_signers :: "stub \<Rightarrow> string \<Rightarrow> stringset \<Rightarrow> string list \<Rightarrow> goerr + stringset" where
  "extra_signers st tok signers addrs = add_signers st tok signers (st_iter st (new_set addrs))"

definition invokeContract :: "stub \<Rightarrow> json list \<Rightarrow> stringset \<Rightarrow> outcome" where
  "invokeContract st doc signers = 
     (case create_contract st (st_text st (JArr doc)) 0 signers of
        Inl e \<Rightarrow> responseError e ''failed to create a contract'' | Inr con \<Rightarrow>
     Success (TextPayload (con_payload con)) [])"

text \<open>\<open>doc[i].(string)\<close> panics out of range and on a value that is not a string.\<close>

definition doc_str :: "json list \<Rightarrow> nat \<Rightarrow> goerr + string" where
  "doc_str doc i = as_string (if i < length doc then Some (doc ! i) else None)"

fun all_strings :: "json list \<Rightarrow> goerr + string list" where
  "all_strings [] = Inr []"
| "all_strings (j # js) = 
     (case as_string (Some j) of Inl e \<Rightarrow> Inl e | Inr x \<Rightarrow>
     (case all_strings js of Inl e \<Rightarrow> Inl e | Inr xs \<Rightarrow>
     Inr (x # xs)))"

text \<open>The set of the strings of an array member, for the callbacks that create joint accounts.\<close>

definition doc_set :: "json list \<Rightarrow> nat \<Rightarrow> goerr + stringset" where
  "doc_set doc i =
     (if i < length doc
      then (case doc ! i of JArr js \<Rightarrow> map_sum id new_set (all_strings js) | _ \<Rightarrow> Inl Panicked)
      else Inl Panicked)"

subsection \<open>The time range of a prune\<close>

text \<open>
  A pay or fee id starts with 19 digits: ten of seconds and nine of nanoseconds.  The slices panic
  on a shorter id.
\<close>

definition id_time :: "string \<Rightarrow> goerr + gotime" where
  "id_time i =
     (if i = [] then Inr (time_unix 0 0)
      else if length i < 10 then Inl Panicked
      else (case parse_int64_opt (take 10 i) of
              None \<Rightarrow> Inl (Plain ''failed to get seconds from timestamp'')
            | Some s \<Rightarrow>
                if length i < 19 then Inl Panicked
                else (case parse_int64_opt (take 9 (drop 10 i)) of
                        None \<Rightarrow> Inl (Plain ''failed to get nanoseconds from timestamp'')
                      | Some n \<Rightarrow> Inr (time_unix s n))))"

text \<open>The end of the range: the given second or the transaction's time, and at most ten minutes ago if asked.\<close>

definition safe_time :: "gotime \<Rightarrow> gotime" where
  "safe_time ts = time_add ts (- 600000000000)"

definition prune_etime :: "string \<Rightarrow> gotime \<Rightarrow> string list \<Rightarrow> goerr + gotime" where
  "prune_etime bad_flag ts ps = 
     (case (if 2 < length ps then (case parse_int64_opt (ps ! 2) of None \<Rightarrow> Inl (Plain ''failed to parse the end time'') | Some seconds \<Rightarrow> Inr (time_unix seconds 0)) else Inr ts) of
        Inl e \<Rightarrow> Inl e | Inr etime \<Rightarrow>
     (case parse_bool (ps ! 1) of
        None \<Rightarrow> Inl (Plain bad_flag)
      | Some b \<Rightarrow> if b \<and> 0 < time_cmp etime (safe_time ts) then Inr (safe_time ts) else Inr etime))"

subsection \<open>Lemmas\<close>

text \<open>One list of rules turns the success of a handler into its steps.\<close>

lemma case_sum_ok_Success [ok_simps]:
  "((case m of Inl e \<Rightarrow> g e | Inr a \<Rightarrow> h a) = Success p ws) \<longleftrightarrow>
   (\<exists>e. m = Inl e \<and> g e = Success p ws) \<or> (\<exists>a. m = Inr a \<and> h a = Success p ws)"
  by (cases m) auto

lemma invokeContract_Success:
  "invokeContract st doc signers = Success p ws \<Longrightarrow> ws = [] \<and> 2 \<le> set_size signers"
  by (auto simp: invokeContract_def ok_simps dest: create_contract_signers)

lemma base_signers_kid: "kid \<in> set (base_signers kid a)"
  by (simp add: base_signers_def split: AccountI.split)

lemma distinct_base_signers [simp]: "distinct (base_signers kid a)"
  by (simp add: base_signers_def split: AccountI.split)

lemma add_signers_mono: "add_signers st tok s addrs = Inr s' \<Longrightarrow> set s \<subseteq> set s' \<and> (distinct s \<longrightarrow> distinct s')"
  by (induction addrs arbitrary: s) (fastforce simp: ok_simps)+

lemma single_signer:
  assumes "\<not> 1 < set_size s" and "kid \<in> set s" and "distinct s"
  shows "s = [kid]"
  using assms by (cases s) (auto simp: set_size_def)

lemma param_address_ok:
  assumes "param_address st kid p = Inr a" and "kid_ok kid" and "shake_ok st"
  shows "addr_ok st a"
  using assms
  by (auto simp: param_address_def ValidateTokenCode_Inr account_types split: sum.splits
      intro!: NewAddress_ok dest: ParseAddress_ok)

end
