(* ===== verification/AccountTx.thy ===== *)
theory AccountTx
  imports TxCommon
begin

text \<open>
  The transactions of \<open>account_tx.go\<close>: personal and joint accounts, the holders of a joint
  account, suspension, and the contract callbacks.
\<close>

subsection \<open>Responses\<close>

text \<open>The members of the account's document and the balance beside them.\<close>

fun json_add :: "json \<Rightarrow> string \<Rightarrow> json \<Rightarrow> json" where
  "json_add (JObj ms) k v = JObj (ms @ [(k, v)])"
| "json_add j k v = j"

definition responseAccountWithBalance :: "stub \<Rightarrow> AccountI \<Rightarrow> Balance \<Rightarrow> writes \<Rightarrow> outcome" where
  "responseAccountWithBalance st account balance ws =
     Success (JsonPayload (json_add (marshal_AccountI st account) ''balance'' (marshal_Balance balance))) ws"

definition responseAccountWithBalanceState :: "stub \<Rightarrow> AccountI \<Rightarrow> json \<Rightarrow> writes \<Rightarrow> outcome" where
  "responseAccountWithBalanceState st account balance ws =
     Success (JsonPayload (json_add (marshal_AccountI st account) ''balance'' balance)) ws"

subsection \<open>Create, get, list\<close>

text \<open>An account of a token not issued yet needs the token's chaincode.\<close>

definition check_token_available :: "stub \<Rightarrow> string \<Rightarrow> outcome option" where
  "check_token_available st code =
     (case GetTokenState st code of
        Inr d \<Rightarrow> None
      | Inl (NotIssuedTokenError c) \<Rightarrow>
          (case invokeKNT st code [''token''] of
             Inl e \<Rightarrow> Some (fail_msg e ''failed to get the token meta'') | Inr m \<Rightarrow> None)
      | Inl e \<Rightarrow> Some (responseError e ''failed to create an account''))"

definition accountCreate :: "stub \<Rightarrow> string list \<Rightarrow> outcome" where
  "accountCreate st ps =
     (if length ps < 1 then Failure ''incorrect number of parameters. expecting 1+'' else 
     (case ValidateTokenCode (ps ! 0) of Inl e \<Rightarrow> fail_text e | Inr code \<Rightarrow>
     (case check_token_available st code of Some r \<Rightarrow> r | None \<Rightarrow>
     (case get_kid st True of Inl e \<Rightarrow> fail_text e | Inr kid \<Rightarrow>
     (if length ps < 2 then 
     (case CreateAccount st [] code kid of
        Inl e \<Rightarrow> responseError e ''failed to create a personal account'' | Inr ((account, balance), ws) \<Rightarrow>
     responseAccountWithBalance st (PAC account) balance ws)
      else 
     (case GetAccount st (NewAddress st code AccountTypePersonal kid) of
        Inl e \<Rightarrow> responseError e ''failed to get invoker's personal account'' | Inr own \<Rightarrow>
     (let addrs = new_set (drop 1 ps) in
      if 128 < set_size addrs then Failure ''too many holders'' else
     (case add_signers st code (new_set [kid]) (st_iter st addrs) of
        Inl e \<Rightarrow> responseError e ''invalid co-holder'' | Inr holders \<Rightarrow>
     (if set_size holders < 2 then Failure ''joint account needs co-holders''
      else invokeContract st [JStr ''account/create'', JStr code, JArr (map JStr (set_strings st holders))] holders)))))))))"

definition accountGet :: "stub \<Rightarrow> string list \<Rightarrow> outcome" where
  "accountGet st ps =
     (if length ps \<noteq> 1 then Failure ''incorrect number of parameters. expecting 1'' else 
     (case get_kid st False of Inl e \<Rightarrow> fail_text e | Inr kid \<Rightarrow>
     (case param_address st kid (ps ! 0) of
        Inl e \<Rightarrow> responseError e ''failed to get the account'' | Inr addr \<Rightarrow>
     (case GetAccount st addr of
        Inl e \<Rightarrow> responseError e ''failed to get the account'' | Inr account \<Rightarrow>
     (case GetBalanceState st (ai_GetID account) of
        Inl e \<Rightarrow> responseError e ''failed to get the account balance'' | Inr balance \<Rightarrow>
     responseAccountWithBalanceState st account balance [])))))"

definition account_list_opts :: "string list \<Rightarrow> goerr + string \<times> string \<times> int" where
  "account_list_opts ps = 
     (case (if 0 < length ps \<and> 0 < length (ps ! 0) then ValidateTokenCode (ps ! 0) else Inr []) of
        Inl e \<Rightarrow> Inl e | Inr code \<Rightarrow>
     (let bookmark = (if 1 < length ps then ps ! 1 else []) in
      if 2 < length ps
      then (case parse_int64_opt (ps ! 2) of
              None \<Rightarrow> Inl (Plain ''invalid fetch size'') | Some n \<Rightarrow> Inr (code, bookmark, n))
      else Inr (code, bookmark, 0)))"

definition accountList :: "stub \<Rightarrow> string list \<Rightarrow> outcome" where
  "accountList st ps = 
     (case get_kid st False of Inl e \<Rightarrow> fail_text e | Inr kid \<Rightarrow>
     (case account_list_opts ps of
        Inl e \<Rightarrow> fail_text e | Inr (code, bookmark, fetchSize) \<Rightarrow>
     (case GetQueryHolderAccounts st code kid bookmark fetchSize of
        Inl e \<Rightarrow> responseError e ''failed to get accounts list'' | Inr res \<Rightarrow>
     Success (JsonPayload (marshal_QueryResult res)) [])))"

subsection \<open>Holders of a joint account\<close>

definition getValidatedAccountHolderParameters :: "stub \<Rightarrow> string list \<Rightarrow> goerr + JointAccount \<times> Address" where
  "getValidatedAccountHolderParameters st ps =
     (if length ps \<noteq> 2 then Inl (Plain ''incorrect number of parameters. expecting 2'') else 
     (case ParseAddress st (ps ! 0) of
        Inl e \<Rightarrow> Inl (err_wrap e ''failed to parse the account address'') | Inr addr \<Rightarrow>
     (if addr_Type addr \<noteq> AccountTypeJoint then Inl (Plain ''the account must be joint account'') else
     (case ParseAddress st (ps ! 1) of
        Inl e \<Rightarrow> Inl (err_wrap e ''failed to parse the co-holder's account address'') | Inr taddr \<Rightarrow>
     (if addr_Type taddr \<noteq> AccountTypePersonal
      then Inl (Plain ''the co-holder's account must be personal account'')
      else if addr_Code addr \<noteq> addr_Code taddr then Inl (Plain ''mismatched token accounts'') else
     (case GetAccount st addr of
        Inl e \<Rightarrow> Inl (err_wrap e ''failed to get the account'') | Inr account \<Rightarrow>
     (case account of PAC a \<Rightarrow> Inl Panicked | JAC jac \<Rightarrow> Inr (jac, taddr))))))))"

definition accountHolderAdd :: "stub \<Rightarrow> string list \<Rightarrow> outcome" where
  "accountHolderAdd st ps = 
     (case getValidatedAccountHolderParameters st ps of
        Inl e \<Rightarrow> fail_text e | Inr (jac, taddr) \<Rightarrow>
     (if 127 < set_size (jac_Holders jac) then Failure ''already has max holders (128)'' else
     (case get_kid st True of Inl e \<Rightarrow> fail_text e | Inr kid \<Rightarrow>
     (if \<not> set_contains (jac_Holders jac) kid then Failure ''no authority'' else
     (case GetAccount st taddr of
        Inl e \<Rightarrow> responseError e ''failed to get the holder'' | Inr account \<Rightarrow>
     (case account of JAC j \<Rightarrow> Panic | PAC pac \<Rightarrow>
     (case acc_Holder pac of Inl e \<Rightarrow> fail_text e | Inr holder \<Rightarrow>
     (if set_contains (jac_Holders jac) holder then Failure ''existed holder'' else
     (let signers = append_set (new_set [holder]) (jac_Holders jac) in
      invokeContract st [JStr ''account/holder/add'', JStr (ai_GetID (JAC jac)), JStr holder] signers)))))))))"

definition accountHolderRemove :: "stub \<Rightarrow> string list \<Rightarrow> outcome" where
  "accountHolderRemove st ps = 
     (case getValidatedAccountHolderParameters st ps of
        Inl e \<Rightarrow> fail_text e | Inr (jac, taddr) \<Rightarrow>
     (if set_size (jac_Holders jac) < 3 then Failure ''the account has minimum holders (2)'' else
     (case get_kid st True of Inl e \<Rightarrow> fail_text e | Inr kid \<Rightarrow>
     (if \<not> set_contains (jac_Holders jac) kid then Failure ''no authority'' else
     (let holder = addr_ID taddr in
      if holder = kid then 
     (case RemoveHolder st [] jac kid of
        Inl e \<Rightarrow> responseError e ''failed to remove the holder'' | Inr (jac, ws) \<Rightarrow>
     (case GetBalanceState st (ai_GetID (JAC jac)) of
        Inl e \<Rightarrow> responseError e ''failed to get updated account'' | Inr balance \<Rightarrow>
     responseAccountWithBalanceState st (JAC jac) balance ws))
      else if \<not> set_contains (jac_Holders jac) holder then Failure ''not existed holder'' else
     (let signers = set_remove (append_set (new_set []) (jac_Holders jac)) holder in
      invokeContract st [JStr ''account/holder/remove'', JStr (ai_GetID (JAC jac)), JStr holder] signers))))))"

subsection \<open>Suspension\<close>

definition accountSuspend :: "stub \<Rightarrow> string list \<Rightarrow> outcome" where
  "accountSuspend st ps =
     (if length ps \<noteq> 1 then Failure ''incorrect number of parameters. expecting 1'' else 
     (case ValidateTokenCode (ps ! 0) of Inl e \<Rightarrow> fail_text e | Inr code \<Rightarrow>
     (case get_kid st True of Inl e \<Rightarrow> fail_text e | Inr kid \<Rightarrow>
     (case SuspendAccount st [] code kid of
        Inl e \<Rightarrow> responseError e ''failed to suspend the account'' | Inr (account, ws) \<Rightarrow>
     Success (JsonPayload (marshal_Account account)) ws))))"

definition accountUnsuspend :: "stub \<Rightarrow> string list \<Rightarrow> outcome" where
  "accountUnsuspend st ps =
     (if length ps \<noteq> 1 then Failure ''incorrect number of parameters. expecting 1'' else 
     (case ValidateTokenCode (ps ! 0) of Inl e \<Rightarrow> fail_text e | Inr code \<Rightarrow>
     (case get_kid st True of Inl e \<Rightarrow> fail_text e | Inr kid \<Rightarrow>
     (case UnsuspendAccount st [] code kid of
        Inl e \<Rightarrow> responseError e ''failed to unsuspend the account'' | Inr (account, ws) \<Rightarrow>
     Success (JsonPayload (marshal_Account account)) ws))))"

subsection \<open>Contract callbacks\<close>

definition executeAccountCreate :: "stub \<Rightarrow> string \<Rightarrow> json list \<Rightarrow> outcome" where
  "executeAccountCreate st cid doc =
     (if length doc < 3 then Failure ''invalid contract document'' else 
     (case doc_str doc 1 of Inl e \<Rightarrow> fail_text e | Inr code \<Rightarrow>
     (case doc_set doc 2 of Inl e \<Rightarrow> fail_text e | Inr holders \<Rightarrow>
     (case CreateJointAccount st [] code holders of
        Inl e \<Rightarrow> responseError e ''failed to create a joint account'' | Inr (r, ws) \<Rightarrow>
     Success NoPayload ws))))"

definition executeAccountHolderAdd :: "stub \<Rightarrow> string \<Rightarrow> json list \<Rightarrow> outcome" where
  "executeAccountHolderAdd st cid doc =
     (if length doc < 3 then Failure ''invalid contract document'' else 
     (case doc_str doc 1 of Inl e \<Rightarrow> fail_text e | Inr a \<Rightarrow>
     (case ParseAddress st a of
        Inl e \<Rightarrow> responseError e ''failed to add the holder'' | Inr addr \<Rightarrow>
     (case doc_str doc 2 of Inl e \<Rightarrow> fail_text e | Inr holder \<Rightarrow>
     (case GetAccount st addr of
        Inl e \<Rightarrow> responseError e ''failed to add the holder'' | Inr account \<Rightarrow>
     (case account of PAC p \<Rightarrow> Panic | JAC jac \<Rightarrow>
      (if 127 < set_size (jac_Holders jac) then Failure ''already has max holders (128)''
       else if set_contains (jac_Holders jac) holder then Failure ''existed holder'' else
     (case AddHolder st [] jac holder of
        Inl e \<Rightarrow> responseError e ''failed to add the holder'' | Inr (j, ws) \<Rightarrow>
     Success NoPayload ws))))))))"

definition executeAccountHolderRemove :: "stub \<Rightarrow> string \<Rightarrow> json list \<Rightarrow> outcome" where
  "executeAccountHolderRemove st cid doc =
     (if length doc < 3 then Failure ''invalid contract document'' else 
     (case doc_str doc 1 of Inl e \<Rightarrow> fail_text e | Inr a \<Rightarrow>
     (case ParseAddress st a of
        Inl e \<Rightarrow> responseError e ''failed to remove the holder'' | Inr addr \<Rightarrow>
     (case doc_str doc 2 of Inl e \<Rightarrow> fail_text e | Inr holder \<Rightarrow>
     (case GetAccount st addr of
        Inl e \<Rightarrow> responseError e ''failed to remove the holder'' | Inr account \<Rightarrow>
     (case account of PAC p \<Rightarrow> Panic | JAC jac \<Rightarrow>
      (if set_size (jac_Holders jac) < 3 then Failure ''the account has minimum holders (2)''
       else if \<not> set_contains (jac_Holders jac) holder then Failure ''not existed holder'' else
     (case RemoveHolder st [] jac holder of
        Inl e \<Rightarrow> responseError e ''failed to remove the holder'' | Inr (j, ws) \<Rightarrow>
     Success NoPayload ws))))))))"

end
