(* ===== verification/TransferTx.thy ===== *)
theory TransferTx
  imports TxCommon
begin

text \<open>
  The transactions of \<open>transfer_tx.go\<close>: a transfer is instant, or, when it needs more than one
  signer, a deposit that a contract later executes (\<open>executeTransfer\<close>) or cancels
  (\<open>cancelTransfer\<close>).
\<close>

subsection \<open>Transfer\<close>

record SendOpts =
  so_memo :: string
  so_orderID :: string
  so_pendingTime :: "gotime option"
  so_expiry :: int
  so_signers :: stringset

text \<open>A pending time not after the second of the transaction is ignored.\<close>

definition pending_opt :: "stub \<Rightarrow> string \<Rightarrow> goerr + gotime option" where
  "pending_opt st s =
     (case parse_int64_opt s of
        None \<Rightarrow> Inl (Plain ''invalid pending time: need seconds since 1970'')
      | Some seconds \<Rightarrow>
          (case st_timestamp st of
             Inl e \<Rightarrow> Inl (Plain ''failed to get the timestamp'')
           | Inr (sec, ns) \<Rightarrow> Inr (if sec < seconds then Some (time_unix seconds 0) else None)))"

definition transfer_opts :: "stub \<Rightarrow> string \<Rightarrow> string \<Rightarrow> AccountI \<Rightarrow> string list \<Rightarrow> goerr + SendOpts" where
  "transfer_opts st tok kid sender ps =
     (let r = \<lparr>so_memo = [], so_orderID = [], so_pendingTime = None, so_expiry = 0,
               so_signers = base_signers kid sender\<rparr> in
      if length ps \<le> 3 then Inr r else
     (let r = r\<lparr>so_memo := memo_of (ps ! 3)\<rparr> in
      if length ps \<le> 4 then Inr r else
     (let r = r\<lparr>so_orderID := ps ! 4\<rparr> in
      if length ps \<le> 5 then Inr r else 
     (case pending_opt st (ps ! 5) of Inl e \<Rightarrow> Inl e | Inr pt \<Rightarrow>
     (let r = r\<lparr>so_pendingTime := pt\<rparr> in
      if length ps \<le> 6 \<or> ps ! 6 = [] then Inr r else
     (case parse_int64_opt (ps ! 6) of None \<Rightarrow> Inl (Plain ''invalid expiry: need seconds'') | Some expiry \<Rightarrow>
     (let r = r\<lparr>so_expiry := expiry\<rparr> in
      if length ps \<le> 7 then Inr r else
     (case extra_signers st tok (so_signers r) (drop 7 ps) of
        Inl e \<Rightarrow> Inl e | Inr signers \<Rightarrow>
     Inr (r\<lparr>so_signers := signers\<rparr>)))))))))"

text \<open>
  The pending time of the contract document is taken from \<open>params[4]\<close>, the order id.
\<close>

definition transfer_doc :: "string list \<Rightarrow> string \<Rightarrow> string \<Rightarrow> string \<Rightarrow> int \<Rightarrow> int \<Rightarrow> SendOpts \<Rightarrow> json" where
  "transfer_doc ps pbID senderID receiverID amount fee opts =
     (let ptStr = (if so_pendingTime opts \<noteq> None then ps ! 4 else ''0'') in
      JArr (map JStr [''transfer'', pbID, senderID, receiverID, show_int amount, show_int fee,
                      so_memo opts, so_orderID opts, ptStr]))"

text \<open>The sender's address: a given one of the same token, or the invoker's personal account.\<close>

definition sender_address :: "stub \<Rightarrow> string \<Rightarrow> Address \<Rightarrow> string \<Rightarrow> (goerr \<Rightarrow> outcome) \<Rightarrow> outcome + Address" where
  "sender_address st kid rAddr p parse_failed =
     (if 0 < length p
      then (case ParseAddress st p of
              Inl e \<Rightarrow> Inl (parse_failed e)
            | Inr sAddr \<Rightarrow> if addr_Code rAddr \<noteq> addr_Code sAddr then Inl (Failure ''different token accounts'')
                           else Inr sAddr)
      else Inr (NewAddress st (addr_Code rAddr) AccountTypePersonal kid))"

text \<open>
  The second half of \<open>transfer\<close>: a deposit for a contract when there is more than one
  signer, otherwise an instant transfer.
\<close>

definition transfer_send ::
  "stub \<Rightarrow> string list \<Rightarrow> int \<Rightarrow> int \<Rightarrow> AccountI \<Rightarrow> AccountI \<Rightarrow> Balance \<Rightarrow> Balance \<Rightarrow> SendOpts \<Rightarrow> outcome"
where
  "transfer_send st ps amount fee sender receiver sBal rBal opts =
     (if 1 < set_size (so_signers opts)
      then (if 128 < set_size (so_signers opts) then Failure ''too many signers'' else
     (let pbID = st_txid st;
          doc = transfer_doc ps pbID (ai_GetID sender) (ai_GetID receiver) amount fee opts in 
     (case create_contract st (st_text st doc) (so_expiry opts) (so_signers opts) of
        Inl e \<Rightarrow> fail_text e | Inr con \<Rightarrow>
     (case Deposit st [] pbID sBal con amount (Some fee) (so_memo opts) (so_orderID opts) of
        Inl e \<Rightarrow> fail_msg e ''failed to create the pending balance'' | Inr (log, ws) \<Rightarrow>
     Success (JsonPayload (marshal_BalanceLog log)) ws))))
      else 
     (case Transfer st [] sBal rBal amount fee (so_memo opts) (so_orderID opts) (so_pendingTime opts) of
        Inl e \<Rightarrow> fail_msg e ''failed to transfer'' | Inr (log, ws) \<Rightarrow>
     Success (JsonPayload (marshal_BalanceLog log)) ws))"

definition sender_is :: "stub \<Rightarrow> string \<Rightarrow> Address \<Rightarrow> string \<Rightarrow> Address \<Rightarrow> bool" where
  "sender_is st kid rAddr p sAddr \<longleftrightarrow>
     (if 0 < length p then ParseAddress st p = Inr sAddr \<and> addr_Code rAddr = addr_Code sAddr
      else sAddr = NewAddress st (addr_Code rAddr) AccountTypePersonal kid)"

lemma sender_address_Inr [ok_simps]:
  "sender_address st kid rAddr p f = Inr sAddr \<longleftrightarrow> sender_is st kid rAddr p sAddr"
  by (auto simp: sender_address_def sender_is_def split: sum.splits)

lemma sender_address_not_Success [simp]:
  "(\<And>e. f e \<noteq> Success p ws) \<Longrightarrow> sender_address st kid rAddr s f \<noteq> Inl (Success p ws)"
  by (auto simp: sender_address_def split: sum.splits if_splits)

definition transfer :: "stub \<Rightarrow> string list \<Rightarrow> outcome" where
  "transfer st ps =
     (if length ps < 3 then Failure ''incorrect number of parameters. expecting 3+'' else 
     (case get_kid st True of Inl e \<Rightarrow> fail_text e | Inr kid \<Rightarrow>
     (case NewAmount (ps ! 2) of Inl e \<Rightarrow> fail_text e | Inr amount \<Rightarrow>
     (if amount \<le> 0 then Failure ''invalid amount. must be greater than 0'' else
     (case ParseAddress st (ps ! 1) of
        Inl e \<Rightarrow> fail_msg e ''failed to parse the receiver's account address'' | Inr rAddr \<Rightarrow>
     (case sender_address st kid rAddr (ps ! 0) (\<lambda>e. fail_msg e ''failed to parse the sender's account address'') of
        Inl e \<Rightarrow> e | Inr sAddr \<Rightarrow>
     (if addr_Equal sAddr rAddr then Failure ''can't transfer to self'' else
     (case GetAccount st sAddr of
        Inl e \<Rightarrow> fail_msg e ''failed to get the sender account'' | Inr sender \<Rightarrow>
     (case ai_HasHolder sender kid of Inl e \<Rightarrow> fail_text e | Inr has \<Rightarrow>
     (if \<not> has then Failure ''invoker is not holder''
      else if ai_IsSuspended sender then Failure ''the sender account is suspended'' else
     (case GetAccount st rAddr of
        Inl e \<Rightarrow> fail_msg e ''failed to get the receiver account'' | Inr receiver \<Rightarrow>
     (if ai_IsSuspended receiver then Failure ''the receiver account is suspended'' else
     (case GetBalance st (ai_GetID sender) of
        Inl e \<Rightarrow> fail_msg e ''failed to get the sender's balance'' | Inr sBal \<Rightarrow>
     (case CalcFee st sAddr ''transfer'' amount of
        Inl e \<Rightarrow> fail_msg e ''failed to get the fee amount'' | Inr fee \<Rightarrow>
     (if bal_Amount sBal < amount + fee then Failure ''not enough balance'' else
     (case GetBalance st (ai_GetID receiver) of
        Inl e \<Rightarrow> fail_msg e ''failed to get the receiver's balance'' | Inr rBal \<Rightarrow>
     (case transfer_opts st (addr_Code rAddr) kid sender ps of
        Inl e \<Rightarrow> fail_text e | Inr opts \<Rightarrow>
     transfer_send st ps amount fee sender receiver sBal rBal opts)))))))))))))))))"

text \<open>What a transfer has established when it changes the ledger.\<close>

definition transfer_ready ::
  "stub \<Rightarrow> string list \<Rightarrow> string \<Rightarrow> int \<Rightarrow> int \<Rightarrow> Address \<Rightarrow> Address \<Rightarrow> AccountI \<Rightarrow> AccountI \<Rightarrow>
   Balance \<Rightarrow> Balance \<Rightarrow> SendOpts \<Rightarrow> bool" where
  "transfer_ready st ps kid amount fee sAddr rAddr sender receiver sBal rBal opts \<longleftrightarrow>
     get_kid st True = Inr kid \<and> NewAmount (ps ! 2) = Inr amount \<and> 0 < amount \<and>
     ParseAddress st (ps ! 1) = Inr rAddr \<and>
     sender_is st kid rAddr (ps ! 0) sAddr \<and> sAddr \<noteq> rAddr \<and>
     GetAccount st sAddr = Inr sender \<and> ai_HasHolder sender kid = Inr True \<and> \<not> ai_IsSuspended sender \<and>
     GetAccount st rAddr = Inr receiver \<and> \<not> ai_IsSuspended receiver \<and>
     GetBalance st (ai_GetID sender) = Inr sBal \<and> CalcFee st sAddr ''transfer'' amount = Inr fee \<and>
     amount + fee \<le> bal_Amount sBal \<and> GetBalance st (ai_GetID receiver) = Inr rBal \<and>
     transfer_opts st (addr_Code rAddr) kid sender ps = Inr opts"

lemma transfer_Success:
  assumes "transfer st ps = Success p ws"
  obtains kid amount fee sAddr rAddr sender receiver sBal rBal opts where
    "transfer_ready st ps kid amount fee sAddr rAddr sender receiver sBal rBal opts"
    "transfer_send st ps amount fee sender receiver sBal rBal opts = Success p ws"
  using assms by (auto simp: transfer_def transfer_ready_def Let_def ok_simps not_less not_le)

lemma transferE:
  assumes "transfer st ps = Success p ws"
  obtains (multi) kid amount fee sAddr rAddr sender receiver sBal rBal opts con log where
    "transfer_ready st ps kid amount fee sAddr rAddr sender receiver sBal rBal opts"
    "1 < set_size (so_signers opts)" "set_size (so_signers opts) \<le> 128"
    "create_contract st (st_text st (transfer_doc ps (st_txid st) (ai_GetID sender) (ai_GetID receiver) amount fee opts))
       (so_expiry opts) (so_signers opts) = Inr con"
    "Deposit st [] (st_txid st) sBal con amount (Some fee) (so_memo opts) (so_orderID opts) = Inr (log, ws)"
    "p = JsonPayload (marshal_BalanceLog log)"
  | (instant) kid amount fee sAddr rAddr sender receiver sBal rBal opts log where
    "transfer_ready st ps kid amount fee sAddr rAddr sender receiver sBal rBal opts"
    "\<not> 1 < set_size (so_signers opts)"
    "Transfer st [] sBal rBal amount fee (so_memo opts) (so_orderID opts) (so_pendingTime opts) = Inr (log, ws)"
    "p = JsonPayload (marshal_BalanceLog log)"
proof -
  obtain kid amount fee sAddr rAddr sender receiver sBal rBal opts where 1: "transfer_ready st ps kid amount fee sAddr rAddr sender receiver sBal rBal opts"
    "transfer_send st ps amount fee sender receiver sBal rBal opts = Success p ws"
    using assms by (rule transfer_Success)
  show ?thesis
  proof (cases "1 < set_size (so_signers opts)")
    case True
    with 1 show ?thesis using multi by (auto simp: transfer_send_def Let_def ok_simps not_less)
  next
    case False
    with 1 show ?thesis using instant by (auto simp: transfer_send_def ok_simps)
  qed
qed

definition transferGet :: "stub \<Rightarrow> string list \<Rightarrow> outcome" where
  "transferGet st ps =
     (if length ps < 1 then Failure ''incorrect number of parameters. expecting 1'' else 
     (case get_kid st False of Inl e \<Rightarrow> fail_text e | Inr kid \<Rightarrow>
     (let orderID = ps ! 0 in
      if orderID = [] then Failure ''invalid parameter'' else
     (case GetQueryBalaceLogByOrderID st orderID ''2'' of
        Inl e \<Rightarrow> responseError e ''failed to get transfer'' | Inr bl \<Rightarrow>
     Success (JsonPayload (marshal_BalanceLog bl)) []))))"

subsection \<open>Contract callbacks\<close>

definition cancelTransfer :: "stub \<Rightarrow> string \<Rightarrow> json list \<Rightarrow> outcome" where
  "cancelTransfer st cid doc =
     (if length doc < 2 then Failure ''invalid contract document'' else 
     (case doc_str doc 1 of Inl e \<Rightarrow> fail_text e | Inr pbID \<Rightarrow>
     (case GetPendingBalance st pbID of
        Inl e \<Rightarrow> fail_msg e ''failed to get the pending balance'' | Inr pb \<Rightarrow>
     (if pb_Type pb \<noteq> PendingBalanceTypeContract \<or> pb_RID pb \<noteq> cid then Failure ''invalid pending balance'' else
     (case Withdraw st [] pb of
        Inl e \<Rightarrow> fail_msg e ''failed to withdraw'' | Inr (log, ws) \<Rightarrow>
     Success NoPayload ws)))))"

text \<open>The document's member 7 is read as the pending time; \<open>transfer\<close> puts the order id there.\<close>

definition doc_pending :: "string \<Rightarrow> goerr + gotime option" where
  "doc_pending ptStr =
     (if ptStr \<noteq> [] \<and> ptStr \<noteq> ''0''
      then (case parse_int64_opt ptStr of
              None \<Rightarrow> Inl (Plain ''invalid pending time'') | Some seconds \<Rightarrow> Inr (Some (time_unix seconds 0)))
      else Inr None)"

definition transfer_summary :: "Balance \<Rightarrow> Balance \<Rightarrow> PendingBalance \<Rightarrow> json" where
  "transfer_summary sBal rBal pb = obj [
     (''@balance_log'', Some (JStr (bal_DOCTYPEID sBal))),
     (''type'', Some (JNum BalanceLogTypeSend)),
     (''rid'', Some (JStr (bal_DOCTYPEID rBal))),
     (''diff'', Some (amount_marshal (- pb_Amount pb))),
     (''fee'', omit_amount (pb_Fee pb)),
     (''memo'', omit_str (pb_Memo pb)),
     (''order_id'', omit_str (pb_OrderID pb))]"

definition executeTransfer :: "stub \<Rightarrow> string \<Rightarrow> json list \<Rightarrow> outcome" where
  "executeTransfer st cid doc =
     (if length doc < 9 then Failure ''invalid contract document'' else 
     (case doc_str doc 1 of Inl e \<Rightarrow> fail_text e | Inr pbID \<Rightarrow>
     (case GetPendingBalance st pbID of
        Inl e \<Rightarrow> fail_msg e ''failed to get the pending balance'' | Inr pb \<Rightarrow>
     (if pb_Type pb \<noteq> PendingBalanceTypeContract \<or> pb_RID pb \<noteq> cid then Failure ''invalid pending balance'' else
     (case doc_str doc 2 of Inl e \<Rightarrow> fail_text e | Inr senderID \<Rightarrow>
     (case GetBalance st senderID of
        Inl e \<Rightarrow> fail_msg e ''failed to get the sender's balance'' | Inr sBal \<Rightarrow>
     (case doc_str doc 3 of Inl e \<Rightarrow> fail_text e | Inr receiverID \<Rightarrow>
     (case GetBalance st receiverID of
        Inl e \<Rightarrow> fail_msg e ''failed to get the receiver's balance'' | Inr rBal \<Rightarrow>
     (case doc_str doc 7 of Inl e \<Rightarrow> fail_text e | Inr ptStr \<Rightarrow>
     (case doc_pending ptStr of Inl e \<Rightarrow> fail_text e | Inr pendingTime \<Rightarrow>
     (case TransferPendingBalance st [] pb sBal rBal pendingTime of
        Inl e \<Rightarrow> fail_msg e ''failed to transfer a pending balance'' | Inr ws \<Rightarrow>
     Success (JsonPayload (transfer_summary sBal rBal pb)) ws)))))))))))"

end
