(* ===== verification/BalanceTx.thy ===== *)
theory BalanceTx
  imports TransferTx
begin

text \<open>The transactions of \<open>balance_tx.go\<close>: lists of logs and pending balances, and the withdrawal.\<close>

text \<open>\<open>strconv.ParseInt(typeStr, 10, 8)\<close>: a signed byte.\<close>

definition valid_log_type :: "string \<Rightarrow> bool" where
  "valid_log_type s = (case parse_int64_opt s of None \<Rightarrow> False | Some n \<Rightarrow> - 128 \<le> n \<and> n \<le> 127)"

definition balanceLogs :: "stub \<Rightarrow> string list \<Rightarrow> outcome" where
  "balanceLogs st ps =
     (if length ps < 1 then Failure ''incorrect number of parameters. expecting 1+'' else 
     (case get_kid st False of Inl e \<Rightarrow> fail_text e | Inr kid \<Rightarrow>
     (let typeStr = (if 1 < length ps then ps ! 1 else []) in
     (case list_opts 2 ps of Inl e \<Rightarrow> fail_text e | Inr opts \<Rightarrow>
     (case param_address st kid (ps ! 0) of
        Inl e \<Rightarrow> responseError e ''failed to parse the account address'' | Inr addr \<Rightarrow>
     (if typeStr \<noteq> [] \<and> \<not> valid_log_type typeStr then Failure ''failed to parse balance log type'' else
     (case GetQueryBalanceLogs st (addr_String addr) typeStr (lo_bookmark opts) (lo_fetchSize opts) (lo_stime opts) (lo_etime opts) of
        Inl e \<Rightarrow> responseError e ''failed to get balance logs'' | Inr res \<Rightarrow>
     Success (JsonPayload (marshal_QueryResult res)) [])))))))"

definition balancePendingGet :: "stub \<Rightarrow> string list \<Rightarrow> outcome" where
  "balancePendingGet st ps =
     (if length ps \<noteq> 1 then Failure ''incorrect number of parameters. expecting 1'' else 
     (case get_kid st False of Inl e \<Rightarrow> fail_text e | Inr kid \<Rightarrow>
     (case GetPendingBalance st (ps ! 0) of
        Inl e \<Rightarrow> responseError e ''failed to get the pending balance'' | Inr pb \<Rightarrow>
     Success (JsonPayload (marshal_PendingBalance pb)) [])))"

definition pending_list_opts :: "string list \<Rightarrow> goerr + string \<times> string \<times> int" where
  "pending_list_opts ps =
     (let sorting = (if 1 < length ps then ps ! 1 else ''pending_time'');
          bookmark = (if 2 < length ps then ps ! 2 else []) in
      if 3 < length ps
      then (case parse_int64_opt (ps ! 3) of
              None \<Rightarrow> Inl (Plain ''invalid fetch size'') | Some n \<Rightarrow> Inr (sorting, bookmark, n))
      else Inr (sorting, bookmark, 0))"

definition balancePendingList :: "stub \<Rightarrow> string list \<Rightarrow> outcome" where
  "balancePendingList st ps =
     (if length ps < 1 then Failure ''incorrect number of parameters. expecting 1+'' else 
     (case get_kid st False of Inl e \<Rightarrow> fail_text e | Inr kid \<Rightarrow>
     (case pending_list_opts ps of
        Inl e \<Rightarrow> fail_text e | Inr (sorting, bookmark, fetchSize) \<Rightarrow>
     (case param_address st kid (ps ! 0) of
        Inl e \<Rightarrow> responseError e ''failed to parse the account address'' | Inr addr \<Rightarrow>
     (case GetQueryPendingBalances st (addr_String addr) sorting bookmark fetchSize of
        Inl e \<Rightarrow> responseError e ''failed to get pending balances'' | Inr res \<Rightarrow>
     Success (JsonPayload (marshal_QueryResult res)) [])))))"

text \<open>
  A pending balance without a pending time, and an account id that does not parse, are nil
  pointers that are dereferenced.
\<close>

definition balancePendingWithdraw :: "stub \<Rightarrow> string list \<Rightarrow> outcome" where
  "balancePendingWithdraw st ps =
     (if length ps \<noteq> 1 then Failure ''incorrect number of parameters. expecting 1'' else 
     (case get_time st of
        Inl e \<Rightarrow> responseError e ''failed to get the timestamp'' | Inr ts \<Rightarrow>
     (case get_kid st True of Inl e \<Rightarrow> fail_text e | Inr kid \<Rightarrow>
     (case GetPendingBalance st (ps ! 0) of
        Inl e \<Rightarrow> responseError e ''failed to get the pending balance'' | Inr pb \<Rightarrow>
     (case pb_PendingTime pb of None \<Rightarrow> Panic | Some pt \<Rightarrow>
     (if 0 < time_cmp pt ts then Failure ''too early to withdraw'' else
     (case ParseAddress st (pb_Account pb) of Inl e \<Rightarrow> Panic | Inr addr \<Rightarrow>
     (case GetAccount st addr of
        Inl e \<Rightarrow> responseError e ''failed to get the account'' | Inr account \<Rightarrow>
     (case ai_HasHolder account kid of Inl e \<Rightarrow> fail_text e | Inr has \<Rightarrow>
     (if \<not> has then Failure ''invoker is not holder''
      else if ai_IsSuspended account then Failure ''the account is suspended'' else
     (case Withdraw st [] pb of
        Inl e \<Rightarrow> responseError e ''failed to withdraw'' | Inr (log, ws) \<Rightarrow>
     Success (JsonPayload (marshal_BalanceLog log)) ws)))))))))))"

end
