(* ===== verification/FeeTx.thy ===== *)
theory FeeTx
  imports TxCommon
begin

text \<open>The transactions of \<open>fee_tx.go\<close>: the list of fees and the pruning of fees to the target account.\<close>

definition feeList :: "stub \<Rightarrow> string list \<Rightarrow> outcome" where
  "feeList st ps =
     (if length ps < 1 then Failure ''incorrect number of parameters. expecting 1+'' else 
     (case ValidateTokenCode (ps ! 0) of Inl e \<Rightarrow> fail_text e | Inr code \<Rightarrow>
     (case GetToken st code of
        Inl e \<Rightarrow> responseError e ''failed to get the token'' | Inr token \<Rightarrow>
     (case get_kid st False of Inl e \<Rightarrow> fail_text e | Inr kid \<Rightarrow>
     (case list_opts 1 ps of Inl e \<Rightarrow> fail_text e | Inr opts \<Rightarrow>
     (case GetQueryFees st (tok_DOCTYPEID token) (lo_bookmark opts) (lo_fetchSize opts) (lo_stime opts) (lo_etime opts) of
        Inl e \<Rightarrow> responseError e ''failed to get fees'' | Inr res \<Rightarrow>
     Success (JsonPayload (marshal_QueryResult res)) []))))))"

definition marshal_FeeSum :: "FeeSum \<Rightarrow> json" where
  "marshal_FeeSum s = obj [
     (''sum'', Some (amount_marshal (fs_Sum s))),
     (''count'', Some (JNum (int (fs_Count s)))),
     (''start_id'', Some (JStr (fs_Start s))),
     (''end_id'', Some (JStr (fs_End s))),
     (''has_more'', Some (JBool (fs_HasMore s)))]"

text \<open>
  Before version 1.2.5 the id was a member of the token: it is moved to its own document, and
  the token is written without it.
\<close>

fun is_NotInit :: "goerr \<Rightarrow> bool" where
  "is_NotInit (NotInitLastPrunedFeeIDError c) = True"
| "is_NotInit _ = False"

definition last_pruned :: "stub \<Rightarrow> writes \<Rightarrow> Token \<Rightarrow> string \<Rightarrow> outcome + LastPrunedFeeID \<times> writes" where
  "last_pruned st ws token code =
     (case GetLastPrunedFeeID st code of
        Inr l \<Rightarrow> Inr (l, ws)
      | Inl e \<Rightarrow>
          if is_NotInit e
          then (case PutToken st ws (token\<lparr>tok_LastPrunedFeeID := []\<rparr>) of
                  Inl e \<Rightarrow> Inl (responseError e ''failed to update token state of removing last_pruned_fee_id'')
                | Inr ws \<Rightarrow> Inr (\<lparr>lpf_DOCTYPEID = code, lpf_FeeID = tok_LastPrunedFeeID token,
                                 lpf_UpdatedTime = None\<rparr>, ws))
          else Inl (responseError e ''failed to get the last pruned fee id''))"

definition feePrune :: "stub \<Rightarrow> string list \<Rightarrow> outcome" where
  "feePrune st ps =
     (if length ps < 2 then Failure ''incorrect number of parameters. expecting 2+'' else 
     (case ValidateTokenCode (ps ! 0) of Inl e \<Rightarrow> fail_text e | Inr code \<Rightarrow>
     (case GetToken st code of
        Inl e \<Rightarrow> responseError e ''failed to get the token'' | Inr token \<Rightarrow>
     (case get_kid st True of Inl e \<Rightarrow> fail_text e | Inr kid \<Rightarrow>
     (case tok_FeePolicy token of
        None \<Rightarrow> Success (JsonPayload (marshal_FeeSum zero_FeeSum)) []
      | Some policy \<Rightarrow>
     (case ParseAddress st (fp_TargetAddress policy) of
        Inl e \<Rightarrow> Panic | Inr addr \<Rightarrow>
     (case GetAccount st addr of
        Inl e \<Rightarrow> responseError e ''failed to get the target account'' | Inr account \<Rightarrow>
     (case ai_HasHolder account kid of Inl e \<Rightarrow> fail_text e | Inr has \<Rightarrow>
     (if \<not> has then Failure ''no authority'' else
     (case get_time st of
        Inl e \<Rightarrow> responseError e ''failed to get the timestamp'' | Inr ts \<Rightarrow>
     (case last_pruned st [] token code of Inl e \<Rightarrow> e | Inr (l, ws) \<Rightarrow>
     (case id_time (lpf_FeeID l) of Inl e \<Rightarrow> fail_text e | Inr stime \<Rightarrow>
     (case prune_etime ''invalid boolean flag'' ts ps of
        Inl e \<Rightarrow> fail_text e | Inr etime \<Rightarrow>
     (case GetFeeSumByTime st code stime etime of
        Inl e \<Rightarrow> responseError e ''failed to get fees to prune'' | Inr feeSum \<Rightarrow>
     (case GetBalance st (ai_GetID account) of
        Inl e \<Rightarrow> responseError e ''failed to get the target account balance'' | Inr bal \<Rightarrow>
     (if 0 < fs_Count feeSum
      then (let bal = bal\<lparr>bal_Amount := bal_Amount bal + fs_Sum feeSum, bal_UpdatedTime := Some ts\<rparr> in 
     (case PutBalance st ws bal of
        Inl e \<Rightarrow> responseError e ''failed to update genesis account balance'' | Inr ws \<Rightarrow>
     (case PutLastPrunedFeeID st ws (l\<lparr>lpf_FeeID := fs_End feeSum, lpf_UpdatedTime := Some ts\<rparr>) of
        Inl e \<Rightarrow> responseError e ''failed to update the last pruned fee id'' | Inr ws \<Rightarrow>
     (let pruneLog = (NewBalancePruneFeeLog bal (fs_Sum feeSum) (fs_Start feeSum) (fs_End feeSum))
                       \<lparr>bl_CreatedTime := Some ts\<rparr> in
     (case PutBalanceLog st ws pruneLog of
        Inl e \<Rightarrow> responseError e ''failed to save balance log'' | Inr ws \<Rightarrow>
     Success (JsonPayload (marshal_FeeSum feeSum)) ws)))))
      else Failure ''found no record to prune.''))))))))))))))))"

end
