(* ===== verification/PayTx.thy ===== *)
theory PayTx
  imports TransferTx
begin

text \<open>
  The transactions of \<open>pay_tx.go\<close>: pays, refunds, the pruning of the pays of an account into
  its balance, the lists, and the contract callback that executes a pay.
\<close>

subsection \<open>Pay\<close>

record PayOpts =
  po_orderID :: string
  po_memo :: string
  po_expiry :: int

text \<open>
  The response built for an invalid expiry is dropped, so the handler goes on with the value
  \<open>ParseInt\<close> returns beside its error.
\<close>

definition pay_opts :: "string list \<Rightarrow> PayOpts" where
  "pay_opts ps =
     \<lparr>po_orderID = (if 3 < length ps then ps ! 3 else []),
      po_memo = (if 4 < length ps then memo_of (ps ! 4) else []),
      po_expiry = (if 5 < length ps \<and> 0 < length (ps ! 5) then fst (parse_int64 (ps ! 5)) else 0)\<rparr>"

definition marshal_PayResult :: "Pay option \<Rightarrow> BalanceLog option \<Rightarrow> json" where
  "marshal_PayResult p log = obj [
     (''pay'', Some (case p of None \<Rightarrow> JNull | Some p \<Rightarrow> marshal_Pay p)),
     (''balance_log'', Some (case log of None \<Rightarrow> JNull | Some l \<Rightarrow> marshal_BalanceLog l))]"

definition pay_doc :: "string \<Rightarrow> string \<Rightarrow> string \<Rightarrow> int \<Rightarrow> PayOpts \<Rightarrow> json" where
  "pay_doc pbID senderID receiverID amount opts =
     JArr (map JStr [''pay'', pbID, senderID, receiverID, show_int amount, po_orderID opts, po_memo opts])"

text \<open>The second half of \<open>pay\<close>: a deposit for a contract, or the pay itself.\<close>

definition pay_send ::
  "stub \<Rightarrow> string list \<Rightarrow> string \<Rightarrow> int \<Rightarrow> Address \<Rightarrow> AccountI \<Rightarrow> AccountI \<Rightarrow> Balance \<Rightarrow> outcome" where
  "pay_send st ps kid amount rAddr sender receiver sBal =
     (let opts = pay_opts ps; signers = base_signers kid sender in
      if 1 < set_size signers
      then (if 128 < set_size signers then Failure ''too many signers'' else
     (let pbID = st_txid st;
          doc = pay_doc pbID (ai_GetID sender) (ai_GetID receiver) amount opts in 
     (case create_contract st (st_text st doc) (po_expiry opts) signers of
        Inl e \<Rightarrow> responseError e ''failed to create a contract'' | Inr con \<Rightarrow>
     (case Deposit st [] pbID sBal con amount None (po_memo opts) (po_orderID opts) of
        Inl e \<Rightarrow> responseError e ''failed to create the pending balance'' | Inr (log, ws) \<Rightarrow>
     Success (JsonPayload (marshal_PayResult None (Some log))) ws))))
      else 
     (case CalcFee st rAddr ''pay'' amount of
        Inl e \<Rightarrow> responseError e ''failed to get the fee amount'' | Inr feeAmount \<Rightarrow>
     (case PayOp st [] sBal (ai_GetID receiver) amount feeAmount (po_orderID opts) (po_memo opts) of
        Inl e \<Rightarrow> responseError e ''failed to pay'' | Inr ((p, sbl), ws) \<Rightarrow>
     Success (JsonPayload (marshal_PayResult (Some p) (Some sbl))) ws)))"

definition pay :: "stub \<Rightarrow> string list \<Rightarrow> outcome" where
  "pay st ps =
     (if length ps < 3 then Failure ''incorrect number of parameters. expecting 3+'' else 
     (case get_kid st True of Inl e \<Rightarrow> fail_text e | Inr kid \<Rightarrow>
     (case ParseAddress st (ps ! 1) of
        Inl e \<Rightarrow> responseError e ''failed to parse the receiver's account address'' | Inr rAddr \<Rightarrow>
     (case sender_address st kid rAddr (ps ! 0) (\<lambda>e. responseError e ''failed to parse the sender's account address'') of
        Inl e \<Rightarrow> e | Inr sAddr \<Rightarrow>
     (if addr_Equal sAddr rAddr then Failure ''can't pay to self'' else
     (case NewAmount (ps ! 2) of Inl e \<Rightarrow> fail_text e | Inr amount \<Rightarrow>
     (if amount < 1 then Failure ''invalid amount. must be greater than 0'' else
     (case GetAccount st sAddr of
        Inl e \<Rightarrow> responseError e ''failed to get the sender account'' | Inr sender \<Rightarrow>
     (case ai_HasHolder sender kid of Inl e \<Rightarrow> fail_text e | Inr has \<Rightarrow>
     (if \<not> has then Failure ''invoker is not holder''
      else if ai_IsSuspended sender then Failure ''the sender account is suspended'' else
     (case GetAccount st rAddr of
        Inl e \<Rightarrow> responseError e ''failed to get the receiver account'' | Inr receiver \<Rightarrow>
     (if ai_IsSuspended receiver then Failure ''the receiver account is suspended'' else
     (case GetBalance st (ai_GetID sender) of
        Inl e \<Rightarrow> responseError e ''failed to get the sender's balance'' | Inr sBal \<Rightarrow>
     (if bal_Amount sBal < amount then Failure ''not enough balance'' else
     pay_send st ps kid amount rAddr sender receiver sBal))))))))))))))"

definition pay_ready ::
  "stub \<Rightarrow> string list \<Rightarrow> string \<Rightarrow> int \<Rightarrow> Address \<Rightarrow> Address \<Rightarrow> AccountI \<Rightarrow> AccountI \<Rightarrow> Balance \<Rightarrow> bool"
where
  "pay_ready st ps kid amount sAddr rAddr sender receiver sBal \<longleftrightarrow>
     get_kid st True = Inr kid \<and> ParseAddress st (ps ! 1) = Inr rAddr \<and>
     sender_is st kid rAddr (ps ! 0) sAddr \<and> sAddr \<noteq> rAddr \<and>
     NewAmount (ps ! 2) = Inr amount \<and> 0 < amount \<and>
     GetAccount st sAddr = Inr sender \<and> ai_HasHolder sender kid = Inr True \<and> \<not> ai_IsSuspended sender \<and>
     GetAccount st rAddr = Inr receiver \<and> \<not> ai_IsSuspended receiver \<and>
     GetBalance st (ai_GetID sender) = Inr sBal \<and> amount \<le> bal_Amount sBal"

lemma pay_Success:
  assumes "pay st ps = Success p ws"
  obtains kid amount sAddr rAddr sender receiver sBal where
    "pay_ready st ps kid amount sAddr rAddr sender receiver sBal"
    "pay_send st ps kid amount rAddr sender receiver sBal = Success p ws"
  using assms
  by (auto simp: pay_def pay_ready_def Let_def ok_simps not_less not_le int_one_le_iff_zero_less)

lemma payE:
  assumes "pay st ps = Success p ws"
  obtains (multi) kid amount sAddr rAddr sender receiver sBal con log where
    "pay_ready st ps kid amount sAddr rAddr sender receiver sBal"
    "1 < set_size (base_signers kid sender)" "set_size (base_signers kid sender) \<le> 128"
    "Deposit st [] (st_txid st) sBal con amount None (po_memo (pay_opts ps)) (po_orderID (pay_opts ps)) = Inr (log, ws)"
    "p = JsonPayload (marshal_PayResult None (Some log))"
  | (instant) kid amount sAddr rAddr sender receiver sBal fee q log where
    "pay_ready st ps kid amount sAddr rAddr sender receiver sBal"
    "\<not> 1 < set_size (base_signers kid sender)"
    "CalcFee st rAddr ''pay'' amount = Inr fee"
    "PayOp st [] sBal (ai_GetID receiver) amount fee (po_orderID (pay_opts ps)) (po_memo (pay_opts ps)) = Inr ((q, log), ws)"
    "p = JsonPayload (marshal_PayResult (Some q) (Some log))"
proof -
  obtain kid amount sAddr rAddr sender receiver sBal where 1: "pay_ready st ps kid amount sAddr rAddr sender receiver sBal"
    "pay_send st ps kid amount rAddr sender receiver sBal = Success p ws"
    using assms by (rule pay_Success)
  show ?thesis
  proof (cases "1 < set_size (base_signers kid sender)")
    case True
    with 1 show ?thesis using multi by (auto simp: pay_send_def Let_def ok_simps not_less)
  next
    case False
    with 1 show ?thesis using instant by (auto simp: pay_send_def Let_def ok_simps)
  qed
qed

subsection \<open>Refund\<close>

text \<open>
  The fee of a partial refund is the parent's fee in proportion, rounded down; \<open>SetFrac\<close>
  panics on a zero denominator.
\<close>

definition refund_fee :: "Pay \<Rightarrow> int \<Rightarrow> goerr + int" where
  "refund_fee parentPay amount =
     (if amount \<noteq> pay_Amount parentPay
      then if pay_Amount parentPay = 0 then Inl Panicked
           else Inr (MulRat amount (rat_norm (pay_Fee parentPay) (pay_Amount parentPay)))
      else Inr (pay_Fee parentPay))"

definition payRefund :: "stub \<Rightarrow> string list \<Rightarrow> outcome" where
  "payRefund st ps =
     (if length ps < 2 then Failure ''incorrect number of parameters. expecting 2+'' else 
     (case get_kid st True of Inl e \<Rightarrow> fail_text e | Inr kid \<Rightarrow>
     (case NewAmount (ps ! 1) of Inl e \<Rightarrow> fail_text e | Inr amount \<Rightarrow>
     (if amount < 1 then Failure ''invalid amount. must be greater than 0'' else
     (let parentID = ps ! 0 in
     (case GetPay st parentID of
        Inl e \<Rightarrow> responseError e ''failed to get the original payment'' | Inr parentPay \<Rightarrow>
     (case ParseAddress st (pay_DOCTYPEID parentPay) of
        Inl e \<Rightarrow> responseError e ''failed to get the account'' | Inr sAddr \<Rightarrow>
     (case ParseAddress st (pay_RID parentPay) of
        Inl e \<Rightarrow> responseError e ''failed to parse the receiver's account address'' | Inr rAddr \<Rightarrow>
     (if addr_Code rAddr \<noteq> addr_Code sAddr then Failure ''different token accounts''
      else if addr_Equal sAddr rAddr then Failure ''can't refund to self''
      else if pay_Amount parentPay < pay_TotalRefund parentPay + amount
      then Failure ''can't exceed the original pay amount'' else
     (case GetAccount st sAddr of
        Inl e \<Rightarrow> responseError e ''failed to get the sender account'' | Inr sender \<Rightarrow>
     (case ai_HasHolder sender kid of Inl e \<Rightarrow> fail_text e | Inr has \<Rightarrow>
     (if \<not> has then Failure ''invoker is not holder''
      else if ai_IsSuspended sender then Failure ''the sender account is suspended'' else
     (case GetAccount st rAddr of
        Inl e \<Rightarrow> responseError e ''failed to get the receiver account'' | Inr receiver \<Rightarrow>
     (if ai_IsSuspended receiver then Failure ''the receiver account is suspended'' else
     (case GetBalance st (ai_GetID sender) of
        Inl e \<Rightarrow> responseError e ''failed to get the sender's balance'' | Inr sBal \<Rightarrow>
     (case GetBalance st (ai_GetID receiver) of
        Inl e \<Rightarrow> responseError e ''failed to get the receiver's balance'' | Inr rBal \<Rightarrow>
     (let memo = (if 2 < length ps then memo_of (ps ! 2) else []);
          orderID = (if 3 < length ps then ps ! 3 else []) in
     (case refund_fee parentPay amount of
        Inl e \<Rightarrow> fail_text e | Inr feeAmount \<Rightarrow>
     (case Refund st [] sBal rBal amount feeAmount memo orderID parentPay of
        Inl e \<Rightarrow> responseError e ''failed to pay'' | Inr (log, ws) \<Rightarrow>
     Success (JsonPayload (marshal_BalanceLog log)) ws)))))))))))))))))))"

subsection \<open>Prune\<close>

definition marshal_PaySum :: "PaySum \<Rightarrow> json" where
  "marshal_PaySum s = obj [
     (''sum'', Some (amount_marshal (ps_Sum s))),
     (''fee'', Some (amount_marshal (ps_Fee s))),
     (''prune_count'', Some (JNum (int (ps_Count s)))),
     (''start_id'', Some (JStr (ps_Start s))),
     (''end_id'', Some (JStr (ps_End s))),
     (''has_more'', Some (JBool (ps_HasMore s)))]"

definition pruned_balance :: "Balance \<Rightarrow> PaySum \<Rightarrow> gotime \<Rightarrow> Balance" where
  "pruned_balance bal s ts =
     (let bal = bal\<lparr>bal_Amount := bal_Amount bal + (ps_Sum s + - ps_Fee s), bal_UpdatedTime := Some ts\<rparr> in
      if 0 \<noteq> length (ps_End s) then bal\<lparr>bal_LastPrunedPayID := ps_End s\<rparr> else bal)"

definition payPrune :: "stub \<Rightarrow> string list \<Rightarrow> outcome" where
  "payPrune st ps =
     (if length ps < 2 then Failure ''incorrect number of parameters. expecting 2+'' else 
     (case get_kid st True of Inl e \<Rightarrow> fail_text e | Inr kid \<Rightarrow>
     (case param_address st kid (ps ! 0) of
        Inl e \<Rightarrow> responseError e ''failed to get the account'' | Inr addr \<Rightarrow>
     (case GetAccount st addr of
        Inl e \<Rightarrow> responseError e ''failed to get the account'' | Inr account \<Rightarrow>
     (case ai_HasHolder account kid of Inl e \<Rightarrow> fail_text e | Inr has \<Rightarrow>
     (if \<not> has then Failure ''invoker is not holder''
      else if ai_IsSuspended account then Failure ''the account is suspended'' else
     (case GetBalance st (ai_GetID account) of
        Inl e \<Rightarrow> responseError e ''failed to get the balance'' | Inr bal \<Rightarrow>
     (case id_time (bal_LastPrunedPayID bal) of
        Inl e \<Rightarrow> fail_text e | Inr stime \<Rightarrow>
     (case get_time st of
        Inl e \<Rightarrow> responseError e ''failed to get the timestamp'' | Inr ts \<Rightarrow>
     (case prune_etime ''wrong first params value. the value must be true or false'' ts ps of
        Inl e \<Rightarrow> fail_text e | Inr etime \<Rightarrow>
     (case GetPaySumByTime st (ai_GetID account) stime etime of
        Inl e \<Rightarrow> responseError e ''failed to get pay(s) to prune'' | Inr paySum \<Rightarrow>
     (if 0 < ps_Count paySum
      then (let bal = pruned_balance bal paySum ts in 
     (case PutBalance st [] bal of
        Inl e \<Rightarrow> responseError e ''failed to update balance'' | Inr ws \<Rightarrow>
     (case CreateFee st ws (ai_GetID account) (ps_Fee paySum) of
        Inl e \<Rightarrow> fail_text e | Inr (f, ws) \<Rightarrow>
     (let rbl = (NewBalancePrunePayLog bal (ps_Sum paySum + - ps_Fee paySum) (ps_Start paySum) (ps_End paySum))
                  \<lparr>bl_CreatedTime := Some ts\<rparr> in
     (case PutBalanceLog st ws rbl of Inl e \<Rightarrow> fail_text e | Inr ws \<Rightarrow>
     Success (JsonPayload (marshal_PaySum paySum)) ws)))))
      else Failure ''found no record to prune.''))))))))))))"

subsection \<open>Queries\<close>

definition payList :: "stub \<Rightarrow> string list \<Rightarrow> outcome" where
  "payList st ps =
     (if length ps < 1 then Failure ''incorrect number of parameters. expecting 1+'' else 
     (case get_kid st False of Inl e \<Rightarrow> fail_text e | Inr kid \<Rightarrow>
     (let sortOrder = (if 1 < length ps \<and> to_lower (ps ! 1) = ''asc'' then ''asc'' else ''desc'') in
     (case list_opts 2 ps of Inl e \<Rightarrow> fail_text e | Inr opts \<Rightarrow>
     (case param_address st kid (ps ! 0) of
        Inl e \<Rightarrow> responseError e ''failed to parse the account address'' | Inr addr \<Rightarrow>
     (case GetPaysByTime st (addr_String addr) sortOrder (lo_bookmark opts) (lo_stime opts) (lo_etime opts) (lo_fetchSize opts) of
        Inl e \<Rightarrow> responseError e ''failed to get pays log'' | Inr res \<Rightarrow>
     Success (JsonPayload (marshal_QueryResult res)) []))))))"

definition payGet :: "stub \<Rightarrow> string list \<Rightarrow> outcome" where
  "payGet st ps =
     (if length ps < 1 then Failure ''incorrect number of parameters. expecting 1 or 2'' else 
     (case get_kid st False of Inl e \<Rightarrow> fail_text e | Inr kid \<Rightarrow>
     (let payID = ps ! 0; orderID = (if length ps = 2 then ps ! 1 else []) in
      if payID = [] \<and> orderID = [] then Failure ''invalid parameter'' else
     (case (if payID = [] then GetPayByOrderID st orderID else GetPay st payID) of
        Inl e \<Rightarrow> responseError e ''failed to get pay'' | Inr p \<Rightarrow>
     Success (JsonPayload (marshal_Pay p)) []))))"

subsection \<open>Contract callback\<close>

text \<open>A merchant address that does not parse is a nil pointer, dereferenced by \<open>CalcFee\<close>.\<close>

definition executePay :: "stub \<Rightarrow> string \<Rightarrow> json list \<Rightarrow> outcome" where
  "executePay st cid doc =
     (if length doc < 7 then Failure ''invalid contract document'' else 
     (case doc_str doc 1 of Inl e \<Rightarrow> fail_text e | Inr pbID \<Rightarrow>
     (case GetPendingBalance st pbID of
        Inl e \<Rightarrow> responseError e ''failed to get the pending balance'' | Inr pb \<Rightarrow>
     (if pb_Type pb \<noteq> PendingBalanceTypeContract \<or> pb_RID pb \<noteq> cid then Failure ''invalid pending balance'' else
     (case doc_str doc 2 of Inl e \<Rightarrow> fail_text e | Inr senderID \<Rightarrow>
     (case GetBalance st senderID of
        Inl e \<Rightarrow> fail_msg e ''failed to get the sender's balance'' | Inr sBal \<Rightarrow>
     (case doc_str doc 3 of Inl e \<Rightarrow> fail_text e | Inr merchant \<Rightarrow>
     (case ParseAddress st merchant of Inl e \<Rightarrow> Panic | Inr rAddr \<Rightarrow>
     (case CalcFee st rAddr ''pay'' (pb_Amount pb) of
        Inl e \<Rightarrow> responseError e ''failed to get the fee amount'' | Inr feeAmount \<Rightarrow>
     (case doc_str doc 5 of Inl e \<Rightarrow> fail_text e | Inr orderID \<Rightarrow>
     (case doc_str doc 6 of Inl e \<Rightarrow> fail_text e | Inr memo \<Rightarrow>
     (case PayPendingBalance st [] pb sBal feeAmount merchant orderID memo of
        Inl e \<Rightarrow> responseError e ''failed to pay a pending balance'' | Inr ((p, sbl), ws) \<Rightarrow>
     Success (JsonPayload (marshal_PayResult (Some p) (Some sbl))) ws))))))))))))"

end
