(* ===== verification/TokenTx.thy ===== *)
theory TokenTx
  imports TxCommon
begin

text \<open>
  The transactions of \<open>token_tx.go\<close>: creating a token from the parameters of its own
  chaincode, updating its policies, minting and burning, and their contract callbacks.
\<close>

definition marshal_TokenResult :: "Token option \<Rightarrow> BalanceLog option \<Rightarrow> Contract option \<Rightarrow> json" where
  "marshal_TokenResult t log con = obj [
     (''token'', map_option marshal_Token t),
     (''balance_log'', map_option marshal_BalanceLog log),
     (''contract'', map_option (\<lambda>c. JObj (con_map c)) con)]"

subsection \<open>Burn and mint\<close>

text \<open>
  The genesis account's address is parsed without a check; it is asserted to be a joint
  account only after the token's chaincode has been asked.
\<close>

definition tokenBurn :: "stub \<Rightarrow> string list \<Rightarrow> outcome" where
  "tokenBurn st ps =
     (if length ps \<noteq> 2 then Failure ''incorrect number of parameters. expecting 2'' else 
     (case ValidateTokenCode (ps ! 0) of Inl e \<Rightarrow> fail_text e | Inr code \<Rightarrow>
     (case GetToken st code of
        Inl e \<Rightarrow> responseError e ''failed to get the token'' | Inr token \<Rightarrow>
     (case get_kid st True of Inl e \<Rightarrow> fail_text e | Inr kid \<Rightarrow>
     (case ParseAddress st (tok_GenesisAccount token) of
        Inl e \<Rightarrow> Panic | Inr addr \<Rightarrow>
     (case GetAccount st addr of
        Inl e \<Rightarrow> responseError e ''failed to get the genesis account'' | Inr account \<Rightarrow>
     (case ai_HasHolder account kid of Inl e \<Rightarrow> fail_text e | Inr has \<Rightarrow>
     (if \<not> has then Failure ''no authority'' else
     (case GetBalance st (ai_GetID account) of
        Inl e \<Rightarrow> responseError e ''failed to get the genesis account balance'' | Inr bal \<Rightarrow>
     (if bal_Amount bal = 0 then Failure ''genesis account balance is 0'' else
     (case NewAmount (ps ! 1) of Inl e \<Rightarrow> fail_text e | Inr asked \<Rightarrow>
     (case invokeKNT st code [''burn'', show_int (tok_Supply token), show_int (bal_Amount bal), show_int asked] of
        Inl e \<Rightarrow> responseError e ''failed to get the burnable amount'' | Inr burnable \<Rightarrow>
     (case NewAmount burnable of
        Inl e \<Rightarrow> fail_msg e ''not burnable'' | Inr amount \<Rightarrow>
     (if amount < 0 then Failure ''not burnable''
      else if tok_Supply token < amount then Failure ''amount must be less or equal than total supply'' else
     (case account of PAC a \<Rightarrow> Panic | JAC jac \<Rightarrow>
      (if 1 < set_size (jac_Holders jac)
       then (let doc = [JStr ''token/burn'', JStr code, JStr (show_int amount)] in 
     (case create_contract st (st_text st (JArr doc)) 0 (jac_Holders jac) of
        Inl e \<Rightarrow> fail_text e | Inr con \<Rightarrow>
     Success (JsonPayload (marshal_TokenResult None None (Some con))) []))
       else 
     (case Burn st [] token bal amount of
        Inl e \<Rightarrow> responseError e ''failed to burn'' | Inr ((token, log), ws) \<Rightarrow>
     Success (JsonPayload (marshal_TokenResult (Some token) log None)) ws)))))))))))))))))"

definition tokenMint :: "stub \<Rightarrow> string list \<Rightarrow> outcome" where
  "tokenMint st ps =
     (if length ps \<noteq> 2 then Failure ''incorrect number of parameters. expecting 2'' else 
     (case ValidateTokenCode (ps ! 0) of Inl e \<Rightarrow> fail_text e | Inr code \<Rightarrow>
     (case GetToken st code of
        Inl e \<Rightarrow> responseError e ''failed to get the token'' | Inr token \<Rightarrow>
     (if tok_MaxSupply token \<le> tok_Supply token then Failure ''max supplied'' else
     (case get_kid st True of Inl e \<Rightarrow> fail_text e | Inr kid \<Rightarrow>
     (case ParseAddress st (tok_GenesisAccount token) of
        Inl e \<Rightarrow> Panic | Inr addr \<Rightarrow>
     (case GetAccount st addr of
        Inl e \<Rightarrow> responseError e ''failed to get the genesis account'' | Inr account \<Rightarrow>
     (case ai_HasHolder account kid of Inl e \<Rightarrow> fail_text e | Inr has \<Rightarrow>
     (if \<not> has then Failure ''no authority'' else
     (case GetBalance st (ai_GetID account) of
        Inl e \<Rightarrow> responseError e ''failed to get the genesis account balance'' | Inr bal \<Rightarrow>
     (case NewAmount (ps ! 1) of Inl e \<Rightarrow> fail_text e | Inr asked \<Rightarrow>
     (case invokeKNT st code [''mint'', show_int (tok_Supply token), show_int (bal_Amount bal), show_int asked] of
        Inl e \<Rightarrow> responseError e ''failed to get the mintable amount'' | Inr mintable \<Rightarrow>
     (case NewAmount mintable of
        Inl e \<Rightarrow> fail_msg e ''not mintable'' | Inr amount \<Rightarrow>
     (if amount < 0 then Failure ''not mintable'' else
     (case account of PAC a \<Rightarrow> Panic | JAC jac \<Rightarrow>
      (if 1 < set_size (jac_Holders jac)
       then (let doc = [JStr ''token/mint'', JStr code, JStr (show_int amount)] in 
     (case create_contract st (st_text st (JArr doc)) 0 (jac_Holders jac) of
        Inl e \<Rightarrow> fail_text e | Inr con \<Rightarrow>
     Success (JsonPayload (marshal_TokenResult None None (Some con))) []))
       else 
     (case Mint st [] token bal amount of
        Inl e \<Rightarrow> responseError e ''failed to mint'' | Inr ((token, log), ws) \<Rightarrow>
     Success (JsonPayload (marshal_TokenResult (Some token) (Some log) None)) ws)))))))))))))))))"

subsection \<open>Create\<close>

text \<open>A token is issued when its state can be read; an error other than its absence is reported.\<close>

definition check_not_issued :: "stub \<Rightarrow> string \<Rightarrow> outcome option" where
  "check_not_issued st code =
     (case GetTokenState st code of
        Inr d \<Rightarrow> Some (Failure (''already issued token : ['' @ code @ '']''))
      | Inl (NotIssuedTokenError c) \<Rightarrow> None
      | Inl e \<Rightarrow> Some (responseError e ''failed to get the token state''))"

definition tokenCreate :: "stub \<Rightarrow> string list \<Rightarrow> outcome" where
  "tokenCreate st ps =
     (if length ps < 1 then Failure ''incorrect number of parameters. expecting 1+'' else 
     (case ValidateTokenCode (ps ! 0) of Inl e \<Rightarrow> fail_text e | Inr code \<Rightarrow>
     (case check_not_issued st code of Some r \<Rightarrow> r | None \<Rightarrow>
     (case getValidatedTokenMeta st code of Inl e \<Rightarrow> fail_text e | Inr m \<Rightarrow>
     (case get_kid st True of Inl e \<Rightarrow> fail_text e | Inr kid \<Rightarrow>
     (case (if 1 < length ps then extra_signers st code (new_set [kid]) (drop 1 ps) else Inr (new_set [kid])) of
        Inl e \<Rightarrow> responseError e ''invalid co-holder'' | Inr holders \<Rightarrow>
     (if 1 < set_size holders
      then invokeContract st [JStr ''token/create'', JStr code, JArr (map JStr (set_strings st holders))] holders
      else 
     (case CreateToken st [] code (tm_decimal m) (tm_maxSupply m) (tm_supply m) (tm_policy m) (tm_wrapBridge m) holders of
        Inl e \<Rightarrow> responseError e ''failed to create the token'' | Inr (token, ws) \<Rightarrow>
     Success (JsonPayload (marshal_Token token)) ws))))))))"

definition tokenGet :: "stub \<Rightarrow> string list \<Rightarrow> outcome" where
  "tokenGet st ps =
     (if length ps \<noteq> 1 then Failure ''incorrect number of parameters. expecting 1'' else 
     (case ValidateTokenCode (ps ! 0) of Inl e \<Rightarrow> fail_text e | Inr code \<Rightarrow>
     (case get_kid st False of Inl e \<Rightarrow> fail_text e | Inr kid \<Rightarrow>
     (case GetTokenState st code of
        Inl e \<Rightarrow> responseError e ''failed to get the token state'' | Inr data \<Rightarrow>
     Success (JsonPayload data) []))))"

subsection \<open>Update\<close>

text \<open>
  The new fee policy of a token and whether it changes: without fees in the parameters the
  rates are emptied and the target kept; without a target the old one, or the genesis account,
  is taken.
\<close>

definition update_policy :: "stub \<Rightarrow> Token \<Rightarrow> FeePolicy option \<Rightarrow> goerr + Token \<times> bool" where
  "update_policy st token policy =
     (case policy of
        None \<Rightarrow>
          (case tok_FeePolicy token of
             None \<Rightarrow> Inr (token, False)
           | Some old \<Rightarrow> Inr (token\<lparr>tok_FeePolicy := Some (old\<lparr>fp_Rates := []\<rparr>)\<rparr>, True))
      | Some p \<Rightarrow>
          if 0 < length (fp_TargetAddress p)
          then (case GetAccountState st (fp_TargetAddress p) of
                  Inl e \<Rightarrow> Inl e | Inr d \<Rightarrow> Inr (token\<lparr>tok_FeePolicy := Some p\<rparr>, True))
          else let target = (case tok_FeePolicy token of
                 None \<Rightarrow> tok_GenesisAccount token | Some old \<Rightarrow> fp_TargetAddress old) in
               Inr (token\<lparr>tok_FeePolicy := Some (p\<lparr>fp_TargetAddress := target\<rparr>)\<rparr>, True))"

definition tokenUpdate :: "stub \<Rightarrow> string list \<Rightarrow> outcome" where
  "tokenUpdate st ps =
     (if length ps \<noteq> 1 then Failure ''incorrect number of parameters. expecting 1'' else 
     (case ValidateTokenCode (ps ! 0) of Inl e \<Rightarrow> fail_text e | Inr code \<Rightarrow>
     (case get_kid st True of Inl e \<Rightarrow> fail_text e | Inr kid \<Rightarrow>
     (case GetToken st code of
        Inl e \<Rightarrow> responseError e ''failed to get the token'' | Inr token \<Rightarrow>
     (case getValidatedTokenMeta st code of Inl e \<Rightarrow> fail_text e | Inr m \<Rightarrow>
     (case update_policy st token (tm_policy m) of
        Inl e \<Rightarrow> responseError e ''failed to set a target address'' | Inr (token, upd) \<Rightarrow>
     (case check_wrap_bridge st (tm_wrapBridge m) of
        Some e \<Rightarrow> responseError e ''failed to get wrap account''
      | None \<Rightarrow>
     (let (token, upd) = (case tm_wrapBridge m of
            None \<Rightarrow> (token, upd) | Some wb \<Rightarrow> (token\<lparr>tok_WrapBridge := Some wb\<rparr>, True)) in
      if upd then 
     (case get_time st of
        Inl e \<Rightarrow> responseError e ''failed to get the timestamp'' | Inr ts \<Rightarrow>
     (let token = token\<lparr>tok_UpdatedTime := Some ts\<rparr> in
     (case PutToken st [] token of
        Inl e \<Rightarrow> responseError e ''failed to update the token'' | Inr ws \<Rightarrow>
     Success (JsonPayload (marshal_Token token)) ws)))
      else Success (JsonPayload (marshal_Token token)) []))))))))"

subsection \<open>Contract callbacks\<close>

definition executeTokenBurn :: "stub \<Rightarrow> string \<Rightarrow> json list \<Rightarrow> outcome" where
  "executeTokenBurn st cid doc =
     (if length doc \<noteq> 3 then Failure ''invalid contract document'' else 
     (case doc_str doc 1 of Inl e \<Rightarrow> fail_text e | Inr code \<Rightarrow>
     (case doc_str doc 2 of Inl e \<Rightarrow> fail_text e | Inr s \<Rightarrow>
     (case NewAmount s of
        Inl e \<Rightarrow> fail_msg e ''invalid amount'' | Inr amount \<Rightarrow>
     (case GetToken st code of
        Inl e \<Rightarrow> responseError e ''failed to get the token'' | Inr token \<Rightarrow>
     (case GetBalance st (tok_GenesisAccount token) of
        Inl e \<Rightarrow> responseError e ''failed to get the genesis account balance'' | Inr bal \<Rightarrow>
     (case Burn st [] token bal amount of
        Inl e \<Rightarrow> responseError e ''failed to burn'' | Inr ((token, log), ws) \<Rightarrow>
     Success (JsonPayload (marshal_TokenResult (Some token) log None)) ws)))))))"

definition executeTokenCreate :: "stub \<Rightarrow> string \<Rightarrow> json list \<Rightarrow> outcome" where
  "executeTokenCreate st cid doc =
     (if length doc \<noteq> 3 then Failure ''invalid contract document'' else 
     (case doc_str doc 1 of Inl e \<Rightarrow> fail_text e | Inr code \<Rightarrow>
     (case check_not_issued st code of Some r \<Rightarrow> r | None \<Rightarrow>
     (case getValidatedTokenMeta st code of Inl e \<Rightarrow> fail_text e | Inr m \<Rightarrow>
     (case doc_set doc 2 of Inl e \<Rightarrow> fail_text e | Inr holders \<Rightarrow>
     (case CreateToken st [] code (tm_decimal m) (tm_maxSupply m) (tm_supply m) (tm_policy m) (tm_wrapBridge m) holders of
        Inl e \<Rightarrow> responseError e ''failed to create the token'' | Inr (token, ws) \<Rightarrow>
     Success NoPayload ws))))))"

definition executeTokenMint :: "stub \<Rightarrow> string \<Rightarrow> json list \<Rightarrow> outcome" where
  "executeTokenMint st cid doc =
     (if length doc \<noteq> 3 then Failure ''invalid contract document'' else 
     (case doc_str doc 1 of Inl e \<Rightarrow> fail_text e | Inr code \<Rightarrow>
     (case doc_str doc 2 of Inl e \<Rightarrow> fail_text e | Inr s \<Rightarrow>
     (case NewAmount s of
        Inl e \<Rightarrow> fail_msg e ''invalid amount'' | Inr amount \<Rightarrow>
     (case GetToken st code of
        Inl e \<Rightarrow> responseError e ''failed to get the token'' | Inr token \<Rightarrow>
     (case GetBalance st (tok_GenesisAccount token) of
        Inl e \<Rightarrow> responseError e ''failed to get the genesis account balance'' | Inr bal \<Rightarrow>
     (case Mint st [] token bal amount of
        Inl e \<Rightarrow> responseError e ''failed to mint'' | Inr ((token, log), ws) \<Rightarrow>
     Success (JsonPayload (marshal_TokenResult (Some token) (Some log) None)) ws)))))))"

end
