(* ===== verification/WrapTx.thy ===== *)
theory WrapTx
  imports TransferTx
begin

text \<open>
  The transactions of \<open>wrap_tx.go\<close>: wrapping to an external chain, completing a wrap,
  unwrapping, and the contract callback that executes a wrap.
\<close>

subsection \<open>Wrap\<close>

record WrapOpts =
  wo_memo :: string
  wo_orderID :: string
  wo_expiry :: int
  wo_signers :: stringset

definition wrap_opts :: "stub \<Rightarrow> string \<Rightarrow> string \<Rightarrow> AccountI \<Rightarrow> string list \<Rightarrow> goerr + WrapOpts" where
  "wrap_opts st tok kid sender ps =
     (let r = \<lparr>wo_memo = (if 4 < length ps then memo_of (ps ! 4) else []),
               wo_orderID = (if 5 < length ps then ps ! 5 else []),
               wo_expiry = 0, wo_signers = base_signers kid sender\<rparr> in
      if length ps \<le> 6 \<or> ps ! 6 = [] then Inr r else
     (case parse_int64_opt (ps ! 6) of None \<Rightarrow> Inl (Plain ''invalid expiry: need seconds'') | Some expiry \<Rightarrow>
     (let r = r\<lparr>wo_expiry := expiry\<rparr> in
      if length ps \<le> 7 then Inr r else 
     (case extra_signers st tok (wo_signers r) (drop 7 ps) of
        Inl e \<Rightarrow> Inl e | Inr signers \<Rightarrow>
     Inr (r\<lparr>wo_signers := signers\<rparr>)))))"

definition wrap_doc :: "string \<Rightarrow> string \<Rightarrow> int \<Rightarrow> string \<Rightarrow> string \<Rightarrow> WrapOpts \<Rightarrow> json" where
  "wrap_doc pbID senderID amount extCode extID opts =
     JArr (map JStr [''wrap'', pbID, senderID, show_int amount, extCode, extID, wo_memo opts, wo_orderID opts])"

definition wrap :: "stub \<Rightarrow> string list \<Rightarrow> outcome" where
  "wrap st ps =
     (if length ps < 4 then Failure ''incorrect number of parameters. expecting 4+'' else 
     (case get_kid st True of Inl e \<Rightarrow> fail_text e | Inr kid \<Rightarrow>
     (let extCode = to_upper (ps ! 1) in
     (case NormalizeExtAddress st (ps ! 2) of
        Inl e \<Rightarrow> fail_msg e ''invalid ext address'' | Inr extID \<Rightarrow>
     (case NewAmount (ps ! 3) of Inl e \<Rightarrow> fail_text e | Inr amount \<Rightarrow>
     (if amount \<le> 0 then Failure ''invalid amount. must be greater than 0'' else
     (case param_address st kid (ps ! 0) of
        Inl e \<Rightarrow> responseError e ''failed to parse the sender's account address'' | Inr sAddr \<Rightarrow>
     (case GetToken st (addr_Code sAddr) of
        Inl e \<Rightarrow> responseError e ''failed to get the token'' | Inr token \<Rightarrow>
     (case GetWrapAddress st token extCode of
        Inl e \<Rightarrow> fail_text e | Inr wAddr \<Rightarrow>
     (case GetAccount st sAddr of
        Inl e \<Rightarrow> fail_msg e ''failed to get the sender account'' | Inr sender \<Rightarrow>
     (case ai_HasHolder sender kid of Inl e \<Rightarrow> fail_text e | Inr has \<Rightarrow>
     (if \<not> has then Failure ''invoker is not holder''
      else if ai_IsSuspended sender then Failure ''the sender account is suspended''
      else if addr_Equal sAddr wAddr then Failure ''wrap address cannot wrap self'' else
     (case GetAccount st wAddr of
        Inl e \<Rightarrow> responseError e ''failed to get the wrap account'' | Inr wrapper \<Rightarrow>
     (if ai_IsSuspended wrapper then Failure ''the wrap account is suspended'' else
     (case GetBalance st (ai_GetID sender) of
        Inl e \<Rightarrow> fail_msg e ''failed to get the sender's balance'' | Inr sBal \<Rightarrow>
     (if bal_Amount sBal < amount then Failure ''not enough balance'' else
     (case wrap_opts st (addr_Code sAddr) kid sender ps of
        Inl e \<Rightarrow> fail_text e | Inr opts \<Rightarrow>
     (if 1 < set_size (wo_signers opts)
      then (if 128 < set_size (wo_signers opts) then Failure ''too many signers'' else
     (let pbID = st_txid st;
          doc = wrap_doc pbID (ai_GetID sender) amount extCode extID opts in 
     (case create_contract st (st_text st doc) (wo_expiry opts) (wo_signers opts) of
        Inl e \<Rightarrow> fail_text e | Inr con \<Rightarrow>
     (case Deposit st [] pbID sBal con amount None (wo_memo opts) (wo_orderID opts) of
        Inl e \<Rightarrow> fail_msg e ''failed to create the pending balance'' | Inr (log, ws) \<Rightarrow>
     Success (JsonPayload (marshal_BalanceLog log)) ws))))
      else 
     (case WrapOp st [] sBal amount extCode extID (wo_memo opts) (wo_orderID opts) of
        Inl e \<Rightarrow> fail_msg e ''failed to wrap'' | Inr (log, ws) \<Rightarrow>
     Success (JsonPayload (marshal_BalanceLog log)) ws)))))))))))))))))))"

subsection \<open>Completing a wrap\<close>

text \<open>Without an external transaction id the fee is checked and then ignored.\<close>

definition complete_fee :: "string list \<Rightarrow> goerr + int" where
  "complete_fee ps =
     (if 1 < length ps
      then (case NewAmount (ps ! 1) of
              Inl e \<Rightarrow> Inl e
            | Inr fee \<Rightarrow> if fee < 0 then Inl (Plain ''invalid fee. must be greater than or equal to 0'')
                         else Inr (if 2 < length ps then fee else 0))
      else Inr 0)"

definition complete_txid :: "string list \<Rightarrow> goerr + string" where
  "complete_txid ps =
     (if 2 < length ps
      then (case NormalizeExtTxID (ps ! 2) of Inl e \<Rightarrow> Inl (Plain ''invalid ext tx id'') | Inr t \<Rightarrow> Inr t)
      else Inr [])"

text \<open>The error of \<open>GetWrapAddress\<close> is not checked: the nil address is dereferenced.\<close>

definition wrapComplete :: "stub \<Rightarrow> string list \<Rightarrow> outcome" where
  "wrapComplete st ps =
     (if length ps < 1 then Failure ''incorrect number of parameters. expecting 1+'' else 
     (case get_kid st True of Inl e \<Rightarrow> fail_text e | Inr kid \<Rightarrow>
     (let wrapKey = ps ! 0 in
     (case complete_fee ps of Inl e \<Rightarrow> fail_text e | Inr fee \<Rightarrow>
     (case complete_txid ps of Inl e \<Rightarrow> fail_text e | Inr extTxID \<Rightarrow>
     (case GetWrap st wrapKey of Inl e \<Rightarrow> fail_text e | Inr w \<Rightarrow>
     (if wr_CompleteTxID w \<noteq> [] then Failure (err_text DuplicateWrapCompleteError) else
     (let code = (case ParseCode (wr_Address w) of Inl e \<Rightarrow> [] | Inr c \<Rightarrow> c) in
     (case GetToken st code of
        Inl e \<Rightarrow> responseError e ''failed to get the token'' | Inr token \<Rightarrow>
     (case GetWrapAddress st token (wr_ExtCode w) of
        Inl e \<Rightarrow> Panic | Inr wAddr \<Rightarrow>
     (case GetAccount st wAddr of
        Inl e \<Rightarrow> fail_msg e ''failed to get the wrap account'' | Inr wrapper \<Rightarrow>
     (case ai_HasHolder wrapper kid of Inl e \<Rightarrow> fail_text e | Inr has \<Rightarrow>
     (if \<not> has then Failure ''invoker is not wrapper''
      else if ai_IsSuspended wrapper then Failure ''the wrap account is suspended'' else
     (case GetBalance st (ai_GetID wrapper) of
        Inl e \<Rightarrow> fail_msg e ''failed to get the balance of the wrap account'' | Inr wBal \<Rightarrow>
     (case WrapComplete st [] w wBal fee extTxID of
        Inl e \<Rightarrow> fail_text e | Inr (log, ws) \<Rightarrow>
     Success (JsonPayload (marshal_BalanceLog log)) ws)))))))))))))))"

subsection \<open>Unwrap\<close>

text \<open>Given a token code, the receiver is the wrapper itself: an impossible unwrap.\<close>

definition unwrap_receiver :: "stub \<Rightarrow> string \<Rightarrow> goerr + string \<times> Address option" where
  "unwrap_receiver st p =
     (case ValidateTokenCode p of
        Inr code \<Rightarrow> Inr (code, None)
      | Inl e \<Rightarrow> (case ParseAddress st p of Inl e \<Rightarrow> Inl e | Inr rAddr \<Rightarrow> Inr (addr_Code rAddr, Some rAddr)))"

definition unwrap :: "stub \<Rightarrow> string list \<Rightarrow> outcome" where
  "unwrap st ps =
     (if length ps < 5 then Failure ''incorrect number of parameters. expecting 5'' else 
     (case get_kid st True of Inl e \<Rightarrow> fail_text e | Inr kid \<Rightarrow>
     (case NormalizeExtTxID (ps ! 3) of
        Inl e \<Rightarrow> fail_msg e ''invalid ext tx id'' | Inr extTxID \<Rightarrow>
     (case get_state st (unwrap_key extTxID) of
        Inl e \<Rightarrow> responseError e ''failed to get unwrap state'' | Inr data \<Rightarrow>
     (if data \<noteq> None then Failure (err_text DuplicateUnwrapCompleteError) else
     (case PutUnwrap st [] \<lparr>uw_DOCTYPEID = extTxID, uw_CompleteTxID = st_txid st\<rparr> of
        Inl e \<Rightarrow> fail_text e | Inr ws \<Rightarrow>
     (let extCode = to_upper (ps ! 1) in
     (case NormalizeExtAddress st (ps ! 2) of
        Inl e \<Rightarrow> fail_msg e ''invalid ext address'' | Inr extID \<Rightarrow>
     (case NewAmount (ps ! 4) of Inl e \<Rightarrow> fail_text e | Inr amount \<Rightarrow>
     (if amount \<le> 0 then Failure ''invalid amount. must be greater than 0'' else
     (case unwrap_receiver st (ps ! 0) of
        Inl e \<Rightarrow> responseError e ''failed to parse the receiver's account address'' | Inr (code, receiverAddr) \<Rightarrow>
     (case GetToken st code of
        Inl e \<Rightarrow> responseError e ''failed to get the token'' | Inr token \<Rightarrow>
     (case GetWrapAddress st token extCode of
        Inl e \<Rightarrow> fail_text e | Inr wAddr \<Rightarrow>
     (let rAddr = (case receiverAddr of None \<Rightarrow> wAddr | Some a \<Rightarrow> a) in
     (case GetAccount st wAddr of
        Inl e \<Rightarrow> fail_msg e ''failed to get the wrap account'' | Inr wrapper \<Rightarrow>
     (case ai_HasHolder wrapper kid of Inl e \<Rightarrow> fail_text e | Inr has \<Rightarrow>
     (if \<not> has then Failure ''invoker is not wrapper''
      else if ai_IsSuspended wrapper then Failure ''the wrap account is suspended'' else
     (case GetAccount st rAddr of
        Inl e \<Rightarrow> responseError e ''failed to get the receiver account'' | Inr receiver \<Rightarrow>
     (if ai_IsSuspended receiver then Failure ''the receiver account is suspended'' else
     (case GetBalance st (ai_GetID receiver) of
        Inl e \<Rightarrow> fail_msg e ''failed to get the receiver's balance'' | Inr rBal \<Rightarrow>
     (case GetBalance st (ai_GetID wrapper) of
        Inl e \<Rightarrow> fail_msg e ''failed to get the balance of the wrap account'' | Inr wBal \<Rightarrow>
     (if \<not> addr_Equal wAddr rAddr
      then (if bal_Amount wBal < amount then Failure ''not enough balance'' else 
     (case UnwrapOp st ws wBal rBal amount extCode extID extTxID of
        Inl e \<Rightarrow> responseError e ''failed to unwrap'' | Inr (log, ws) \<Rightarrow>
     Success (JsonPayload (marshal_BalanceLog log)) ws))
      else 
     (case UnwrapImpossible st ws wBal extCode extID extTxID of
        Inl e \<Rightarrow> responseError e ''failed to unwrap'' | Inr (log, ws) \<Rightarrow>
     Success (JsonPayload (marshal_BalanceLog log)) ws)))))))))))))))))))))))"

subsection \<open>Contract callback\<close>

text \<open>Members 6 and 7 are read before their presence is checked: a document of six panics.\<close>

definition wrap_summary :: "Wrap \<Rightarrow> string \<Rightarrow> string \<Rightarrow> json" where
  "wrap_summary w memo orderID = obj [
     (''@balance_log'', Some (JStr (wr_Address w))),
     (''type'', Some (JNum BalanceLogTypeWrap)),
     (''rid'', Some (JStr (wr_ExtID w))),
     (''diff'', Some (amount_marshal (- wr_Amount w))),
     (''ext_code'', omit_str (wr_ExtCode w)),
     (''memo'', omit_str memo),
     (''order_id'', omit_str orderID)]"

definition executeWrap :: "stub \<Rightarrow> string \<Rightarrow> json list \<Rightarrow> outcome" where
  "executeWrap st cid doc =
     (if length doc < 6 then Failure ''invalid contract document'' else 
     (case doc_str doc 1 of Inl e \<Rightarrow> fail_text e | Inr pbID \<Rightarrow>
     (case GetPendingBalance st pbID of
        Inl e \<Rightarrow> fail_msg e ''failed to get the pending balance'' | Inr pb \<Rightarrow>
     (if pb_Type pb \<noteq> PendingBalanceTypeContract \<or> pb_RID pb \<noteq> cid then Failure ''invalid pending balance'' else
     (case doc_str doc 2 of Inl e \<Rightarrow> fail_text e | Inr senderID \<Rightarrow>
     (case GetBalance st senderID of
        Inl e \<Rightarrow> fail_msg e ''failed to get the sender's balance'' | Inr sBal \<Rightarrow>
     (case doc_str doc 4 of Inl e \<Rightarrow> fail_text e | Inr extCode \<Rightarrow>
     (case doc_str doc 5 of Inl e \<Rightarrow> fail_text e | Inr extID \<Rightarrow>
     (case doc_str doc 6 of Inl e \<Rightarrow> fail_text e | Inr memo \<Rightarrow>
     (case doc_str doc 7 of Inl e \<Rightarrow> fail_text e | Inr orderID \<Rightarrow>
     (case WrapPendingBalance st [] pb sBal extCode extID memo orderID of
        Inl e \<Rightarrow> fail_msg e ''failed to wrap'' | Inr (w, ws) \<Rightarrow>
     Success (JsonPayload (wrap_summary w memo orderID)) ws)))))))))))"

end
