(* ===== verification/Chaincode.thy ===== *)
theory Chaincode
  imports AccountTx BalanceTx FeeTx PayTx TokenTx WrapTx
begin

text \<open>
  The dispatch of the chaincode: the callbacks of the contract chaincode (\<open>contract_tx.go\<close>)
  and the routes of \<open>Invoke\<close> (\<open>main.go\<close>), with the step relation of the ledger under
  committed transactions.
\<close>

subsection \<open>Contract callbacks\<close>

definition contractVoid :: "stub \<Rightarrow> string \<Rightarrow> json list \<Rightarrow> outcome" where
  "contractVoid st cid doc = Success NoPayload []"

type_synonym ctr_fn = "stub \<Rightarrow> string \<Rightarrow> json list \<Rightarrow> outcome"

definition ctrRoutes :: "(string \<times> ctr_fn list) list" where
  "ctrRoutes = [
     (''account/create'', [contractVoid, executeAccountCreate]),
     (''account/holder/add'', [contractVoid, executeAccountHolderAdd]),
     (''account/holder/remove'', [contractVoid, executeAccountHolderRemove]),
     (''pay'', [cancelTransfer, executePay]),
     (''token/burn'', [contractVoid, executeTokenBurn]),
     (''token/create'', [contractVoid, executeTokenCreate]),
     (''token/mint'', [contractVoid, executeTokenMint]),
     (''transfer'', [cancelTransfer, executeTransfer]),
     (''wrap'', [cancelTransfer, executeWrap])]"

definition ctr_lookup :: "string \<Rightarrow> ctr_fn list" where
  "ctr_lookup dtype = (case map_of ctrRoutes dtype of None \<Rightarrow> [] | Some fs \<Rightarrow> fs)"

definition json_array :: "json \<Rightarrow> goerr + json list" where
  "json_array j = (case j of JArr js \<Rightarrow> Inr js | JNull \<Rightarrow> Inr [] | _ \<Rightarrow> Inl type_error)"

text \<open>
  The document of an unknown type is indexed into a nil slice, which panics: the message
  \<open>unknown contract\<close> is never sent.
\<close>

definition contractCallback :: "stub \<Rightarrow> nat \<Rightarrow> string list \<Rightarrow> outcome" where
  "contractCallback st fnIdx ps =
     (if length ps \<noteq> 2 then Failure ''incorrect number of parameters. expecting 2'' else 
     (case st_ccid st of
        Inl e \<Rightarrow> fail_msg e ''failed to get ccid'' | Inr ccid \<Rightarrow>
     (if ''kiesnet-contract'' \<noteq> ccid \<and> ''kiesnet-cc-contract'' \<noteq> ccid then Failure ''invalid access'' else
     (case get_kid st True of Inl e \<Rightarrow> fail_text e | Inr kid \<Rightarrow>
     (let cid = ps ! 0 in
     (case st_json st (ps ! 1) of
        Inl e \<Rightarrow> responseError e ''failed to unmarshal the contract document'' | Inr j \<Rightarrow>
     (case json_array j of
        Inl e \<Rightarrow> responseError e ''failed to unmarshal the contract document'' | Inr doc \<Rightarrow>
     (case doc_str doc 0 of Inl e \<Rightarrow> fail_text e | Inr dtype \<Rightarrow>
     (let fns = ctr_lookup dtype in
      if fnIdx < length fns then (fns ! fnIdx) st cid doc else Panic)))))))))"

definition contractCancel :: "stub \<Rightarrow> string list \<Rightarrow> outcome" where
  "contractCancel st ps = contractCallback st 0 ps"

definition contractExecute :: "stub \<Rightarrow> string list \<Rightarrow> outcome" where
  "contractExecute st ps = contractCallback st 1 ps"

subsection \<open>Routes\<close>

definition ver :: "stub \<Rightarrow> string list \<Rightarrow> outcome" where
  "ver st ps = Success (TextPayload ''Kiesnet Token v1.4.1 created by Key Inside Co., Ltd.'') []"

definition routes :: "(string \<times> (stub \<Rightarrow> string list \<Rightarrow> outcome)) list" where
  "routes = [
     (''account/create'', accountCreate),
     (''account/get'', accountGet),
     (''account/holder/add'', accountHolderAdd),
     (''account/holder/remove'', accountHolderRemove),
     (''account/list'', accountList),
     (''account/suspend'', accountSuspend),
     (''account/unsuspend'', accountUnsuspend),
     (''balance/logs'', balanceLogs),
     (''balance/pending/get'', balancePendingGet),
     (''balance/pending/list'', balancePendingList),
     (''balance/pending/withdraw'', balancePendingWithdraw),
     (''contract/execute'', contractExecute),
     (''contract/cancel'', contractCancel),
     (''fee/list'', feeList),
     (''fee/prune'', feePrune),
     (''pay'', pay),
     (''pay/get'', payGet),
     (''pay/prune'', payPrune),
     (''pay/list'', payList),
     (''pay/refund'', payRefund),
     (''token/burn'', tokenBurn),
     (''token/create'', tokenCreate),
     (''token/get'', tokenGet),
     (''token/mint'', tokenMint),
     (''token/update'', tokenUpdate),
     (''transfer'', transfer),
     (''transfer/get'', transferGet),
     (''wrap'', wrap),
     (''wrap/complete'', wrapComplete),
     (''unwrap'', unwrap),
     (''ver'', ver)]"

definition Init :: "stub \<Rightarrow> outcome" where
  "Init st = Success NoPayload []"

definition Invoke :: "stub \<Rightarrow> outcome" where
  "Invoke st =
     (case map_of routes (st_function st) of
        Some txFn \<Rightarrow> txFn st (st_params st)
      | None \<Rightarrow> Failure (''unknown function: ['' @ st_function st @ '']''))"

end
