(* ===== verification/Discipline.thy ===== *)
theory Discipline
  imports Chaincode
begin

text \<open>
  The discipline of the write sets, over all routes: which writes a successful transaction can
  make.  The relation \<open>allowed\<close> lists them, one rule for each kind of document: a document
  goes under the key of its own id; a balance log and an unwrap go to a free key; a wrap is
  written only while it is not complete; a pay is not refunded beyond its amount; the supply of a token stays within its maximum; only
  pending balances and holder relationships are deleted.  The invariants of the world state
  follow from this one theorem (\<open>Invoke_allowed\<close>) by cases.
\<close>

subsection \<open>Allowed writes\<close>

definition supply_ok :: "Token \<Rightarrow> bool" where
  "supply_ok t \<longleftrightarrow> tok_Supply t \<le> tok_MaxSupply t"

definition tokens_ok :: "stub \<Rightarrow> bool" where
  "tokens_ok st \<longleftrightarrow> (\<forall>code t. GetToken st code = Inr t \<longrightarrow> supply_ok t)"

text \<open>The refunded total of a pay never exceeds the pay; a refund itself is not refunded.\<close>

definition refund_ok :: "Pay \<Rightarrow> bool" where
  "refund_ok p \<longleftrightarrow> 0 \<le> pay_TotalRefund p \<and> (pay_TotalRefund p = 0 \<or> pay_TotalRefund p \<le> pay_Amount p)"

definition pays_ok :: "stub \<Rightarrow> bool" where
  "pays_ok st \<longleftrightarrow> (\<forall>i p. GetPay st i = Inr p \<longrightarrow> refund_ok p)"

text \<open>What a pending balance locks is not negative.\<close>

definition pending_ok :: "PendingBalance \<Rightarrow> bool" where
  "pending_ok p \<longleftrightarrow> 0 \<le> pb_Amount p \<and> (case pb_Fee p of None \<Rightarrow> True | Some f \<Rightarrow> 0 \<le> f)"

definition pendings_ok :: "stub \<Rightarrow> bool" where
  "pendings_ok st \<longleftrightarrow> (\<forall>i p. GetPendingBalance st i = Inr p \<longrightarrow> pending_ok p)"

lemma refund_ok_NewPay [simp]: "refund_ok (NewPay r i a f rid pid oid m ts)"
  by (simp add: refund_ok_def NewPay_def)

text \<open>The type of a log or pending balance is a signed byte; every constructor stays in its range.\<close>

definition type_ok :: "int \<Rightarrow> bool" where
  "type_ok n \<longleftrightarrow> - 128 \<le> n \<and> n \<le> 127"

lemma type_ok_pending [simp]:
  "type_ok PendingBalanceTypeAccount" "type_ok PendingBalanceTypeContract" "type_ok (rel_type r)"
  by (simp_all add: type_ok_def)

lemmas log_type_defs =
  BalanceLogTypeMint_def BalanceLogTypeBurn_def BalanceLogTypeSend_def BalanceLogTypeReceive_def
  BalanceLogTypeDeposit_def BalanceLogTypeWithdraw_def BalanceLogTypePay_def BalanceLogTypeRefund_def
  BalanceLogTypePrunePay_def BalanceLogTypePruneFee_def BalanceLogTypeWrap_def BalanceLogTypeUnwrap_def
  BalanceLogTypeWrapComplete_def BalanceLogTypeUnwrapComplete_def

lemma type_ok_log [simp]:
  "type_ok (bl_Type (NewBalanceSupplyLog b d))" "type_ok (bl_Type (NewBalanceTransferLog s r d f m i))"
  "type_ok (bl_Type (NewBalanceDepositLog b pb))" "type_ok (bl_Type (NewBalanceWithdrawLog b pb))"
  "type_ok (bl_Type (NewBalancePayLog b p))" "type_ok (bl_Type (NewBalanceRefundLog b p))"
  "type_ok (bl_Type (NewBalancePrunePayLog b a s1 s2))" "type_ok (bl_Type (NewBalancePruneFeeLog b a s1 s2))"
  "type_ok (bl_Type (NewBalanceWrapLog b d c i m n))" "type_ok (bl_Type (NewBalanceUnwrapLog b d c i t))"
  "type_ok (bl_Type (NewBalanceWrapCompleteLog b w f))" "type_ok (bl_Type (NewBalanceUnwrapCompleteLog b r d c t))"
  by (simp_all add: type_ok_def NewBalanceSupplyLog_def NewBalanceTransferLog_def NewBalanceDepositLog_def
      NewBalanceWithdrawLog_def NewBalancePayLog_def NewBalanceRefundLog_def NewBalancePrunePayLog_def
      NewBalancePruneFeeLog_def NewBalanceWrapLog_def NewBalanceUnwrapLog_def NewBalanceWrapCompleteLog_def
      NewBalanceUnwrapCompleteLog_def log_type_defs Let_def)

inductive allowed :: "stub \<Rightarrow> write_op \<Rightarrow> bool" for st where
  allowed_bal: "i = bal_DOCTYPEID b \<Longrightarrow> allowed st (Put (bal_key i) (marshal_Balance b))"
| allowed_log: "st_get st (log_key i n) = Inr None \<Longrightarrow> i = bl_DOCTYPEID l \<Longrightarrow> type_ok (bl_Type l) \<Longrightarrow>
    allowed st (Put (log_key i n) (marshal_BalanceLog l))"
| allowed_pb: "i = pb_DOCTYPEID p \<Longrightarrow> (pendings_ok st \<Longrightarrow> pending_ok p) \<Longrightarrow> type_ok (pb_Type p) \<Longrightarrow>
    allowed st (Put (pb_key i) (marshal_PendingBalance p))"
| allowed_fee: "i = fee_FeeID f \<Longrightarrow> allowed st (Put (fee_key i) (marshal_Fee f))"
| allowed_pay: "i = pay_PayID p \<Longrightarrow> (pays_ok st \<Longrightarrow> refund_ok p) \<Longrightarrow>
    allowed st (Put (pay_key i) (marshal_Pay p))"
| allowed_wrap: "i = wr_DOCTYPEID w \<Longrightarrow>
    (fresh st \<Longrightarrow> keyed (ledger_of st) \<Longrightarrow> \<forall>w0. GetWrap st i = Inr w0 \<longrightarrow> wr_CompleteTxID w0 = []) \<Longrightarrow>
    allowed st (Put (wrap_key i) (marshal_Wrap w))"
| allowed_unwrap: "st_get st (unwrap_key i) = Inr None \<Longrightarrow> i = uw_DOCTYPEID u \<Longrightarrow>
    allowed st (Put (unwrap_key i) (marshal_Unwrap u))"
| allowed_tok: "i = tok_DOCTYPEID t \<Longrightarrow> (tokens_ok st \<Longrightarrow> supply_ok t) \<Longrightarrow>
    allowed st (Put (tok_key i) (marshal_Token t))"
| allowed_acc: "i = ai_GetID a \<Longrightarrow> allowed st (Put (acc_key i) (marshal_AccountI st a))"
| allowed_hld: "i = hld_DOCTYPEID h \<Longrightarrow> a = hld_Address h \<Longrightarrow> allowed st (Put (hld_key i a) (marshal_Holder h))"
| allowed_lpf: "i = lpf_DOCTYPEID l \<Longrightarrow> allowed st (Put (lpf_key i) (marshal_LastPrunedFeeID l))"
| allowed_del_pb: "allowed st (Del (pb_key i))"
| allowed_del_hld: "allowed st (Del (hld_key i a))"

inductive_cases allowed_PutE: "allowed st (Put k j)"
inductive_cases allowed_DelE: "allowed st (Del k)"

lemma allowed_acc_PAC:
  "i = acc_DOCTYPEID a \<Longrightarrow> allowed st (Put (acc_key i) (marshal_Account a))"
  using allowed_acc [of i "PAC a" st] by simp

lemma allowed_acc_JAC:
  "i = acc_DOCTYPEID (jac_Account a) \<Longrightarrow> allowed st (Put (acc_key i) (marshal_JointAccount st a))"
  using allowed_acc [of i "JAC a" st] by simp

lemmas allowed_rules =
  allowed_bal allowed_log allowed_pb allowed_fee allowed_pay allowed_wrap allowed_unwrap
  allowed_tok allowed_acc allowed_hld allowed_lpf allowed_del_pb allowed_del_hld
  allowed_acc_PAC allowed_acc_JAC

definition ok_writes :: "stub \<Rightarrow> writes \<Rightarrow> bool" where
  "ok_writes st ws \<longleftrightarrow> (\<forall>w\<in>set ws. allowed st w)"

lemma ok_writes_simps [simp]:
  "ok_writes st []" "ok_writes st (w # ws) \<longleftrightarrow> allowed st w \<and> ok_writes st ws"
  "ok_writes st (ws @ ws') \<longleftrightarrow> ok_writes st ws \<and> ok_writes st ws'"
  by (auto simp: ok_writes_def)

named_theorems op_writes \<open>operations of the stubs add allowed writes only\<close>

subsection \<open>The operations of the stubs\<close>

lemma Supply_writes [op_writes]:
  "Supply st ws b a = Inr (r, ws') \<Longrightarrow> ok_writes st ws \<Longrightarrow> ok_writes st ws'"
  by (auto simp: Supply_def Let_def ok_simps allowed_rules)

lemma CreateFee_writes [op_writes]:
  "CreateFee st ws addr a = Inr (r, ws') \<Longrightarrow> ok_writes st ws \<Longrightarrow> ok_writes st ws'"
  by (auto simp: ok_simps allowed_rules split: if_splits)

lemma PutBalance_writes [op_writes]:
  "PutBalance st ws b = Inr ws' \<Longrightarrow> ok_writes st ws \<Longrightarrow> ok_writes st ws'"
  by (auto simp: ok_simps allowed_rules)

lemma PutBalanceLog_writes [op_writes]:
  "PutBalanceLog st ws l = Inr ws' \<Longrightarrow> ok_writes st ws \<Longrightarrow> type_ok (bl_Type l) \<Longrightarrow> ok_writes st ws'"
  by (auto simp: ok_simps allowed_rules)

lemma PutLastPrunedFeeID_writes [op_writes]:
  "PutLastPrunedFeeID st ws l = Inr ws' \<Longrightarrow> ok_writes st ws \<Longrightarrow> ok_writes st ws'"
  by (auto simp: ok_simps allowed_rules)

lemma transfer_receive_writes [op_writes]:
  "transfer_receive st ws ts s r a m oid pt = Inr (r', ws') \<Longrightarrow> (pendings_ok st \<Longrightarrow> 0 \<le> a) \<Longrightarrow>
   ok_writes st ws \<Longrightarrow> ok_writes st ws'"
  by (auto simp: transfer_receive_def NewPendingBalance_def pending_ok_def Let_def ok_simps allowed_rules split: if_splits)

lemma Transfer_writes [op_writes]:
  "Transfer st ws s r a f m oid pt = Inr (l, ws') \<Longrightarrow> 0 \<le> a \<Longrightarrow> ok_writes st ws \<Longrightarrow> ok_writes st ws'"
  by (auto simp: Transfer_def Let_def case_sum_Inr case_prod_Inr dest!: op_writes)

lemma TransferPendingBalance_writes [op_writes]:
  "TransferPendingBalance st ws pb s r pt = Inr ws' \<Longrightarrow> (pendings_ok st \<Longrightarrow> pending_ok pb) \<Longrightarrow>
   ok_writes st ws \<Longrightarrow> ok_writes st ws'"
  by (auto simp: TransferPendingBalance_def case_sum_Inr case_prod_Inr map_sum_Inr
      DeletePendingBalance_Inr allowed_rules pending_ok_def split: option.splits dest!: op_writes)

lemma Deposit_writes [op_writes]:
  "Deposit st ws i s con a f m oid = Inr (l, ws') \<Longrightarrow> 0 \<le> a \<Longrightarrow> (case f of None \<Rightarrow> True | Some x \<Rightarrow> 0 \<le> x) \<Longrightarrow>
   ok_writes st ws \<Longrightarrow> ok_writes st ws'"
  by (auto simp: Deposit_def NewPendingBalance_def pending_ok_def Let_def ok_simps allowed_rules)

lemma Withdraw_writes [op_writes]:
  "Withdraw st ws pb = Inr (l, ws') \<Longrightarrow> ok_writes st ws \<Longrightarrow> ok_writes st ws'"
  by (auto simp: Withdraw_def Let_def ok_simps allowed_rules)

lemma NewPay_id [simp]: "pay_PayID (NewPay r i a f rid pid oid m ts) = i"
  by (simp add: NewPay_def)

lemma PayOp_writes [op_writes]:
  "PayOp st ws s r a f oid m = Inr (l, ws') \<Longrightarrow> ok_writes st ws \<Longrightarrow> ok_writes st ws'"
  by (auto simp: PayOp_def Let_def ok_simps allowed_rules)

lemma Refund_writes:
  assumes "Refund st ws s r a f m oid p = Inr (l, ws')" and "ok_writes st ws"
    and "pays_ok st \<Longrightarrow> 0 \<le> pay_TotalRefund p" and "0 < a" and "pay_TotalRefund p + a \<le> pay_Amount p"
  shows "ok_writes st ws'"
proof -
  have "pays_ok st \<Longrightarrow> refund_ok (p\<lparr>pay_TotalRefund := pay_TotalRefund p + a\<rparr>)"
    using assms(3-5) by (simp add: refund_ok_def)
  with assms(1,2) show ?thesis by (auto simp: Refund_def Let_def ok_simps allowed_rules)
qed

lemma pays_ok_total: "GetPay st i = Inr p \<Longrightarrow> pays_ok st \<Longrightarrow> 0 \<le> pay_TotalRefund p"
  by (auto simp: pays_ok_def refund_ok_def)

lemma PayPendingBalance_writes [op_writes]:
  "PayPendingBalance st ws pb s f m oid memo = Inr (l, ws') \<Longrightarrow> ok_writes st ws \<Longrightarrow> ok_writes st ws'"
  by (auto simp: PayPendingBalance_def Let_def ok_simps allowed_rules)

lemma fresh_no_wrap: "fresh st \<Longrightarrow> GetWrap st (st_txid st) \<noteq> Inr w"
  using fresh_simps(2) [of st] by (auto simp: wrap_store.get_Inr)

lemma WrapOp_writes [op_writes]:
  "WrapOp st ws s a ec ei m oid = Inr (l, ws') \<Longrightarrow> ok_writes st ws \<Longrightarrow> ok_writes st ws'"
  by (auto simp: WrapOp_def Let_def ok_simps allowed_rules fresh_no_wrap intro!: allowed_wrap)

lemma WrapComplete_writes:
  assumes "WrapComplete st ws w b f tx = Inr (l, ws')" and "GetWrap st i = Inr w" and "ok_writes st ws"
  shows "ok_writes st ws'"
proof -
  have "wr_CompleteTxID w = []" using assms(1) by (simp add: WrapComplete_def split: if_splits)
  then have "keyed (ledger_of st) \<Longrightarrow> \<forall>w0. GetWrap st (wr_DOCTYPEID w) = Inr w0 \<longrightarrow> wr_CompleteTxID w0 = []"
    using assms(2) keyed_reads(4) by fastforce
  with assms show ?thesis
    by (auto simp: WrapComplete_def Let_def ok_simps allowed_rules split: if_splits intro!: allowed_wrap)
qed

lemma UnwrapOp_writes [op_writes]:
  "UnwrapOp st ws w r a ec ei tx = Inr (l, ws') \<Longrightarrow> ok_writes st ws \<Longrightarrow> ok_writes st ws'"
  by (auto simp: UnwrapOp_def Let_def ok_simps allowed_rules)

lemma UnwrapImpossible_writes [op_writes]:
  "UnwrapImpossible st ws w ec ei tx = Inr (l, ws') \<Longrightarrow> ok_writes st ws \<Longrightarrow> ok_writes st ws'"
  by (auto simp: UnwrapImpossible_def Let_def ok_simps allowed_rules)

lemma WrapPendingBalance_writes [op_writes]:
  "WrapPendingBalance st ws pb s ec ei m oid = Inr (w, ws') \<Longrightarrow> ok_writes st ws \<Longrightarrow> ok_writes st ws'"
  by (auto simp: WrapPendingBalance_def Let_def ok_simps allowed_rules fresh_no_wrap intro!: allowed_wrap)

lemma CreateBalance_writes [op_writes]:
  "CreateBalance st ws i = Inr (b, ws') \<Longrightarrow> ok_writes st ws \<Longrightarrow> ok_writes st ws'"
  by (auto simp: CreateBalance_def Let_def ok_simps allowed_rules)

lemma put_holders_writes:
  "put_holders st ws a ts ks = Inr ws' \<Longrightarrow> ok_writes st ws \<Longrightarrow> ok_writes st ws'"
  by (induction ks arbitrary: ws) (auto simp: ok_simps allowed_rules NewHolder_def)

lemma CreateAccount_writes [op_writes]:
  "CreateAccount st ws tok kid = Inr (r, ws') \<Longrightarrow> ok_writes st ws \<Longrightarrow> ok_writes st ws'"
  by (auto simp: CreateAccount_def Let_def ok_simps allowed_rules NewHolder_def CreateBalance_writes)

lemma CreateJointAccount_writes [op_writes]:
  "CreateJointAccount st ws tok hs = Inr (r, ws') \<Longrightarrow> ok_writes st ws \<Longrightarrow> ok_writes st ws'"
  by (auto simp: CreateJointAccount_def Let_def ok_simps allowed_rules
      dest!: CreateBalance_writes put_holders_writes)

lemma SuspendAccount_writes [op_writes]:
  "SuspendAccount st ws tok kid = Inr (r, ws') \<Longrightarrow> ok_writes st ws \<Longrightarrow> ok_writes st ws'"
  by (auto simp: SuspendAccount_Inr ok_simps allowed_rules)

lemma UnsuspendAccount_writes [op_writes]:
  "UnsuspendAccount st ws tok kid = Inr (r, ws') \<Longrightarrow> ok_writes st ws \<Longrightarrow> ok_writes st ws'"
  by (auto simp: UnsuspendAccount_Inr ok_simps allowed_rules)

lemma AddHolder_writes [op_writes]:
  "AddHolder st ws j kid = Inr (r, ws') \<Longrightarrow> ok_writes st ws \<Longrightarrow> ok_writes st ws'"
  by (auto simp: AddHolder_def touch_def Let_def ok_simps allowed_rules NewHolder_def)

lemma RemoveHolder_writes [op_writes]:
  "RemoveHolder st ws j kid = Inr (r, ws') \<Longrightarrow> ok_writes st ws \<Longrightarrow> ok_writes st ws'"
  by (auto simp: RemoveHolder_def touch_def Let_def ok_simps allowed_rules)

text \<open>Tokens: a token read from the ledger within its maximum stays within it.\<close>

lemma PutToken_writes:
  "PutToken st ws t = Inr ws' \<Longrightarrow> (tokens_ok st \<Longrightarrow> supply_ok t) \<Longrightarrow> ok_writes st ws \<Longrightarrow> ok_writes st ws'"
  by (auto simp: ok_simps intro!: allowed_tok)

lemma Burn_writes:
  assumes "Burn st ws t b a = Inr (r, ws')" and "tokens_ok st \<Longrightarrow> supply_ok t" and "ok_writes st ws"
  shows "ok_writes st ws'"
  using assms
  by (auto simp: Burn_def Let_def case_sum_Inr case_prod_Inr if_Inl_Inr supply_ok_def split: if_splits
      dest!: Supply_writes PutToken_writes)

lemma Mint_writes:
  assumes "Mint st ws t b a = Inr (r, ws')" and "ok_writes st ws"
  shows "ok_writes st ws'"
  using assms
  by (auto simp: Mint_def Let_def case_sum_Inr case_prod_Inr if_Inl_Inr supply_ok_def split: if_splits
      dest!: Supply_writes PutToken_writes)

lemma CreateToken_writes:
  assumes "CreateToken st ws code d mx s fp wb hs = Inr (t, ws')" and "s \<le> mx" and "ok_writes st ws"
  shows "ok_writes st ws'"
  using assms
  by (auto simp: CreateToken_def Let_def case_sum_Inr case_prod_Inr if_Inl_Inr map_sum_Inr
      case_option_goerr_Inr supply_ok_def split: if_splits
      dest!: Supply_writes PutToken_writes CreateJointAccount_writes)

subsection \<open>The routes\<close>

text \<open>Queries write nothing.\<close>

lemma query_writes:
  "transferGet st ps = Success p ws \<Longrightarrow> ws = []" "balanceLogs st ps = Success p ws \<Longrightarrow> ws = []"
  "balancePendingGet st ps = Success p ws \<Longrightarrow> ws = []" "balancePendingList st ps = Success p ws \<Longrightarrow> ws = []"
  "feeList st ps = Success p ws \<Longrightarrow> ws = []" "payGet st ps = Success p ws \<Longrightarrow> ws = []"
  "payList st ps = Success p ws \<Longrightarrow> ws = []" "tokenGet st ps = Success p ws \<Longrightarrow> ws = []"
  "accountGet st ps = Success p ws \<Longrightarrow> ws = []" "accountList st ps = Success p ws \<Longrightarrow> ws = []"
  "ver st ps = Success p ws \<Longrightarrow> ws = []"
  by (auto simp: transferGet_def balanceLogs_def balancePendingGet_def balancePendingList_def feeList_def
      payGet_def payList_def tokenGet_def accountGet_def accountList_def ver_def
      responseAccountWithBalanceState_def Let_def ok_simps split: if_splits)

lemma account_writes:
  "accountCreate st ps = Success p ws \<Longrightarrow> ok_writes st ws"
  "accountHolderAdd st ps = Success p ws \<Longrightarrow> ok_writes st ws"
  "accountHolderRemove st ps = Success p ws \<Longrightarrow> ok_writes st ws"
  "accountSuspend st ps = Success p ws \<Longrightarrow> ok_writes st ws"
  "accountUnsuspend st ps = Success p ws \<Longrightarrow> ok_writes st ws"
  by (auto simp: accountCreate_def check_token_available_def accountHolderAdd_def accountHolderRemove_def
      accountSuspend_def accountUnsuspend_def responseAccountWithBalance_def
      responseAccountWithBalanceState_def Let_def ok_simps
      split: if_splits option.splits sum.splits goerr.splits dest!: op_writes invokeContract_Success)

lemma transfer_writes: "transfer st ps = Success p ws \<Longrightarrow> ok_writes st ws"
  by (auto simp: transfer_def transfer_send_def Let_def ok_simps split: if_splits dest!: op_writes dest: CalcFee_nonneg)

lemma pay_writes: "pay st ps = Success p ws \<Longrightarrow> ok_writes st ws"
  by (auto simp: pay_def pay_send_def Let_def ok_simps split: if_splits dest!: op_writes)

lemma payRefund_writes: "payRefund st ps = Success p ws \<Longrightarrow> ok_writes st ws"
  by (auto simp: payRefund_def Let_def ok_simps pays_ok_total split: if_splits dest!: Refund_writes)

lemma payPrune_writes: "payPrune st ps = Success p ws \<Longrightarrow> ok_writes st ws"
  by (auto simp: payPrune_def Let_def case_sum_Success case_prod_Success split: if_splits dest!: op_writes)

lemma withdraw_writes: "balancePendingWithdraw st ps = Success p ws \<Longrightarrow> ok_writes st ws"
  by (auto simp: balancePendingWithdraw_def Let_def ok_simps split: if_splits dest!: op_writes)

lemma wrap_writes: "wrap st ps = Success p ws \<Longrightarrow> ok_writes st ws"
  by (auto simp: wrap_def Let_def ok_simps split: if_splits dest!: op_writes)

lemma wrapComplete_writes: "wrapComplete st ps = Success p ws \<Longrightarrow> ok_writes st ws"
  by (auto simp: wrapComplete_def Let_def ok_simps split: if_splits dest!: WrapComplete_writes)

lemma unwrap_writes: "unwrap st ps = Success p ws \<Longrightarrow> ok_writes st ws"
  by (auto simp: unwrap_def get_state_def Let_def ok_simps allowed_rules split: if_splits dest!: op_writes)

lemma tokens_ok_read: "GetToken st code = Inr t \<Longrightarrow> tokens_ok st \<Longrightarrow> supply_ok t"
  by (auto simp: tokens_ok_def)

lemma tokenBurn_writes: "tokenBurn st ps = Success p ws \<Longrightarrow> ok_writes st ws"
  by (auto simp: tokenBurn_def Let_def ok_simps tokens_ok_read split: if_splits dest!: Burn_writes)

lemma tokenMint_writes: "tokenMint st ps = Success p ws \<Longrightarrow> ok_writes st ws"
  by (auto simp: tokenMint_def Let_def ok_simps split: if_splits dest!: Mint_writes)

lemma check_not_issued_Success [simp]: "check_not_issued st code \<noteq> Some (Success p ws)"
  by (auto simp: check_not_issued_def split: sum.splits goerr.splits)

lemma case_option_outcome_Success [ok_simps]:
  "((case m of None \<Rightarrow> r | Some x \<Rightarrow> g x) = Success p ws) \<longleftrightarrow>
   (m = None \<and> r = Success p ws) \<or> (\<exists>x. m = Some x \<and> g x = Success p ws)"
  by (cases m) auto

lemma tokenCreate_writes: "tokenCreate st ps = Success p ws \<Longrightarrow> ok_writes st ws"
  by (auto simp: tokenCreate_def Let_def ok_simps split: if_splits
      dest!: CreateToken_writes invokeContract_Success dest: meta_bounds(2))

lemma update_policy_supply:
  "update_policy st t fp = Inr (t', b) \<Longrightarrow>
   tok_DOCTYPEID t' = tok_DOCTYPEID t \<and> tok_Supply t' = tok_Supply t \<and> tok_MaxSupply t' = tok_MaxSupply t"
  by (auto simp: update_policy_def Let_def ok_simps split: option.splits if_splits)

lemma tokenUpdate_writes: "tokenUpdate st ps = Success p ws \<Longrightarrow> ok_writes st ws"
  by (auto simp: tokenUpdate_def Let_def case_sum_Success case_prod_Success case_option_outcome_Success
      supply_ok_def split: if_splits option.splits
      dest!: update_policy_supply PutToken_writes dest: tokens_ok_read)

lemma last_pruned_writes:
  assumes "last_pruned st ws t code = Inr (l, ws')" and "tokens_ok st \<Longrightarrow> supply_ok t" and "ok_writes st ws"
  shows "ok_writes st ws'"
proof -
  have "tokens_ok st \<Longrightarrow> supply_ok (t\<lparr>tok_LastPrunedFeeID := []\<rparr>)"
    using assms(2) by (simp add: supply_ok_def)
  with assms show ?thesis
    by (auto simp: last_pruned_def split: if_splits sum.splits dest: PutToken_writes)
qed

lemma last_pruned_not_Success [simp]: "last_pruned st ws t code \<noteq> Inl (Success p ws')"
  by (auto simp: last_pruned_def split: if_splits sum.splits)

lemma feePrune_writes: "feePrune st ps = Success p ws \<Longrightarrow> ok_writes st ws"
  by (auto simp: feePrune_def Let_def case_sum_ok_Success case_sum_Success case_prod_Success tokens_ok_read
      split: if_splits option.splits dest!: last_pruned_writes op_writes)

subsection \<open>The contract callbacks\<close>

lemma pending_read: "GetPendingBalance st i = Inr pb \<Longrightarrow> pendings_ok st \<Longrightarrow> pending_ok pb"
  by (auto simp: pendings_ok_def)

lemma callback_writes:
  "contractVoid st cid doc = Success p ws \<Longrightarrow> ok_writes st ws"
  "cancelTransfer st cid doc = Success p ws \<Longrightarrow> ok_writes st ws"
  "executeTransfer st cid doc = Success p ws \<Longrightarrow> ok_writes st ws"
  "executePay st cid doc = Success p ws \<Longrightarrow> ok_writes st ws"
  "executeWrap st cid doc = Success p ws \<Longrightarrow> ok_writes st ws"
  "executeAccountCreate st cid doc = Success p ws \<Longrightarrow> ok_writes st ws"
  "executeAccountHolderAdd st cid doc = Success p ws \<Longrightarrow> ok_writes st ws"
  "executeAccountHolderRemove st cid doc = Success p ws \<Longrightarrow> ok_writes st ws"
  by (auto simp: contractVoid_def cancelTransfer_def executeTransfer_def executePay_def executeWrap_def
      executeAccountCreate_def executeAccountHolderAdd_def executeAccountHolderRemove_def ok_simps
      pending_read split: if_splits dest!: op_writes)

lemma token_callback_writes:
  "executeTokenBurn st cid doc = Success p ws \<Longrightarrow> ok_writes st ws"
  "executeTokenMint st cid doc = Success p ws \<Longrightarrow> ok_writes st ws"
  "executeTokenCreate st cid doc = Success p ws \<Longrightarrow> ok_writes st ws"
  by (auto simp: executeTokenBurn_def executeTokenMint_def executeTokenCreate_def ok_simps tokens_ok_read
      split: if_splits dest!: Burn_writes Mint_writes CreateToken_writes dest: meta_bounds(2))

lemma ctr_lookup_cases:
  "fn \<in> set (ctr_lookup dtype) \<Longrightarrow>
   fn \<in> {contractVoid, cancelTransfer, executeTransfer, executePay, executeWrap, executeAccountCreate,
     executeAccountHolderAdd, executeAccountHolderRemove, executeTokenBurn, executeTokenMint,
     executeTokenCreate}"
  by (auto simp: ctr_lookup_def ctrRoutes_def split: if_splits)

lemma contractCallback_writes: "contractCallback st i ps = Success p ws \<Longrightarrow> ok_writes st ws"
proof -
  assume "contractCallback st i ps = Success p ws"
  then obtain dtype cid doc where "i < length (ctr_lookup dtype)"
    and "(ctr_lookup dtype ! i) st cid doc = Success p ws"
    by (auto simp: contractCallback_def Let_def ok_simps split: if_splits)
  then show ?thesis
    using ctr_lookup_cases [OF nth_mem] callback_writes token_callback_writes by fastforce
qed

subsection \<open>Invoke\<close>

lemma routes_cases:
  "map_of routes fn = Some h \<Longrightarrow>
   h \<in> {accountCreate, accountGet, accountHolderAdd, accountHolderRemove, accountList, accountSuspend,
     accountUnsuspend, balanceLogs, balancePendingGet, balancePendingList, balancePendingWithdraw,
     contractExecute, contractCancel, feeList, feePrune, pay, payGet, payPrune, payList, payRefund,
     tokenBurn, tokenCreate, tokenGet, tokenMint, tokenUpdate, transfer, transferGet, wrap,
     wrapComplete, unwrap, ver}"
  by (auto simp: routes_def split: if_splits)

lemma query_ok_writes:
  "transferGet st ps = Success p ws \<Longrightarrow> ok_writes st ws" "balanceLogs st ps = Success p ws \<Longrightarrow> ok_writes st ws"
  "balancePendingGet st ps = Success p ws \<Longrightarrow> ok_writes st ws"
  "balancePendingList st ps = Success p ws \<Longrightarrow> ok_writes st ws"
  "feeList st ps = Success p ws \<Longrightarrow> ok_writes st ws" "payGet st ps = Success p ws \<Longrightarrow> ok_writes st ws"
  "payList st ps = Success p ws \<Longrightarrow> ok_writes st ws" "tokenGet st ps = Success p ws \<Longrightarrow> ok_writes st ws"
  "accountGet st ps = Success p ws \<Longrightarrow> ok_writes st ws" "accountList st ps = Success p ws \<Longrightarrow> ok_writes st ws"
  "ver st ps = Success p ws \<Longrightarrow> ok_writes st ws"
  by (auto dest!: query_writes)

lemmas route_writes = query_ok_writes account_writes transfer_writes pay_writes payRefund_writes payPrune_writes
  withdraw_writes wrap_writes wrapComplete_writes unwrap_writes tokenBurn_writes tokenMint_writes
  tokenCreate_writes tokenUpdate_writes feePrune_writes

theorem Invoke_allowed:
  assumes "Invoke st = Success p ws"
  shows "ok_writes st ws"
proof -
  obtain h where h: "map_of routes (st_function st) = Some h" and r: "h st (st_params st) = Success p ws"
    using assms by (auto simp: Invoke_def split: option.splits)
  show ?thesis
    using routes_cases [OF h] r
    by (elim insertE emptyE)
       (simp_all add: contractExecute_def contractCancel_def route_writes contractCallback_writes)
qed

end
