(* ===== verification/Conservation.thy ===== *)
theory Conservation
  imports Discipline
begin

text \<open>
  Conservation of money by the routes: the handlers establish the premises of the conservation
  lemmas of the stub operations, on a world state that is well-formed.
\<close>

subsection \<open>Well-formed world states\<close>

text \<open>
  What the handlers rely on: hashes of the right length and canonical identities (the identity
  chaincode), a new transaction id, documents under their own keys and pending amounts that are
  not negative (invariants, see theory \<open>Invariants\<close>), no document under an empty id, no balance without an account, and
  tokens whose genesis account and wrap addresses are accounts of the same token.  The last is
  not enforced: \<open>CreateToken\<close> and \<open>tokenUpdate\<close> only check that these accounts exist.
\<close>

definition token_sound :: "stub \<Rightarrow> string \<Rightarrow> Token \<Rightarrow> bool" where
  "token_sound st code t \<longleftrightarrow> token_ok t \<and> tcode (tok_GenesisAccount t) = code \<and>
     (\<forall>ext a. GetWrapAddress st t ext = Inr a \<longrightarrow> addr_Code a = code)"

definition world_ok :: "stub \<Rightarrow> bool" where
  "world_ok st \<longleftrightarrow> shake_ok st \<and> fresh st \<and> (\<forall>b k. get_kid st b = Inr k \<longrightarrow> kid_ok k) \<and>
     keyed (ledger_of st) \<and> pendings_ok st \<and> ledger_of st [] = None \<and> ledger_of st (wrap_key []) = None \<and>
     (\<forall>i. ledger_of st (acc_key i) = None \<longrightarrow> ledger_of st (bal_key i) = None) \<and>
     (\<forall>code t. GetToken st code = Inr t \<longrightarrow> token_sound st code t)"

lemma world_ok_simps:
  assumes "world_ok st"
  shows "shake_ok st" "fresh st" "get_kid st b = Inr k \<Longrightarrow> kid_ok k" "keyed (ledger_of st)"
    "GetToken st code = Inr t \<Longrightarrow> token_sound st code t" "pendings_ok st"
  using assms by (auto simp: world_ok_def)

lemma read_ids:
  assumes "world_ok st"
  shows "GetAccount st addr = Inr a \<Longrightarrow> ai_GetID a = addr_String addr"
    and "GetBalance st i = Inr b \<Longrightarrow> bal_DOCTYPEID b = i"
    and "GetToken st code = Inr t \<Longrightarrow> tok_DOCTYPEID t = code"
    and "GetPendingBalance st i = Inr p \<Longrightarrow> pb_DOCTYPEID p = i"
    and "GetWrap st i = Inr w \<Longrightarrow> wr_DOCTYPEID w = i \<and> i \<noteq> []"
    and "GetPay st i = Inr q \<Longrightarrow> pay_PayID q = i \<and> i \<noteq> []"
proof -
  have K: "keyed (ledger_of st)" using assms by (rule world_ok_simps)
  show "GetAccount st addr = Inr a \<Longrightarrow> ai_GetID a = addr_String addr" using keyed_account [OF K] .
  show "GetBalance st i = Inr b \<Longrightarrow> bal_DOCTYPEID b = i"
    "GetPendingBalance st i = Inr p \<Longrightarrow> pb_DOCTYPEID p = i"
    "GetToken st code = Inr t \<Longrightarrow> tok_DOCTYPEID t = code" using keyed_reads [OF K] by blast+
  show "GetWrap st i = Inr w \<Longrightarrow> wr_DOCTYPEID w = i \<and> i \<noteq> []"
    using keyed_reads(4) [OF K] assms by (auto simp: world_ok_def dest!: wrap_store.get_Inr_ledger)
  show "GetPay st i = Inr q \<Longrightarrow> pay_PayID q = i \<and> i \<noteq> []"
    using keyed_reads(3) [OF K, of i q] assms pay_store.get_Inr_ledger [of st i q]
    by (cases "i = []") (auto simp: world_ok_def pay_key_def)
qed

lemma parsed_ok: "world_ok st \<Longrightarrow> ParseAddress st s = Inr a \<Longrightarrow> addr_ok st a"
  using ParseAddress_ok world_ok_simps(1) by blast

lemma new_ok:
  "world_ok st \<Longrightarrow> token_code_ok code \<Longrightarrow> addr_ok st (NewAddress st code AccountTypePersonal k)"
  by (rule NewAddress_ok) (auto simp: world_ok_simps account_types)

lemma sender_ok:
  assumes "world_ok st" and "sender_is st kid rAddr s a" and "addr_ok st rAddr"
  shows "addr_ok st a \<and> addr_Code a = addr_Code rAddr"
  using assms parsed_ok new_ok
  by (auto simp: sender_is_def addr_ok_def split: if_splits)

lemma wrap_address_ok:
  assumes "world_ok st" and "GetToken st code = Inr t" and "GetWrapAddress st t ext = Inr a"
  shows "addr_ok st a \<and> addr_Code a = code"
  using assms world_ok_simps(5) parsed_ok
  by (fastforce simp: token_sound_def GetWrapAddress_def split: sum.splits)

lemma balance_read:
  "world_ok st \<Longrightarrow> GetBalance st i = Inr b \<Longrightarrow> GetBalance st (bal_DOCTYPEID b) = Inr b"
  by (simp add: read_ids)

subsection \<open>Transfers and pays\<close>

lemma transfer_conserves:
  assumes W: "world_ok st" and T: "transfer st ps = Success p ws"
  shows "delta c (ledger_of st) ws = 0"
  using T
proof (cases rule: transferE)
  case (multi kid amount fee sAddr rAddr sender receiver sBal rBal opts con log)
  then have rd: "GetBalance st (bal_DOCTYPEID sBal) = Inr sBal"
    using balance_read [OF W] by (auto simp: transfer_ready_def)
  show ?thesis by (rule Deposit_delta [OF multi(5) rd fresh_simps(1) [OF world_ok_simps(2) [OF W]]])
next
  case (instant kid amount fee sAddr rAddr sender receiver sBal rBal opts log)
  have rd: "GetBalance st (bal_DOCTYPEID sBal) = Inr sBal" "GetBalance st (bal_DOCTYPEID rBal) = Inr rBal"
    using balance_read [OF W] instant(1) by (auto simp: transfer_ready_def)
  have ok: "addr_ok st rAddr" "addr_ok st sAddr" "addr_Code sAddr = addr_Code rAddr"
    using parsed_ok [OF W] sender_ok [OF W] instant(1) by (auto simp: transfer_ready_def)
  have ids: "bal_DOCTYPEID sBal = addr_String sAddr" "bal_DOCTYPEID rBal = addr_String rAddr"
    using read_ids [OF W] instant(1) by (auto simp: transfer_ready_def)
  have "bal_DOCTYPEID sBal \<noteq> bal_DOCTYPEID rBal"
    using instant(1) ids ok addr_String_inj by (auto simp: transfer_ready_def)
  then show ?thesis
    using Transfer_delta [OF instant(3) rd] ids ok tcode_addr_String world_ok_simps(2) [OF W] by metis
qed

lemma pay_conserves:
  assumes W: "world_ok st" and T: "pay st ps = Success p ws"
  shows "delta c (ledger_of st) ws = 0"
  using T
proof (cases rule: payE)
  case (multi kid amount sAddr rAddr sender receiver sBal con log)
  then have rd: "GetBalance st (bal_DOCTYPEID sBal) = Inr sBal"
    using balance_read [OF W] by (auto simp: pay_ready_def)
  show ?thesis by (rule Deposit_delta [OF multi(4) rd fresh_simps(1) [OF world_ok_simps(2) [OF W]]])
next
  case (instant kid amount sAddr rAddr sender receiver sBal fee q log)
  have rd: "GetBalance st (bal_DOCTYPEID sBal) = Inr sBal"
    using balance_read [OF W] instant(1) by (auto simp: pay_ready_def)
  have ok: "addr_ok st rAddr" "addr_ok st sAddr" "addr_Code sAddr = addr_Code rAddr"
    using parsed_ok [OF W] sender_ok [OF W] instant(1) by (auto simp: pay_ready_def)
  have ids: "bal_DOCTYPEID sBal = addr_String sAddr" "ai_GetID receiver = addr_String rAddr"
    using read_ids [OF W] instant(1) by (auto simp: pay_ready_def)
  show ?thesis
    using PayOp_delta [OF instant(4) rd] ids ok tcode_addr_String world_ok_simps(2) [OF W] by metis
qed

lemma payRefund_conserves:
  assumes W: "world_ok st" and T: "payRefund st ps = Success p ws"
  shows "delta c (ledger_of st) ws = 0"
proof -
  obtain parent rAddr sAddr sender receiver sBal rBal amount fee log oid memo where
    par: "GetPay st (ps ! 0) = Inr parent"
    and addr: "ParseAddress st (pay_DOCTYPEID parent) = Inr sAddr" "ParseAddress st (pay_RID parent) = Inr rAddr"
    and code: "addr_Code rAddr = addr_Code sAddr"
    and acc: "GetAccount st sAddr = Inr sender" "GetAccount st rAddr = Inr receiver"
    and bal: "GetBalance st (ai_GetID sender) = Inr sBal" "GetBalance st (ai_GetID receiver) = Inr rBal"
    and op: "Refund st [] sBal rBal amount fee memo oid parent = Inr (log, ws)"
    using T by (auto simp: payRefund_def Let_def ok_simps split: if_splits)
  have ids: "bal_DOCTYPEID sBal = addr_String sAddr" "bal_DOCTYPEID rBal = addr_String rAddr"
    and pid: "pay_PayID parent = ps ! 0" "ps ! 0 \<noteq> []"
    using read_ids [OF W] acc bal par by auto
  have "tcode (bal_DOCTYPEID sBal) = tcode (bal_DOCTYPEID rBal)"
    using ids code addr parsed_ok [OF W] tcode_addr_String by metis
  moreover have "ps ! 0 \<noteq> fee_id ts (st_txid st)" if "get_time st = Inr ts" for ts
    using fresh_simps(4) [OF world_ok_simps(2) [OF W] that] par pid
    by (auto dest!: pay_store.get_Inr_ledger)
  ultimately show ?thesis
    using Refund_delta [OF op] balance_read [OF W bal(2)] par pid world_ok_simps(2) [OF W] by simp
qed

lemma withdraw_conserves:
  assumes W: "world_ok st" and T: "balancePendingWithdraw st ps = Success p ws"
  shows "delta c (ledger_of st) ws = 0"
proof -
  obtain pb log where pb: "GetPendingBalance st (ps ! 0) = Inr pb" and op: "Withdraw st [] pb = Inr (log, ws)"
    using T by (auto simp: balancePendingWithdraw_def Let_def ok_simps split: if_splits)
  then show ?thesis
    using Withdraw_delta [OF op] read_ids(4) [OF W pb] world_ok_simps(4) [OF W] by simp
qed

lemma cancelTransfer_conserves:
  assumes W: "world_ok st" and T: "cancelTransfer st cid doc = Success p ws"
  shows "delta c (ledger_of st) ws = 0"
proof -
  obtain i pb log where pb: "GetPendingBalance st i = Inr pb" and op: "Withdraw st [] pb = Inr (log, ws)"
    using T by (auto simp: cancelTransfer_def Let_def ok_simps split: if_splits)
  then show ?thesis
    using Withdraw_delta [OF op] read_ids(4) [OF W pb] world_ok_simps(4) [OF W] by simp
qed

subsection \<open>Wraps\<close>

lemma param_ok: "world_ok st \<Longrightarrow> get_kid st b = Inr kid \<Longrightarrow> param_address st kid p = Inr a \<Longrightarrow> addr_ok st a"
  using param_address_ok world_ok_simps by blast

lemma wrapE:
  assumes "wrap st ps = Success p ws"
  obtains (multi) kid sAddr sender sBal con amount memo oid log where
    "GetBalance st (ai_GetID sender) = Inr sBal"
    "Deposit st [] (st_txid st) sBal con amount None memo oid = Inr (log, ws)"
    "get_kid st True = Inr kid" "GetAccount st sAddr = Inr sender" "ai_HasHolder sender kid = Inr True"
    "NewAmount (ps ! 3) = Inr amount" "0 < amount" "amount \<le> bal_Amount sBal"
  | (instant) kid sAddr sender sBal amount memo oid log ec ei where
    "GetBalance st (ai_GetID sender) = Inr sBal"
    "WrapOp st [] sBal amount ec ei memo oid = Inr (log, ws)"
    "get_kid st True = Inr kid" "GetAccount st sAddr = Inr sender" "ai_HasHolder sender kid = Inr True"
    "NewAmount (ps ! 3) = Inr amount" "0 < amount" "amount \<le> bal_Amount sBal"
  using assms by (auto simp: wrap_def Let_def ok_simps if_cases_Success not_less not_le)

lemma wrap_conserves:
  assumes W: "world_ok st" and T: "wrap st ps = Success p ws"
  shows "delta c (ledger_of st) ws = 0"
  using T
proof (cases rule: wrapE)
  case (multi kid sAddr sender sBal con amount memo oid log)
  show ?thesis
    by (rule Deposit_delta [OF multi(2) balance_read [OF W multi(1)] fresh_simps(1) [OF world_ok_simps(2) [OF W]]])
next
  case (instant kid sAddr sender sBal amount memo oid log ec ei)
  show ?thesis by (rule WrapOp_delta [OF instant(2) balance_read [OF W instant(1)] world_ok_simps(2) [OF W]])
qed

lemma wrapComplete_conserves:
  assumes W: "world_ok st" and T: "wrapComplete st ps = Success p ws"
  shows "delta c (ledger_of st) ws = 0"
proof -
  obtain w token wAddr wrapper wBal fee tx log where
    w: "GetWrap st (ps ! 0) = Inr w" and t: "GetToken st (tcode (wr_Address w)) = Inr token"
    and a: "GetWrapAddress st token (wr_ExtCode w) = Inr wAddr"
    and acc: "GetAccount st wAddr = Inr wrapper" and bal: "GetBalance st (ai_GetID wrapper) = Inr wBal"
    and op: "WrapComplete st [] w wBal fee tx = Inr (log, ws)"
    using T by (auto simp: wrapComplete_def Let_def ParseCode_tcode ok_simps split: if_splits)
  have "tcode (bal_DOCTYPEID wBal) = tcode (wr_Address w)"
    using read_ids(1,2) [OF W] acc bal wrap_address_ok [OF W t a] tcode_addr_String by metis
  then show ?thesis
    using WrapComplete_delta [OF op] read_ids(5) [OF W w] w balance_read [OF W bal] world_ok_simps(2) [OF W]
    by simp
qed

lemma unwrapE:
  assumes "unwrap st ps = Success p ws"
  obtains (normal) kid i u code rA token wAddr rAddr wrapper receiver rBal wBal amount ec ei tx log where
    "unwrap_receiver st (ps ! 0) = Inr (code, rA)" "rAddr = (case rA of None \<Rightarrow> wAddr | Some a \<Rightarrow> a)"
    "GetToken st code = Inr token" "GetWrapAddress st token ec = Inr wAddr"
    "GetAccount st wAddr = Inr wrapper" "GetAccount st rAddr = Inr receiver"
    "GetBalance st (ai_GetID receiver) = Inr rBal" "GetBalance st (ai_GetID wrapper) = Inr wBal"
    "wAddr \<noteq> rAddr" "UnwrapOp st [Put (unwrap_key i) u] wBal rBal amount ec ei tx = Inr (log, ws)"
    "get_kid st True = Inr kid" "ai_HasHolder wrapper kid = Inr True" "0 < amount"
  | (impossible) i u wBal ec ei tx log where
    "UnwrapImpossible st [Put (unwrap_key i) u] wBal ec ei tx = Inr (log, ws)"
  using assms by (auto simp: unwrap_def Let_def ok_simps if_cases_Success not_le)

lemma unwrap_conserves:
  assumes W: "world_ok st" and T: "unwrap st ps = Success p ws"
  shows "delta c (ledger_of st) ws = 0"
  using T
proof (cases rule: unwrapE)
  case (normal kid i u code rA token wAddr rAddr wrapper receiver rBal wBal amount ec ei tx log)
  have ids: "bal_DOCTYPEID wBal = addr_String wAddr" "bal_DOCTYPEID rBal = addr_String rAddr"
    using read_ids(1,2) [OF W] normal by auto
  have w: "addr_ok st wAddr \<and> addr_Code wAddr = code" using wrap_address_ok [OF W normal(3,4)] .
  have rc: "addr_ok st rAddr \<and> addr_Code rAddr = code"
    using normal(1,2) w parsed_ok [OF W] by (auto simp: unwrap_receiver_def split: sum.splits option.splits)
  have "bal_DOCTYPEID wBal \<noteq> bal_DOCTYPEID rBal"
    using normal(9) ids w rc addr_String_inj [of st wAddr rAddr] by simp
  moreover have "tcode (bal_DOCTYPEID wBal) = tcode (bal_DOCTYPEID rBal)"
    using ids w rc tcode_addr_String by metis
  ultimately show ?thesis
    by (rule UnwrapOp_delta [OF normal(10) balance_read [OF W normal(8)] balance_read [OF W normal(7)]])
next
  case (impossible i u wBal ec ei tx log)
  then show ?thesis by (rule UnwrapImpossible_delta)
qed

subsection \<open>Tokens\<close>

lemma genesis_balance:
  assumes W: "world_ok st" and t: "GetToken st code = Inr token"
    and "ParseAddress st (tok_GenesisAccount token) = Inr addr" "GetAccount st addr = Inr account"
    and "GetBalance st (ai_GetID account) = Inr bal"
  shows "token_ok token" "GetToken st (tok_DOCTYPEID token) = Inr token"
    "GetBalance st (bal_DOCTYPEID bal) = Inr bal" "tcode (bal_DOCTYPEID bal) = tok_DOCTYPEID token"
proof -
  have s: "token_sound st code token" using world_ok_simps(5) [OF W t] .
  then show "token_ok token" by (simp add: token_sound_def)
  have id: "tok_DOCTYPEID token = code" using read_ids(3) [OF W t] .
  then show "GetToken st (tok_DOCTYPEID token) = Inr token" using t by simp
  show "GetBalance st (bal_DOCTYPEID bal) = Inr bal" using balance_read [OF W assms(5)] .
  have "bal_DOCTYPEID bal = to_upper (tok_GenesisAccount token)"
    using read_ids(1,2) [OF W] assms ParseAddress_ok world_ok_simps(1) [OF W] by metis
  then show "tcode (bal_DOCTYPEID bal) = tok_DOCTYPEID token"
    using s id by (simp add: token_sound_def)
qed

lemma tokenBurnE:
  assumes "tokenBurn st ps = Success p ws"
  obtains "ws = []"
  | (burn) kid code token addr account bal amount r where
    "GetToken st code = Inr token" "ParseAddress st (tok_GenesisAccount token) = Inr addr"
    "GetAccount st addr = Inr account" "GetBalance st (ai_GetID account) = Inr bal"
    "Burn st [] token bal amount = Inr (r, ws)"
    "get_kid st True = Inr kid" "ai_HasHolder account kid = Inr True"
  using assms by (auto simp: tokenBurn_def Let_def ok_simps if_cases_Success)

lemma tokenBurn_conserves:
  assumes W: "world_ok st" and T: "tokenBurn st ps = Success p ws"
  shows "delta c (ledger_of st) ws = 0"
  using T
proof (cases rule: tokenBurnE)
  case (burn kid code token addr account bal amount r)
  show ?thesis using Burn_delta [OF burn(5)] genesis_balance [OF W burn(1-4)] by simp
qed simp

lemma tokenMintE:
  assumes "tokenMint st ps = Success p ws"
  obtains "ws = []"
  | (mint) kid code token addr account bal amount r where
    "GetToken st code = Inr token" "ParseAddress st (tok_GenesisAccount token) = Inr addr"
    "GetAccount st addr = Inr account" "GetBalance st (ai_GetID account) = Inr bal"
    "Mint st [] token bal amount = Inr (r, ws)"
    "get_kid st True = Inr kid" "ai_HasHolder account kid = Inr True"
  using assms by (auto simp: tokenMint_def Let_def ok_simps if_cases_Success)

lemma tokenMint_conserves:
  assumes W: "world_ok st" and T: "tokenMint st ps = Success p ws"
  shows "delta c (ledger_of st) ws = 0"
  using T
proof (cases rule: tokenMintE)
  case (mint kid code token addr account bal amount r)
  show ?thesis using Mint_delta [OF mint(5)] genesis_balance [OF W mint(1-4)] by simp
qed simp

subsection \<open>Accounts and tokens created\<close>

lemma free_balance:
  assumes W: "world_ok st" and "GetAccount st addr = Inl (NotExistedAccountError a)"
  shows "worth_doc (worth_bal c) (GetBalance st (addr_String addr)) = 0"
proof -
  have "ledger_of st (acc_key (addr_String addr)) = None"
    using GetAccount_NotExisted [OF assms(2)] by (auto simp: ledger_of_def)
  then have "ledger_of st (bal_key (addr_String addr)) = None" using W by (simp add: world_ok_def)
  then show ?thesis using worth_read(1) [of c "addr_String addr" st] by simp
qed

lemma CreateAccount_delta:
  assumes "world_ok st" and "CreateAccount st [] tok kid = Inr (r, ws)"
  shows "delta c (ledger_of st) ws = 0"
  using assms
  by (auto simp: CreateAccount_def CreateBalance_def zero_Balance_def NewHolder_def Let_def ok_simps delta_simps
      dest!: free_balance)

lemma put_holders_delta:
  assumes "put_holders st ws a ts ks = Inr ws'"
  shows "delta c L ws' = delta c L ws"
proof -
  have "delta c M (map (\<lambda>k. Put (hld_key k (ai_GetID a)) (f k)) ks) = 0" for M f
    by (induction ks arbitrary: M) simp_all
  then show ?thesis using put_holders_Inr [OF assms] by (simp add: delta_append)
qed

lemma put_holders_commit:
  assumes "put_holders st ws a ts ks = Inr ws'" and "key_tag k \<noteq> ''HLD''"
  shows "commit L ws' k = commit L ws k"
  using assms by (induction ks arbitrary: ws) (auto simp: ok_simps key_simps NewHolder_def)

text \<open>A joint account starts with an empty balance under its own address, and nothing else of worth.\<close>

lemma CreateJointAccount_delta:
  assumes "world_ok st" and "CreateJointAccount st [] tok hs = Inr ((j, b), ws)"
  shows "delta c (ledger_of st) ws = 0"
    and "bal_DOCTYPEID b = acc_DOCTYPEID (jac_Account j)" "bal_Amount b = 0"
    and "acc_DOCTYPEID (jac_Account j) = addr_String (NewAddress st tok AccountTypeJoint (st_txid st))"
    and "commit (ledger_of st) ws (bal_key (bal_DOCTYPEID b)) = Some (marshal_Balance b)"
    and "key_tag k = ''TKN'' \<or> key_tag k = ''BLOG'' \<Longrightarrow> commit (ledger_of st) ws k = ledger_of st k"
  using assms
  by (auto simp: CreateJointAccount_def CreateBalance_def zero_Balance_def Let_def ok_simps delta_simps
      put_holders_delta put_holders_commit dest!: free_balance)

text \<open>An empty bridge is stored as none; apart from that a created token reads back.\<close>

definition stored_token :: "Token \<Rightarrow> Token" where
  "stored_token t = (if tok_WrapBridge t = Some [] then t\<lparr>tok_WrapBridge := None\<rparr> else t)"

lemma marshal_stored_token: "marshal_Token (stored_token t) = marshal_Token t"
  by (simp add: stored_token_def marshal_Token_def omit_bridge_def)

lemma worth_stored_token:
  assumes "token_ok (stored_token t)"
  shows "worth c (tok_key i) (Some (marshal_Token t)) = worth_tok c t"
proof -
  have "worth_tok c (stored_token t) = worth_tok c t"
    by (simp add: worth_tok_def stored_token_def)
  then show ?thesis
    using assms worth_Some(6) [of "stored_token t" c i] marshal_stored_token [of t] by simp
qed

lemma wrap_bridge_loop_distinct:
  "wrap_bridge_loop ms wb = Inr wb' \<Longrightarrow> distinct (map fst wb) \<Longrightarrow> distinct (map fst wb')"
  by (induction ms wb rule: wrap_bridge_loop.induct) (auto simp: Let_def distinct_update split: if_splits)

lemma meta_bridge_distinct:
  "meta_bridge st m = Inr (Some wb) \<Longrightarrow> distinct (map fst wb)"
  by (auto simp: meta_bridge_def NewWrapBridge_def map_sum_Inr split: option.splits json.splits
      dest!: wrap_bridge_loop_distinct)

lemma meta_token_ok:
  assumes "getValidatedTokenMeta st code = Inr m"
  shows "tm_policy m = Some p \<Longrightarrow> policy_ok p" and "tm_wrapBridge m = Some wb \<Longrightarrow> distinct (map fst wb)"
proof -
  obtain ms fee where "meta_policy ms fee = Inr (tm_policy m)" and "meta_bridge st ms = Inr (tm_wrapBridge m)"
    using assms by (auto simp: getValidatedTokenMeta_def case_sum_Inr)
  then show "tm_policy m = Some p \<Longrightarrow> policy_ok p" and "tm_wrapBridge m = Some wb \<Longrightarrow> distinct (map fst wb)"
    using meta_policy_ok meta_bridge_distinct by fastforce+
qed

lemma set_target_ok:
  "set_target st fp g = Inr fp' \<Longrightarrow> \<forall>p. fp = Some p \<longrightarrow> policy_ok p \<Longrightarrow> \<forall>p. fp' = Some p \<longrightarrow> policy_ok p"
  by (auto simp: set_target_def policy_ok_def split: option.splits if_splits sum.splits)

lemma Supply_effect:
  assumes "Supply st ws b a = Inr (r, ws')" and "commit L ws (bal_key (bal_DOCTYPEID b)) = Some (marshal_Balance b)"
  shows "delta c L ws' = delta c L ws + in_code c (bal_DOCTYPEID b) a"
    and "commit L ws' (tok_key i) = commit L ws (tok_key i)"
  using assms by (auto simp: Supply_def Let_def ok_simps delta_append delta_simps)

lemma CreateToken_delta:
  assumes W: "world_ok st" and T: "CreateToken st [] code d mx s fp wb hs = Inr (t, ws)"
    and code: "token_code_ok code" and free: "GetTokenState st code = Inl e"
    and d: "0 \<le> d" "d \<le> 18" and s: "0 \<le> s"
    and fp: "\<forall>p. fp = Some p \<longrightarrow> policy_ok p" and wb: "\<forall>m. wb = Some m \<longrightarrow> distinct (map fst m)"
  shows "delta c (ledger_of st) ws = 0"
proof -
  let ?L = "ledger_of st"
  obtain acc bal ws1 ws2 fp' ts where
    c1: "CreateJointAccount st [] code hs = Inr ((acc, bal), ws1)"
    and c2: "set_target st fp (acc_DOCTYPEID (jac_Account acc)) = Inr fp'"
    and c3: "(if 0 < s then map_sum id snd (Supply st ws1 bal s) else Inr ws1) = Inr ws2"
    and t: "t = \<lparr>tok_DOCTYPEID = code, tok_Decimal = d, tok_MaxSupply = mx, tok_Supply = s,
      tok_LastPrunedFeeID = [], tok_GenesisAccount = acc_DOCTYPEID (jac_Account acc), tok_FeePolicy = fp',
      tok_WrapBridge = wb, tok_CreatedTime = Some ts, tok_UpdatedTime = Some ts\<rparr>"
    and c4: "PutToken st ws2 t = Inr ws"
    using T by (auto simp: CreateToken_def Let_def case_sum_Inr case_prod_Inr case_option_goerr_Inr)
  note J = CreateJointAccount_delta [OF W c1]
  have "addr_ok st (NewAddress st code AccountTypeJoint (st_txid st))"
    using code world_ok_simps(1) [OF W] by (intro NewAddress_ok) (simp_all add: account_types)
  then have tc: "tcode (bal_DOCTYPEID bal) = code"
    using J(2,4) tcode_addr_String by (metis NewAddress_fields(1))
  have sup: "delta c ?L ws2 = in_code c (bal_DOCTYPEID bal) s \<and> commit ?L ws2 (tok_key code) = ?L (tok_key code)"
    using c3 s J(1,5) J(6) [of "tok_key code"] Supply_effect [where ws = ws1 and b = bal and L = ?L]
    by (auto simp: map_sum_Inr key_simps in_code_def split: if_splits)
  have none: "worth c (tok_key code) (?L (tok_key code)) = 0"
    using free by (simp add: GetToken_def worth_doc_def)
  have "token_ok (stored_token t)"
    using d set_target_ok [OF c2 fp] wb t
    by (auto simp: token_ok_def stored_token_def bridge_ok_def split: option.splits)
  then have "delta c ?L ws = delta c ?L ws2 + worth_tok c t - 0"
    using c4 sup none t by (auto simp: ok_simps delta_append worth_stored_token)
  then show ?thesis using sup tc t by (simp add: in_code_def worth_tok_def)
qed

lemma tokenCreate_conserves:
  assumes W: "world_ok st" and T: "tokenCreate st ps = Success p ws"
  shows "delta c (ledger_of st) ws = 0"
proof -
  obtain code m where code: "token_code_ok code" and free: "check_not_issued st code = None"
    and m: "getValidatedTokenMeta st code = Inr m"
    and op: "ws = [] \<or> (\<exists>t hs. CreateToken st [] code (tm_decimal m) (tm_maxSupply m) (tm_supply m)
      (tm_policy m) (tm_wrapBridge m) hs = Inr (t, ws))"
    using T by (auto simp: tokenCreate_def Let_def ok_simps ValidateTokenCode_Inr if_cases_Success
        dest!: invokeContract_Success)
  obtain e where "GetTokenState st code = Inl e"
    using free by (auto simp: check_not_issued_def split: sum.splits)
  then show ?thesis
    using op CreateToken_delta [OF W _ code] meta_bounds [OF m] meta_token_ok [OF m] by auto
qed

lemma policy_ok_update [simp]:
  "policy_ok (p\<lparr>fp_TargetAddress := a\<rparr>) = policy_ok p" "policy_ok (p\<lparr>fp_Rates := []\<rparr>)"
  by (simp_all add: policy_ok_def)

lemma token_ok_update:
  assumes "update_policy st t fp = Inr (t', b)" and "token_ok t" and "\<forall>p. fp = Some p \<longrightarrow> policy_ok p"
  shows "token_ok t'"
  using assms
  by (auto simp: update_policy_def token_ok_def Let_def ok_simps split: option.splits if_splits)

lemma tokenUpdate_conserves:
  assumes W: "world_ok st" and T: "tokenUpdate st ps = Success p ws"
  shows "delta c (ledger_of st) ws = 0"
proof (cases "ws = []")
  case True
  then show ?thesis by simp
next
  case False
  obtain code token m token' b ts t where g: "GetToken st code = Inr token"
    and m: "getValidatedTokenMeta st code = Inr m"
    and u: "update_policy st token (tm_policy m) = Inr (token', b)"
    and t: "t = (case tm_wrapBridge m of None \<Rightarrow> token' | Some wb \<Rightarrow> token'\<lparr>tok_WrapBridge := Some wb\<rparr>)
      \<lparr>tok_UpdatedTime := Some ts\<rparr>"
    and p: "PutToken st [] t = Inr ws"
    using T False
    by (auto simp: tokenUpdate_def Let_def case_sum_Success case_prod_Success Discipline.case_option_outcome_Success
        split: if_splits option.splits)
  have ok: "token_ok token'"
    using token_ok_update [OF u] world_ok_simps(5) [OF W g] meta_token_ok(1) [OF m] by (auto simp: token_sound_def)
  then have "token_ok (stored_token t)"
    using t meta_token_ok(2) [OF m]
    by (auto simp: token_ok_def stored_token_def bridge_ok_def split: option.splits)
  moreover have "tok_DOCTYPEID t = code" "tok_Supply t = tok_Supply token"
    using update_policy_supply [OF u] read_ids(3) [OF W g] t by (auto split: option.splits)
  ultimately show ?thesis
    using p g read_ids(3) [OF W g] by (auto simp: ok_simps worth_stored_token worth_tok_def)
qed

subsection \<open>The other routes\<close>

text \<open>Accounts and holder relationships hold no money.\<close>

lemma account_update_delta:
  "SuspendAccount st [] tok kid = Inr (a, ws) \<Longrightarrow> delta c L ws = 0"
  "UnsuspendAccount st [] tok kid = Inr (a, ws) \<Longrightarrow> delta c L ws = 0"
  "AddHolder st [] j k = Inr (j', ws) \<Longrightarrow> delta c L ws = 0"
  "RemoveHolder st [] j k = Inr (j', ws) \<Longrightarrow> delta c L ws = 0"
  by (auto simp: SuspendAccount_Inr UnsuspendAccount_Inr AddHolder_def RemoveHolder_def touch_def
      NewHolder_def Let_def ok_simps)

lemma account_conserves:
  assumes W: "world_ok st"
  shows "accountCreate st ps = Success p ws \<Longrightarrow> delta c (ledger_of st) ws = 0"
    and "accountHolderAdd st ps = Success p ws \<Longrightarrow> delta c (ledger_of st) ws = 0"
    and "accountHolderRemove st ps = Success p ws \<Longrightarrow> delta c (ledger_of st) ws = 0"
    and "accountSuspend st ps = Success p ws \<Longrightarrow> delta c (ledger_of st) ws = 0"
    and "accountUnsuspend st ps = Success p ws \<Longrightarrow> delta c (ledger_of st) ws = 0"
  by (auto simp: accountCreate_def check_token_available_def accountHolderAdd_def accountHolderRemove_def
      accountSuspend_def accountUnsuspend_def responseAccountWithBalance_def
      responseAccountWithBalanceState_def Let_def ok_simps
      split: if_splits option.splits sum.splits goerr.splits
      dest!: CreateAccount_delta [OF W] account_update_delta invokeContract_Success)

lemma contractCancel_conserves:
  assumes W: "world_ok st" and T: "contractCancel st ps = Success p ws"
  shows "delta c (ledger_of st) ws = 0"
proof -
  obtain dtype cid doc where i: "0 < length (ctr_lookup dtype)"
    and r: "(ctr_lookup dtype ! 0) st cid doc = Success p ws"
    using T by (auto simp: contractCancel_def contractCallback_def Let_def ok_simps split: if_splits)
  have "ctr_lookup dtype ! 0 \<in> {contractVoid, cancelTransfer}"
    using i by (auto simp: ctr_lookup_def ctrRoutes_def split: if_splits)
  then show ?thesis using r cancelTransfer_conserves [OF W] by (auto simp: contractVoid_def)
qed

end
