(* ===== verification/Invariants.thy ===== *)
theory Invariants
  imports Discipline
begin

text \<open>
  The world state as a transition system: a step commits the write set of one successful
  transaction.  The invariants of the reachable ledgers and the monotonicity of single steps
  (logs are append-only, nothing but pending balances and holder relationships is deleted, a
  wrap completes once, an external transaction unwraps once) follow from the discipline of the
  write sets.
\<close>

subsection \<open>Steps and reachable ledgers\<close>

text \<open>
  \<open>fresh st\<close> is Fabric's promise that a transaction id is new: the documents keyed by it
  are not on the ledger.
\<close>

inductive step :: "ledger \<Rightarrow> ledger \<Rightarrow> bool" where
  step: "Invoke st = Success p ws \<Longrightarrow> fresh st \<Longrightarrow> step (ledger_of st) (commit (ledger_of st) ws)"

inductive reachable :: "ledger \<Rightarrow> bool" where
  reachable_init: "reachable Map.empty"
| reachable_step: "reachable L \<Longrightarrow> step L L' \<Longrightarrow> reachable L'"

subsection \<open>The invariant\<close>

definition doc_inv :: "string \<Rightarrow> json \<Rightarrow> bool" where
  "doc_inv k j \<longleftrightarrow> keyed_doc k j \<and>
     (\<forall>i p. k = pb_key i \<longrightarrow> unmarshal_PendingBalance j = Inr p \<longrightarrow> pending_ok p) \<and>
     (\<forall>i t. k = tok_key i \<longrightarrow> unmarshal_Token j = Inr t \<longrightarrow> supply_ok t) \<and>
     (\<forall>i p. k = pay_key i \<longrightarrow> unmarshal_Pay j = Inr p \<longrightarrow> refund_ok p)"

definition ledger_inv :: "ledger \<Rightarrow> bool" where
  "ledger_inv L \<longleftrightarrow> (\<forall>k j. L k = Some j \<longrightarrow> doc_inv k j)"

lemma ledger_inv_keyed: "ledger_inv L \<Longrightarrow> keyed L"
  by (simp add: ledger_inv_def keyed_def doc_inv_def)

lemma ledger_inv_reads:
  assumes "ledger_inv (ledger_of st)"
  shows "tokens_ok st" "pays_ok st" "pendings_ok st"
proof -
  show "tokens_ok st"
    using assms by (auto simp: tokens_ok_def ledger_inv_def doc_inv_def dest!: token_store.get_Inr_ledger)
  show "pays_ok st"
    using assms by (auto simp: pays_ok_def ledger_inv_def doc_inv_def dest!: pay_store.get_Inr_ledger)
  show "pendings_ok st"
    unfolding pendings_ok_def
  proof (intro allI impI)
    fix i p
    assume "GetPendingBalance st i = Inr p"
    then obtain j where "ledger_of st (pb_key i) = Some j" "unmarshal_PendingBalance j = Inr p"
      by (blast dest: pending_store.get_Inr_ledger)
    moreover from this have "doc_inv (pb_key i) j" using assms by (simp add: ledger_inv_def)
    ultimately show "pending_ok p" by (auto simp: doc_inv_def)
  qed
qed

lemma supply_ok_survives: "unmarshal_Token (marshal_Token t) = Inr t' \<Longrightarrow> supply_ok t' = supply_ok t"
  using token_survives by (simp add: supply_ok_def)

lemma pending_ok_survives:
  "unmarshal_PendingBalance (marshal_PendingBalance p) = Inr p' \<Longrightarrow> pending_ok p' = pending_ok p"
  by (auto simp: pending_ok_def unmarshal_PendingBalance_def marshal_PendingBalance_def dec_PendingBalance_def
      zero_PendingBalance_def codec_simps ok_simps)

lemma allowed_doc_inv:
  assumes "allowed st (Put k j)" and "tokens_ok st" and "pays_ok st" and "pendings_ok st"
  shows "doc_inv k j"
  using assms
  by (elim allowed_PutE)
     (auto simp: doc_inv_def key_simps supply_ok_survives pending_ok_survives pay_codec.unmarshal_marshal)

lemma commit_inv:
  assumes "ok_writes st ws" and "ledger_inv L" and "tokens_ok st" and "pays_ok st" and "pendings_ok st"
  shows "ledger_inv (commit L ws)"
  using assms
proof (induction ws arbitrary: L)
  case Nil
  then show ?case by simp
next
  case (Cons w ws)
  then have "ledger_inv (apply_write L w)"
    by (cases w) (auto simp: ledger_inv_def allowed_doc_inv)
  with Cons show ?case by simp
qed

lemma step_inv: "step L L' \<Longrightarrow> ledger_inv L \<Longrightarrow> ledger_inv L'"
  by (auto elim!: step.cases intro: commit_inv Invoke_allowed ledger_inv_reads)

lemma reachable_inv: "reachable L \<Longrightarrow> ledger_inv L"
proof (induction rule: reachable.induct)
  case reachable_init
  then show ?case by (simp add: ledger_inv_def)
next
  case (reachable_step L L')
  then show ?case by (blast intro: step_inv)
qed

text \<open>Every document of a reachable ledger was written by a transaction.\<close>

lemma commit_origin:
  assumes "commit L ws k = Some j"
  shows "L k = Some j \<or> Put k j \<in> set ws"
  using assms
proof (induction ws arbitrary: L)
  case Nil
  then show ?case by simp
next
  case (Cons w ws)
  then have "apply_write L w k = Some j \<or> Put k j \<in> set ws" by simp
  then show ?case by (cases w) (auto split: if_splits)
qed

lemma reachable_written: "reachable L \<Longrightarrow> L k = Some j \<Longrightarrow> \<exists>st. allowed st (Put k j)"
proof (induction rule: reachable.induct)
  case reachable_init
  then show ?case by simp
next
  case (reachable_step L L')
  from reachable_step.hyps(2) show ?case
  proof cases
    case (step st p ws)
    then have "L k = Some j \<or> Put k j \<in> set ws" using reachable_step.prems commit_origin by blast
    then show ?thesis using reachable_step.IH step Invoke_allowed unfolding ok_writes_def by blast
  qed
qed

subsection \<open>Frames of a step\<close>

lemma commit_no_del:
  assumes "Del k \<notin> set ws" and "k \<in> dom L"
  shows "k \<in> dom (commit L ws)"
  using assms
proof (induction ws arbitrary: L)
  case Nil
  then show ?case by simp
next
  case (Cons w ws)
  from Cons.prems have "k \<in> dom (apply_write L w)" by (cases w) auto
  with Cons show ?case by simp
qed

lemma commit_kept:
  assumes "\<And>j. Put k j \<notin> set ws" and "Del k \<notin> set ws"
  shows "commit L ws k = L k"
proof (rule commit_other)
  show "k \<notin> write_key ` set ws"
  proof
    assume "k \<in> write_key ` set ws"
    then obtain w where "w \<in> set ws" "write_key w = k" by blast
    with assms show False by (cases w) auto
  qed
qed

lemma allowed_Del_tag: "allowed st (Del k) \<Longrightarrow> key_tag k \<in> {''PBLC'', ''HLD''}"
  by (erule allowed_DelE) (simp_all add: key_simps)

lemma step_keeps:
  assumes "step L L'" and "L k = Some j" and "key_tag k \<notin> {''PBLC'', ''HLD''}"
    and "\<And>st j'. allowed st (Put k j') \<Longrightarrow> fresh st \<Longrightarrow> ledger_of st = L \<Longrightarrow> False"
  shows "L' k = Some j"
  using assms(1)
proof cases
  case (step st p ws)
  have "ok_writes st ws" using step Invoke_allowed by blast
  then have "Put k j' \<notin> set ws" "Del k \<notin> set ws" for j'
    using assms(3,4) step allowed_Del_tag unfolding ok_writes_def by blast+
  then show ?thesis using commit_kept [of k ws L] step assms(2) by simp
qed

end
