(* ===== verification/Example.thy ===== *)
theory Example
  imports Chaincode
begin

text \<open>
  A concrete environment in which the properties are evaluated: two personal accounts and a
  genesis account (joint, with one holder) of one token, with a fee policy and a wrap bridge,
  and an instance of every parameter of the model.
\<close>

definition kidA :: string where "kidA = ''1111111111111111111111111111111111111111''"
definition kidB :: string where "kidB = ''2222222222222222222222222222222222222222''"
definition addrA :: string where "addrA = ''PCI01111111111111111111111111111111111111111141414141''"
definition addrB :: string where "addrB = ''PCI01222222222222222222222222222222222222222241414141''"
definition addrG :: string where "addrG = ''PCI02333333333333333333333333333333333333333341414141''"

definition addrJ :: string where "addrJ = ''PCI02444444444444444444444444444444444444444441414141''"

definition demo_time :: gotime where "demo_time = time_unix 1500000000 0"

definition demo_personal :: "string \<Rightarrow> Account" where
  "demo_personal a = \<lparr>acc_DOCTYPEID = a, acc_Token = ''PCI'', acc_Type = AccountTypePersonal,
     acc_CreatedTime = Some demo_time, acc_UpdatedTime = Some demo_time, acc_SuspendedTime = None\<rparr>"

definition demo_genesis :: JointAccount where
  "demo_genesis = \<lparr>jac_Account = \<lparr>acc_DOCTYPEID = addrG, acc_Token = ''PCI'', acc_Type = AccountTypeJoint,
     acc_CreatedTime = Some demo_time, acc_UpdatedTime = Some demo_time, acc_SuspendedTime = None\<rparr>,
     jac_Holders = [kidA]\<rparr>"

definition demo_joint :: JointAccount where
  "demo_joint = \<lparr>jac_Account = \<lparr>acc_DOCTYPEID = addrJ, acc_Token = ''PCI'', acc_Type = AccountTypeJoint,
     acc_CreatedTime = Some demo_time, acc_UpdatedTime = Some demo_time, acc_SuspendedTime = None\<rparr>,
     jac_Holders = [kidA, kidB]\<rparr>"

definition demo_balance :: "string \<Rightarrow> int \<Rightarrow> Balance" where
  "demo_balance a n = \<lparr>bal_DOCTYPEID = a, bal_Amount = n, bal_CreatedTime = Some demo_time,
     bal_UpdatedTime = Some demo_time, bal_LastPrunedPayID = []\<rparr>"

definition demo_token :: Token where
  "demo_token = \<lparr>tok_DOCTYPEID = ''PCI'', tok_Decimal = 8, tok_MaxSupply = 5000, tok_Supply = 1500,
     tok_LastPrunedFeeID = [], tok_GenesisAccount = addrG,
     tok_FeePolicy = Some \<lparr>fp_TargetAddress = addrG,
       fp_Rates = [(''transfer'', \<lparr>fr_Rate = ''0.015'', fr_MaxAmount = 7\<rparr>),
                   (''pay'', \<lparr>fr_Rate = ''3/100'', fr_MaxAmount = 0\<rparr>)]\<rparr>,
     tok_WrapBridge = Some [(''WPCI'', \<lparr>wp_WrapAddress = addrG, wp_ExtChain = ''eth''\<rparr>)],
     tok_CreatedTime = Some demo_time, tok_UpdatedTime = Some demo_time\<rparr>"

definition demo_pay :: Pay where
  "demo_pay = NewPay addrA ''1500000000000000000abc'' 200 6 addrB [] ''order-1'' ''memo'' demo_time"

definition demo_pending :: PendingBalance where
  "demo_pending = \<lparr>pb_DOCTYPEID = ''tx0'', pb_Type = PendingBalanceTypeContract, pb_Account = addrA,
     pb_RID = ''con0'', pb_Amount = 50, pb_Fee = Some 1, pb_Memo = ''m'', pb_OrderID = [],
     pb_CreatedTime = Some demo_time, pb_PendingTime = Some demo_time\<rparr>"

definition demo_wrap :: Wrap where
  "demo_wrap = \<lparr>wr_DOCTYPEID = ''txw'', wr_Address = addrA, wr_Amount = 40, wr_ExtCode = ''WPCI'',
     wr_ExtID = ''0x00'', wr_CompleteTxID = [], wr_Memo = [], wr_OrderID = []\<rparr>"

definition demo_done :: Wrap where
  "demo_done = demo_wrap\<lparr>wr_DOCTYPEID := ''txd'', wr_CompleteTxID := ''0xd''\<rparr>"

definition demo_old_log :: BalanceLog where
  "demo_old_log = zero_BalanceLog\<lparr>bl_DOCTYPEID := addrA, bl_Type := BalanceLogTypeMint, bl_Diff := 1000,
     bl_Amount := 1000, bl_CreatedTime := Some demo_time\<rparr>"

definition old_tx :: string where "old_tx = ''0x'' @ replicate 64 (CHR ''0'')"
definition new_tx :: string where "new_tx = ''0x'' @ replicate 64 (CHR ''1'')"

definition demo_unwrap :: Unwrap where
  "demo_unwrap = \<lparr>uw_DOCTYPEID = old_tx, uw_CompleteTxID = ''txo''\<rparr>"

definition demo_fees :: "Fee list" where
  "demo_fees = [
     \<lparr>fee_DOCTYPEID = ''PCI'', fee_FeeID = ''1500000000000000001f'', fee_Account = addrA, fee_Amount = 3,
      fee_CreatedTime = Some demo_time\<rparr>,
     \<lparr>fee_DOCTYPEID = ''PCI'', fee_FeeID = ''1500000000000000002f'', fee_Account = addrB, fee_Amount = 4,
      fee_CreatedTime = Some demo_time\<rparr>]"

definition demo_docs :: "(string \<times> json) list" where
  "demo_docs = [
     (acc_key addrA, marshal_Account (demo_personal addrA)),
     (acc_key addrB, marshal_Account (demo_personal addrB)),
     (bal_key addrA, marshal_Balance (demo_balance addrA 1000)),
     (bal_key addrB, marshal_Balance (demo_balance addrB 10)),
     (bal_key addrG, marshal_Balance (demo_balance addrG 490)),
     (bal_key addrJ, marshal_Balance (demo_balance addrJ 300)),
     (tok_key ''PCI'', marshal_Token demo_token),
     (pay_key ''1500000000000000000abc'', marshal_Pay demo_pay),
     (pb_key ''tx0'', marshal_PendingBalance demo_pending),
     (wrap_key ''txw'', marshal_Wrap demo_wrap),
     (wrap_key ''txd'', marshal_Wrap demo_done),
     (unwrap_key old_tx, marshal_Unwrap demo_unwrap),
     (log_key addrA 1500000000000000000, marshal_BalanceLog demo_old_log)]"

text \<open>
  Every invoker is \<open>kidA\<close>, every query for fees or pays answers with the documents above.
  The base environment has an empty ledger and asks for an account, the other for a transfer.
\<close>

definition demo_invoke :: "string \<Rightarrow> string list \<Rightarrow> int \<times> string \<times> string" where
  "demo_invoke cc args =
     (if cc = ''kiesnet-id'' then (200, kidA, [])
      else if cc = ''kiesnet-contract'' then (200, ''con'', [])
      else (200, ''100'', []))"

definition base_stub :: stub where
  "base_stub = \<lparr>st_function = ''account/create'', st_params = [''PCI''], st_txid = ''tx1'', st_timestamp = Inr (1600000000, 5),
     st_now = 1600000001 * 10 ^ 9, st_get = (\<lambda>k. Inr None), st_put_err = (\<lambda>k v. None),
     st_del_err = (\<lambda>k. None), st_query = (\<lambda>q. Inr []), st_query_page = (\<lambda>q n b. Inr (None, [])),
     st_invoke = demo_invoke, st_ccid = Inr ''kiesnet-contract'', st_dev = False,
     st_json = (\<lambda>s. Inr (JObj [(''@contract'', JStr ''con1''), (''expiry_time'', JTime (time_unix 1600000600 0))])),
     st_text = (\<lambda>j. ''doc''), st_shake = (\<lambda>n s. replicate n (CHR ''A'')),
     st_keccak = (\<lambda>s. replicate 32 (CHR ''A'')), st_iter = (\<lambda>s. s)\<rparr>"

definition demo_stub :: stub where
  "demo_stub = base_stub\<lparr>st_function := ''transfer'', st_params := [[], addrB, ''100''], st_get := (\<lambda>k. Inr (if k = acc_key addrG
       then Some (marshal_JointAccount base_stub demo_genesis)
       else if k = acc_key addrJ then Some (marshal_JointAccount base_stub demo_joint) else map_of demo_docs k)),
     st_query := (\<lambda>q. Inr (if fst (hd (q_selector q)) = ''@fee'' then map (Inr \<circ> marshal_Fee) demo_fees
                           else [Inr (marshal_Pay demo_pay)]))\<rparr>"

subsection \<open>What the environment answers\<close>

named_theorems demo \<open>the results of the operations in the example environment\<close>

lemma demo_addr_neq [demo]:
  "addrA \<noteq> addrB" "addrA \<noteq> addrG" "addrB \<noteq> addrG" "addrB \<noteq> addrA" "addrG \<noteq> addrA" "addrG \<noteq> addrB"
  "addrA \<noteq> addrJ" "addrB \<noteq> addrJ" "addrG \<noteq> addrJ" "addrJ \<noteq> addrA" "addrJ \<noteq> addrB" "addrJ \<noteq> addrG"
  "kidA \<noteq> kidB" "kidB \<noteq> kidA"
  by (simp_all add: addrA_def addrB_def addrG_def addrJ_def kidA_def kidB_def)

lemma demo_fields [demo]:
  "st_function demo_stub = ''transfer''" "st_params demo_stub = [[], addrB, ''100'']"
  "st_txid demo_stub = ''tx1''" "st_timestamp demo_stub = Inr (1600000000, 5)"
  "st_put_err demo_stub k v = None" "st_del_err demo_stub k = None"
  "st_iter demo_stub s = s" "st_ccid demo_stub = Inr ''kiesnet-contract''"
  "st_invoke demo_stub = demo_invoke" "st_dev demo_stub = False"
  "shake_ok demo_stub" "iter_ok demo_stub"
  by (simp_all add: demo_stub_def base_stub_def shake_ok_def iter_ok_def)

lemma demo_get [demo]:
  "st_get demo_stub (acc_key addrA) = Inr (Some (marshal_Account (demo_personal addrA)))"
  "st_get demo_stub (acc_key addrB) = Inr (Some (marshal_Account (demo_personal addrB)))"
  "st_get demo_stub (acc_key addrG) = Inr (Some (marshal_JointAccount base_stub demo_genesis))"
  "st_get demo_stub (acc_key addrJ) = Inr (Some (marshal_JointAccount base_stub demo_joint))"
  "st_get demo_stub (bal_key addrJ) = Inr (Some (marshal_Balance (demo_balance addrJ 300)))"
  "st_get demo_stub (bal_key addrA) = Inr (Some (marshal_Balance (demo_balance addrA 1000)))"
  "st_get demo_stub (bal_key addrB) = Inr (Some (marshal_Balance (demo_balance addrB 10)))"
  "st_get demo_stub (bal_key addrG) = Inr (Some (marshal_Balance (demo_balance addrG 490)))"
  "st_get demo_stub (tok_key ''PCI'') = Inr (Some (marshal_Token demo_token))"
  "st_get demo_stub (pay_key ''1500000000000000000abc'') = Inr (Some (marshal_Pay demo_pay))"
  "st_get demo_stub (pb_key ''tx0'') = Inr (Some (marshal_PendingBalance demo_pending))"
  "st_get demo_stub (wrap_key ''txw'') = Inr (Some (marshal_Wrap demo_wrap))"
  "st_get demo_stub (wrap_key ''txd'') = Inr (Some (marshal_Wrap demo_done))"
  "st_get demo_stub (unwrap_key old_tx) = Inr (Some (marshal_Unwrap demo_unwrap))"
  "st_get demo_stub (log_key addrA 1500000000000000000) = Inr (Some (marshal_BalanceLog demo_old_log))"
  "st_get demo_stub (hld_key i a) = Inr None"
  "st_get demo_stub (fee_key i) = Inr None" "st_get demo_stub (lpf_key i) = Inr None"
  "i \<noteq> old_tx \<Longrightarrow> st_get demo_stub (unwrap_key i) = Inr None" "st_get demo_stub (pb_key ''tx1'') = Inr None"
  "st_get demo_stub (wrap_key ''tx1'') = Inr None"
  by (simp_all add: demo_stub_def demo_docs_def demo_addr_neq key_simps)

lemma last_log_key: "0 \<le> n \<Longrightarrow> last (log_key i n) = digit_char (nat n mod 10)"
  by (simp add: log_key_def show_int_def show_nat.simps [of "nat n"] split del: if_split)
     (simp add: show_nat.simps)

lemma demo_get_log [demo]: "st_get demo_stub (log_key i 1600000000000000005) = Inr None"
proof -
  have "digit_char 5 \<noteq> digit_char 0" by (simp add: digit_char_def)
  then have "log_key i 1600000000000000005 \<noteq> log_key addrA 1500000000000000000"
    using last_log_key [of 1600000000000000005 i] last_log_key [of 1500000000000000000 addrA] by auto
  then show ?thesis by (simp add: demo_stub_def demo_docs_def key_simps)
qed

lemma demo_get_pay [demo]:
  "st_get demo_stub (pay_key (show_int n @ ''tx1'')) = Inr None"
proof -
  have "show_int n @ ''tx1'' \<noteq> ''1500000000000000000abc''"
  proof
    assume "show_int n @ ''tx1'' = ''1500000000000000000abc''"
    then have "last (show_int n @ ''tx1'') = last ''1500000000000000000abc''" by (rule arg_cong)
    then show False by simp
  qed
  then show ?thesis by (simp add: demo_stub_def demo_docs_def key_simps)
qed

lemma demo_balances [demo]:
  "GetBalance demo_stub addrA = Inr (demo_balance addrA 1000)"
  "GetBalance demo_stub addrB = Inr (demo_balance addrB 10)"
  "GetBalance demo_stub addrG = Inr (demo_balance addrG 490)"
  "GetBalance demo_stub addrJ = Inr (demo_balance addrJ 300)"
  by (simp_all add: GetBalance_def GetBalanceState_def get_state_def demo balance_codec.unmarshal_marshal)

lemma demo_pending_read [demo]: "GetPendingBalance demo_stub ''tx0'' = Inr demo_pending"
  by (simp add: GetPendingBalance_def get_state_def demo pending_codec.unmarshal_marshal demo_pending_def
      PendingBalanceTypeContract_def)

lemma demo_wrap_read [demo]: "GetWrap demo_stub ''txw'' = Inr demo_wrap"
  by (simp add: GetWrap_def get_state_def demo wrap_codec.unmarshal_marshal)

lemma demo_pay_read [demo]: "GetPay demo_stub ''1500000000000000000abc'' = Inr demo_pay"
  by (simp add: GetPay_def GetPayState_def get_state_def demo pay_codec.unmarshal_marshal)

lemma demo_token_ok [demo]: "token_ok demo_token"
  by (simp add: token_ok_def demo_token_def policy_ok_def rate_ok_def bridge_ok_def)

lemma demo_token_read [demo]: "GetToken demo_stub ''PCI'' = Inr demo_token"
  by (simp add: GetToken_def GetTokenState_def get_state_def demo token_codec.unmarshal_marshal)

lemma demo_parse [demo]:
  "ParseAddress demo_stub addrA = Inr (NewAddress demo_stub ''PCI'' AccountTypePersonal kidA)"
  "ParseAddress demo_stub addrB = Inr (NewAddress demo_stub ''PCI'' AccountTypePersonal kidB)"
  by code_simp+

lemma demo_parse_genesis [demo]:
  "ParseAddress demo_stub addrG =
     Inr (NewAddress demo_stub ''PCI'' AccountTypeJoint ''3333333333333333333333333333333333333333'')"
  "ParseAddress demo_stub addrJ =
     Inr (NewAddress demo_stub ''PCI'' AccountTypeJoint ''4444444444444444444444444444444444444444'')"
  by code_simp+

lemma demo_strings [demo]:
  "addr_String (NewAddress demo_stub ''PCI'' AccountTypePersonal kidA) = addrA"
  "addr_String (NewAddress demo_stub ''PCI'' AccountTypePersonal kidB) = addrB"
  "addr_String (NewAddress demo_stub ''PCI'' AccountTypeJoint ''3333333333333333333333333333333333333333'') = addrG"
  "addr_String (NewAddress demo_stub ''PCI'' AccountTypeJoint ''4444444444444444444444444444444444444444'') = addrJ"
  by code_simp+

lemma demo_accounts [demo]:
  "GetAccount demo_stub (NewAddress demo_stub ''PCI'' AccountTypePersonal kidA) = Inr (PAC (demo_personal addrA))"
  "GetAccount demo_stub (NewAddress demo_stub ''PCI'' AccountTypePersonal kidB) = Inr (PAC (demo_personal addrB))"
proof -
  have ty: "acc_Type (demo_personal a) < 256" for a by (simp add: demo_personal_def account_types)
  show "GetAccount demo_stub (NewAddress demo_stub ''PCI'' AccountTypePersonal kidA) = Inr (PAC (demo_personal addrA))"
    and "GetAccount demo_stub (NewAddress demo_stub ''PCI'' AccountTypePersonal kidB) = Inr (PAC (demo_personal addrB))"
    by (simp_all add: GetAccount_Inr demo account_codec.unmarshal_marshal [OF ty])
qed

lemma demo_joint_read [demo]:
  "GetAccount demo_stub (NewAddress demo_stub ''PCI'' AccountTypeJoint ''3333333333333333333333333333333333333333'') =
     Inr (JAC demo_genesis)"
  "GetAccount demo_stub (NewAddress demo_stub ''PCI'' AccountTypeJoint ''4444444444444444444444444444444444444444'') =
     Inr (JAC demo_joint)"
proof -
  have i: "iter_ok base_stub" "st_iter base_stub s = s" for s
    by (simp_all add: iter_ok_def base_stub_def)
  have "distinct (jac_Holders demo_genesis)" "acc_Type (jac_Account demo_genesis) < 256"
    by (simp_all add: demo_genesis_def account_types)
  from joint_roundtrip [OF i(1) this] i(2)
  have "unmarshal_JointAccount (marshal_JointAccount base_stub demo_genesis) = Inr demo_genesis" by simp
  moreover have "distinct (jac_Holders demo_joint)" "acc_Type (jac_Account demo_joint) < 256"
    by (simp_all add: demo_joint_def account_types demo_addr_neq)
  from joint_roundtrip [OF i(1) this] i(2)
  have "unmarshal_JointAccount (marshal_JointAccount base_stub demo_joint) = Inr demo_joint" by simp
  ultimately show
    "GetAccount demo_stub (NewAddress demo_stub ''PCI'' AccountTypeJoint ''3333333333333333333333333333333333333333'') =
       Inr (JAC demo_genesis)"
    "GetAccount demo_stub (NewAddress demo_stub ''PCI'' AccountTypeJoint ''4444444444444444444444444444444444444444'') =
       Inr (JAC demo_joint)"
    by (simp_all add: GetAccount_Inr demo)
qed

lemma demo_time_now [demo]: "get_time demo_stub = Inr (GoTime 1600000000000000005)"
  by code_simp

lemma demo_kid [demo]: "get_kid demo_stub b = Inr kidA"
  by (simp add: get_kid_def kid_cc_def demo demo_invoke_def)

lemma demo_holders [demo]:
  "ai_HasHolder (PAC (demo_personal addrA)) kidA = Inr True"
  "ai_HasHolder (JAC demo_genesis) kidA = Inr True" "ai_HasHolder (JAC demo_joint) kidA = Inr True"
  by code_simp+

lemma demo_unsuspended [demo]:
  "\<not> ai_IsSuspended (PAC (demo_personal a))" "\<not> ai_IsSuspended (JAC demo_genesis)"
  "\<not> ai_IsSuspended (JAC demo_joint)"
  by (simp_all add: ai_IsSuspended_def demo_personal_def demo_genesis_def demo_joint_def)

lemma demo_ids [demo]:
  "ai_GetID (PAC (demo_personal a)) = a" "ai_GetID (JAC demo_genesis) = addrG"
  "ai_GetID (JAC demo_joint) = addrJ"
  "bal_DOCTYPEID (demo_balance a n) = a" "bal_Amount (demo_balance a n) = n"
  "bal_LastPrunedPayID (demo_balance a n) = []"
  by (simp_all add: demo_personal_def demo_genesis_def demo_joint_def demo_balance_def)

lemma demo_tcode [demo]: "tcode addrA = ''PCI''" "tcode addrB = ''PCI''" "tcode addrG = ''PCI''" "tcode addrJ = ''PCI''"
  by code_simp+

lemma demo_fresh [demo]: "fresh demo_stub"
  by (simp add: fresh_def ledger_of_def fee_id_def demo)

end
