(* ===== verification/Example_World.thy ===== *)
theory Example_World
  imports Conservation Invariants Example
begin

text \<open>
  The example environment is a well-formed world state, and runs of the routes in it: the
  witnesses of the properties apply them to these.
\<close>

subsection \<open>The ledger\<close>

lemma demo_ledger:
  "ledger_of demo_stub = map_of ((acc_key addrG, marshal_JointAccount base_stub demo_genesis) #
     (acc_key addrJ, marshal_JointAccount base_stub demo_joint) # demo_docs)"
  by (auto simp: fun_eq_iff ledger_of_def demo_stub_def)

lemma demo_finite: "finite (dom (ledger_of demo_stub))"
  unfolding demo_ledger by (rule finite_dom_map_of)

lemma demo_keyed: "keyed (ledger_of demo_stub)"
proof -
  have "keyed_doc k j" if "(k, j) \<in> set demo_docs" for k j
    using that
    by (auto simp: demo_docs_def keyed_doc_def key_simps ids_survive token_survives
        balance_codec.unmarshal_marshal pay_codec.unmarshal_marshal wrap_codec.unmarshal_marshal
        demo_personal_def demo_balance_def demo_token_def demo_pay_def NewPay_def demo_pending_def demo_wrap_def
        demo_done_def)
  moreover have "keyed_doc (acc_key addrG) (marshal_JointAccount base_stub demo_genesis)"
    "keyed_doc (acc_key addrJ) (marshal_JointAccount base_stub demo_joint)"
    using keyed_puts(6) [of "JAC demo_genesis" base_stub] keyed_puts(6) [of "JAC demo_joint" base_stub]
    by (simp_all add: demo_genesis_def demo_joint_def)
  ultimately show ?thesis
    unfolding demo_ledger keyed_def by (auto dest!: map_of_SomeD split: if_splits)
qed

lemma demo_only_token: "GetToken demo_stub code = Inr t \<Longrightarrow> code = ''PCI'' \<and> t = demo_token"
proof -
  assume a: "GetToken demo_stub code = Inr t"
  then obtain j where "ledger_of demo_stub (tok_key code) = Some j" by (auto dest: token_store.get_Inr_ledger)
  then have "code = ''PCI''" by (simp add: demo_ledger demo_docs_def key_simps split: if_splits)
  with a show ?thesis by (simp add: demo_token_read)
qed

lemma demo_token_fields [demo]:
  "tok_DOCTYPEID demo_token = ''PCI''" "tok_MaxSupply demo_token = 5000" "tok_Supply demo_token = 1500"
  "tok_GenesisAccount demo_token = addrG" "tok_LastPrunedFeeID demo_token = []"
  "tok_WrapBridge demo_token = Some [(''WPCI'', \<lparr>wp_WrapAddress = addrG, wp_ExtChain = ''eth''\<rparr>)]"
  "tok_FeePolicy demo_token = Some \<lparr>fp_TargetAddress = addrG,
     fp_Rates = [(''transfer'', \<lparr>fr_Rate = ''0.015'', fr_MaxAmount = 7\<rparr>),
                 (''pay'', \<lparr>fr_Rate = ''3/100'', fr_MaxAmount = 0\<rparr>)]\<rparr>"
  by (simp_all add: demo_token_def)

definition demo_genesis_addr :: Address where
  "demo_genesis_addr = NewAddress demo_stub ''PCI'' AccountTypeJoint ''3333333333333333333333333333333333333333''"

lemma demo_wrap_address [demo]: "GetWrapAddress demo_stub demo_token ''WPCI'' = Inr demo_genesis_addr"
proof -
  have "to_upper ''WPCI'' = ''WPCI''" by code_simp
  then show ?thesis
    by (simp add: GetWrapAddress_def getWrapPolicy_def demo demo_genesis_addr_def)
qed

lemma demo_token_sound: "token_sound demo_stub ''PCI'' demo_token"
proof -
  have "addr_Code a = ''PCI''" if "GetWrapAddress demo_stub demo_token ext = Inr a" for ext a
    using that
    by (auto simp: GetWrapAddress_def getWrapPolicy_def demo split: if_splits)
  then show ?thesis by (simp add: token_sound_def demo)
qed

lemma demo_pendings: "pendings_ok demo_stub"
proof -
  have "pending_ok p" if a: "GetPendingBalance demo_stub i = Inr p" for i p
  proof -
    obtain j where "ledger_of demo_stub (pb_key i) = Some j" using a by (auto dest: pending_store.get_Inr_ledger)
    then have "i = ''tx0''" by (simp add: demo_ledger demo_docs_def key_simps split: if_splits)
    with a show ?thesis by (auto simp: demo_pending_read pending_ok_def demo_pending_def)
  qed
  then show ?thesis by (simp add: pendings_ok_def)
qed

lemma demo_world: "world_ok demo_stub"
  unfolding world_ok_def
proof (intro conjI allI impI)
  show "ledger_of demo_stub [] = None" "ledger_of demo_stub (wrap_key []) = None"
    by (simp_all add: demo_ledger demo_docs_def key_defs)
  show "kid_ok k" if "get_kid demo_stub b = Inr k" for b k
  proof -
    have "k = kidA" using that by (simp add: demo_kid)
    moreover have "kid_ok kidA" by code_simp
    ultimately show ?thesis by simp
  qed
  show "ledger_of demo_stub (bal_key i) = None" if "ledger_of demo_stub (acc_key i) = None" for i
    using that by (simp add: demo_ledger demo_docs_def key_simps split: if_splits)
  show "token_sound demo_stub code t" if "GetToken demo_stub code = Inr t" for code t
    using demo_only_token [OF that] demo_token_sound by simp
qed (simp_all add: demo demo_keyed demo_pendings)

subsection \<open>Runs\<close>

lemma demo_addr_fields [demo]:
  "addr_Code demo_genesis_addr = ''PCI''"
  "addr_String demo_genesis_addr = addrG"
  "GetAccount demo_stub demo_genesis_addr = Inr (JAC demo_genesis)"
  "ParseAddress demo_stub addrG = Inr demo_genesis_addr"
  by (simp_all add: demo_genesis_addr_def demo)

definition demo_joint_addr :: Address where
  "demo_joint_addr = NewAddress demo_stub ''PCI'' AccountTypeJoint ''4444444444444444444444444444444444444444''"

lemma demo_joint_fields [demo]:
  "addr_Code demo_joint_addr = ''PCI''" "addr_String demo_joint_addr = addrJ"
  "GetAccount demo_stub demo_joint_addr = Inr (JAC demo_joint)" "ParseAddress demo_stub addrJ = Inr demo_joint_addr"
  by (simp_all add: demo_joint_addr_def demo)

lemma demo_addresses_neq [demo]:
  "NewAddress demo_stub ''PCI'' AccountTypePersonal kidA \<noteq> NewAddress demo_stub ''PCI'' AccountTypePersonal kidB"
  "NewAddress demo_stub ''PCI'' AccountTypePersonal kidB \<noteq> NewAddress demo_stub ''PCI'' AccountTypePersonal kidA"
  "NewAddress demo_stub ''PCI'' AccountTypePersonal kidA \<noteq> demo_genesis_addr"
  "NewAddress demo_stub ''PCI'' AccountTypePersonal kidB \<noteq> demo_genesis_addr"
  "demo_genesis_addr \<noteq> NewAddress demo_stub ''PCI'' AccountTypePersonal kidA"
  "demo_genesis_addr \<noteq> NewAddress demo_stub ''PCI'' AccountTypePersonal kidB"
  by (metis demo_strings(1,2) demo_addr_fields(2) demo_addr_neq)+

lemma demo_lengths [demo]: "length addrA = 53" "length addrB = 53" "length addrG = 53" "length addrJ = 53"
  by (simp_all add: addrA_def addrB_def addrG_def addrJ_def)

lemma demo_account_fields [demo]:
  "acc_DOCTYPEID (demo_personal a) = a" "acc_SuspendedTime (demo_personal a) = None"
  "acc_DOCTYPEID (jac_Account demo_genesis) = addrG" "jac_Holders demo_genesis = [kidA]"
  by (simp_all add: demo_personal_def demo_genesis_def)

lemma demo_holder [demo]:
  "acc_Holder (demo_personal addrA) = Inr kidA" "acc_Holder (demo_personal addrB) = Inr kidB"
  by code_simp+

lemma demo_now [demo]: "unix_nano (GoTime 1600000000000000005) = 1600000000000000005"
  by code_simp

lemma demo_amounts [demo]:
  "NewAmount ''100'' = Inr 100" "NewAmount ''40'' = Inr 40" "NewAmount ''2'' = Inr 2"
  "rat_set_string ''0.015'' = Some (3, 200)" "rat_set_string ''3/100'' = Some (3, 100)"
  by code_simp+

lemma demo_fee [demo]:
  "CalcFee demo_stub (NewAddress demo_stub ''PCI'' AccountTypePersonal kidA) ''transfer'' 100 = Inr 1"
  "CalcFee demo_stub (NewAddress demo_stub ''PCI'' AccountTypePersonal kidB) ''pay'' 100 = Inr 3"
  by (simp_all add: CalcFee_def demo rate_fee_def MulRat_def rat_num_def rat_denom_def)

lemmas run_defs = sender_address_def base_signers_def set_size_def new_set_def append_slice_def append_set_def set_add_def
  PutBalance_def put_state_def del_state_def PutBalanceLog_def CreateFee_def PutFee_def get_state_def PutPay_def
  PutParentPay_def PutWrap_def PutUnwrap_def PutPendingBalance_def DeletePendingBalance_def Let_def addr_Equal_def

lemma demo_transfer:
  "\<exists>p ws. transfer demo_stub [[], addrB, ''100''] = Success p ws \<and> ws \<noteq> []"
  by (simp add: transfer_def transfer_send_def transfer_opts_def Transfer_def transfer_receive_def locked_def
      NewBalanceTransferLog_def run_defs demo)

lemma demo_pay_run:
  "\<exists>p ws. pay demo_stub [[], addrB, ''100''] = Success p ws \<and> ws \<noteq> []"
  by (simp add: pay_def pay_send_def pay_opts_def PayOp_def NewPay_def NewBalancePayLog_def fee_id_def run_defs demo)

lemma demo_pay_fields [demo]:
  "pay_DOCTYPEID demo_pay = addrA" "pay_RID demo_pay = addrB" "pay_Amount demo_pay = 200" "pay_Fee demo_pay = 6"
  "pay_TotalRefund demo_pay = 0" "pay_PayID demo_pay = ''1500000000000000000abc''"
  by (simp_all add: demo_pay_def NewPay_def)

lemma demo_pending_fields [demo]:
  "pb_DOCTYPEID demo_pending = ''tx0''" "pb_Type demo_pending = PendingBalanceTypeContract"
  "pb_Account demo_pending = addrA" "pb_RID demo_pending = ''con0''" "pb_Amount demo_pending = 50"
  "pb_Fee demo_pending = Some 1" "pb_PendingTime demo_pending = Some demo_time" "pb_Memo demo_pending = ''m''"
  "pb_OrderID demo_pending = []"
  by (simp_all add: demo_pending_def)

lemma demo_time_past [demo]: "demo_time < GoTime 1600000000000000005" "\<not> GoTime 1600000000000000005 < demo_time"
  by code_simp+

lemma demo_withdraw_run:
  "\<exists>p ws. balancePendingWithdraw demo_stub [''tx0''] = Success p ws \<and> ws \<noteq> []"
  by (simp add: balancePendingWithdraw_def Withdraw_def NewBalanceWithdrawLog_def applied_def run_defs demo)

lemma demo_done_fields [demo]:
  "wr_DOCTYPEID demo_wrap = ''txw''" "wr_Address demo_wrap = addrA" "wr_Amount demo_wrap = 40"
  "wr_ExtCode demo_wrap = ''WPCI''" "wr_CompleteTxID demo_wrap = []"
  "wr_DOCTYPEID demo_done = ''txd''" "wr_CompleteTxID demo_done = ''0xd''"
  by (simp_all add: demo_wrap_def demo_done_def)

lemma demo_ParseCode [demo]: "ParseCode addrA = Inr ''PCI''" "ParseCode addrG = Inr ''PCI''"
  by code_simp+

lemma demo_wrapComplete_run:
  "\<exists>p ws. wrapComplete demo_stub [''txw''] = Success p ws \<and> ws \<noteq> []"
  by (simp add: wrapComplete_def WrapComplete_def complete_fee_def complete_txid_def NewBalanceWrapCompleteLog_def
      set_contains_def run_defs demo)

lemma demo_refund_run:
  "\<exists>p ws. payRefund demo_stub [''1500000000000000000abc'', ''100''] = Success p ws \<and> ws \<noteq> []"
  by (simp add: payRefund_def refund_fee_def rat_norm_def MulRat_def Refund_def NewPay_def NewBalanceRefundLog_def
      fee_id_def rat_num_def rat_denom_def run_defs demo)

lemma demo_params [demo]:
  "ValidateTokenCode ''PCI'' = Inr ''PCI''"
  "param_address demo_stub kidA addrA = Inr (NewAddress demo_stub ''PCI'' AccountTypePersonal kidA)"
proof -
  show "ValidateTokenCode ''PCI'' = Inr ''PCI''" by code_simp
  have "\<not> isl (ValidateTokenCode addrA) \<longleftrightarrow> False" by code_simp
  then have "\<exists>e. ValidateTokenCode addrA = Inl e" by (auto simp: isl_def)
  then show "param_address demo_stub kidA addrA = Inr (NewAddress demo_stub ''PCI'' AccountTypePersonal kidA)"
    by (auto simp: param_address_def demo)
qed

lemma demo_prune_range [demo]:
  "id_time [] = Inr (time_unix 0 0)"
  "prune_etime m ts [x, ''false''] = Inr ts"
  by (simp_all add: id_time_def prune_etime_def) code_simp

lemma demo_sums [demo]:
  "GetPaySumByTime demo_stub i s e = Inr \<lparr>ps_Sum = 200, ps_Fee = 6, ps_Count = 1,
     ps_Start = ''1500000000000000000abc'', ps_End = ''1500000000000000000abc'', ps_HasMore = False\<rparr>"
  "GetFeeSumByTime demo_stub c s e = Inr \<lparr>fs_Sum = 7, fs_Count = 2,
     fs_Start = ''1500000000000000001f'', fs_End = ''1500000000000000002f'', fs_HasMore = False\<rparr>"
proof -
  have "fst (hd (q_selector (CreateQueryPrunePays i s e))) \<noteq> ''@fee''"
    "fst (hd (q_selector (CreateQueryPruneFee c s e))) = ''@fee''"
    by (simp_all add: CreateQueryPrunePays_def CreateQueryPruneFee_def)
  then have q: "st_query demo_stub (CreateQueryPrunePays i s e) = Inr (map (Inr \<circ> marshal_Pay) [demo_pay])"
    "st_query demo_stub (CreateQueryPruneFee c s e) = Inr (map (Inr \<circ> marshal_Fee) demo_fees)"
    by (simp_all add: demo_stub_def)
  show "GetPaySumByTime demo_stub i s e = Inr \<lparr>ps_Sum = 200, ps_Fee = 6, ps_Count = 1,
     ps_Start = ''1500000000000000000abc'', ps_End = ''1500000000000000000abc'', ps_HasMore = False\<rparr>"
    unfolding GetPaySumByTime_def q using pay_loop_sum [of 0 "[demo_pay]"]
    by (simp add: zero_PaySum_def PaysPruneSize_def pays_before_def demo)
  show "GetFeeSumByTime demo_stub c s e = Inr \<lparr>fs_Sum = 7, fs_Count = 2,
     fs_Start = ''1500000000000000001f'', fs_End = ''1500000000000000002f'', fs_HasMore = False\<rparr>"
    unfolding GetFeeSumByTime_def q using fee_loop_sum [of 0 demo_fees]
    by (simp add: zero_FeeSum_def FeePruneSize_def demo_fees_def)
qed

lemma demo_prune_run:
  "\<exists>p ws. payPrune demo_stub [addrA, ''false''] = Success p ws \<and> ws \<noteq> []"
  by (simp add: payPrune_def pruned_balance_def NewBalancePrunePayLog_def run_defs demo)

lemma demo_fee_prune_run:
  "\<exists>p ws. feePrune demo_stub [''PCI'', ''false''] = Success p ws \<and> ws \<noteq> []"
  by (simp add: feePrune_def last_pruned_def GetLastPrunedFeeID_def GetLastPrunedFeeIDState_def PutToken_def
      PutLastPrunedFeeID_def NewBalancePruneFeeLog_def set_contains_def run_defs demo)

lemma demo_Mint_run: "\<exists>r ws. Mint demo_stub [] demo_token (demo_balance addrG 490) 4000 = Inr (r, ws)"
  by (simp add: Mint_def Supply_def NewBalanceSupplyLog_def PutToken_def run_defs demo)

lemma demo_Burn_run: "\<exists>r ws. Burn demo_stub [] demo_token (demo_balance addrG 490) 600 = Inr (r, ws)"
  by (simp add: Burn_def Supply_def NewBalanceSupplyLog_def PutToken_def run_defs demo)

lemma hex_digits: "hex_val (CHR ''0'') = Some 0" "hex_val (CHR ''1'') = Some 1" "hex_val (CHR ''x'') = None"
  by code_simp+

lemma demo_ext [demo]:
  "NormalizeExtTxID old_tx = Inr old_tx" "NormalizeExtTxID new_tx = Inr new_tx"
  "to_upper ''WPCI'' = ''WPCI''" "new_tx \<noteq> old_tx"
  by (simp_all add: NormalizeExtTxID_def validateExtTxID_def isValidExtTxIDFormat_def hex_digit_lower_def
      to_lower_def lower_char_def to_upper_def upper_char_def old_tx_def new_tx_def list_all_iff hex_digits
      numeral_eq_Suc)

lemma demo_EOA [demo]:
  "NormalizeExtAddress demo_stub ''0x0000000000000000000000000000000000000000'' =
   Inr ''0x0000000000000000000000000000000000000000''"
  by code_simp

lemma demo_receiver [demo]:
  "unwrap_receiver demo_stub addrB = Inr (''PCI'', Some (NewAddress demo_stub ''PCI'' AccountTypePersonal kidB))"
proof -
  have "isl (ValidateTokenCode addrB)" by code_simp
  then show ?thesis by (auto simp: unwrap_receiver_def isl_def demo)
qed

lemma demo_unwrap_run:
  "\<exists>p ws. unwrap demo_stub [addrB, ''WPCI'', ''0x0000000000000000000000000000000000000000'', new_tx, ''40''] =
     Success p ws \<and> ws \<noteq> []"
  by (simp add: unwrap_def UnwrapOp_def NewBalanceUnwrapLog_def NewBalanceUnwrapCompleteLog_def set_contains_def
      run_defs demo)

lemma demo_suspend_run: "\<exists>r ws. SuspendAccount demo_stub [] ''PCI'' kidA = Inr (r, ws)"
  by (simp add: SuspendAccount_def PutAccount_def run_defs demo)

subsection \<open>The first account\<close>

lemma base_get: "st_get base_stub k = Inr None" "st_put_err base_stub k v = None"
  "st_function base_stub = ''account/create''" "st_params base_stub = [''PCI'']"
  by (simp_all add: base_stub_def)

lemma base_answers:
  "get_kid base_stub b = Inr kidA" "get_time base_stub = Inr (GoTime 1600000000000000005)"
  "invokeKNT base_stub c ps = Inr ''100'' \<or> knt_cc base_stub c \<in> {''kiesnet-id'', ''kiesnet-contract''}"
proof -
  show "get_time base_stub = Inr (GoTime 1600000000000000005)" by code_simp
  show "get_kid base_stub b = Inr kidA" by (simp add: get_kid_def kid_cc_def base_stub_def demo_invoke_def)
  show "invokeKNT base_stub c ps = Inr ''100'' \<or> knt_cc base_stub c \<in> {''kiesnet-id'', ''kiesnet-contract''}"
    by (simp add: invokeKNT_def base_stub_def demo_invoke_def)
qed

lemma base_token: "invokeKNT base_stub ''PCI'' ps = Inr ''100''"
proof -
  have "knt_cc base_stub ''PCI'' = ''knt-pci''" by code_simp
  then show ?thesis using base_answers(3) [of "''PCI''" ps] by simp
qed

lemma base_create: "\<exists>p ws. Invoke base_stub = Success p ws \<and> commit Map.empty ws \<noteq> Map.empty"
  by (simp add: Invoke_def routes_def accountCreate_def check_token_available_def base_get base_answers base_token
      GetTokenState_def CreateAccount_def CreateBalance_def PutAccount_def PutHolder_def GetAccount_def GetAccountState_def
      responseAccountWithBalance_def run_defs demo_params)

lemma base_balance: "\<exists>p ws i. Invoke base_stub = Success p ws \<and> commit Map.empty ws (bal_key i) \<noteq> None"
  by (simp add: Invoke_def routes_def accountCreate_def check_token_available_def base_get base_answers base_token
    GetTokenState_def CreateAccount_def CreateBalance_def PutAccount_def PutHolder_def GetAccount_def GetAccountState_def
    responseAccountWithBalance_def run_defs demo_params key_simps)

lemma base_ledger: "ledger_of base_stub = Map.empty"
  by (simp add: fun_eq_iff ledger_of_def base_get)

lemma base_fresh: "fresh base_stub"
  by (simp add: fresh_def base_ledger)

lemma demo_Invoke: "\<exists>p ws. Invoke demo_stub = Success p ws \<and> ws \<noteq> []"
  using demo_transfer by (simp add: Invoke_def routes_def demo)

end
