(* ===== verification/Balance_Map.thy ===== *)
theory Balance_Map
  imports Conservation
begin

text \<open>
  The abstract state of the money operations: what every account has at its disposal.  Each
  operation on documents implements an update of this map: \<open>move\<close> from one account to
  another with a fee, \<open>hold\<close> out of an account and \<open>credit\<close> into one.
\<close>

subsection \<open>The abstract state\<close>

type_synonym amounts = "string \<Rightarrow> int option"

definition balances :: "ledger \<Rightarrow> amounts" where
  "balances L a =
     (case L (bal_key a) of
        None \<Rightarrow> None
      | Some j \<Rightarrow> (case unmarshal_Balance j of Inl e \<Rightarrow> None | Inr b \<Rightarrow> Some (bal_Amount b)))"

definition credit :: "string \<Rightarrow> int \<Rightarrow> amounts \<Rightarrow> amounts" where
  "credit a x B = B(a := map_option (\<lambda>y. y + x) (B a))"

definition hold :: "string \<Rightarrow> int \<Rightarrow> amounts \<Rightarrow> amounts" where
  "hold a x B = credit a (- x) B"

definition move :: "string \<Rightarrow> string \<Rightarrow> int \<Rightarrow> int \<Rightarrow> amounts \<Rightarrow> amounts" where
  "move s r a f B = credit r a (hold s (a + f) B)"

lemma credit_other [simp]: "b \<noteq> a \<Longrightarrow> credit a x B b = B b"
  by (simp add: credit_def)

lemma hold_other [simp]: "b \<noteq> a \<Longrightarrow> hold a x B b = B b"
  by (simp add: hold_def)

lemma credit_hold [simp]: "credit a x (hold a x B) = B"
  by (auto simp: credit_def hold_def fun_eq_iff option.map_comp comp_def option.map_ident)

lemma move_hold: "s \<noteq> r \<Longrightarrow> move s r a f B = hold s (a + f) (credit r a B)"
  by (auto simp: move_def hold_def credit_def fun_eq_iff)

text \<open>Only writes under the key of a balance change the map.\<close>

lemma balances_bal [simp]:
  "balances (L(bal_key i \<mapsto> marshal_Balance b)) = (balances L)(i \<mapsto> bal_Amount b)"
  by (auto simp: balances_def fun_eq_iff key_simps balance_codec.unmarshal_marshal)

lemma balances_upd: "key_tag k \<noteq> ''BLC'' \<Longrightarrow> balances (L(k := v)) = balances L"
  by (auto simp: balances_def fun_eq_iff key_simps)

lemma balances_others [simp]:
  "balances (L(log_key i n := v)) = balances L" "balances (L(pb_key i := v)) = balances L"
  "balances (L(fee_key i := v)) = balances L" "balances (L(pay_key i := v)) = balances L"
  "balances (L(wrap_key i := v)) = balances L" "balances (L(unwrap_key i := v)) = balances L"
  "balances (L(tok_key i := v)) = balances L" "balances (L(lpf_key i := v)) = balances L"
  "balances (L(acc_key i := v)) = balances L" "balances (L(hld_key i a := v)) = balances L"
  by (rule balances_upd; simp add: key_simps)+

lemma balances_read: "GetBalance st i = Inr b \<Longrightarrow> balances (ledger_of st) i = Some (bal_Amount b)"
  by (auto simp: balance_store.get_Inr balances_def)

lemma upd_credit: "B i = Some x \<Longrightarrow> B(i \<mapsto> x + y) = credit i y B"
  by (simp add: credit_def)

lemma upd_hold: "B i = Some x \<Longrightarrow> B(i \<mapsto> x - y) = hold i y B"
  by (simp add: hold_def credit_def)

subsection \<open>The operations refine the map\<close>

lemma Transfer_balances:
  assumes "Transfer st [] s r a f m oid pt = Inr (log, ws)" and "get_time st = Inr ts"
    and "GetBalance st (bal_DOCTYPEID s) = Inr s" "GetBalance st (bal_DOCTYPEID r) = Inr r"
    and "bal_DOCTYPEID s \<noteq> bal_DOCTYPEID r"
  shows "balances (commit (ledger_of st) ws) =
    (if locked pt ts then hold (bal_DOCTYPEID s) (a + f) (balances (ledger_of st))
     else move (bal_DOCTYPEID s) (bal_DOCTYPEID r) a f (balances (ledger_of st)))"
proof -
  note B = balances_read [OF assms(3)] balances_read [OF assms(4)]
  show ?thesis
    using assms B
    by (auto simp: Transfer_def transfer_receive_def NewPendingBalance_def Let_def ok_simps
        move_def hold_def credit_def fun_eq_iff split: if_splits)
qed

lemma TransferPendingBalance_balances:
  assumes "TransferPendingBalance st [] pb s r None = Inr ws"
    and "GetBalance st (bal_DOCTYPEID r) = Inr r"
  shows "balances (commit (ledger_of st) ws) = credit (bal_DOCTYPEID r) (pb_Amount pb) (balances (ledger_of st))"
  using assms balances_read [OF assms(2)]
  by (auto simp: TransferPendingBalance_def transfer_receive_def locked_def Let_def ok_simps upd_credit
      split: if_splits option.splits)

lemma Deposit_balances:
  assumes "Deposit st [] i s con a f m oid = Inr (log, ws)"
    and "GetBalance st (bal_DOCTYPEID s) = Inr s"
  shows "balances (commit (ledger_of st) ws) = hold (bal_DOCTYPEID s) (applied a f) (balances (ledger_of st))"
  using assms balances_read [OF assms(2)]
  by (auto simp: Deposit_def NewPendingBalance_def Let_def ok_simps hold_def credit_def)

lemma Withdraw_balances:
  assumes "Withdraw st [] pb = Inr (log, ws)" and "keyed (ledger_of st)"
  shows "balances (commit (ledger_of st) ws) =
    credit (pb_Account pb) (applied (pb_Amount pb) (pb_Fee pb)) (balances (ledger_of st))"
  using assms
  by (auto simp: Withdraw_def Let_def ok_simps keyed_reads(1) [OF assms(2)] intro!: upd_credit balances_read)

lemma PayOp_balances:
  assumes "PayOp st [] s r a f oid m = Inr (res, ws)" and "GetBalance st (bal_DOCTYPEID s) = Inr s"
  shows "balances (commit (ledger_of st) ws) = hold (bal_DOCTYPEID s) a (balances (ledger_of st))"
  using assms balances_read [OF assms(2)]
  by (auto simp: PayOp_def Let_def ok_simps upd_hold)

lemma Refund_balances:
  assumes "Refund st [] s r a f m oid p = Inr (log, ws)" and "GetBalance st (bal_DOCTYPEID r) = Inr r"
  shows "balances (commit (ledger_of st) ws) = credit (bal_DOCTYPEID r) a (balances (ledger_of st))"
  using assms balances_read [OF assms(2)]
  by (auto simp: Refund_def Let_def ok_simps upd_credit)

lemma WrapOp_balances:
  assumes "WrapOp st [] s a ec ei m oid = Inr (log, ws)" and "GetBalance st (bal_DOCTYPEID s) = Inr s"
  shows "balances (commit (ledger_of st) ws) = hold (bal_DOCTYPEID s) a (balances (ledger_of st))"
  using assms balances_read [OF assms(2)]
  by (auto simp: WrapOp_def Let_def ok_simps upd_hold)

lemma WrapComplete_balances:
  assumes "WrapComplete st [] w b f tx = Inr (log, ws)" and "GetBalance st (bal_DOCTYPEID b) = Inr b"
  shows "balances (commit (ledger_of st) ws) =
    credit (bal_DOCTYPEID b) (wr_Amount w - f) (balances (ledger_of st))"
  using assms balances_read [OF assms(2)]
  by (auto simp: WrapComplete_def Let_def ok_simps credit_def split: if_splits)

lemma UnwrapOp_balances:
  assumes "UnwrapOp st [Put (unwrap_key i) u] w r a ec ei tx = Inr (log, ws)"
    and "GetBalance st (bal_DOCTYPEID w) = Inr w" "GetBalance st (bal_DOCTYPEID r) = Inr r"
    and "bal_DOCTYPEID w \<noteq> bal_DOCTYPEID r"
  shows "balances (commit (ledger_of st) ws) =
    move (bal_DOCTYPEID w) (bal_DOCTYPEID r) a 0 (balances (ledger_of st))"
  using assms balances_read [OF assms(2)] balances_read [OF assms(3)]
  by (auto simp: UnwrapOp_def Let_def ok_simps move_def hold_def credit_def fun_eq_iff)

lemmas balance_refinements = Transfer_balances TransferPendingBalance_balances Deposit_balances
  Withdraw_balances PayOp_balances Refund_balances WrapOp_balances WrapComplete_balances UnwrapOp_balances

end
