(* ===== verification/Authority.thy ===== *)
theory Authority
  imports Balance_Map
begin

text \<open>
  Who can take money out of an account: on every route but the contract callbacks, a balance that
  shrinks belongs to an account the invoker is a holder of.
\<close>

definition authorized :: "stub \<Rightarrow> string \<Rightarrow> bool" where
  "authorized st a \<longleftrightarrow>
     (\<exists>kid addr acc. get_kid st True = Inr kid \<and> GetAccount st addr = Inr acc \<and> ai_GetID acc = a \<and>
        ai_HasHolder acc kid = Inr True)"

definition guarded :: "stub \<Rightarrow> writes \<Rightarrow> bool" where
  "guarded st ws \<longleftrightarrow>
     (\<forall>a x y. balances (ledger_of st) a = Some x \<longrightarrow> balances (commit (ledger_of st) ws) a = Some y \<longrightarrow>
        y < x \<longrightarrow> authorized st a)"

lemma authorizedI:
  "get_kid st True = Inr kid \<Longrightarrow> GetAccount st addr = Inr acc \<Longrightarrow> ai_HasHolder acc kid = Inr True \<Longrightarrow>
   authorized st (ai_GetID acc)"
  by (auto simp: authorized_def)

lemma guarded_same: "balances (commit (ledger_of st) ws) = balances (ledger_of st) \<Longrightarrow> guarded st ws"
  by (simp add: guarded_def)

lemma guarded_Nil [simp]: "guarded st []"
  by (simp add: guarded_def)

lemma guarded_hold:
  "balances (commit (ledger_of st) ws) = hold s x (balances (ledger_of st)) \<Longrightarrow> authorized st s \<Longrightarrow> guarded st ws"
  by (auto simp: guarded_def hold_def credit_def split: if_splits)

lemma guarded_credit:
  "balances (commit (ledger_of st) ws) = credit r x (balances (ledger_of st)) \<Longrightarrow> 0 \<le> x \<or> authorized st r \<Longrightarrow>
   guarded st ws"
  by (auto simp: guarded_def credit_def split: if_splits)

lemma guarded_move:
  "balances (commit (ledger_of st) ws) = move s r a f (balances (ledger_of st)) \<Longrightarrow> s \<noteq> r \<Longrightarrow> 0 \<le> a \<Longrightarrow>
   authorized st s \<Longrightarrow> guarded st ws"
  by (auto simp: guarded_def move_def hold_def credit_def split: if_splits)

lemma guarded_upd:
  "balances (commit (ledger_of st) ws) = (balances (ledger_of st))(i := z) \<Longrightarrow>
   authorized st i \<or> balances (ledger_of st) i = None \<Longrightarrow> guarded st ws"
  by (auto simp: guarded_def split: if_splits)

subsection \<open>The routes\<close>

lemma transfer_distinct:
  assumes W: "world_ok st" and R: "transfer_ready st ps kid amount fee sAddr rAddr sender receiver sBal rBal opts"
  shows "ai_GetID sender \<noteq> ai_GetID receiver"
proof -
  have "addr_ok st rAddr" "addr_ok st sAddr"
    using parsed_ok [OF W] sender_ok [OF W] R by (auto simp: transfer_ready_def)
  then show ?thesis
    using R read_ids(1) [OF W] addr_String_inj [of st sAddr rAddr] by (auto simp: transfer_ready_def)
qed

lemma unwrap_distinct:
  assumes W: "world_ok st" and "unwrap_receiver st p = Inr (code, rA)"
    and "rAddr = (case rA of None \<Rightarrow> wAddr | Some a \<Rightarrow> a)"
    and "GetToken st code = Inr token" "GetWrapAddress st token ec = Inr wAddr"
    and "GetAccount st wAddr = Inr wrapper" "GetAccount st rAddr = Inr receiver"
    and "GetBalance st (ai_GetID receiver) = Inr rBal" "GetBalance st (ai_GetID wrapper) = Inr wBal"
    and "wAddr \<noteq> rAddr"
  shows "ai_GetID wrapper \<noteq> ai_GetID receiver"
proof -
  have w: "addr_ok st wAddr \<and> addr_Code wAddr = code" using wrap_address_ok [OF W assms(4,5)] .
  moreover have "addr_ok st rAddr"
    using assms(2,3) w parsed_ok [OF W] by (auto simp: unwrap_receiver_def split: sum.splits option.splits)
  ultimately show ?thesis
    using assms(6,7,10) read_ids(1) [OF W] addr_String_inj [of st wAddr rAddr] by simp
qed

lemma transfer_guarded:
  assumes W: "world_ok st" and T: "transfer st ps = Success p ws"
  shows "guarded st ws"
  using T
proof (cases rule: transferE)
  case (multi kid amount fee sAddr rAddr sender receiver sBal rBal opts con log)
  have rd: "GetBalance st (bal_DOCTYPEID sBal) = Inr sBal" and id: "bal_DOCTYPEID sBal = ai_GetID sender"
    using balance_read [OF W] read_ids(2) [OF W] multi(1) by (auto simp: transfer_ready_def)
  have "authorized st (bal_DOCTYPEID sBal)"
    using multi(1) id authorizedI by (auto simp: transfer_ready_def)
  then show ?thesis by (rule guarded_hold [OF Deposit_balances [OF multi(5) rd]])
next
  case (instant kid amount fee sAddr rAddr sender receiver sBal rBal opts log)
  have rd: "GetBalance st (bal_DOCTYPEID sBal) = Inr sBal" "GetBalance st (bal_DOCTYPEID rBal) = Inr rBal"
    and id: "bal_DOCTYPEID sBal = ai_GetID sender" "bal_DOCTYPEID rBal = ai_GetID receiver"
    using balance_read [OF W] read_ids(2) [OF W] instant(1) by (auto simp: transfer_ready_def)
  have au: "authorized st (bal_DOCTYPEID sBal)" and a: "0 \<le> amount"
    using instant(1) id authorizedI by (auto simp: transfer_ready_def)
  have ne: "bal_DOCTYPEID sBal \<noteq> bal_DOCTYPEID rBal"
    using transfer_distinct [OF W instant(1)] id by simp
  obtain ts where "get_time st = Inr ts" using instant(3) by (auto simp: Transfer_def case_sum_Inr)
  from Transfer_balances [OF instant(3) this rd ne] show ?thesis
    using guarded_hold [OF _ au] guarded_move [OF _ ne a au] by (auto split: if_splits)
qed

lemma pay_guarded:
  assumes W: "world_ok st" and T: "pay st ps = Success p ws"
  shows "guarded st ws"
  using T
proof (cases rule: payE)
  case (multi kid amount sAddr rAddr sender receiver sBal con log)
  have rd: "GetBalance st (bal_DOCTYPEID sBal) = Inr sBal" and id: "bal_DOCTYPEID sBal = ai_GetID sender"
    using balance_read [OF W] read_ids(2) [OF W] multi(1) by (auto simp: pay_ready_def)
  have "authorized st (bal_DOCTYPEID sBal)"
    using multi(1) id authorizedI by (auto simp: pay_ready_def)
  then show ?thesis by (rule guarded_hold [OF Deposit_balances [OF multi(4) rd]])
next
  case (instant kid amount sAddr rAddr sender receiver sBal fee q log)
  have rd: "GetBalance st (bal_DOCTYPEID sBal) = Inr sBal" and id: "bal_DOCTYPEID sBal = ai_GetID sender"
    using balance_read [OF W] read_ids(2) [OF W] instant(1) by (auto simp: pay_ready_def)
  have "authorized st (bal_DOCTYPEID sBal)"
    using instant(1) id authorizedI by (auto simp: pay_ready_def)
  then show ?thesis by (rule guarded_hold [OF PayOp_balances [OF instant(4) rd]])
qed

lemma applied_nonneg:
  assumes "world_ok st" and "GetPendingBalance st i = Inr pb"
  shows "0 \<le> applied (pb_Amount pb) (pb_Fee pb)"
  using world_ok_simps(6) [OF assms(1)] assms(2)
  by (auto simp: pendings_ok_def pending_ok_def applied_def split: option.splits)

lemma payRefund_guarded:
  assumes W: "world_ok st" and T: "payRefund st ps = Success p ws"
  shows "guarded st ws"
proof -
  obtain parent sBal rBal amount fee log oid memo a where a: "0 < amount" and rd: "GetBalance st a = Inr rBal"
    and op: "Refund st [] sBal rBal amount fee memo oid parent = Inr (log, ws)"
    using T by (auto simp: payRefund_def Let_def ok_simps not_less int_one_le_iff_zero_less split: if_splits)
  show ?thesis
    using a by (intro guarded_credit [OF Refund_balances [OF op balance_read [OF W rd]]]) simp
qed

lemma withdraw_guarded:
  assumes W: "world_ok st" and T: "balancePendingWithdraw st ps = Success p ws"
  shows "guarded st ws"
proof -
  obtain pb log where pb: "GetPendingBalance st (ps ! 0) = Inr pb" and op: "Withdraw st [] pb = Inr (log, ws)"
    using T by (auto simp: balancePendingWithdraw_def Let_def ok_simps split: if_splits)
  show ?thesis
    using applied_nonneg [OF W pb]
    by (intro guarded_credit [OF Withdraw_balances [OF op world_ok_simps(4) [OF W]]]) simp
qed

lemma cancelTransfer_guarded:
  assumes W: "world_ok st" and T: "cancelTransfer st cid doc = Success p ws"
  shows "guarded st ws"
proof -
  obtain i pb log where pb: "GetPendingBalance st i = Inr pb" and op: "Withdraw st [] pb = Inr (log, ws)"
    using T by (auto simp: cancelTransfer_def Let_def ok_simps split: if_splits)
  show ?thesis
    using applied_nonneg [OF W pb]
    by (intro guarded_credit [OF Withdraw_balances [OF op world_ok_simps(4) [OF W]]]) simp
qed

lemma wrap_guarded:
  assumes W: "world_ok st" and T: "wrap st ps = Success p ws"
  shows "guarded st ws"
  using T
proof (cases rule: wrapE)
  case (multi kid sAddr sender sBal con amount memo oid log)
  then have "authorized st (bal_DOCTYPEID sBal)" using authorizedI read_ids(2) [OF W multi(1)] by simp
  then show ?thesis by (rule guarded_hold [OF Deposit_balances [OF multi(2) balance_read [OF W multi(1)]]])
next
  case (instant kid sAddr sender sBal amount memo oid log ec ei)
  then have "authorized st (bal_DOCTYPEID sBal)" using authorizedI read_ids(2) [OF W instant(1)] by simp
  then show ?thesis by (rule guarded_hold [OF WrapOp_balances [OF instant(2) balance_read [OF W instant(1)]]])
qed

lemma wrapComplete_guarded:
  assumes W: "world_ok st" and T: "wrapComplete st ps = Success p ws"
  shows "guarded st ws"
proof -
  obtain w wBal fee tx log a where rd: "GetBalance st a = Inr wBal"
    and op: "WrapComplete st [] w wBal fee tx = Inr (log, ws)"
    using T by (auto simp: wrapComplete_def Let_def ok_simps split: if_splits)
  have "0 \<le> wr_Amount w - fee" using op by (auto simp: WrapComplete_def Let_def ok_simps split: if_splits)
  then show ?thesis by (intro guarded_credit [OF WrapComplete_balances [OF op balance_read [OF W rd]]]) simp
qed

lemma unwrap_guarded:
  assumes W: "world_ok st" and T: "unwrap st ps = Success p ws"
  shows "guarded st ws"
  using T
proof (cases rule: unwrapE)
  case (normal kid i u code rA token wAddr rAddr wrapper receiver rBal wBal amount ec ei tx log)
  have "bal_DOCTYPEID wBal = ai_GetID wrapper" using read_ids(2) [OF W normal(8)] .
  then have au: "authorized st (bal_DOCTYPEID wBal)" using authorizedI normal by simp
  have "bal_DOCTYPEID wBal \<noteq> bal_DOCTYPEID rBal"
    using unwrap_distinct [OF W normal(1-9)] read_ids(2) [OF W] normal(7,8) by simp
  then show ?thesis
    using guarded_move [OF UnwrapOp_balances [OF normal(10) balance_read [OF W normal(8)] balance_read [OF W normal(7)]]]
      au normal(13) by simp
next
  case (impossible i u wBal ec ei tx log)
  then show ?thesis
    by (intro guarded_same) (auto simp: UnwrapImpossible_def Let_def ok_simps)
qed

lemma tokenBurn_guarded:
  assumes W: "world_ok st" and T: "tokenBurn st ps = Success p ws"
  shows "guarded st ws"
  using T
proof (cases rule: tokenBurnE)
  case (burn kid code token addr account bal amount r)
  then have au: "authorized st (bal_DOCTYPEID bal)" using authorizedI read_ids(2) [OF W burn(4)] by simp
  have "balances (commit (ledger_of st) ws) = balances (ledger_of st) \<or>
    (\<exists>z. balances (commit (ledger_of st) ws) = (balances (ledger_of st))(bal_DOCTYPEID bal := z))"
    using burn(5) by (auto simp: Burn_def Supply_def Let_def ok_simps split: if_splits)
  then show ?thesis using au guarded_upd guarded_same by blast
qed simp

lemma tokenMint_guarded:
  assumes W: "world_ok st" and T: "tokenMint st ps = Success p ws"
  shows "guarded st ws"
  using T
proof (cases rule: tokenMintE)
  case (mint kid code token addr account bal amount r)
  then have au: "authorized st (bal_DOCTYPEID bal)" using authorizedI read_ids(2) [OF W mint(4)] by simp
  have "\<exists>z. balances (commit (ledger_of st) ws) = (balances (ledger_of st))(bal_DOCTYPEID bal := z)"
    using mint(5) by (auto simp: Mint_def Supply_def Let_def ok_simps split: if_splits)
  then show ?thesis using au guarded_upd by blast
qed simp


lemma payPrune_guarded:
  assumes W: "world_ok st" and T: "payPrune st ps = Success p ws"
  shows "guarded st ws"
proof -
  obtain kid addr acc bal s ts z where "get_kid st True = Inr kid" "GetAccount st addr = Inr acc"
    "ai_HasHolder acc kid = Inr True" and b: "GetBalance st (ai_GetID acc) = Inr bal"
    and w: "balances (commit (ledger_of st) ws) = (balances (ledger_of st))(bal_DOCTYPEID (pruned_balance bal s ts) := z)"
    using T by (auto simp: payPrune_def Let_def ok_simps split: if_splits)
  moreover have "bal_DOCTYPEID (pruned_balance bal s ts) = ai_GetID acc"
    using read_ids(2) [OF W b] by (simp add: pruned_balance_def Let_def)
  ultimately show ?thesis using guarded_upd [OF w] authorizedI by simp
qed

lemma feePruneE:
  assumes "feePrune st ps = Success p ws" and "ws \<noteq> []"
  obtains kid code token policy addr acc bal bal' stime etime ts s l l' ws1 ws2 ws3 log where
    "get_kid st True = Inr kid" "ValidateTokenCode (ps ! 0) = Inr code" "GetToken st code = Inr token"
    "tok_FeePolicy token = Some policy" "ParseAddress st (fp_TargetAddress policy) = Inr addr"
    "GetAccount st addr = Inr acc" "ai_HasHolder acc kid = Inr True" "GetBalance st (ai_GetID acc) = Inr bal"
    "get_time st = Inr ts" "last_pruned st [] token code = Inr (l, ws1)" "id_time (lpf_FeeID l) = Inr stime"
    "prune_etime ''invalid boolean flag'' ts ps = Inr etime"
    "GetFeeSumByTime st code stime etime = Inr s" "0 < fs_Count s"
    "bal' = bal\<lparr>bal_Amount := bal_Amount bal + fs_Sum s, bal_UpdatedTime := Some ts\<rparr>"
    "PutBalance st ws1 bal' = Inr ws2"
    "l' = l\<lparr>lpf_FeeID := fs_End s, lpf_UpdatedTime := Some ts\<rparr>"
    "PutLastPrunedFeeID st ws2 l' = Inr ws3" "PutBalanceLog st ws3 log = Inr ws"
  using assms
  by (fastforce simp: feePrune_def Let_def case_sum_ok_Success case_sum_Success case_prod_Success
      split: if_splits option.splits)

lemma last_pruned_balances:
  "last_pruned st [] token code = Inr (l, ws) \<Longrightarrow> balances (commit (ledger_of st) ws) = balances (ledger_of st)"
  by (auto simp: last_pruned_def ok_simps split: sum.splits if_splits)

lemma feePrune_balances:
  assumes "world_ok st" and "last_pruned st [] token code = Inr (l, ws1)" and "GetBalance st i = Inr bal"
    and "bal' = bal\<lparr>bal_Amount := bal_Amount bal + x, bal_UpdatedTime := u\<rparr>" and "PutBalance st ws1 bal' = Inr ws2"
    and "PutLastPrunedFeeID st ws2 l' = Inr ws3" and "PutBalanceLog st ws3 log = Inr ws"
  shows "balances (commit (ledger_of st) ws) = credit i x (balances (ledger_of st))"
proof -
  have "bal_DOCTYPEID bal = i" using read_ids(2) [OF assms(1,3)] .
  moreover have "balances (ledger_of st) i = Some (bal_Amount bal)" using balances_read [OF assms(3)] .
  ultimately show ?thesis
    using last_pruned_balances [OF assms(2)] assms(4-7) by (auto simp: ok_simps upd_credit)
qed

lemma feePrune_guarded:
  assumes W: "world_ok st" and T: "feePrune st ps = Success p ws"
  shows "guarded st ws"
proof (cases "ws = []")
  case False
  with T show ?thesis
  proof (rule feePruneE)
    fix kid code token policy addr acc bal bal' stime etime ts s l l' ws1 ws2 ws3 log
    assume "get_kid st True = Inr kid" "GetAccount st addr = Inr acc" "ai_HasHolder acc kid = Inr True"
      and b: "GetBalance st (ai_GetID acc) = Inr bal" "last_pruned st [] token code = Inr (l, ws1)"
        "bal' = bal\<lparr>bal_Amount := bal_Amount bal + fs_Sum s, bal_UpdatedTime := Some ts\<rparr>"
        "PutBalance st ws1 bal' = Inr ws2" "PutLastPrunedFeeID st ws2 l' = Inr ws3" "PutBalanceLog st ws3 log = Inr ws"
    then show ?thesis
      using guarded_credit [OF feePrune_balances [OF W b(2,1,3-6)]] authorizedI by blast
  qed
qed simp

text \<open>A created account starts with a balance under a free key.\<close>

lemma balances_cong: "(\<And>i. L (bal_key i) = L' (bal_key i)) \<Longrightarrow> balances L = balances L'"
  by (simp add: balances_def fun_eq_iff)

lemma no_balance:
  assumes W: "world_ok st" and "GetAccount st addr = Inl (NotExistedAccountError a)"
  shows "balances (ledger_of st) (addr_String addr) = None"
proof -
  have "ledger_of st (acc_key (addr_String addr)) = None"
    using GetAccount_NotExisted [OF assms(2)] by (auto simp: ledger_of_def)
  then show ?thesis using W by (simp add: world_ok_def balances_def)
qed

lemma CreateAccount_guarded:
  assumes W: "world_ok st" and "CreateAccount st [] tok kid = Inr (r, ws)"
  shows "guarded st ws"
proof -
  obtain a addr z where "GetAccount st addr = Inl (NotExistedAccountError a)"
    and "balances (commit (ledger_of st) ws) = (balances (ledger_of st))(addr_String addr := z)"
    using assms(2)
    by (auto simp: CreateAccount_def CreateBalance_def zero_Balance_def NewHolder_def Let_def ok_simps)
  then show ?thesis using guarded_upd no_balance [OF W] by blast
qed

lemma CreateJointAccount_balances:
  assumes W: "world_ok st" and "CreateJointAccount st [] tok hs = Inr ((j, b), ws)"
  shows "i \<noteq> bal_DOCTYPEID b \<Longrightarrow> commit (ledger_of st) ws (bal_key i) = ledger_of st (bal_key i)"
    and "balances (ledger_of st) (bal_DOCTYPEID b) = None"
proof -
  obtain a where n: "GetAccount st (NewAddress st tok AccountTypeJoint (st_txid st)) = Inl (NotExistedAccountError a)"
    and id: "bal_DOCTYPEID b = addr_String (NewAddress st tok AccountTypeJoint (st_txid st))"
    using assms(2) by (auto simp: CreateJointAccount_def CreateBalance_def zero_Balance_def Let_def ok_simps)
  show "balances (ledger_of st) (bal_DOCTYPEID b) = None" using no_balance [OF W n] id by simp
  obtain k a v v' ts ks where "put_holders st [Put (acc_key k) v, Put (bal_key (bal_DOCTYPEID b)) v'] a ts ks = Inr ws"
    using assms(2) by (auto simp: CreateJointAccount_def CreateBalance_def zero_Balance_def Let_def ok_simps)
  from put_holders_commit [OF this, of "bal_key i"]
  show "commit (ledger_of st) ws (bal_key i) = ledger_of st (bal_key i)" if "i \<noteq> bal_DOCTYPEID b"
    using that by (simp add: key_simps)
qed

lemma Supply_balances:
  assumes "Supply st ws b a = Inr (r, ws')" and "i \<noteq> bal_DOCTYPEID b"
  shows "commit L ws' (bal_key i) = commit L ws (bal_key i)"
  using assms by (auto simp: Supply_def Let_def ok_simps key_simps)

lemma guarded_new:
  assumes "\<And>j. j \<noteq> i \<Longrightarrow> commit (ledger_of st) ws (bal_key j) = ledger_of st (bal_key j)"
    and "balances (ledger_of st) i = None"
  shows "guarded st ws"
proof -
  have "balances (commit (ledger_of st) ws) j = balances (ledger_of st) j" if "j \<noteq> i" for j
    using assms(1) [OF that] by (simp add: balances_def)
  then have "balances (commit (ledger_of st) ws) =
      (balances (ledger_of st))(i := balances (commit (ledger_of st) ws) i)"
    by (simp add: fun_eq_iff)
  then show ?thesis using assms(2) by (rule guarded_upd [OF _ disjI2])
qed

lemma CreateToken_guarded:
  assumes W: "world_ok st" and T: "CreateToken st [] code d mx s fp wb hs = Inr (t, ws)"
  shows "guarded st ws"
proof -
  obtain acc bal ws1 ws2 where c1: "CreateJointAccount st [] code hs = Inr ((acc, bal), ws1)"
    and c3: "(if 0 < s then map_sum id snd (Supply st ws1 bal s) else Inr ws1) = Inr ws2"
    and c4: "PutToken st ws2 t = Inr ws"
    using T by (auto simp: CreateToken_def Let_def case_sum_Inr case_prod_Inr case_option_goerr_Inr)
  note J = CreateJointAccount_balances [OF W c1]
  show ?thesis
  proof (rule guarded_new [OF _ J(2)])
    fix j assume ne: "j \<noteq> bal_DOCTYPEID bal"
    have "commit (ledger_of st) ws2 (bal_key j) = commit (ledger_of st) ws1 (bal_key j)"
      using c3 Supply_balances [OF _ ne] by (auto simp: map_sum_Inr split: if_splits)
    then show "commit (ledger_of st) ws (bal_key j) = ledger_of st (bal_key j)"
      using c4 J(1) [OF ne] by (auto simp: ok_simps key_simps)
  qed
qed

lemma tokenCreate_guarded:
  assumes W: "world_ok st" and T: "tokenCreate st ps = Success p ws"
  shows "guarded st ws"
proof -
  obtain code m where "getValidatedTokenMeta st code = Inr m"
    and "ws = [] \<or> (\<exists>t hs. CreateToken st [] code (tm_decimal m) (tm_maxSupply m) (tm_supply m)
      (tm_policy m) (tm_wrapBridge m) hs = Inr (t, ws))"
    using T by (auto simp: tokenCreate_def Let_def ok_simps ValidateTokenCode_Inr if_cases_Success
        dest!: invokeContract_Success)
  then show ?thesis using CreateToken_guarded [OF W] guarded_Nil by blast
qed

lemma tokenUpdate_guarded:
  assumes "tokenUpdate st ps = Success p ws"
  shows "guarded st ws"
proof -
  have "ws = [] \<or> (\<exists>t. PutToken st [] t = Inr ws)"
    using assms by (auto simp: tokenUpdate_def Let_def case_sum_Success case_prod_Success
        Discipline.case_option_outcome_Success split: if_splits option.splits)
  then show ?thesis by (auto simp: ok_simps intro: guarded_same)
qed

lemma account_update_guarded:
  "SuspendAccount st [] tok kid = Inr (a, ws) \<Longrightarrow> guarded st ws"
  "UnsuspendAccount st [] tok kid = Inr (a, ws) \<Longrightarrow> guarded st ws"
  "AddHolder st [] j k = Inr (j', ws) \<Longrightarrow> guarded st ws"
  "RemoveHolder st [] j k = Inr (j', ws) \<Longrightarrow> guarded st ws"
  by (rule guarded_same; auto simp: SuspendAccount_Inr UnsuspendAccount_Inr AddHolder_def RemoveHolder_def touch_def
      NewHolder_def Let_def ok_simps)+

lemma account_guarded:
  assumes W: "world_ok st"
  shows "accountCreate st ps = Success p ws \<Longrightarrow> guarded st ws"
    and "accountHolderAdd st ps = Success p ws \<Longrightarrow> guarded st ws"
    and "accountHolderRemove st ps = Success p ws \<Longrightarrow> guarded st ws"
    and "accountSuspend st ps = Success p ws \<Longrightarrow> guarded st ws"
    and "accountUnsuspend st ps = Success p ws \<Longrightarrow> guarded st ws"
  by (auto simp: accountCreate_def check_token_available_def accountHolderAdd_def accountHolderRemove_def
      accountSuspend_def accountUnsuspend_def responseAccountWithBalance_def
      responseAccountWithBalanceState_def Let_def ok_simps
      split: if_splits option.splits sum.splits goerr.splits
      dest!: CreateAccount_guarded [OF W] account_update_guarded invokeContract_Success)

lemma contractCancel_guarded:
  assumes W: "world_ok st" and T: "contractCancel st ps = Success p ws"
  shows "guarded st ws"
proof -
  obtain dtype cid doc where i: "0 < length (ctr_lookup dtype)"
    and r: "(ctr_lookup dtype ! 0) st cid doc = Success p ws"
    using T by (auto simp: contractCancel_def contractCallback_def Let_def ok_simps split: if_splits)
  have "ctr_lookup dtype ! 0 \<in> {contractVoid, cancelTransfer}"
    using i by (auto simp: ctr_lookup_def ctrRoutes_def split: if_splits)
  then show ?thesis using r cancelTransfer_guarded [OF W] by (auto simp: contractVoid_def)
qed

end
