(* ===== verification/Route_Contract.thy ===== *)
theory Route_Contract
  imports Authority Invariants
begin

text \<open>
  What the dispatch relies on in its handlers, as three interfaces, each interpreted for the routes
  that keep it.  Every \<open>route\<close> writes allowed documents only.  A \<open>guarded_route\<close> takes money
  only from accounts the invoker holds.  A \<open>money_route\<close> also conserves the money of every token.  A
  \<open>query_route\<close> writes nothing.
\<close>

subsection \<open>The interfaces\<close>

locale route =
  fixes handler :: "stub \<Rightarrow> string list \<Rightarrow> outcome"
  assumes allowed_writes: "handler st ps = Success p ws \<Longrightarrow> ok_writes st ws"
begin

lemma keeps_inv:
  assumes "handler st ps = Success p ws" and "ledger_inv (ledger_of st)"
  shows "ledger_inv (commit (ledger_of st) ws)"
  using commit_inv [OF allowed_writes [OF assms(1)] assms(2)] ledger_inv_reads [OF assms(2)] by blast

lemma keeps_document:
  assumes "handler st ps = Success p ws" and "k \<in> dom (ledger_of st)" and "key_tag k \<notin> {''PBLC'', ''HLD''}"
  shows "k \<in> dom (commit (ledger_of st) ws)"
proof (rule commit_no_del [OF _ assms(2)])
  show "Del k \<notin> set ws"
    using allowed_writes [OF assms(1)] allowed_Del_tag assms(3) unfolding ok_writes_def by blast
qed

end

locale guarded_route = route handler
  for handler :: "stub \<Rightarrow> string list \<Rightarrow> outcome" +
  assumes debits_guarded: "world_ok st \<Longrightarrow> handler st ps = Success p ws \<Longrightarrow> guarded st ws"
begin

lemma others_safe:
  assumes "world_ok st" and "handler st ps = Success p ws" and "\<not> authorized st a"
    and "balances (ledger_of st) a = Some x" and "balances (commit (ledger_of st) ws) a = Some y"
  shows "x \<le> y"
  using debits_guarded [OF assms(1,2)] assms(3-5) unfolding guarded_def by (metis not_le)

end

locale money_route = guarded_route handler
  for handler :: "stub \<Rightarrow> string list \<Rightarrow> outcome" +
  assumes conserves: "world_ok st \<Longrightarrow> handler st ps = Success p ws \<Longrightarrow> delta c (ledger_of st) ws = 0"
begin

lemma total_kept:
  assumes "world_ok st" and "handler st ps = Success p ws" and "finite (dom (ledger_of st))"
  shows "total c (commit (ledger_of st) ws) = total c (ledger_of st)"
  using conserves [OF assms(1,2)] total_commit [OF assms(3)] by simp

end

locale query_route =
  fixes handler :: "stub \<Rightarrow> string list \<Rightarrow> outcome"
  assumes silent: "handler st ps = Success p ws \<Longrightarrow> ws = []"

sublocale query_route \<subseteq> money_route handler
  by unfold_locales (auto dest!: silent simp: ok_writes_def)

subsection \<open>The routes\<close>

interpretation create_account_route: money_route accountCreate
  by unfold_locales (auto intro: account_writes(1) account_guarded(1) account_conserves(1))

interpretation holder_add_route: money_route accountHolderAdd
  by unfold_locales (auto intro: account_writes(2) account_guarded(2) account_conserves(2))

interpretation holder_remove_route: money_route accountHolderRemove
  by unfold_locales (auto intro: account_writes(3) account_guarded(3) account_conserves(3))

interpretation suspend_route: money_route accountSuspend
  by unfold_locales (auto intro: account_writes(4) account_guarded(4) account_conserves(4))

interpretation unsuspend_route: money_route accountUnsuspend
  by unfold_locales (auto intro: account_writes(5) account_guarded(5) account_conserves(5))

interpretation withdraw_route: money_route balancePendingWithdraw
  by unfold_locales (auto intro: withdraw_writes withdraw_guarded withdraw_conserves)

lemma contractCancel_writes: "contractCancel st ps = Success p ws \<Longrightarrow> ok_writes st ws"
  by (simp add: contractCancel_def contractCallback_writes)

interpretation cancel_route: money_route contractCancel
  by unfold_locales (auto intro: contractCancel_writes contractCancel_guarded contractCancel_conserves)

interpretation pay_route: money_route pay
  by unfold_locales (auto intro: pay_writes pay_guarded pay_conserves)

interpretation refund_route: money_route payRefund
  by unfold_locales (auto intro: payRefund_writes payRefund_guarded payRefund_conserves)

interpretation burn_route: money_route tokenBurn
  by unfold_locales (auto intro: tokenBurn_writes tokenBurn_guarded tokenBurn_conserves)

interpretation create_token_route: money_route tokenCreate
  by unfold_locales (auto intro: tokenCreate_writes tokenCreate_guarded tokenCreate_conserves)

interpretation mint_route: money_route tokenMint
  by unfold_locales (auto intro: tokenMint_writes tokenMint_guarded tokenMint_conserves)

interpretation update_token_route: money_route tokenUpdate
  by unfold_locales (auto intro: tokenUpdate_writes tokenUpdate_guarded tokenUpdate_conserves)

interpretation transfer_route: money_route transfer
  by unfold_locales (auto intro: transfer_writes transfer_guarded transfer_conserves)

interpretation wrap_route: money_route wrap
  by unfold_locales (auto intro: wrap_writes wrap_guarded wrap_conserves)

interpretation complete_route: money_route wrapComplete
  by unfold_locales (auto intro: wrapComplete_writes wrapComplete_guarded wrapComplete_conserves)

interpretation unwrap_route: money_route unwrap
  by unfold_locales (auto intro: unwrap_writes unwrap_guarded unwrap_conserves)

interpretation transferGet_query: query_route transferGet
  by unfold_locales (auto dest: query_writes)

interpretation balanceLogs_query: query_route balanceLogs
  by unfold_locales (auto dest: query_writes)

interpretation balancePendingGet_query: query_route balancePendingGet
  by unfold_locales (auto dest: query_writes)

interpretation balancePendingList_query: query_route balancePendingList
  by unfold_locales (auto dest: query_writes)

interpretation feeList_query: query_route feeList
  by unfold_locales (auto dest: query_writes)

interpretation payGet_query: query_route payGet
  by unfold_locales (auto dest: query_writes)

interpretation payList_query: query_route payList
  by unfold_locales (auto dest: query_writes)

interpretation tokenGet_query: query_route tokenGet
  by unfold_locales (auto dest: query_writes)

interpretation accountGet_query: query_route accountGet
  by unfold_locales (auto dest: query_writes)

interpretation accountList_query: query_route accountList
  by unfold_locales (auto dest: query_writes)

interpretation ver_query: query_route ver
  by unfold_locales (auto dest: query_writes)

interpretation prune_pays_route: guarded_route payPrune
  by unfold_locales (auto intro: payPrune_writes payPrune_guarded)

interpretation prune_fees_route: guarded_route feePrune
  by unfold_locales (auto intro: feePrune_writes feePrune_guarded)

interpretation execute_route: route contractExecute
  by unfold_locales (auto simp: contractExecute_def intro: contractCallback_writes)

subsection \<open>The dispatch\<close>

text \<open>
  The routes that conserve money as the ledger stands.  A prune collects documents that stay on
  the ledger, marked by the last pruned id; an execution takes its accounts from the document
  of the contract chaincode.
\<close>

definition moving_routes :: "string set" where
  "moving_routes = {''fee/prune'', ''pay/prune'', ''contract/execute''}"

lemmas routes_conserve = create_account_route.conserves holder_add_route.conserves holder_remove_route.conserves suspend_route.conserves unsuspend_route.conserves withdraw_route.conserves cancel_route.conserves pay_route.conserves refund_route.conserves burn_route.conserves create_token_route.conserves mint_route.conserves update_token_route.conserves transfer_route.conserves wrap_route.conserves complete_route.conserves unwrap_route.conserves
  transferGet_query.conserves balanceLogs_query.conserves balancePendingGet_query.conserves balancePendingList_query.conserves feeList_query.conserves payGet_query.conserves payList_query.conserves tokenGet_query.conserves accountGet_query.conserves accountList_query.conserves ver_query.conserves

lemmas routes_guard = create_account_route.debits_guarded holder_add_route.debits_guarded holder_remove_route.debits_guarded suspend_route.debits_guarded unsuspend_route.debits_guarded withdraw_route.debits_guarded cancel_route.debits_guarded pay_route.debits_guarded refund_route.debits_guarded burn_route.debits_guarded create_token_route.debits_guarded mint_route.debits_guarded update_token_route.debits_guarded transfer_route.debits_guarded wrap_route.debits_guarded complete_route.debits_guarded unwrap_route.debits_guarded
  transferGet_query.debits_guarded balanceLogs_query.debits_guarded balancePendingGet_query.debits_guarded balancePendingList_query.debits_guarded feeList_query.debits_guarded payGet_query.debits_guarded payList_query.debits_guarded tokenGet_query.debits_guarded accountGet_query.debits_guarded accountList_query.debits_guarded ver_query.debits_guarded
  prune_pays_route.debits_guarded prune_fees_route.debits_guarded

lemma Invoke_route:
  assumes "Invoke st = Success p ws"
  obtains h where "map_of routes (st_function st) = Some h" "h st (st_params st) = Success p ws"
  using assms by (auto simp: Invoke_def split: option.splits)

lemma Invoke_delta:
  assumes W: "world_ok st" and I: "Invoke st = Success p ws" and M: "st_function st \<notin> moving_routes"
  shows "delta c (ledger_of st) ws = 0"
  using I
proof (rule Invoke_route)
  fix h
  assume h: "map_of routes (st_function st) = Some h" and r: "h st (st_params st) = Success p ws"
  show ?thesis
    using h r M by (auto simp: routes_def moving_routes_def routes_conserve [OF W] split: if_splits)
qed

lemma Invoke_guarded:
  assumes W: "world_ok st" and I: "Invoke st = Success p ws" and M: "st_function st \<noteq> ''contract/execute''"
  shows "guarded st ws"
  using I
proof (rule Invoke_route)
  fix h
  assume h: "map_of routes (st_function st) = Some h" and r: "h st (st_params st) = Success p ws"
  show ?thesis
    using h r M by (auto simp: routes_def routes_guard [OF W] split: if_splits)
qed

end
