(* ===== verification/Accounted.thy ===== *)
theory Accounted
  imports Route_Contract
begin

text \<open>
  No balance without its account: a transaction that writes a balance has read it, or creates its
  account.  With the invariant of \<open>Invariants\<close> this makes the reachable ledgers well-formed: what
  \<open>world_ok\<close> asks of the ledger holds in all of them.
\<close>

subsection \<open>The balances a transaction writes\<close>

definition bals :: "writes \<Rightarrow> string set" where
  "bals ws = {i. \<exists>j. Put (bal_key i) j \<in> set ws}"

definition accs :: "writes \<Rightarrow> string set" where
  "accs ws = {i. \<exists>j. Put (acc_key i) j \<in> set ws}"

definition had :: "stub \<Rightarrow> string set" where
  "had st = {i. ledger_of st (bal_key i) \<noteq> None}"

definition accounted :: "stub \<Rightarrow> writes \<Rightarrow> bool" where
  "accounted st ws \<longleftrightarrow> bals ws \<subseteq> had st \<union> accs ws"

lemma written_simps [simp]:
  "bals [] = {}" "bals (ws @ ws') = bals ws \<union> bals ws'" "accs [] = {}" "accs (ws @ ws') = accs ws \<union> accs ws'"
  "bals (Del k # ws) = bals ws" "accs (Del k # ws) = accs ws"
  by (auto simp: bals_def accs_def)

lemma written_bals [simp]:
  "bals (Put (bal_key i) j # ws) = insert i (bals ws)" "bals (Put (log_key i n) j # ws) = bals ws"
  "bals (Put (pb_key i) j # ws) = bals ws" "bals (Put (fee_key i) j # ws) = bals ws"
  "bals (Put (pay_key i) j # ws) = bals ws" "bals (Put (wrap_key i) j # ws) = bals ws"
  "bals (Put (unwrap_key i) j # ws) = bals ws" "bals (Put (tok_key i) j # ws) = bals ws"
  "bals (Put (acc_key i) j # ws) = bals ws" "bals (Put (hld_key i a) j # ws) = bals ws"
  "bals (Put (lpf_key i) j # ws) = bals ws"
  by (auto simp: bals_def key_simps)

lemma written_accs [simp]:
  "accs (Put (acc_key i) j # ws) = insert i (accs ws)" "accs (Put (bal_key i) j # ws) = accs ws"
  "accs (Put (log_key i n) j # ws) = accs ws" "accs (Put (pb_key i) j # ws) = accs ws"
  "accs (Put (fee_key i) j # ws) = accs ws" "accs (Put (pay_key i) j # ws) = accs ws"
  "accs (Put (wrap_key i) j # ws) = accs ws" "accs (Put (unwrap_key i) j # ws) = accs ws"
  "accs (Put (tok_key i) j # ws) = accs ws" "accs (Put (hld_key i a) j # ws) = accs ws"
  "accs (Put (lpf_key i) j # ws) = accs ws"
  by (auto simp: accs_def key_simps)

lemma accounted_Nil [simp]: "accounted st []"
  by (simp add: accounted_def)

lemma backed_read [dest]: "GetBalance st i = Inr b \<Longrightarrow> keyed (ledger_of st) \<Longrightarrow> bal_DOCTYPEID b \<in> had st"
  using keyed_reads(1) balance_store.get_Inr_ledger by (fastforce simp: had_def)

named_theorems op_accounted \<open>operations of the stubs write backed balances only\<close>

lemma Supply_accounted [op_accounted]:
  "Supply st ws b a = Inr (r, ws') \<Longrightarrow> accounted st ws \<Longrightarrow> bal_DOCTYPEID b \<in> had st \<union> accs ws \<Longrightarrow> accounted st ws'"
  by (auto simp: Supply_def Let_def ok_simps accounted_def)

lemma CreateFee_accounted [op_accounted]:
  "CreateFee st ws addr a = Inr (r, ws') \<Longrightarrow> accounted st ws \<Longrightarrow> accounted st ws'"
  by (auto simp: ok_simps accounted_def split: if_splits)

lemma Put_accounted [op_accounted]:
  "PutBalance st ws b = Inr ws' \<Longrightarrow> accounted st ws \<Longrightarrow> bal_DOCTYPEID b \<in> had st \<Longrightarrow> accounted st ws'"
  "PutBalanceLog st ws l = Inr ws' \<Longrightarrow> accounted st ws \<Longrightarrow> accounted st ws'"
  "PutToken st ws t = Inr ws' \<Longrightarrow> accounted st ws \<Longrightarrow> accounted st ws'"
  "PutLastPrunedFeeID st ws f = Inr ws' \<Longrightarrow> accounted st ws \<Longrightarrow> accounted st ws'"
  by (auto simp: ok_simps accounted_def)

lemma Transfer_accounted [op_accounted]:
  "Transfer st ws s r a f m oid pt = Inr (l, ws') \<Longrightarrow> accounted st ws \<Longrightarrow>
   bal_DOCTYPEID s \<in> had st \<Longrightarrow> bal_DOCTYPEID r \<in> had st \<Longrightarrow> accounted st ws'"
  by (auto simp: Transfer_def transfer_receive_def NewPendingBalance_def Let_def ok_simps accounted_def split: if_splits)

lemma TransferPendingBalance_accounted [op_accounted]:
  "TransferPendingBalance st ws pb s r pt = Inr ws' \<Longrightarrow> accounted st ws \<Longrightarrow> bal_DOCTYPEID r \<in> had st \<Longrightarrow>
   accounted st ws'"
  by (auto simp: TransferPendingBalance_def transfer_receive_def NewPendingBalance_def Let_def ok_simps
      DeletePendingBalance_Inr accounted_def split: if_splits option.splits)

lemma Deposit_accounted [op_accounted]:
  "Deposit st ws i s con a f m oid = Inr (l, ws') \<Longrightarrow> accounted st ws \<Longrightarrow> bal_DOCTYPEID s \<in> had st \<Longrightarrow>
   accounted st ws'"
  by (auto simp: Deposit_def NewPendingBalance_def Let_def ok_simps accounted_def)

lemma Withdraw_accounted [op_accounted]:
  "Withdraw st ws pb = Inr (l, ws') \<Longrightarrow> accounted st ws \<Longrightarrow> keyed (ledger_of st) \<Longrightarrow> accounted st ws'"
  by (auto simp: Withdraw_def Let_def ok_simps DeletePendingBalance_Inr accounted_def)

lemma PayOp_accounted [op_accounted]:
  "PayOp st ws s r a f oid m = Inr (l, ws') \<Longrightarrow> accounted st ws \<Longrightarrow> bal_DOCTYPEID s \<in> had st \<Longrightarrow> accounted st ws'"
  by (auto simp: PayOp_def Let_def ok_simps accounted_def)

lemma Refund_accounted [op_accounted]:
  "Refund st ws s r a f m oid q = Inr (l, ws') \<Longrightarrow> accounted st ws \<Longrightarrow> bal_DOCTYPEID r \<in> had st \<Longrightarrow> accounted st ws'"
  by (auto simp: Refund_def Let_def ok_simps accounted_def)

lemma PayPendingBalance_accounted [op_accounted]:
  "PayPendingBalance st ws pb s f m oid memo = Inr (l, ws') \<Longrightarrow> accounted st ws \<Longrightarrow> accounted st ws'"
  by (auto simp: PayPendingBalance_def Let_def ok_simps accounted_def)

lemma wrap_accounted [op_accounted]:
  "WrapOp st ws s a ec ei m oid = Inr (l, ws') \<Longrightarrow> accounted st ws \<Longrightarrow> bal_DOCTYPEID s \<in> had st \<Longrightarrow> accounted st ws'"
  "WrapComplete st ws w s f tx = Inr (l, ws') \<Longrightarrow> accounted st ws \<Longrightarrow> bal_DOCTYPEID s \<in> had st \<Longrightarrow> accounted st ws'"
  "WrapPendingBalance st ws pb s ec ei m oid = Inr (x, ws') \<Longrightarrow> accounted st ws \<Longrightarrow> accounted st ws'"
  by (auto simp: WrapOp_def WrapComplete_def WrapPendingBalance_def DeletePendingBalance_Inr Let_def ok_simps
      accounted_def split: if_splits)

lemma unwrap_accounted [op_accounted]:
  "UnwrapOp st ws s r a ec ei tx = Inr (l, ws') \<Longrightarrow> accounted st ws \<Longrightarrow> bal_DOCTYPEID s \<in> had st \<Longrightarrow>
   bal_DOCTYPEID r \<in> had st \<Longrightarrow> accounted st ws'"
  "UnwrapImpossible st ws s ec ei tx = Inr (l, ws') \<Longrightarrow> accounted st ws \<Longrightarrow> accounted st ws'"
  "PutUnwrap st ws u = Inr ws' \<Longrightarrow> accounted st ws \<Longrightarrow> accounted st ws'"
  by (auto simp: UnwrapOp_def UnwrapImpossible_def Let_def ok_simps accounted_def)

lemma CreateAccount_accounted [op_accounted]:
  "CreateAccount st ws tok kid = Inr (r, ws') \<Longrightarrow> accounted st ws \<Longrightarrow> accounted st ws'"
  by (auto simp: CreateAccount_def CreateBalance_def Let_def ok_simps accounted_def)

lemma put_holders_written:
  "put_holders st ws a ts ks = Inr ws' \<Longrightarrow> bals ws' = bals ws \<and> accs ws' = accs ws"
  by (induction ks arbitrary: ws) (auto simp: ok_simps)

lemma CreateJointAccount_accounted:
  "CreateJointAccount st ws tok hs = Inr ((j, b), ws') \<Longrightarrow> accounted st ws \<Longrightarrow>
   accounted st ws' \<and> bal_DOCTYPEID b \<in> accs ws'"
  by (auto simp: CreateJointAccount_def CreateBalance_def Let_def ok_simps accounted_def dest!: put_holders_written)

lemma account_accounted [op_accounted]:
  "SuspendAccount st ws tok kid = Inr (x, ws') \<Longrightarrow> accounted st ws \<Longrightarrow> accounted st ws'"
  "UnsuspendAccount st ws tok kid = Inr (x, ws') \<Longrightarrow> accounted st ws \<Longrightarrow> accounted st ws'"
  "AddHolder st ws j kid = Inr (y, ws') \<Longrightarrow> accounted st ws \<Longrightarrow> accounted st ws'"
  "RemoveHolder st ws j kid = Inr (y, ws') \<Longrightarrow> accounted st ws \<Longrightarrow> accounted st ws'"
  by (auto simp: SuspendAccount_Inr UnsuspendAccount_Inr AddHolder_def RemoveHolder_def touch_def Let_def ok_simps accounted_def)

lemma supply_accounted [op_accounted]:
  "Burn st ws t b a = Inr (z, ws') \<Longrightarrow> accounted st ws \<Longrightarrow> bal_DOCTYPEID b \<in> had st \<Longrightarrow> accounted st ws'"
  "Mint st ws t b a = Inr (v, ws') \<Longrightarrow> accounted st ws \<Longrightarrow> bal_DOCTYPEID b \<in> had st \<Longrightarrow> accounted st ws'"
  by (auto simp: Burn_def Mint_def Supply_def Let_def ok_simps accounted_def split: if_splits)

lemma CreateToken_accounted [op_accounted]:
  assumes "CreateToken st ws code d mx s fp wb hs = Inr (t, ws')" and "accounted st ws"
  shows "accounted st ws'"
  using assms
  by (auto simp: CreateToken_def Let_def case_sum_Inr case_prod_Inr if_Inl_Inr map_sum_Inr case_option_goerr_Inr
      split: if_splits dest!: CreateJointAccount_accounted Supply_accounted Put_accounted(3))

subsection \<open>The routes\<close>

lemma account_routes_accounted:
  "accountCreate st ps = Success p ws \<Longrightarrow> accounted st ws"
  "accountHolderAdd st ps = Success p ws \<Longrightarrow> accounted st ws"
  "accountHolderRemove st ps = Success p ws \<Longrightarrow> accounted st ws"
  "accountSuspend st ps = Success p ws \<Longrightarrow> accounted st ws"
  "accountUnsuspend st ps = Success p ws \<Longrightarrow> accounted st ws"
  by (auto simp: accountCreate_def check_token_available_def accountHolderAdd_def accountHolderRemove_def
      accountSuspend_def accountUnsuspend_def responseAccountWithBalance_def
      responseAccountWithBalanceState_def Let_def ok_simps
      split: if_splits option.splits sum.splits goerr.splits dest!: op_accounted invokeContract_Success)

lemma transfer_accounted: "transfer st ps = Success p ws \<Longrightarrow> keyed (ledger_of st) \<Longrightarrow> accounted st ws"
  by (auto simp: transfer_def transfer_send_def Let_def ok_simps split: if_splits
      intro: Deposit_accounted Transfer_accounted)

lemma pay_accounted: "pay st ps = Success p ws \<Longrightarrow> keyed (ledger_of st) \<Longrightarrow> accounted st ws"
  by (auto simp: pay_def pay_send_def Let_def ok_simps split: if_splits intro: Deposit_accounted PayOp_accounted)

lemma payRefund_accounted: "payRefund st ps = Success p ws \<Longrightarrow> keyed (ledger_of st) \<Longrightarrow> accounted st ws"
  by (auto simp: payRefund_def Let_def ok_simps split: if_splits intro: Refund_accounted)

lemma pruned_id: "bal_DOCTYPEID (pruned_balance b s ts) = bal_DOCTYPEID b"
  by (simp add: pruned_balance_def Let_def)

lemma payPrune_accounted: "payPrune st ps = Success p ws \<Longrightarrow> keyed (ledger_of st) \<Longrightarrow> accounted st ws"
  by (auto simp: payPrune_def Let_def ok_simps accounted_def pruned_id split: if_splits)

lemma withdraw_accounted: "balancePendingWithdraw st ps = Success p ws \<Longrightarrow> keyed (ledger_of st) \<Longrightarrow> accounted st ws"
  by (auto simp: balancePendingWithdraw_def Let_def ok_simps split: if_splits intro: Withdraw_accounted)

lemma wrap_route_accounted: "wrap st ps = Success p ws \<Longrightarrow> keyed (ledger_of st) \<Longrightarrow> accounted st ws"
  by (auto simp: wrap_def Let_def ok_simps split: if_splits intro: wrap_accounted(1) Deposit_accounted)

lemma wrapComplete_accounted: "wrapComplete st ps = Success p ws \<Longrightarrow> keyed (ledger_of st) \<Longrightarrow> accounted st ws"
  by (auto simp: wrapComplete_def Let_def ok_simps split: if_splits intro: wrap_accounted(2))

lemma unwrap_route_accounted: "unwrap st ps = Success p ws \<Longrightarrow> keyed (ledger_of st) \<Longrightarrow> accounted st ws"
  by (auto simp: unwrap_def Let_def case_sum_Success case_prod_Success if_Failure_Success split: if_splits
      dest!: unwrap_accounted(3) intro: unwrap_accounted(1,2))

lemma token_routes_accounted:
  "tokenBurn st ps = Success p ws \<Longrightarrow> keyed (ledger_of st) \<Longrightarrow> accounted st ws"
  "tokenMint st ps = Success p ws \<Longrightarrow> keyed (ledger_of st) \<Longrightarrow> accounted st ws"
  by (auto simp: tokenBurn_def tokenMint_def Let_def ok_simps split: if_splits intro: supply_accounted)

lemma tokenCreate_accounted: "tokenCreate st ps = Success p ws \<Longrightarrow> accounted st ws"
  by (auto simp: tokenCreate_def Let_def ok_simps split: if_splits dest!: CreateToken_accounted invokeContract_Success)

lemma tokenUpdate_accounted: "tokenUpdate st ps = Success p ws \<Longrightarrow> accounted st ws"
  by (auto simp: tokenUpdate_def Let_def case_sum_Success case_prod_Success case_option_outcome_Success
      split: if_splits option.splits intro: Put_accounted(3))

lemma last_pruned_accounted: "last_pruned st ws t code = Inr (l, ws') \<Longrightarrow> accounted st ws \<Longrightarrow> accounted st ws'"
  by (auto simp: last_pruned_def split: if_splits sum.splits dest: Put_accounted(3))

lemma feePrune_accounted:
  assumes T: "feePrune st ps = Success p ws" and K: "keyed (ledger_of st)"
  shows "accounted st ws"
proof (cases "ws = []")
  case False
  with T show ?thesis
  proof (rule feePruneE)
    fix token code addr acc bal bal' ts s l l' ws1 ws2 ws3 log
    assume f: "last_pruned st [] token code = Inr (l, ws1)" "GetBalance st (ai_GetID acc) = Inr bal"
      "bal' = bal\<lparr>bal_Amount := bal_Amount bal + fs_Sum s, bal_UpdatedTime := Some ts\<rparr>"
      "PutBalance st ws1 bal' = Inr ws2" "PutLastPrunedFeeID st ws2 l' = Inr ws3" "PutBalanceLog st ws3 log = Inr ws"
    have "accounted st ws1" using f(1) by (rule last_pruned_accounted) simp
    then have "accounted st ws2" using f(2,3) K Put_accounted(1) [OF f(4)] by auto
    then show ?thesis using f(5,6) Put_accounted(2,4) by blast
  qed
qed simp

subsection \<open>The callbacks\<close>

lemma callback_accounted:
  "contractVoid st cid doc = Success p ws \<Longrightarrow> accounted st ws"
  "cancelTransfer st cid doc = Success p ws \<Longrightarrow> keyed (ledger_of st) \<Longrightarrow> accounted st ws"
  "executeTransfer st cid doc = Success p ws \<Longrightarrow> keyed (ledger_of st) \<Longrightarrow> accounted st ws"
  "executePay st cid doc = Success p ws \<Longrightarrow> accounted st ws"
  "executeWrap st cid doc = Success p ws \<Longrightarrow> accounted st ws"
  "executeAccountCreate st cid doc = Success p ws \<Longrightarrow> accounted st ws"
  "executeAccountHolderAdd st cid doc = Success p ws \<Longrightarrow> accounted st ws"
  "executeAccountHolderRemove st cid doc = Success p ws \<Longrightarrow> accounted st ws"
  by (auto simp: contractVoid_def cancelTransfer_def executeTransfer_def executePay_def executeWrap_def
      executeAccountCreate_def executeAccountHolderAdd_def executeAccountHolderRemove_def ok_simps
      split: if_splits intro: Withdraw_accounted TransferPendingBalance_accounted PayPendingBalance_accounted
        wrap_accounted(3) account_accounted dest!: CreateJointAccount_accounted)

lemma token_callback_accounted:
  "executeTokenBurn st cid doc = Success p ws \<Longrightarrow> keyed (ledger_of st) \<Longrightarrow> accounted st ws"
  "executeTokenMint st cid doc = Success p ws \<Longrightarrow> keyed (ledger_of st) \<Longrightarrow> accounted st ws"
  "executeTokenCreate st cid doc = Success p ws \<Longrightarrow> accounted st ws"
  by (auto simp: executeTokenBurn_def executeTokenMint_def executeTokenCreate_def ok_simps
      split: if_splits intro: supply_accounted CreateToken_accounted)

lemma contractCallback_accounted:
  assumes "contractCallback st i ps = Success p ws" and "keyed (ledger_of st)"
  shows "accounted st ws"
proof -
  obtain dtype cid doc where "i < length (ctr_lookup dtype)" "(ctr_lookup dtype ! i) st cid doc = Success p ws"
    using assms(1) by (auto simp: contractCallback_def Let_def ok_simps split: if_splits)
  then show ?thesis
    using ctr_lookup_cases [OF nth_mem] callback_accounted token_callback_accounted assms(2) by fastforce
qed

lemma Invoke_accounted:
  assumes "Invoke st = Success p ws" and K: "keyed (ledger_of st)"
  shows "accounted st ws"
  using assms(1)
proof (rule Invoke_route)
  fix h
  assume h: "map_of routes (st_function st) = Some h" and r: "h st (st_params st) = Success p ws"
  note writers = account_routes_accounted transfer_accounted [OF _ K] pay_accounted [OF _ K] payRefund_accounted [OF _ K]
    payPrune_accounted [OF _ K] withdraw_accounted [OF _ K] wrap_route_accounted [OF _ K] wrapComplete_accounted [OF _ K]
    unwrap_route_accounted [OF _ K] token_routes_accounted [OF _ K] tokenCreate_accounted tokenUpdate_accounted
    feePrune_accounted [OF _ K] contractCallback_accounted [OF _ K]
  have "ws = [] \<or> accounted st ws"
    using routes_cases [OF h] r
    by (elim insertE emptyE) (auto simp: contractExecute_def contractCancel_def dest: query_writes intro: writers)
  then show ?thesis by auto
qed

subsection \<open>The reachable ledgers\<close>

definition backed :: "ledger \<Rightarrow> bool" where
  "backed L \<longleftrightarrow> (\<forall>i. L (bal_key i) \<noteq> None \<longrightarrow> L (acc_key i) \<noteq> None)"

lemma no_acc_del: "ok_writes st ws \<Longrightarrow> Del (acc_key i) \<notin> set ws"
  using allowed_Del_tag [of st "acc_key i"] by (auto simp: ok_writes_def key_simps)

lemma commit_puts:
  assumes "Put k j \<in> set ws" and "Del k \<notin> set ws"
  shows "commit L ws k \<noteq> None"
  using assms
proof (induction ws arbitrary: L)
  case (Cons w ws)
  show ?case
  proof (cases "Put k j \<in> set ws")
    case False
    then have "apply_write L w k \<noteq> None" using Cons.prems by auto
    then show ?thesis using commit_no_del [of k ws "apply_write L w"] Cons.prems by auto
  qed (use Cons in auto)
qed simp

lemma commit_backed:
  assumes A: "accounted st ws" and O: "ok_writes st ws" and B: "backed (ledger_of st)"
  shows "backed (commit (ledger_of st) ws)"
  unfolding backed_def
proof (intro allI impI)
  fix i
  assume "commit (ledger_of st) ws (bal_key i) \<noteq> None"
  then have "i \<in> had st \<or> i \<in> bals ws" using commit_origin by (fastforce simp: had_def bals_def)
  then have "i \<in> had st \<union> accs ws" using A by (auto simp: accounted_def)
  moreover have "commit (ledger_of st) ws (acc_key i) \<noteq> None" if "i \<in> had st"
    using that B commit_no_del [OF no_acc_del [OF O], of i] unfolding had_def backed_def domIff by blast
  moreover have "commit (ledger_of st) ws (acc_key i) \<noteq> None" if "i \<in> accs ws"
    using that commit_puts [OF _ no_acc_del [OF O]] by (auto simp: accs_def)
  ultimately show "commit (ledger_of st) ws (acc_key i) \<noteq> None" by blast
qed

lemma commit_finite: "finite (dom L) \<Longrightarrow> finite (dom (commit L ws))"
proof (induction ws arbitrary: L)
  case (Cons w ws)
  then have "finite (dom (apply_write L w))" by (cases w) auto
  with Cons show ?case by simp
qed simp

lemma reachable_backed: "reachable L \<Longrightarrow> backed L \<and> finite (dom L)"
proof (induction rule: reachable.induct)
  case reachable_init
  then show ?case by (simp add: backed_def)
next
  case (reachable_step L L')
  from reachable_step.hyps(2) show ?case
  proof cases
    case (step st p ws)
    then have "keyed (ledger_of st)" using reachable_step.hyps(1) reachable_inv ledger_inv_keyed by blast
    then show ?thesis
      using step reachable_step.IH Invoke_accounted Invoke_allowed commit_backed commit_finite by blast
  qed
qed

end
