(* ===== verification/Props_Ledger.thy ===== *)
theory Props_Ledger
  imports Example_World Route_Contract Accounted
begin

text \<open>
  The properties of the ledger as a whole: conservation of money by the routes, the invariant of
  the reachable ledgers, and what no later transaction can change.
\<close>

subsection \<open>Conservation\<close>

text \<open>C1: conservation of money.  Apart from the two prunes and the execution of a contract, no
  successful transaction on a well-formed ledger changes the sum of what balances, pending
  balances, uncollected fees, pays and open wraps hold of a token, less the token's supply.\<close>

theorem Invoke_conserves:
  assumes "world_ok st" and "finite (dom (ledger_of st))"
    and "Invoke st = Success p ws" and "st_function st \<notin> {''fee/prune'', ''pay/prune'', ''contract/execute''}"
  shows "total c (commit (ledger_of st) ws) = total c (ledger_of st)"
  using assms Invoke_delta [of st p ws c] total_commit [of "ledger_of st" c ws]
  by (simp add: moving_routes_def)

theorem Invoke_conserves_witness:
  "\<exists>p ws. Invoke demo_stub = Success p ws \<and>
     total ''PCI'' (commit (ledger_of demo_stub) ws) = total ''PCI'' (ledger_of demo_stub)"
proof -
  obtain p ws where "Invoke demo_stub = Success p ws" using demo_Invoke by blast
  with Invoke_conserves [OF demo_world demo_finite this] show ?thesis by (auto simp: demo)
qed

subsection \<open>Reachable ledgers\<close>

text \<open>C2: the invariant of every ledger that transactions produce: documents are kept under the key
  of their own id and are finitely many, no balance is without its account, a token's supply does not
  exceed its maximum, the refunds of a pay do not exceed it, and no pending balance locks a negative
  amount or fee.\<close>

theorem reachable_ledger:
  assumes "reachable L"
  shows "keyed L \<and> finite (dom L) \<and> (\<forall>i. L (acc_key i) = None \<longrightarrow> L (bal_key i) = None) \<and>
    (\<forall>i j t. L (tok_key i) = Some j \<longrightarrow> unmarshal_Token j = Inr t \<longrightarrow> tok_Supply t \<le> tok_MaxSupply t) \<and>
    (\<forall>i j q. L (pay_key i) = Some j \<longrightarrow> unmarshal_Pay j = Inr q \<longrightarrow>
       pay_TotalRefund q = 0 \<or> 0 < pay_TotalRefund q \<and> pay_TotalRefund q \<le> pay_Amount q) \<and>
    (\<forall>i j q. L (pb_key i) = Some j \<longrightarrow> unmarshal_PendingBalance j = Inr q \<longrightarrow>
       0 \<le> pb_Amount q \<and> (\<forall>f. pb_Fee q = Some f \<longrightarrow> 0 \<le> f))"
proof -
  have I: "ledger_inv L" using assms by (rule reachable_inv)
  have "finite (dom L)" and "L (acc_key i) = None \<Longrightarrow> L (bal_key i) = None" for i
    using reachable_backed [OF assms] by (auto simp: backed_def)
  moreover have "keyed L" using I by (rule ledger_inv_keyed)
  ultimately show ?thesis
    using I by (fastforce simp: ledger_inv_def doc_inv_def supply_ok_def refund_ok_def pending_ok_def)
qed

theorem reachable_ledger_witness:
  "\<exists>L. reachable L \<and> L \<noteq> Map.empty \<and> keyed L"
proof -
  obtain p ws where i: "Invoke base_stub = Success p ws" and n: "commit Map.empty ws \<noteq> Map.empty"
    using base_create by blast
  let ?L = "commit Map.empty ws"
  have r: "reachable ?L"
    using reachable_step [OF reachable_init] step.step [OF i base_fresh] by (simp add: base_ledger)
  show ?thesis using reachable_ledger [OF r] r n by blast
qed

subsection \<open>Single steps\<close>

text \<open>C3: the ledger is typed.  A document of a reachable ledger is a document of the type its key stands
  for, written under its own id, and the money documents decode to what was written.\<close>

theorem typed_ledger:
  assumes "reachable L" and "L k = Some j"
  shows "(\<exists>b. k = bal_key (bal_DOCTYPEID b) \<and> unmarshal_Balance j = Inr b) \<or>
    (\<exists>l n. k = log_key (bl_DOCTYPEID l) n \<and> unmarshal_BalanceLog j = Inr l) \<or>
    (\<exists>p. k = pb_key (pb_DOCTYPEID p) \<and> unmarshal_PendingBalance j = Inr p) \<or>
    (\<exists>f. k = fee_key (fee_FeeID f) \<and> unmarshal_Fee j = Inr f) \<or>
    (\<exists>p. k = pay_key (pay_PayID p) \<and> unmarshal_Pay j = Inr p) \<or>
    (\<exists>w. k = wrap_key (wr_DOCTYPEID w) \<and> unmarshal_Wrap j = Inr w) \<or>
    (\<exists>u. k = unwrap_key (uw_DOCTYPEID u) \<and> unmarshal_Unwrap j = Inr u) \<or>
    (\<exists>p. k = lpf_key (lpf_DOCTYPEID p) \<and> unmarshal_LastPrunedFeeID j = Inr p) \<or>
    (\<exists>t. k = tok_key (tok_DOCTYPEID t) \<and> j = marshal_Token t) \<or>
    (\<exists>st a. k = acc_key (ai_GetID a) \<and> j = marshal_AccountI st a) \<or>
    (\<exists>h. k = hld_key (hld_DOCTYPEID h) (hld_Address h) \<and> j = marshal_Holder h)"
proof -
  obtain st where a: "allowed st (Put k j)" using reachable_written [OF assms] by blast
  have t: "type_ok (bl_Type l) \<Longrightarrow> unmarshal_BalanceLog (marshal_BalanceLog l) = Inr l"
    "type_ok (pb_Type p) \<Longrightarrow> unmarshal_PendingBalance (marshal_PendingBalance p) = Inr p" for l p
    by (simp_all add: type_ok_def log_codec.unmarshal_marshal pending_codec.unmarshal_marshal)
  note u = t balance_codec.unmarshal_marshal [OF TrueI] fee_codec.unmarshal_marshal [OF TrueI]
    pay_codec.unmarshal_marshal [OF TrueI] wrap_codec.unmarshal_marshal [OF TrueI]
    unwrap_codec.unmarshal_marshal [OF TrueI] lpf_codec.unmarshal_marshal [OF TrueI]
  show ?thesis by (rule allowed_PutE [OF a]) (auto simp: u key_simps)
qed

theorem typed_ledger_witness:
  "\<exists>L b. reachable L \<and> L (bal_key (bal_DOCTYPEID b)) \<noteq> None \<and>
     unmarshal_Balance (the (L (bal_key (bal_DOCTYPEID b)))) = Inr b"
proof -
  obtain p ws i where r: "Invoke base_stub = Success p ws" and n: "commit Map.empty ws (bal_key i) \<noteq> None"
    using base_balance by blast
  let ?L = "commit Map.empty ws"
  obtain j where j: "?L (bal_key i) = Some j" using n by blast
  have "reachable ?L"
    using reachable_step [OF reachable_init] step.step [OF r base_fresh] by (simp add: base_ledger)
  from typed_ledger [OF this j] this j show ?thesis by (fastforce simp: key_simps)
qed

text \<open>C9: balance logs are append-only: no transaction changes or removes one.\<close>

theorem balance_log_kept:
  assumes "step L L'" and "L (log_key i n) = Some j"
  shows "L' (log_key i n) = Some j"
proof (rule step_keeps [OF assms])
  show "key_tag (log_key i n) \<notin> {''PBLC'', ''HLD''}" by (simp add: key_simps)
  show False if "allowed st (Put (log_key i n) j')" "ledger_of st = L" for st j'
    using that assms(2) by (auto elim!: allowed_PutE simp: key_simps)
qed

lemma demo_step: "\<exists>L'. step (ledger_of demo_stub) L'"
  using demo_Invoke step.step [OF _ demo_fresh] by blast

theorem balance_log_kept_witness:
  "\<exists>L'. step (ledger_of demo_stub) L' \<and> L' (log_key addrA 1500000000000000000) = Some (marshal_BalanceLog demo_old_log)"
proof -
  obtain L' where s: "step (ledger_of demo_stub) L'" using demo_step by blast
  show ?thesis
    using balance_log_kept [OF s, of addrA 1500000000000000000 "marshal_BalanceLog demo_old_log"] s
    by (auto simp: demo)
qed

text \<open>C10: a wrap completes at most once: the record of a completed wrap never changes again.\<close>

theorem completed_wrap_kept:
  assumes "step L L'" and "keyed L"
    and "L (wrap_key i) = Some j" and "unmarshal_Wrap j = Inr w" and "wr_CompleteTxID w \<noteq> []"
  shows "L' (wrap_key i) = Some j"
proof (rule step_keeps [OF assms(1,3)])
  show "key_tag (wrap_key i) \<notin> {''PBLC'', ''HLD''}" by (simp add: key_simps)
  show False if a: "allowed st (Put (wrap_key i) j')" and f: "fresh st" and L: "ledger_of st = L" for st j'
  proof -
    have "\<forall>w0. GetWrap st i = Inr w0 \<longrightarrow> wr_CompleteTxID w0 = []"
      using a f L assms(2) by (auto elim!: allowed_PutE simp: key_simps)
    moreover have "GetWrap st i = Inr w"
      using assms(3,4) L by (auto simp: wrap_store.get_Inr ledger_of_def split: sum.splits)
    ultimately show False using assms(5) by blast
  qed
qed

theorem completed_wrap_kept_witness:
  "\<exists>L'. step (ledger_of demo_stub) L' \<and> L' (wrap_key ''txd'') = Some (marshal_Wrap demo_done)"
proof -
  obtain L' where s: "step (ledger_of demo_stub) L'" using demo_step by blast
  have "L' (wrap_key ''txd'') = Some (marshal_Wrap demo_done)"
    by (rule completed_wrap_kept [OF s demo_keyed, where w = demo_done]) (simp_all add: demo wrap_codec.unmarshal_marshal)
  then show ?thesis using s by blast
qed



text \<open>Nothing but pending balances and holder relationships is ever deleted.\<close>

theorem documents_stay:
  assumes "step L L'" and "k \<in> dom L" and "key_tag k \<notin> {''PBLC'', ''HLD''}"
  shows "k \<in> dom L'"
  using assms(1)
proof cases
  case (step st p ws)
  have "Del k \<notin> set ws"
    using Invoke_allowed [OF step(3)] allowed_Del_tag assms(3) unfolding ok_writes_def by blast
  then show ?thesis using commit_no_del assms(2) step by blast
qed

theorem documents_stay_witness:
  "\<exists>L'. step (ledger_of demo_stub) L' \<and> tok_key ''PCI'' \<in> dom L'"
proof -
  obtain L' where s: "step (ledger_of demo_stub) L'" using demo_step by blast
  have "tok_key ''PCI'' \<in> dom L'"
    by (rule documents_stay [OF s]) (simp_all add: demo key_simps domI)
  then show ?thesis using s by blast
qed

end
