(* ===== verification/Two_Phase.thy ===== *)
theory Two_Phase
  imports Authority
begin

text \<open>
  Transfers with several signers take two transactions: a deposit, and the callback of the
  contract that executes or cancels it.
\<close>

lemma transfer_ready_send:
  assumes "transfer_ready st ps kid amount fee sAddr rAddr sender receiver sBal rBal opts" and "3 \<le> length ps"
  shows "transfer st ps = transfer_send st ps amount fee sender receiver sBal rBal opts"
proof -
  have "sender_address st kid rAddr (ps ! 0) f = Inr sAddr" for f
    using assms(1) by (simp add: sender_address_Inr transfer_ready_def)
  then show ?thesis using assms by (simp add: transfer_ready_def transfer_def addr_Equal_iff not_le not_less)
qed

lemma transfer_length: "transfer st ps = Success p ws \<Longrightarrow> 3 \<le> length ps"
  by (auto simp: transfer_def split: if_splits)

lemma transfer_deposit:
  assumes "transfer st ps = Success p ws"
    and "transfer_ready st ps kid amount fee sAddr rAddr sender receiver sBal rBal opts"
    and "1 < set_size (so_signers opts)"
  obtains con log where
    "Deposit st [] (st_txid st) sBal con amount (Some fee) (so_memo opts) (so_orderID opts) = Inr (log, ws)"
  using assms transfer_ready_send [OF assms(2) transfer_length [OF assms(1)]]
  by (auto simp: transfer_send_def Let_def ok_simps)

text \<open>What the second transaction reads of the first.\<close>

lemma Deposit_pending:
  assumes "Deposit st [] i s con a f m oid = Inr (log, ws)" and "ledger_of st2 = commit (ledger_of st) ws"
    and "GetPendingBalance st2 i = Inr pb"
  shows "pb_Account pb = bal_DOCTYPEID s \<and> pb_Amount pb = a \<and> pb_Fee pb = f \<and> pb_DOCTYPEID pb = i"
proof -
  obtain q where q: "commit (ledger_of st) ws (pb_key i) = Some (marshal_PendingBalance q)"
    and f: "pb_Account q = bal_DOCTYPEID s" "pb_Amount q = a" "pb_Fee q = f" "pb_DOCTYPEID q = i"
      "pb_Type q = PendingBalanceTypeContract"
    using assms(1) by (auto simp: Deposit_def NewPendingBalance_def Let_def ok_simps key_simps)
  have "unmarshal_PendingBalance (marshal_PendingBalance q) = Inr pb"
    using assms(2,3) q by (auto dest!: pending_store.get_Inr_ledger)
  then have "pb = q" using f(5) by (simp add: pending_codec.unmarshal_marshal)
  then show ?thesis using f by simp
qed

lemma ctr_transfer: "ctr_lookup ''transfer'' = [cancelTransfer, executeTransfer]"
  by (simp add: ctr_lookup_def ctrRoutes_def)

lemma callback_transfer:
  assumes "contractCallback st i ps = Success p ws" and "st_json st (ps ! 1) = Inr (JArr (JStr ''transfer'' # doc))"
  shows "i < 2 \<and> ([cancelTransfer, executeTransfer] ! i) st (ps ! 0) (JStr ''transfer'' # doc) = Success p ws"
  using assms
  by (auto simp: contractCallback_def json_array_def doc_str_def as_string_def ctr_transfer Let_def ok_simps
      split: if_splits)

lemma cancelTransferE:
  assumes "cancelTransfer st cid (d # JStr i # doc) = Success p ws"
  obtains pb log where "GetPendingBalance st i = Inr pb" "Withdraw st [] pb = Inr (log, ws)"
    "pb_Type pb = PendingBalanceTypeContract" "pb_RID pb = cid"
  using assms by (auto simp: cancelTransfer_def doc_str_def as_string_def ok_simps split: if_splits)

lemma executeTransferE:
  assumes "executeTransfer st cid [d, JStr i, JStr s, JStr r, d4, d5, d6, JStr oid, d8] = Success p ws"
  obtains pb sBal rBal pt where "GetPendingBalance st i = Inr pb" "GetBalance st s = Inr sBal"
    "GetBalance st r = Inr rBal" "doc_pending oid = Inr pt" "TransferPendingBalance st [] pb sBal rBal pt = Inr ws"
    "pb_Type pb = PendingBalanceTypeContract" "pb_RID pb = cid"
  using assms by (auto simp: executeTransfer_def doc_str_def as_string_def ok_simps split: if_splits)

lemma ok_writes_keyed: "ok_writes st ws \<Longrightarrow> keyed L \<Longrightarrow> keyed (commit L ws)"
  unfolding ok_writes_def
  by (rule keyed_commit) (auto elim!: allowed.cases)

lemma doc_pending_none: "oid = [] \<or> oid = ''0'' \<Longrightarrow> doc_pending oid = Inr None"
  by (auto simp: doc_pending_def)

text \<open>The account of a deposit is debited at once.\<close>

lemma transfer_held:
  assumes W: "world_ok st" and T: "transfer st ps = Success p ws"
    and R: "transfer_ready st ps kid amount fee sAddr rAddr sender receiver sBal rBal opts"
    and M: "1 < set_size (so_signers opts)"
  shows "balances (commit (ledger_of st) ws) = hold (ai_GetID sender) (amount + fee) (balances (ledger_of st))"
    and "ledger_of st2 = commit (ledger_of st) ws \<Longrightarrow> GetPendingBalance st2 (st_txid st) = Inr pb \<Longrightarrow>
      pb_Account pb = ai_GetID sender \<and> pb_Amount pb = amount \<and> pb_Fee pb = Some fee"
    and "keyed (commit (ledger_of st) ws)"
proof -
  obtain con log where D: "Deposit st [] (st_txid st) sBal con amount (Some fee) (so_memo opts) (so_orderID opts) = Inr (log, ws)"
    using transfer_deposit [OF T R M] .
  have id: "bal_DOCTYPEID sBal = ai_GetID sender" using read_ids(2) [OF W] R by (auto simp: transfer_ready_def)
  have rd: "GetBalance st (bal_DOCTYPEID sBal) = Inr sBal"
    using balance_read [OF W] R by (auto simp: transfer_ready_def)
  show "balances (commit (ledger_of st) ws) = hold (ai_GetID sender) (amount + fee) (balances (ledger_of st))"
    using Deposit_balances [OF D rd] id by (simp add: applied_def)
  show "keyed (commit (ledger_of st) ws)" by (rule ok_writes_keyed [OF transfer_writes [OF T] world_ok_simps(4) [OF W]])
  show "pb_Account pb = ai_GetID sender \<and> pb_Amount pb = amount \<and> pb_Fee pb = Some fee"
    if "ledger_of st2 = commit (ledger_of st) ws" "GetPendingBalance st2 (st_txid st) = Inr pb"
    using Deposit_pending [OF D that] id by simp
qed

lemma transfer_doc_list:
  "transfer_doc ps i s r a f opts = JArr (map JStr [''transfer'', i, s, r, show_int a, show_int f, so_memo opts,
     so_orderID opts, if so_pendingTime opts \<noteq> None then ps ! 4 else ''0''])"
  by (simp add: transfer_doc_def)

lemma transfer_executed:
  assumes C: "contractExecute st2 qs = Success p2 ws2"
    and D: "st_json st2 (qs ! 1) = Inr (transfer_doc ps i a b amount fee opts)"
  obtains pb s r pt where "GetPendingBalance st2 i = Inr pb" "GetBalance st2 b = Inr r"
    "doc_pending (so_orderID opts) = Inr pt" "TransferPendingBalance st2 [] pb s r pt = Inr ws2"
proof -
  have "executeTransfer st2 (qs ! 0) [JStr ''transfer'', JStr i, JStr a, JStr b,
      JStr (show_int amount), JStr (show_int fee), JStr (so_memo opts), JStr (so_orderID opts),
      JStr (if so_pendingTime opts \<noteq> None then ps ! 4 else ''0'')] = Success p2 ws2"
    using callback_transfer [OF C [unfolded contractExecute_def]] D by (auto simp: transfer_doc_list)
  then show ?thesis by (rule executeTransferE) (rule that)
qed

end
