(* ===== verification/Example_Runs.thy ===== *)
theory Example_Runs
  imports Example_World Two_Phase
begin

text \<open>Runs of the money routes in the example environment, with what they leave in the accounts.\<close>

lemma demo_balances_of [demo]:
  "balances (ledger_of demo_stub) addrA = Some 1000" "balances (ledger_of demo_stub) addrB = Some 10"
  "balances (ledger_of demo_stub) addrG = Some 490"
  by (simp_all add: balances_read demo)

lemmas transfer_run_defs = transfer_def transfer_send_def transfer_opts_def Transfer_def transfer_receive_def
  locked_def NewBalanceTransferLog_def

lemma demo_transfer_balances:
  "\<exists>p ws. transfer demo_stub [[], addrB, ''100''] = Success p ws \<and>
     balances (commit (ledger_of demo_stub) ws) addrA = Some 899 \<and>
     balances (commit (ledger_of demo_stub) ws) addrB = Some 110"
  by (simp add: transfer_run_defs run_defs demo)

lemma demo_Invoke_balances:
  "\<exists>p ws. Invoke demo_stub = Success p ws \<and> balances (commit (ledger_of demo_stub) ws) addrA = Some 899"
  using demo_transfer_balances by (auto simp: Invoke_def routes_def demo)


lemma demo_prune_queries:
  "st_query demo_stub (CreateQueryPrunePays i s e) = Inr (map (Inr \<circ> marshal_Pay) [demo_pay])"
  "st_query demo_stub (CreateQueryPruneFee c s e) = Inr (map (Inr \<circ> marshal_Fee) demo_fees)"
proof -
  have "fst (hd (q_selector (CreateQueryPrunePays i s e))) \<noteq> ''@fee''"
    "fst (hd (q_selector (CreateQueryPruneFee c s e))) = ''@fee''"
    by (simp_all add: CreateQueryPrunePays_def CreateQueryPruneFee_def)
  then show "st_query demo_stub (CreateQueryPrunePays i s e) = Inr (map (Inr \<circ> marshal_Pay) [demo_pay])"
    "st_query demo_stub (CreateQueryPruneFee c s e) = Inr (map (Inr \<circ> marshal_Fee) demo_fees)"
    by (simp_all add: demo_stub_def)
qed

lemma demo_knt: "invokeKNT demo_stub ''PCI'' ps = Inr ''100''"
proof -
  have "knt_cc demo_stub ''PCI'' = ''knt-pci''" by code_simp
  then show ?thesis by (simp add: invokeKNT_def demo demo_invoke_def)
qed

lemma demo_tokenMint_run: "\<exists>p ws. tokenMint demo_stub [''PCI'', ''100''] = Success p ws \<and> ws \<noteq> [] \<and>
    balances (commit (ledger_of demo_stub) ws) addrG = Some 590"
  by (simp add: tokenMint_def Mint_def Supply_def NewBalanceSupplyLog_def PutToken_def demo_knt set_contains_def run_defs demo)

lemma demo_tokenBurn_run: "\<exists>p ws. tokenBurn demo_stub [''PCI'', ''100''] = Success p ws \<and> ws \<noteq> [] \<and>
    balances (commit (ledger_of demo_stub) ws) addrG = Some 390"
  by (simp add: tokenBurn_def Burn_def Supply_def NewBalanceSupplyLog_def PutToken_def demo_knt set_contains_def run_defs demo)

lemma demo_accountSuspend_run: "\<exists>p ws. accountSuspend demo_stub [''PCI''] = Success p ws"
  using demo_suspend_run by (auto simp: accountSuspend_def demo)

lemma demo_holder_add:
  "\<exists>p ws v. executeAccountHolderAdd demo_stub [] [JNull, JStr addrJ, JStr ''cc''] = Success p ws \<and>
     Put (acc_key addrJ) v \<in> set ws"
  by (simp add: executeAccountHolderAdd_def doc_str_def as_string_def AddHolder_def touch_def NewHolder_def PutHolder_def
      PutAccount_def set_contains_def demo_joint_def kidA_def kidB_def run_defs demo) blast

definition wrap_ps :: "string list" where
  "wrap_ps = [addrA, ''WPCI'', ''0x0000000000000000000000000000000000000000'', ''100'']"

lemma demo_wrap_run: "\<exists>p ws. wrap demo_stub wrap_ps = Success p ws"
  by (simp add: wrap_def wrap_ps_def wrap_opts_def WrapOp_def NewBalanceWrapLog_def run_defs demo)

subsection \<open>A transfer with two signers\<close>

definition multi_ps :: "string \<Rightarrow> string list" where
  "multi_ps oid = [[], addrB, ''100'', ''m'', oid, ''0'', ''0'', addrB]"

definition multi_opts :: "string \<Rightarrow> SendOpts" where
  "multi_opts oid = \<lparr>so_memo = ''m'', so_orderID = oid, so_pendingTime = None, so_expiry = 0, so_signers = [kidA, kidB]\<rparr>"

definition multi_pending :: "string \<Rightarrow> PendingBalance" where
  "multi_pending oid = \<lparr>pb_DOCTYPEID = ''tx1'', pb_Type = PendingBalanceTypeContract, pb_Account = addrA,
     pb_RID = ''con1'', pb_Amount = 100, pb_Fee = Some 1, pb_Memo = ''m'', pb_OrderID = oid,
     pb_CreatedTime = Some (GoTime 1600000000000000005), pb_PendingTime = Some (time_unix 1600000600 0)\<rparr>"

definition multi_contract :: Contract where
  "multi_contract = \<lparr>con_payload = ''con'',
     con_map = [(''@contract'', JStr ''con1''), (''expiry_time'', JTime (time_unix 1600000600 0))]\<rparr>"

lemma multi_create: "create_contract demo_stub s 0 [kidA, kidB] = Inr multi_contract"
  by (simp add: create_contract_def contract_cc_def demo_stub_def base_stub_def demo_invoke_def multi_contract_def
      json_object_def set_size_def)

lemma multi_parsed:
  "parse_int64_opt ''0'' = Some 0" "memo_of ''m'' = ''m''"
proof -
  have "show_nat 0 = ''0''" by code_simp
  then show "parse_int64_opt ''0'' = Some 0" using parse_int64_show_nat [of 0] by simp
  show "memo_of ''m'' = ''m''" by (simp add: memo_of_def MemoMaxLength_def)
qed

lemma multi_opts_run:
  "transfer_opts demo_stub ''PCI'' kidA (PAC (demo_personal addrA)) (multi_ps oid) = Inr (multi_opts oid)"
  by (simp add: transfer_opts_def multi_ps_def multi_opts_def pending_opt_def extra_signers_def GetSignableIDs_def
      multi_parsed run_defs demo)


lemma multi_getters: "con_GetID multi_contract = Inr ''con1''"
  "con_GetExpiryTime multi_contract = Inr (time_unix 1600000600 0)"
  by (simp_all add: con_GetID_def con_GetExpiryTime_def multi_contract_def)

lemma multi_fields: "length (multi_ps oid) = 8" "multi_ps oid ! 0 = []" "multi_ps oid ! Suc 0 = addrB" "multi_ps oid ! 2 = ''100''"
  "so_signers (multi_opts oid) = [kidA, kidB]" "so_memo (multi_opts oid) = ''m''" "so_orderID (multi_opts oid) = oid"
  "so_expiry (multi_opts oid) = 0" "so_pendingTime (multi_opts oid) = None"
  by (simp_all add: multi_ps_def multi_opts_def)

lemma multi_ready:
  "transfer_ready demo_stub (multi_ps oid) kidA 100 1 (NewAddress demo_stub ''PCI'' AccountTypePersonal kidA)
     (NewAddress demo_stub ''PCI'' AccountTypePersonal kidB) (PAC (demo_personal addrA)) (PAC (demo_personal addrB))
     (demo_balance addrA 1000) (demo_balance addrB 10) (multi_opts oid)"
  by (simp add: transfer_ready_def sender_is_def multi_fields multi_opts_run demo)

definition multi_balance :: Balance where
  "multi_balance = demo_balance addrA 1000\<lparr>bal_Amount := 899, bal_UpdatedTime := Some (GoTime 1600000000000000005)\<rparr>"

definition multi_writes :: "string \<Rightarrow> json \<Rightarrow> writes" where
  "multi_writes oid l = [Put (pb_key ''tx1'') (marshal_PendingBalance (multi_pending oid)),
      Put (bal_key addrA) (marshal_Balance multi_balance), Put (log_key addrA 1600000000000000005) l]"

lemma multi_transfer:
  "\<exists>p l. transfer demo_stub (multi_ps oid) = Success p (multi_writes oid l)"
  using transfer_ready_send [OF multi_ready]
  by (simp add: transfer_send_def Deposit_def NewPendingBalance_def multi_create multi_getters multi_fields
      NewBalanceDepositLog_def applied_def multi_pending_def multi_balance_def multi_writes_def run_defs demo)

text \<open>The callback a hundred seconds later, on the ledger the deposit left.\<close>

definition multi_doc :: "string \<Rightarrow> json" where
  "multi_doc oid = transfer_doc (multi_ps oid) ''tx1'' addrA addrB 100 1 (multi_opts oid)"

definition later :: "string \<Rightarrow> ledger \<Rightarrow> stub" where
  "later oid L = demo_stub\<lparr>st_get := (\<lambda>k. Inr (L k)), st_json := (\<lambda>s. Inr (multi_doc oid)), st_txid := ''tx2'',
     st_timestamp := Inr (1600000100, 7), st_now := 1600000100 * 10 ^ 9\<rparr>"

lemma later_fields [simp]:
  "st_get (later oid L) k = Inr (L k)" "st_json (later oid L) s = Inr (multi_doc oid)" "st_txid (later oid L) = ''tx2''"
  "st_put_err (later oid L) k v = None" "st_del_err (later oid L) k = None" "st_ccid (later oid L) = Inr ''kiesnet-contract''"
  "ledger_of (later oid L) = L"
  by (simp_all add: later_def demo ledger_of_def fun_eq_iff)

lemma later_answers [simp]:
  "get_kid (later oid L) b = Inr kidA" "get_time (later oid L) = Inr (GoTime 1600000100000000007)"
proof -
  show "get_kid (later oid L) b = Inr kidA" by (simp add: get_kid_def kid_cc_def later_def demo demo_invoke_def)
  have "time_unix 1600000100 7 = GoTime 1600000100000000007" by code_simp
  then show "get_time (later oid L) = Inr (GoTime 1600000100000000007)" by (simp add: get_time_def later_def)
qed

lemma later_log: "log_key i 1600000100000000007 \<noteq> log_key addrA 1600000000000000005"
  "log_key i 1600000100000000007 \<noteq> log_key addrA 1500000000000000000"
proof -
  have "digit_char 7 \<noteq> digit_char 5 \<and> digit_char 7 \<noteq> digit_char 0" by (simp add: digit_char_def)
  then show "log_key i 1600000100000000007 \<noteq> log_key addrA 1600000000000000005"
    "log_key i 1600000100000000007 \<noteq> log_key addrA 1500000000000000000"
    using last_log_key [of 1600000100000000007 i] last_log_key [of 1600000000000000005 addrA]
      last_log_key [of 1500000000000000000 addrA] by auto
qed

lemma later_nano [simp]: "unix_nano (GoTime 1600000100000000007) = 1600000100000000007"
  by code_simp

lemma multi_ledger:
  assumes "L = commit (ledger_of demo_stub) (multi_writes oid l)"
  shows "GetPendingBalance (later oid L) ''tx1'' = Inr (multi_pending oid)" "GetBalance (later oid L) addrA = Inr multi_balance"
    "GetBalance (later oid L) addrB = Inr (demo_balance addrB 10)" "L (log_key i 1600000100000000007) = None"
proof -
  have "map_of demo_docs (log_key i 1600000100000000007) = None"
    using later_log(2) by (simp add: demo_docs_def key_simps)
  then show "L (log_key i 1600000100000000007) = None"
    using later_log(1) by (simp add: assms multi_writes_def demo_ledger key_simps)
  have "map_of demo_docs (bal_key addrB) = Some (marshal_Balance (demo_balance addrB 10))"
    by (simp add: demo_docs_def key_simps demo_addr_neq)
  then show "GetBalance (later oid L) addrB = Inr (demo_balance addrB 10)"
    by (simp add: GetBalance_def GetBalanceState_def get_state_def assms multi_writes_def demo_ledger key_simps demo_addr_neq
        balance_codec.unmarshal_marshal)
  show "GetBalance (later oid L) addrA = Inr multi_balance"
    by (simp add: GetBalance_def GetBalanceState_def get_state_def assms multi_writes_def key_simps balance_codec.unmarshal_marshal)
  show "GetPendingBalance (later oid L) ''tx1'' = Inr (multi_pending oid)"
    by (simp add: GetPendingBalance_def get_state_def assms multi_writes_def key_simps pending_codec.unmarshal_marshal multi_pending_def)
qed

lemma multi_free:
  assumes "L = commit (ledger_of demo_stub) (multi_writes oid l)"
  shows "L (pb_key ''tx2'') = None" "L (fee_key (fee_id ts ''tx2'')) = None"
  by (simp_all add: assms multi_writes_def demo_ledger demo_docs_def key_simps)

lemma multi_answers:
  "bal_DOCTYPEID multi_balance = addrA" "bal_Amount multi_balance = 899" "pb_Account (multi_pending oid) = addrA"
  "pb_Amount (multi_pending oid) = 100" "pb_Fee (multi_pending oid) = Some 1" "pb_Type (multi_pending oid) = PendingBalanceTypeContract"
  "pb_RID (multi_pending oid) = ''con1''" "pb_DOCTYPEID (multi_pending oid) = ''tx1''"
  by (simp_all add: multi_balance_def multi_pending_def demo)

lemma multi_cancel:
  assumes "L = commit (ledger_of demo_stub) (multi_writes oid l)"
  shows "\<exists>p ws. contractCancel (later oid L) [''con1'', []] = Success p ws"
  by (simp add: contractCancel_def contractCallback_def json_array_def multi_doc_def transfer_doc_def doc_str_def as_string_def
      ctr_transfer cancelTransfer_def Withdraw_def NewBalanceWithdrawLog_def applied_def multi_answers
      multi_ledger [OF assms] run_defs)

lemma long_seconds: "parse_int64_opt ''9999999999'' = Some 9999999999"
proof -
  have "show_nat 9999999999 = ''9999999999''" by (simp add: show_nat.simps digit_char_def) code_simp
  then show ?thesis using parse_int64_show_nat [of 9999999999] by simp
qed

lemma multi_execute:
  assumes "L = commit (ledger_of demo_stub) (multi_writes oid l)"
    and "oid = [] \<or> oid = ''9999999999''"
  shows "\<exists>p ws. contractExecute (later oid L) [''con1'', []] = Success p ws"
proof -
  obtain pt where d: "doc_pending oid = Inr pt"
    using assms(2) long_seconds by (auto simp: doc_pending_def)
  have "\<exists>ws. TransferPendingBalance (later oid L) [] (multi_pending oid) multi_balance (demo_balance addrB 10) pt = Inr ws"
    by (cases "locked pt (GoTime 1600000100000000007)")
       (simp_all add: TransferPendingBalance_def transfer_receive_def NewPendingBalance_def NewBalanceTransferLog_def
        multi_answers multi_ledger [OF assms(1)] multi_free [OF assms(1)] run_defs demo)
  then show ?thesis
    by (auto simp: contractExecute_def contractCallback_def json_array_def multi_doc_def transfer_doc_def doc_str_def
        as_string_def ctr_transfer executeTransfer_def d multi_answers multi_fields multi_ledger [OF assms(1)] Let_def)
qed

lemma later_fresh: "L = commit (ledger_of demo_stub) (multi_writes oid l) \<Longrightarrow> fresh (later oid L)"
  by (simp add: fresh_def multi_writes_def demo_ledger demo_docs_def key_simps fee_id_def)

subsection \<open>A transfer from a joint account\<close>

definition joint_opts :: SendOpts where
  "joint_opts = \<lparr>so_memo = [], so_orderID = [], so_pendingTime = None, so_expiry = 0, so_signers = [kidA, kidB]\<rparr>"

lemma joint_account [demo]: "acc_DOCTYPEID (jac_Account demo_joint) = addrJ" "jac_Holders demo_joint = [kidA, kidB]"
  by (simp_all add: demo_joint_def)

lemma joint_distinct: "demo_joint_addr \<noteq> NewAddress demo_stub ''PCI'' AccountTypePersonal kidB"
  by (metis demo_joint_fields(2) demo_strings(2) demo_addr_neq)

lemma joint_fee: "CalcFee demo_stub demo_joint_addr ''transfer'' 100 = Inr 1"
  by (simp add: CalcFee_def demo rate_fee_def MulRat_def rat_num_def rat_denom_def)

lemma joint_ready:
  "transfer_ready demo_stub [addrJ, addrB, ''100''] kidA 100 1 demo_joint_addr
     (NewAddress demo_stub ''PCI'' AccountTypePersonal kidB) (JAC demo_joint) (PAC (demo_personal addrB))
     (demo_balance addrJ 300) (demo_balance addrB 10) joint_opts"
  using joint_distinct joint_fee unfolding demo_joint_addr_def
  by (simp add: transfer_ready_def sender_is_def transfer_opts_def joint_opts_def set_contains_def run_defs demo)

lemma joint_transfer: "\<exists>p ws. transfer demo_stub [addrJ, addrB, ''100''] = Success p ws"
  using transfer_ready_send [OF joint_ready]
  by (simp add: transfer_send_def Deposit_def NewPendingBalance_def multi_create multi_getters joint_opts_def
      NewBalanceDepositLog_def applied_def run_defs demo)

subsection \<open>A transfer that names a signer but no expiry\<close>

definition drop_ps :: "string list" where
  "drop_ps = [[], addrB, ''100'', ''m'', [], ''0'', [], addrB]"

definition drop_opts :: SendOpts where
  "drop_opts = \<lparr>so_memo = ''m'', so_orderID = [], so_pendingTime = None, so_expiry = 0, so_signers = [kidA]\<rparr>"

lemma drop_ready:
  "transfer_ready demo_stub drop_ps kidA 100 1 (NewAddress demo_stub ''PCI'' AccountTypePersonal kidA)
     (NewAddress demo_stub ''PCI'' AccountTypePersonal kidB) (PAC (demo_personal addrA)) (PAC (demo_personal addrB))
     (demo_balance addrA 1000) (demo_balance addrB 10) drop_opts"
  by (simp add: transfer_ready_def sender_is_def drop_ps_def drop_opts_def transfer_opts_def pending_opt_def
      multi_parsed run_defs demo)

lemma drop_transfer: "\<exists>p ws. transfer demo_stub drop_ps = Success p ws"
  using transfer_ready_send [OF drop_ready]
  by (simp add: transfer_send_def drop_ps_def drop_opts_def Transfer_def transfer_receive_def locked_def
      NewBalanceTransferLog_def run_defs demo)

end
