(* ===== verification/Props_Money.thy ===== *)
theory Props_Money
  imports Example_Runs Route_Contract
begin

text \<open>What the routes that move money do to the balances of the accounts, and who may use them.\<close>

text \<open>C4: only a holder of an account takes money out of it.  On every route but the execution of a
  contract, an account whose balance shrinks is one the invoker is a holder of.\<close>

theorem debit_authorized:
  assumes "world_ok st" and "Invoke st = Success p ws" and "st_function st \<noteq> ''contract/execute''"
    and "balances (ledger_of st) a = Some x" and "balances (commit (ledger_of st) ws) a = Some y" and "y < x"
  shows "\<exists>kid addr acc. get_kid st True = Inr kid \<and> GetAccount st addr = Inr acc \<and> ai_GetID acc = a \<and>
    ai_HasHolder acc kid = Inr True"
  using Invoke_guarded [OF assms(1-3)] assms(4-6) unfolding guarded_def authorized_def by blast

theorem debit_authorized_witness:
  "\<exists>kid addr acc. get_kid demo_stub True = Inr kid \<and> GetAccount demo_stub addr = Inr acc \<and>
     ai_GetID acc = addrA \<and> ai_HasHolder acc kid = Inr True"
proof -
  obtain p ws where r: "Invoke demo_stub = Success p ws"
    and b: "balances (commit (ledger_of demo_stub) ws) addrA = Some 899" using demo_Invoke_balances by blast
  show ?thesis using debit_authorized [OF demo_world r _ demo_balances_of(1) b] by (simp add: demo)
qed

text \<open>C5: the effect of a transfer.  The invoker is an unsuspended holder, the sender can pay the amount
  and the fee, and the receiver is another account.  With several signers, or a pending time in the
  future, the amount and fee are only taken from the sender and held; otherwise the amount moves.\<close>

theorem transfer_effect:
  assumes "world_ok st" and "transfer st ps = Success p ws" and "get_time st = Inr ts"
  shows "\<exists>kid amount fee sAddr rAddr sender receiver sBal rBal opts.
    transfer_ready st ps kid amount fee sAddr rAddr sender receiver sBal rBal opts \<and>
    ai_GetID sender \<noteq> ai_GetID receiver \<and>
    balances (commit (ledger_of st) ws) =
      (if 1 < set_size (so_signers opts) \<or> locked (so_pendingTime opts) ts
       then hold (ai_GetID sender) (amount + fee) (balances (ledger_of st))
       else move (ai_GetID sender) (ai_GetID receiver) amount fee (balances (ledger_of st)))"
  using assms(2)
proof (cases rule: transferE)
  case (multi kid amount fee sAddr rAddr sender receiver sBal rBal opts con log)
  have rd: "GetBalance st (bal_DOCTYPEID sBal) = Inr sBal" and id: "bal_DOCTYPEID sBal = ai_GetID sender"
    using balance_read [OF assms(1)] read_ids(2) [OF assms(1)] multi(1) by (auto simp: transfer_ready_def)
  have "balances (commit (ledger_of st) ws) =
      (if 1 < set_size (so_signers opts) \<or> locked (so_pendingTime opts) ts
       then hold (ai_GetID sender) (amount + fee) (balances (ledger_of st))
       else move (ai_GetID sender) (ai_GetID receiver) amount fee (balances (ledger_of st)))"
    using Deposit_balances [OF multi(5) rd] multi(2) id by (simp add: applied_def)
  then show ?thesis using multi(1) transfer_distinct [OF assms(1) multi(1)] by blast
next
  case (instant kid amount fee sAddr rAddr sender receiver sBal rBal opts log)
  have rd: "GetBalance st (bal_DOCTYPEID sBal) = Inr sBal" "GetBalance st (bal_DOCTYPEID rBal) = Inr rBal"
    and id: "bal_DOCTYPEID sBal = ai_GetID sender" "bal_DOCTYPEID rBal = ai_GetID receiver"
    using balance_read [OF assms(1)] read_ids(2) [OF assms(1)] instant(1) by (auto simp: transfer_ready_def)
  have ne: "ai_GetID sender \<noteq> ai_GetID receiver" by (rule transfer_distinct [OF assms(1) instant(1)])
  then have "balances (commit (ledger_of st) ws) =
      (if 1 < set_size (so_signers opts) \<or> locked (so_pendingTime opts) ts
       then hold (ai_GetID sender) (amount + fee) (balances (ledger_of st))
       else move (ai_GetID sender) (ai_GetID receiver) amount fee (balances (ledger_of st)))"
    using Transfer_balances [OF instant(3) assms(3) rd] instant(2) id by simp
  then show ?thesis using instant(1) ne by blast
qed

theorem transfer_effect_witness:
  "\<exists>kid amount fee sAddr rAddr sender receiver sBal rBal opts.
    transfer_ready demo_stub [[], addrB, ''100''] kid amount fee sAddr rAddr sender receiver sBal rBal opts"
proof -
  obtain p ws where "transfer demo_stub [[], addrB, ''100''] = Success p ws" using demo_transfer by blast
  from transfer_effect [OF demo_world this demo_time_now] show ?thesis by blast
qed

text \<open>C12: the effect of a pay.  The invoker is an unsuspended holder, and the amount is taken from the
  sender; no other balance changes until the receiver prunes its pays.\<close>

theorem pay_effect:
  assumes "world_ok st" and "pay st ps = Success p ws"
  shows "\<exists>kid amount sAddr rAddr sender receiver sBal.
    pay_ready st ps kid amount sAddr rAddr sender receiver sBal \<and>
    balances (commit (ledger_of st) ws) = hold (ai_GetID sender) amount (balances (ledger_of st))"
  using assms(2)
proof (cases rule: payE)
  case (multi kid amount sAddr rAddr sender receiver sBal con log)
  have rd: "GetBalance st (bal_DOCTYPEID sBal) = Inr sBal" and id: "bal_DOCTYPEID sBal = ai_GetID sender"
    using balance_read [OF assms(1)] read_ids(2) [OF assms(1)] multi(1) by (auto simp: pay_ready_def)
  have "balances (commit (ledger_of st) ws) = hold (ai_GetID sender) amount (balances (ledger_of st))"
    using Deposit_balances [OF multi(4) rd] id by (simp add: applied_def)
  then show ?thesis using multi(1) by blast
next
  case (instant kid amount sAddr rAddr sender receiver sBal fee q log)
  have rd: "GetBalance st (bal_DOCTYPEID sBal) = Inr sBal" and id: "bal_DOCTYPEID sBal = ai_GetID sender"
    using balance_read [OF assms(1)] read_ids(2) [OF assms(1)] instant(1) by (auto simp: pay_ready_def)
  have "balances (commit (ledger_of st) ws) = hold (ai_GetID sender) amount (balances (ledger_of st))"
    using PayOp_balances [OF instant(4) rd] id by simp
  then show ?thesis using instant(1) by blast
qed

theorem pay_effect_witness:
  "\<exists>kid amount sAddr rAddr sender receiver sBal.
     pay_ready demo_stub [[], addrB, ''100''] kid amount sAddr rAddr sender receiver sBal"
proof -
  obtain p ws where "pay demo_stub [[], addrB, ''100''] = Success p ws" using demo_pay_run by blast
  from pay_effect [OF demo_world this] show ?thesis by blast
qed

text \<open>C7: a transfer with several signers whose contract is cancelled leaves every balance as it was.\<close>

theorem two_phase_cancel:
  assumes W: "world_ok st" and T: "transfer st ps = Success p ws"
    and R: "transfer_ready st ps kid amount fee sAddr rAddr sender receiver sBal rBal opts"
    and M: "1 < set_size (so_signers opts)" and L: "ledger_of st2 = commit (ledger_of st) ws"
    and D: "st_json st2 (qs ! 1) = Inr (transfer_doc ps (st_txid st) (ai_GetID sender) (ai_GetID receiver) amount fee opts)"
    and C: "contractCancel st2 qs = Success p2 ws2"
  shows "balances (commit (ledger_of st2) ws2) = balances (ledger_of st)"
proof -
  obtain pb log where pb: "GetPendingBalance st2 (st_txid st) = Inr pb" and w: "Withdraw st2 [] pb = Inr (log, ws2)"
    using callback_transfer [OF C [unfolded contractCancel_def]] D by (auto simp: transfer_doc_list elim!: cancelTransferE)
  have "keyed (ledger_of st2)" using transfer_held(3) [OF W T R M] L by simp
  from Withdraw_balances [OF w this] show ?thesis
    using transfer_held(1) [OF W T R M] transfer_held(2) [OF W T R M L pb] L by (simp add: applied_def)
qed

theorem two_phase_cancel_witness:
  "\<exists>L ws2. balances (commit L ws2) = balances (ledger_of demo_stub) \<and> L \<noteq> ledger_of demo_stub"
proof -
  obtain p l where T: "transfer demo_stub (multi_ps []) = Success p (multi_writes [] l)"
    using multi_transfer by blast
  let ?L = "commit (ledger_of demo_stub) (multi_writes [] l)"
  obtain p2 ws2 where C: "contractCancel (later [] ?L) [''con1'', []] = Success p2 ws2" using multi_cancel [OF refl] by blast
  have "balances (commit (ledger_of (later [] ?L)) ws2) = balances (ledger_of demo_stub)"
    by (rule two_phase_cancel [OF demo_world T multi_ready _ _ _ C]) (simp_all add: multi_fields multi_doc_def set_size_def demo)
  moreover have "?L (pb_key ''tx1'') \<noteq> ledger_of demo_stub (pb_key ''tx1'')"
    using fresh_simps(1) [OF demo_fresh] by (simp add: demo multi_writes_def key_simps)
  ultimately show ?thesis by (metis later_fields(7))
qed



text \<open>C38: the order id of a transfer with several signers delays its execution: an order id that is a
  number of seconds in the future is taken for the pending time, and the receiver is not credited.\<close>

theorem order_id_delays_execution:
  assumes W: "world_ok st" and T: "transfer st ps = Success p ws"
    and R: "transfer_ready st ps kid amount fee sAddr rAddr sender receiver sBal rBal opts"
    and M: "1 < set_size (so_signers opts)" and L: "ledger_of st2 = commit (ledger_of st) ws"
    and D: "st_json st2 (qs ! 1) = Inr (transfer_doc ps (st_txid st) (ai_GetID sender) (ai_GetID receiver) amount fee opts)"
    and C: "contractExecute st2 qs = Success p2 ws2"
    and O: "so_orderID opts \<noteq> ''0''" "parse_int64_opt (so_orderID opts) = Some seconds"
    and F: "get_time st2 = Inr ts" "ts < time_unix seconds 0"
  shows "balances (commit (ledger_of st2) ws2) = hold (ai_GetID sender) (amount + fee) (balances (ledger_of st))"
proof -
  obtain pb s r where "TransferPendingBalance st2 [] pb s r (Some (time_unix seconds 0)) = Inr ws2"
    by (rule transfer_executed [OF C D])
       (use O in \<open>auto simp: doc_pending_def parse_int64_opt_def parse_int64_def split: if_splits\<close>)
  then have "balances (commit (ledger_of st2) ws2) = balances (ledger_of st2)"
    using F by (auto simp: TransferPendingBalance_def transfer_receive_def NewPendingBalance_def locked_def Let_def ok_simps
        split: option.splits if_splits)
  then show ?thesis using transfer_held(1) [OF W T R M] L by simp
qed

theorem order_id_delays_execution_witness:
  "\<exists>L ws2. balances (commit L ws2) = hold addrA 101 (balances (ledger_of demo_stub))"
proof -
  let ?oid = "''9999999999''"
  obtain p l where T: "transfer demo_stub (multi_ps ?oid) = Success p (multi_writes ?oid l)" using multi_transfer by blast
  let ?L = "commit (ledger_of demo_stub) (multi_writes ?oid l)"
  obtain p2 ws2 where C: "contractExecute (later ?oid ?L) [''con1'', []] = Success p2 ws2" using multi_execute [OF refl] by blast
  have "GoTime 1600000100000000007 < time_unix 9999999999 0" by code_simp
  then have "balances (commit (ledger_of (later ?oid ?L)) ws2) =
    hold (ai_GetID (PAC (demo_personal addrA))) (100 + 1) (balances (ledger_of demo_stub))"
    by (intro order_id_delays_execution [OF demo_world T multi_ready _ _ _ C])
       (simp_all add: multi_fields multi_doc_def set_size_def long_seconds demo)
  then show ?thesis by (auto simp: demo)
qed

end
