(* ===== verification/Props_Pending.thy ===== *)
theory Props_Pending
  imports Example_Runs
begin

text \<open>Withdrawals, refunds, prunes and the supply: the rest of the routes that move money.\<close>

text \<open>C19: a pending balance is withdrawn only by an unsuspended holder of the account that owns it, not
  before its pending time, and only once: amount and fee come back to the account and it is gone.\<close>

theorem withdraw_effect:
  assumes "world_ok st" and "balancePendingWithdraw st ps = Success p ws"
  shows "\<exists>kid pb pt ts addr acc. get_kid st True = Inr kid \<and> GetPendingBalance st (ps ! 0) = Inr pb \<and>
    pb_PendingTime pb = Some pt \<and> get_time st = Inr ts \<and> \<not> ts < pt \<and>
    ParseAddress st (pb_Account pb) = Inr addr \<and> GetAccount st addr = Inr acc \<and>
    ai_HasHolder acc kid = Inr True \<and> \<not> ai_IsSuspended acc \<and>
    balances (commit (ledger_of st) ws) =
      credit (pb_Account pb) (applied (pb_Amount pb) (pb_Fee pb)) (balances (ledger_of st)) \<and>
    commit (ledger_of st) ws (pb_key (ps ! 0)) = None"
proof -
  obtain kid pb pt ts addr acc log where f: "get_kid st True = Inr kid" "GetPendingBalance st (ps ! 0) = Inr pb"
    "pb_PendingTime pb = Some pt" "get_time st = Inr ts" "\<not> ts < pt" "ParseAddress st (pb_Account pb) = Inr addr"
    "GetAccount st addr = Inr acc" "ai_HasHolder acc kid = Inr True" "\<not> ai_IsSuspended acc"
    and w: "Withdraw st [] pb = Inr (log, ws)"
    using assms(2) by (auto simp: balancePendingWithdraw_def Let_def ok_simps split: if_splits)
  have "commit (ledger_of st) ws (pb_key (ps ! 0)) = None"
    using w read_ids(4) [OF assms(1) f(2)] by (auto simp: Withdraw_def Let_def ok_simps)
  then show ?thesis using f Withdraw_balances [OF w world_ok_simps(4) [OF assms(1)]] by blast
qed

theorem withdraw_effect_witness:
  "\<exists>p ws. balancePendingWithdraw demo_stub [''tx0''] = Success p ws \<and>
     commit (ledger_of demo_stub) ws (pb_key ''tx0'') = None"
proof -
  obtain p ws where r: "balancePendingWithdraw demo_stub [''tx0''] = Success p ws" using demo_withdraw_run by blast
  from withdraw_effect [OF demo_world this] r show ?thesis by auto
qed

text \<open>C13: the effect of a refund.  The invoker holds the account that was paid; the payer gets the
  amount back, the parent records it, and its total never exceeds the pay.  The refunding account's own
  balance is not touched: the refund waits, as a negative pay, for its next prune.\<close>

theorem refund_effect:
  assumes "world_ok st" and "payRefund st ps = Success p ws"
  shows "\<exists>kid parent amount sAddr rAddr sender receiver. get_kid st True = Inr kid \<and>
    GetPay st (ps ! 0) = Inr parent \<and> NewAmount (ps ! 1) = Inr amount \<and> 0 < amount \<and>
    pay_TotalRefund parent + amount \<le> pay_Amount parent \<and>
    ParseAddress st (pay_DOCTYPEID parent) = Inr sAddr \<and> GetAccount st sAddr = Inr sender \<and>
    ai_HasHolder sender kid = Inr True \<and> \<not> ai_IsSuspended sender \<and>
    ParseAddress st (pay_RID parent) = Inr rAddr \<and> GetAccount st rAddr = Inr receiver \<and> \<not> ai_IsSuspended receiver \<and>
    balances (commit (ledger_of st) ws) = credit (ai_GetID receiver) amount (balances (ledger_of st)) \<and>
    commit (ledger_of st) ws (pay_key (ps ! 0)) =
      Some (marshal_Pay (parent\<lparr>pay_TotalRefund := pay_TotalRefund parent + amount\<rparr>))"
proof -
  obtain kid parent amount sAddr rAddr sender receiver sBal rBal memo oid fee log where
    f: "get_kid st True = Inr kid" "GetPay st (ps ! 0) = Inr parent" "NewAmount (ps ! 1) = Inr amount" "0 < amount"
    "pay_TotalRefund parent + amount \<le> pay_Amount parent"
    "ParseAddress st (pay_DOCTYPEID parent) = Inr sAddr" "GetAccount st sAddr = Inr sender"
    "ai_HasHolder sender kid = Inr True" "\<not> ai_IsSuspended sender"
    "ParseAddress st (pay_RID parent) = Inr rAddr" "GetAccount st rAddr = Inr receiver" "\<not> ai_IsSuspended receiver"
    and b: "GetBalance st (ai_GetID receiver) = Inr rBal"
    and op: "Refund st [] sBal rBal amount fee memo oid parent = Inr (log, ws)"
    using assms(2) by (auto simp: payRefund_def Let_def ok_simps not_less int_one_le_iff_zero_less split: if_splits)
  have id: "pay_PayID parent = ps ! 0" "bal_DOCTYPEID rBal = ai_GetID receiver"
    using read_ids(6) [OF assms(1) f(2)] read_ids(2) [OF assms(1) b] by auto
  have "commit (ledger_of st) ws (pay_key (ps ! 0)) =
      Some (marshal_Pay (parent\<lparr>pay_TotalRefund := pay_TotalRefund parent + amount\<rparr>))"
    using op id by (auto simp: Refund_def Let_def ok_simps key_simps)
  then show ?thesis using f id Refund_balances [OF op balance_read [OF assms(1) b]] by auto
qed

theorem refund_effect_witness:
  "\<exists>p ws. payRefund demo_stub [''1500000000000000000abc'', ''100''] = Success p ws \<and>
     balances (commit (ledger_of demo_stub) ws) = credit addrB 100 (balances (ledger_of demo_stub))"
proof -
  obtain p ws where r: "payRefund demo_stub [''1500000000000000000abc'', ''100''] = Success p ws"
    using demo_refund_run by blast
  from refund_effect [OF demo_world this] r show ?thesis by (auto simp: demo)
qed

lemma div_superadd:
  assumes "(0::int) < c"
  shows "x div c + y div c \<le> (x + y) div c"
proof -
  have "c * (x div c) \<le> x" "c * (y div c) \<le> y"
    using assms pos_mod_sign [of c x] pos_mod_sign [of c y] minus_mod_eq_mult_div [of x c] minus_mod_eq_mult_div [of y c]
    by linarith+
  then have "c * (x div c + y div c) \<le> x + y" by (simp add: distrib_left)
  then have "c * (x div c + y div c) div c \<le> (x + y) div c" using assms by (intro zdiv_mono1)
  then show ?thesis using assms by simp
qed

text \<open>C14: partial refunds never give back more fee than the pay recorded, and never divide by zero.\<close>

theorem refund_fees_bounded:
  assumes "0 < pay_Amount parent" and "0 \<le> pay_Fee parent"
    and "\<forall>a\<in>set amounts. 0 < a" and "sum_list amounts \<le> pay_Amount parent"
  shows "\<exists>fees. map (refund_fee parent) amounts = map Inr fees \<and> (\<forall>f\<in>set fees. 0 \<le> f) \<and>
    sum_list fees \<le> pay_Fee parent"
proof -
  let ?f = "\<lambda>a. a * pay_Fee parent div pay_Amount parent"
  have fee: "refund_fee parent a = Inr (?f a)" for a
    using assms(1) by (simp add: refund_fee_def MulRat_def rat_norm_floor)
  have "sum_list (map ?f as) \<le> ?f (sum_list as)" if "\<forall>a\<in>set as. 0 < a" for as
    using that
  proof (induction as)
    case Nil
    then show ?case by simp
  next
    case (Cons a as)
    have "?f a + ?f (sum_list as) \<le> ?f (a + sum_list as)"
      using div_superadd [OF assms(1)] by (simp add: distrib_right)
    with Cons show ?case by simp
  qed
  moreover have "?f (sum_list amounts) \<le> pay_Amount parent * pay_Fee parent div pay_Amount parent"
    using assms by (intro zdiv_mono1 mult_right_mono) simp_all
  moreover have "pay_Amount parent * pay_Fee parent div pay_Amount parent = pay_Fee parent" using assms(1) by simp
  ultimately have "sum_list (map ?f amounts) \<le> pay_Fee parent" using assms(3) by (metis order_trans)
  moreover have "0 \<le> ?f a" if "a \<in> set amounts" for a
    using assms(1) mult_nonneg_nonneg [OF less_imp_le assms(2)] assms(3) that
    by (simp only: pos_imp_zdiv_nonneg_iff)
  ultimately show ?thesis using fee by (intro exI [of _ "map ?f amounts"]) (simp add: comp_def)
qed

theorem refund_fees_bounded_witness:
  "\<exists>fees. map (refund_fee demo_pay) [50, 49, 101] = map Inr fees \<and> sum_list fees \<le> 6"
proof -
  have "0 < pay_Amount demo_pay" "0 \<le> pay_Fee demo_pay" "\<forall>a\<in>set [50, 49, 101]. (0::int) < a"
    "sum_list [50, 49, 101] \<le> pay_Amount demo_pay" by (simp_all add: demo)
  from refund_fees_bounded [OF this] show ?thesis unfolding demo_pay_fields by blast
qed

end
