(* ===== verification/Prune_Marks.thy ===== *)
theory Prune_Marks
  imports Example_Runs
begin

text \<open>
  The mark of a prune: the id of the last pay collected.  Its first 19 digits are the time of the
  pay, and the next prune starts after that time.
\<close>

subsection \<open>The time in an identifier\<close>

lemma parse_digits:
  assumes "s \<noteq> []" and "\<forall>c\<in>set s. 48 \<le> byte_of c \<and> byte_of c \<le> 57" and "scan_nat 10 0 s = Some n" and "n < 2 ^ 63"
  shows "parse_int64_opt s = Some (int n)"
proof -
  obtain c cs where s: "s = c # cs" using assms(1) by (cases s) auto
  have "48 \<le> byte_of c" using assms(2) s by simp
  then have "c \<noteq> CHR ''-''" "c \<noteq> CHR ''+''" by auto
  then have "scan_sign s = (False, s)" by (simp add: s)
  then show ?thesis
    using assms parse_uint_loop_scan [OF assms(2,3)]
    by (simp add: parse_int64_opt_def parse_int64_def parse_uint64_def signed_def)
qed

lemma show_nat_split:
  assumes "10 ^ k \<le> n"
  shows "\<exists>ds. show_nat n = show_nat (n div 10 ^ k) @ ds \<and> length ds = k \<and>
    (\<forall>c\<in>set ds. 48 \<le> byte_of c \<and> byte_of c \<le> 57) \<and>
    (\<forall>acc. scan_nat 10 acc ds = Some (acc * 10 ^ k + n mod 10 ^ k))"
  using assms
proof (induction k)
  case 0
  then show ?case by simp
next
  case (Suc k)
  let ?m = "n div 10 ^ k"
  have "10 ^ k \<le> n" using Suc.prems by simp
  then obtain ds where ds: "show_nat n = show_nat ?m @ ds" "length ds = k"
    "\<forall>c\<in>set ds. 48 \<le> byte_of c \<and> byte_of c \<le> 57" "\<forall>acc. scan_nat 10 acc ds = Some (acc * 10 ^ k + n mod 10 ^ k)"
    using Suc.IH by blast
  have "10 \<le> ?m" using Suc.prems by (simp add: less_eq_div_iff_mult_less_eq)
  then have "show_nat ?m = show_nat (?m div 10) @ [digit_char (?m mod 10)]"
    by (subst show_nat.simps) simp
  moreover have "n div 10 ^ Suc k = ?m div 10" by (simp only: power_Suc2 div_mult2_eq)
  ultimately have m: "show_nat ?m = show_nat (n div 10 ^ Suc k) @ [digit_char (?m mod 10)]" by (simp only:)
  have "n mod 10 ^ Suc k = ?m mod 10 * 10 ^ k + n mod 10 ^ k"
    using mod_mult2_eq [of n "10 ^ k" 10] by (simp add: mult.commute)
  then have "\<forall>acc. scan_nat 10 acc (digit_char (?m mod 10) # ds) = Some (acc * 10 ^ Suc k + n mod 10 ^ Suc k)"
    using ds(4) by (simp add: algebra_simps)
  then show ?case using ds m by (intro exI [of _ "digit_char (?m mod 10) # ds"]) (simp add: byte_of_digit_char)
qed

lemma id_time_fee_id:
  assumes "10 ^ 18 \<le> nanos ts" and "nanos ts < 2 ^ 63"
  shows "id_time (fee_id ts txid) = Inr ts"
proof -
  let ?n = "nat (nanos ts)"
  have n: "10 ^ 18 \<le> ?n" "?n < 10 ^ 19" "int ?n = nanos ts" using assms by simp_all
  have f: "fee_id ts txid = show_nat ?n @ txid"
    using assms by (simp add: fee_id_def unix_nano_def int64_id show_int_def)
  obtain ds where ds: "show_nat ?n = show_nat (?n div 10 ^ 9) @ ds" "length ds = 9"
    "\<forall>c\<in>set ds. 48 \<le> byte_of c \<and> byte_of c \<le> 57" "scan_nat 10 0 ds = Some (?n mod 10 ^ 9)"
    using show_nat_split [of 9 ?n] n(1) by auto
  have "10 ^ 9 \<le> ?n div 10 ^ 9" "?n div 10 ^ 9 < 10 ^ Suc 9" using n by simp_all
  then have l: "length (show_nat (?n div 10 ^ 9)) = 10" using length_show_nat_bounds [of 9] by simp
  have p1: "parse_int64_opt (show_nat (?n div 10 ^ 9)) = Some (int (?n div 10 ^ 9))"
    by (rule parse_int64_show_nat) (use n(2) in simp)
  have "ds \<noteq> []" using ds(2) by auto
  then have p2: "parse_int64_opt ds = Some (int (?n mod 10 ^ 9))"
    using ds by (intro parse_digits) (auto intro: less_trans [of _ "10 ^ 9"])
  have "?n div 10 ^ 9 < 10 ^ 10" using n(2) by simp
  then have "int (?n div 10 ^ 9) < 10 ^ 10" by (metis of_nat_less_iff of_nat_numeral of_nat_power)
  then have "\<bar>int (?n div 10 ^ 9)\<bar> \<le> 2 ^ 62" unfolding abs_of_nat by (rule order_trans [OF less_imp_le]) simp
  moreover have "int (?n mod 10 ^ 9) < 10 ^ 9" by (metis of_nat_less_iff of_nat_numeral of_nat_power mod_less_divisor zero_less_numeral zero_less_power)
  ultimately have "time_unix (int (?n div 10 ^ 9)) (int (?n mod 10 ^ 9)) = GoTime (int (?n div 10 ^ 9) * 10 ^ 9 + int (?n mod 10 ^ 9))"
    by (intro time_unix_exact) simp_all
  also have "\<dots> = ts" using n(3) by (cases ts) (simp add: zdiv_int zmod_int)
  finally show ?thesis using f ds l p1 p2 by (simp add: id_time_def)
qed

subsection \<open>What a prune of pays sums up\<close>

lemma pay_sum_of:
  assumes "GetPaySumByTime st i s e = Inr r" and "st_query st (CreateQueryPrunePays i s e) = Inr (map (Inr \<circ> marshal_Pay) qs)"
  shows "ps_Sum r = sum_list (map pay_Amount (take PaysPruneSize qs))"
    and "ps_Fee r = sum_list (map pay_Fee (take PaysPruneSize qs))"
    and "ps_Count r = min PaysPruneSize (length qs)"
    and "qs \<noteq> [] \<Longrightarrow> ps_End r = pay_PayID (last (take PaysPruneSize qs))"
proof -
  have n: "0 < PaysPruneSize" by (simp add: PaysPruneSize_def)
  have "r = \<lparr>ps_Sum = sum_list (map pay_Amount (take PaysPruneSize qs)),
      ps_Fee = sum_list (map pay_Fee (take PaysPruneSize qs)), ps_Count = min PaysPruneSize (length qs),
      ps_Start = (if qs \<noteq> [] then pay_PayID (hd qs) else []),
      ps_End = (if qs = [] then [] else pay_PayID (last (take PaysPruneSize qs))),
      ps_HasMore = (PaysPruneSize < length qs)\<rparr>"
    using assms pay_loop_sum [of 0 qs zero_Pay 0 0 zero_PaySum] n
    by (simp add: GetPaySumByTime_def zero_PaySum_def pays_before_def)
  then show "ps_Sum r = sum_list (map pay_Amount (take PaysPruneSize qs))"
    "ps_Fee r = sum_list (map pay_Fee (take PaysPruneSize qs))" "ps_Count r = min PaysPruneSize (length qs)"
    "qs \<noteq> [] \<Longrightarrow> ps_End r = pay_PayID (last (take PaysPruneSize qs))"
    by simp_all
qed

subsection \<open>Collected once\<close>

lemma prune_matches:
  "matches (CreateQueryPrunePays i s e) (marshal_Pay q) \<longleftrightarrow>
     pay_DOCTYPEID q = i \<and> (\<exists>t. pay_CreatedTime q = Some t \<and> s < t \<and> t \<le> e)"
  by (cases "pay_CreatedTime q")
     (auto simp: matches_def CreateQueryPrunePays_def marshal_Pay_def obj_def codec_simps omit_time_def)

text \<open>
  A pay as the code creates it: its id begins with the time of its creation (from 2001 to 2262,
  where that time has 19 digits).
\<close>

definition dated :: "Pay \<Rightarrow> gotime \<Rightarrow> bool" where
  "dated q t \<longleftrightarrow> pay_CreatedTime q = Some t \<and> 10 ^ 18 \<le> nanos t \<and> nanos t < 2 ^ 63 \<and>
     (\<exists>txid. pay_PayID q = fee_id t txid)"

lemma dated_id: "dated q t \<Longrightarrow> id_time (pay_PayID q) = Inr t"
  by (auto simp: dated_def id_time_fee_id)

lemma dated_id_neq: "dated q t \<Longrightarrow> pay_PayID q \<noteq> []"
  by (auto simp: dated_def fee_id_neq_Nil dest: sym)

lemma dated_ids: "list_all2 dated qs ts \<Longrightarrow> \<forall>q\<in>set qs. pay_PayID q \<noteq> []"
  by (induction rule: list_all2_induct) (auto dest: dated_id_neq)

lemma payPruneE:
  assumes "world_ok st" and "payPrune st ps = Success p ws"
  obtains kid addr acc bal stime etime ts s m where "get_kid st True = Inr kid"
    "param_address st kid (ps ! 0) = Inr addr" "GetAccount st addr = Inr acc"
    "ai_HasHolder acc kid = Inr True" "\<not> ai_IsSuspended acc" "GetBalance st (ai_GetID acc) = Inr bal"
    "id_time (bal_LastPrunedPayID bal) = Inr stime" "get_time st = Inr ts" "prune_etime m ts ps = Inr etime"
    "GetPaySumByTime st (ai_GetID acc) stime etime = Inr s" "0 < ps_Count s"
    "commit (ledger_of st) ws (bal_key (ai_GetID acc)) = Some (marshal_Balance (pruned_balance bal s ts))"
proof -
  have id: "bal_DOCTYPEID (pruned_balance bal s ts) = i" if "GetBalance st i = Inr bal" for bal s ts i
    using read_ids(2) [OF assms(1) that] by (simp add: pruned_balance_def Let_def)
  obtain kid addr acc bal stime etime ts s m where f: "get_kid st True = Inr kid"
    "param_address st kid (ps ! 0) = Inr addr" "GetAccount st addr = Inr acc"
    "ai_HasHolder acc kid = Inr True" "\<not> ai_IsSuspended acc" "GetBalance st (ai_GetID acc) = Inr bal"
    "id_time (bal_LastPrunedPayID bal) = Inr stime" "get_time st = Inr ts" "prune_etime m ts ps = Inr etime"
    "GetPaySumByTime st (ai_GetID acc) stime etime = Inr s" "0 < ps_Count s"
    "commit (ledger_of st) ws (bal_key (bal_DOCTYPEID (pruned_balance bal s ts))) =
      Some (marshal_Balance (pruned_balance bal s ts))"
    using assms(2) by (auto simp: payPrune_def Let_def ok_simps key_simps split: if_splits)
  then show thesis using id [OF f(6)] by (intro that) simp_all
qed

text \<open>The mark a prune leaves.\<close>

lemma prune_mark:
  assumes "GetPaySumByTime st i s e = Inr r" and "0 < ps_Count r"
    and "st_query st (CreateQueryPrunePays i s e) = Inr (map (Inr \<circ> marshal_Pay) qs)" and "\<forall>q\<in>set qs. pay_PayID q \<noteq> []"
  shows "qs \<noteq> []" and "pruned_balance bal r ts =
    bal\<lparr>bal_Amount := bal_Amount bal + (sum_list (map pay_Amount (take PaysPruneSize qs)) -
           sum_list (map pay_Fee (take PaysPruneSize qs))),
         bal_UpdatedTime := Some ts, bal_LastPrunedPayID := pay_PayID (last (take PaysPruneSize qs))\<rparr>"
proof -
  show n: "qs \<noteq> []" using pay_sum_of(3) [OF assms(1,3)] assms(2) by auto
  then have "take PaysPruneSize qs \<noteq> []" by (simp add: PaysPruneSize_def)
  then have "pay_PayID (last (take PaysPruneSize qs)) \<noteq> []" using assms(4) in_set_takeD last_in_set by fast
  then show "pruned_balance bal r ts = bal\<lparr>bal_Amount := bal_Amount bal +
      (sum_list (map pay_Amount (take PaysPruneSize qs)) - sum_list (map pay_Fee (take PaysPruneSize qs))),
      bal_UpdatedTime := Some ts, bal_LastPrunedPayID := pay_PayID (last (take PaysPruneSize qs))\<rparr>"
    using n pay_sum_of [OF assms(1,3)] by (simp add: pruned_balance_def Let_def)
qed

lemma dated_marks:
  assumes d: "list_all2 dated qs ts" and "sorted ts" and ne: "qs \<noteq> []" "0 < n"
  shows "dated (last (take n qs)) (last (take n ts))"
    and "q \<in> set (take n qs) \<Longrightarrow> \<exists>t. dated q t \<and> t \<le> last (take n ts)"
    and "q \<in> set (drop n qs) \<Longrightarrow> \<exists>t. dated q t \<and> last (take n ts) \<le> t"
proof -
  let ?m = "min n (length qs) - 1"
  have l: "length ts = length qs" using d by (simp add: list_all2_lengthD)
  have m: "?m < n" "?m < length qs" using ne by (auto simp: min_def)
  have q: "last (take n qs) = qs ! ?m" and t: "last (take n ts) = ts ! ?m"
    using ne l m by (subst last_conv_nth; auto simp: min_def)+
  show "dated (last (take n qs)) (last (take n ts))" using list_all2_nthD [OF d m(2)] q t by simp
  show "\<exists>t. dated q t \<and> t \<le> last (take n ts)" if a: "q \<in> set (take n qs)"
  proof -
    obtain k where k: "k < n" "k < length qs" "q = qs ! k" using a by (auto simp: in_set_conv_nth)
    then have "dated q (ts ! k)" "ts ! k \<le> ts ! ?m"
      using list_all2_nthD [OF d, of k] sorted_nth_mono [OF assms(2), of k ?m] m l by auto
    then show ?thesis using t by auto
  qed
  show "\<exists>t. dated q t \<and> last (take n ts) \<le> t" if a: "q \<in> set (drop n qs)"
  proof -
    obtain k where k: "k < length qs - n" "q = qs ! (n + k)" using a by (auto simp: in_set_conv_nth)
    then have "dated q (ts ! (n + k))" "ts ! ?m \<le> ts ! (n + k)"
      using list_all2_nthD [OF d, of "n + k"] sorted_nth_mono [OF assms(2), of ?m "n + k"] m l by auto
    then show ?thesis using t by auto
  qed
qed

subsection \<open>The mark in the example\<close>

lemma demo_dated: "dated demo_pay demo_time"
proof -
  have t: "demo_time = GoTime 1500000000000000000" by (simp add: demo_time_def time_unix_exact)
  have "show_int 1500000000000000000 = ''1500000000000000000''" by (simp add: show_int_def show_nat.simps digit_char_def) code_simp
  then have "fee_id demo_time ''abc'' = ''1500000000000000000abc''" by (simp add: fee_id_def t unix_nano_def int64_id)
  from this [symmetric] have "\<exists>txid. ''1500000000000000000abc'' = fee_id demo_time txid" ..
  then show ?thesis by (auto simp: dated_def t demo demo_pay_def NewPay_def)
qed

definition pruned_stub :: "writes \<Rightarrow> stub" where
  "pruned_stub ws = demo_stub\<lparr>st_get := (\<lambda>k. Inr (commit (ledger_of demo_stub) ws k))\<rparr>"

lemma pruned_ledger: "ledger_of (pruned_stub ws) = commit (ledger_of demo_stub) ws"
  by (simp add: pruned_stub_def ledger_of_def fun_eq_iff)

lemma pruned_read:
  assumes "payPrune demo_stub [addrA, ''false''] = Success p ws"
  shows "\<exists>b. GetBalance (pruned_stub ws) addrA = Inr b"
  by (rule payPruneE [OF demo_world assms])
     (auto simp: demo balance_store.get_Inr pruned_stub_def balance_codec.unmarshal_marshal)

end
