(* ===== verification/Prune_Progress.thy ===== *)
theory Prune_Progress
  imports Prune_Marks
begin

text \<open>
  Progress of the prunes of pays: every successful prune leaves fewer pays of the account after
  its mark, so prunes repeated without new pays come to an end.
\<close>

definition mark_at :: "ledger \<Rightarrow> string \<Rightarrow> gotime option" where
  "mark_at L i =
     (case L (bal_key i) of None \<Rightarrow> None | Some j \<Rightarrow>
      case unmarshal_Balance j of Inl e \<Rightarrow> None | Inr b \<Rightarrow>
      case id_time (bal_LastPrunedPayID b) of Inl e \<Rightarrow> None | Inr m \<Rightarrow> Some m)"

text \<open>The pays of an account that its next prunes may collect: those after the mark.\<close>

definition open_pays :: "ledger \<Rightarrow> string \<Rightarrow> string set" where
  "open_pays L i = {k. \<exists>q t m. L (pay_key k) = Some (marshal_Pay q) \<and> pay_DOCTYPEID q = i \<and>
     pay_CreatedTime q = Some t \<and> mark_at L i = Some m \<and> m < t}"

text \<open>
  What the prune relies on: the records found from the mark to the end of its range are pays of the
  ledger that match the query, under ids the code gives them.
\<close>

definition sound_answers :: "stub \<Rightarrow> string list \<Rightarrow> string \<Rightarrow> bool" where
  "sound_answers st ps i \<longleftrightarrow>
     (\<forall>s ts m e. mark_at (ledger_of st) i = Some s \<longrightarrow> get_time st = Inr ts \<longrightarrow> prune_etime m ts ps = Inr e \<longrightarrow>
       (\<exists>qs. st_query st (CreateQueryPrunePays i s e) = Inr (map (Inr \<circ> marshal_Pay) qs) \<and>
         (\<forall>q\<in>set qs. matches (CreateQueryPrunePays i s e) (marshal_Pay q) \<and> (\<exists>t. dated q t) \<and>
            ledger_of st (pay_key (pay_PayID q)) = Some (marshal_Pay q))))"

definition prunes_account :: "stub \<Rightarrow> string list \<Rightarrow> string \<Rightarrow> bool" where
  "prunes_account st ps i \<longleftrightarrow> (\<exists>kid addr acc. get_kid st True = Inr kid \<and>
     param_address st kid (ps ! 0) = Inr addr \<and> GetAccount st addr = Inr acc \<and> ai_GetID acc = i)"

text \<open>\<open>prune_run i L n L'\<close>: \<open>n\<close> prunes of the account lead from \<open>L\<close> to \<open>L'\<close>.\<close>

inductive prune_run :: "string \<Rightarrow> ledger \<Rightarrow> nat \<Rightarrow> ledger \<Rightarrow> bool" for i where
  prune_none: "prune_run i L 0 L"
| prune_more: "prune_run i L n (ledger_of st) \<Longrightarrow> payPrune st ps = Success p ws \<Longrightarrow> prunes_account st ps i \<Longrightarrow>
    world_ok st \<Longrightarrow> sound_answers st ps i \<Longrightarrow> prune_run i L (Suc n) (commit (ledger_of st) ws)"

lemma prune_frame:
  assumes "payPrune st ps = Success p ws"
  shows "commit L ws (pay_key k) = L (pay_key k)"
  using assms by (auto simp: payPrune_def Let_def ok_simps key_simps split: if_splits)

lemma open_pays_finite: "finite (dom L) \<Longrightarrow> finite (open_pays L i)"
proof -
  assume "finite (dom L)"
  then have "finite (pay_key -` dom L \<inter> open_pays L i)"
    by (rule finite_vimage_IntI) (auto simp: inj_on_def open_pays_def pay_key_def split: if_splits)
  moreover have "open_pays L i \<subseteq> pay_key -` dom L" by (auto simp: open_pays_def)
  ultimately show ?thesis by (simp add: inf_absorb2)
qed

lemma prune_shrinks:
  assumes P: "payPrune st ps = Success p ws" and "prunes_account st ps i" and W: "world_ok st" and S: "sound_answers st ps i"
  shows "open_pays (commit (ledger_of st) ws) i \<subset> open_pays (ledger_of st) i"
proof (rule payPruneE [OF W P])
  fix kid addr acc bal stime etime ts s m
  assume f: "get_kid st True = Inr kid" "param_address st kid (ps ! 0) = Inr addr" "GetAccount st addr = Inr acc"
    and b: "GetBalance st (ai_GetID acc) = Inr bal" "id_time (bal_LastPrunedPayID bal) = Inr stime"
    and e: "get_time st = Inr ts" "prune_etime m ts ps = Inr etime"
    and g: "GetPaySumByTime st (ai_GetID acc) stime etime = Inr s" "0 < ps_Count s"
    and c: "commit (ledger_of st) ws (bal_key (ai_GetID acc)) = Some (marshal_Balance (pruned_balance bal s ts))"
  have i: "ai_GetID acc = i" using assms(2) f by (auto simp: prunes_account_def)
  have old: "mark_at (ledger_of st) i = Some stime"
    using b by (auto simp: mark_at_def i dest!: balance_store.get_Inr_ledger)
  obtain qs where qs: "st_query st (CreateQueryPrunePays i stime etime) = Inr (map (Inr \<circ> marshal_Pay) qs)"
    and q: "\<And>q. q \<in> set qs \<Longrightarrow> matches (CreateQueryPrunePays i stime etime) (marshal_Pay q) \<and> (\<exists>t. dated q t) \<and>
      ledger_of st (pay_key (pay_PayID q)) = Some (marshal_Pay q)"
    using S old e unfolding sound_answers_def by blast
  have "\<forall>q\<in>set qs. pay_PayID q \<noteq> []" using q dated_id_neq by blast
  note p = prune_mark [OF g [unfolded i] qs this]
  define l where "l = last (take PaysPruneSize qs)"
  have "take PaysPruneSize qs \<noteq> []" using p(1) by (simp add: PaysPruneSize_def)
  then have "l \<in> set qs" unfolding l_def using in_set_takeD last_in_set by fast
  then obtain t where l: "pay_DOCTYPEID l = i" "pay_CreatedTime l = Some t" "stime < t" "id_time (pay_PayID l) = Inr t"
      "ledger_of st (pay_key (pay_PayID l)) = Some (marshal_Pay l)"
    using q dated_id by (fastforce simp: prune_matches dated_def)
  have new: "mark_at (commit (ledger_of st) ws) i = Some t"
    using c p(2) l(4) by (simp add: mark_at_def i balance_codec.unmarshal_marshal l_def)
  have "pay_PayID l \<in> open_pays (ledger_of st) i" using l old by (auto simp: open_pays_def)
  moreover have "pay_PayID l \<notin> open_pays (commit (ledger_of st) ws) i"
  proof
    assume "pay_PayID l \<in> open_pays (commit (ledger_of st) ws) i"
    then obtain q where "marshal_Pay l = marshal_Pay q" "pay_CreatedTime q \<noteq> Some t"
      using l(5) new by (auto simp: open_pays_def prune_frame [OF P])
    then show False using l(2) pay_codec.unmarshal_marshal by (metis sum.inject(2))
  qed
  moreover have "open_pays (commit (ledger_of st) ws) i \<subseteq> open_pays (ledger_of st) i"
    using old new l(3) by (auto simp: open_pays_def prune_frame [OF P] intro: less_trans)
  ultimately show ?thesis by blast
qed

lemma prune_run_bound:
  assumes "prune_run i L n L'" and "finite (dom L)"
  shows "finite (open_pays L' i) \<and> n + card (open_pays L' i) \<le> card (open_pays L i)"
  using assms
proof (induction rule: prune_run.induct)
  case (prune_none L)
  then show ?case by (simp add: open_pays_finite)
next
  case (prune_more L n st ps p ws)
  then have "card (open_pays (commit (ledger_of st) ws) i) < card (open_pays (ledger_of st) i)"
    by (intro psubset_card_mono prune_shrinks) auto
  then show ?case using prune_more prune_shrinks [of st ps p ws i] by (auto intro: finite_subset)
qed

subsection \<open>A prune of the example\<close>

lemma demo_prunes:
  assumes "payPrune demo_stub [addrA, ''false''] = Success p ws"
  shows "prune_run addrA (ledger_of demo_stub) 1 (commit (ledger_of demo_stub) ws)"
proof -
  have "prunes_account demo_stub [addrA, ''false''] addrA" by (auto simp: prunes_account_def demo)
  moreover have "sound_answers demo_stub [addrA, ''false''] addrA"
    unfolding sound_answers_def
  proof (intro allI impI exI conjI)
    fix s ts m e
    assume a: "mark_at (ledger_of demo_stub) addrA = Some s" "get_time demo_stub = Inr ts" "prune_etime m ts [addrA, ''false''] = Inr e"
    show "st_query demo_stub (CreateQueryPrunePays addrA s e) = Inr (map (Inr \<circ> marshal_Pay) [demo_pay])"
      by (rule demo_prune_queries)
    show "\<forall>q\<in>set [demo_pay]. matches (CreateQueryPrunePays addrA s e) (marshal_Pay q) \<and> (\<exists>t. dated q t) \<and>
        ledger_of demo_stub (pay_key (pay_PayID q)) = Some (marshal_Pay q)"
      using a demo_dated
      by (auto simp: prune_matches demo mark_at_def balance_codec.unmarshal_marshal demo_balance_def id_time_def
          dated_def less_gotime_def less_eq_gotime_def time_unix_exact demo_time_def)
  qed
  ultimately show ?thesis using prune_more [OF prune_none assms _ demo_world] by simp
qed

end
