(* ===== verification/Props_Supply.thy ===== *)
theory Props_Supply
  imports Prune_Progress
begin

text \<open>What the prunes collect, and how minting and burning follow the supply of a token.\<close>

subsection \<open>Prunes\<close>

text \<open>C15: a prune of pays credits the account with the first 900 pays that the query finds after the
  last pruned one, less their fees, and moves the mark to the last of them.\<close>

theorem pay_prune_effect:
  assumes "world_ok st" and "payPrune st ps = Success p ws"
  shows "\<exists>kid addr acc bal stime etime ts. get_kid st True = Inr kid \<and>
    param_address st kid (ps ! 0) = Inr addr \<and> GetAccount st addr = Inr acc \<and>
    ai_HasHolder acc kid = Inr True \<and> \<not> ai_IsSuspended acc \<and> GetBalance st (ai_GetID acc) = Inr bal \<and>
    id_time (bal_LastPrunedPayID bal) = Inr stime \<and> get_time st = Inr ts \<and>
    (\<exists>m. prune_etime m ts ps = Inr etime) \<and>
    (\<forall>qs. st_query st (CreateQueryPrunePays (ai_GetID acc) stime etime) = Inr (map (Inr \<circ> marshal_Pay) qs) \<longrightarrow>
       (\<forall>q\<in>set qs. pay_PayID q \<noteq> []) \<longrightarrow>
       qs \<noteq> [] \<and>
       commit (ledger_of st) ws (bal_key (ai_GetID acc)) = Some (marshal_Balance
         (bal\<lparr>bal_Amount := bal_Amount bal + (sum_list (map pay_Amount (take PaysPruneSize qs)) -
                sum_list (map pay_Fee (take PaysPruneSize qs))),
              bal_UpdatedTime := Some ts, bal_LastPrunedPayID := pay_PayID (last (take PaysPruneSize qs))\<rparr>)))"
  by (rule payPruneE [OF assms]) (metis prune_mark)

theorem pay_prune_effect_witness:
  "\<exists>p ws. payPrune demo_stub [addrA, ''false''] = Success p ws \<and>
     commit (ledger_of demo_stub) ws (bal_key addrA) =
       Some (marshal_Balance (demo_balance addrA 1000\<lparr>bal_Amount := 1194,
         bal_UpdatedTime := Some (GoTime 1600000000000000005), bal_LastPrunedPayID := ''1500000000000000000abc''\<rparr>))"
proof -
  obtain p ws where r: "payPrune demo_stub [addrA, ''false''] = Success p ws" using demo_prune_run by blast
  have "\<forall>q\<in>set [demo_pay]. pay_PayID q \<noteq> []" by (simp add: demo)
  with pay_prune_effect [OF demo_world r] r demo_prune_queries(1) show ?thesis
    by (fastforce simp: demo PaysPruneSize_def)
qed



text \<open>C17: prunes come to an end.  When the records found are pays of the ledger that match the query, every
  successful prune of an account leaves strictly fewer pays of it after its mark; so of prunes repeated
  without other transactions at most as many succeed as there were such pays.\<close>

theorem prunes_end:
  assumes "prune_run i L n L'" and "finite (dom L)"
  shows "n + card (open_pays L' i) \<le> card (open_pays L i)"
  using prune_run_bound [OF assms] by simp

theorem prunes_end_witness:
  "\<exists>L'. prune_run addrA (ledger_of demo_stub) 1 L' \<and> 0 < card (open_pays (ledger_of demo_stub) addrA)"
proof -
  obtain p ws where "payPrune demo_stub [addrA, ''false''] = Success p ws" using demo_prune_run by blast
  then have r: "prune_run addrA (ledger_of demo_stub) 1 (commit (ledger_of demo_stub) ws)" by (rule demo_prunes)
  have "0 < card (open_pays (ledger_of demo_stub) addrA)" using prunes_end [OF r demo_finite] by simp
  with r show ?thesis by blast
qed




subsection \<open>Supply\<close>

text \<open>C22: minting.  An instant mint needs a holder of the genesis account; what it adds to the supply is
  cut at the maximum supply and goes to the genesis account.\<close>

theorem mint_effect:
  assumes "world_ok st" and "tokenMint st ps = Success p ws" and "ws \<noteq> []"
  shows "\<exists>kid code token addr jac amount ts m. get_kid st True = Inr kid \<and>
    ValidateTokenCode (ps ! 0) = Inr code \<and> GetToken st code = Inr token \<and>
    ParseAddress st (tok_GenesisAccount token) = Inr addr \<and> GetAccount st addr = Inr (JAC jac) \<and>
    ai_HasHolder (JAC jac) kid = Inr True \<and> \<not> 1 < set_size (jac_Holders jac) \<and>
    (\<exists>args answer. invokeKNT st code (''mint'' # args) = Inr answer \<and> NewAmount answer = Inr amount) \<and> 0 \<le> amount \<and> get_time st = Inr ts \<and>
    m = min amount (tok_MaxSupply token - tok_Supply token) \<and> 0 \<le> m \<and>
    balances (commit (ledger_of st) ws) = credit (ai_GetID (JAC jac)) m (balances (ledger_of st)) \<and>
    commit (ledger_of st) ws (tok_key code) =
      Some (marshal_Token (token\<lparr>tok_Supply := tok_Supply token + m, tok_UpdatedTime := Some ts\<rparr>))"
proof -
  obtain kid code token addr jac args answer amount bal r where f: "get_kid st True = Inr kid" "ValidateTokenCode (ps ! 0) = Inr code" "GetToken st code = Inr token"
    "ParseAddress st (tok_GenesisAccount token) = Inr addr" "GetAccount st addr = Inr (JAC jac)"
    "ai_HasHolder (JAC jac) kid = Inr True" "\<not> 1 < set_size (jac_Holders jac)"
    "invokeKNT st code (''mint'' # args) = Inr answer" "NewAmount answer = Inr amount" "0 \<le> amount"
    and b: "GetBalance st (ai_GetID (JAC jac)) = Inr bal" and op: "Mint st [] token bal amount = Inr (r, ws)"
    using assms(2,3) by (auto simp: tokenMint_def Let_def ok_simps if_cases_Success not_less)
  obtain ts where ts: "get_time st = Inr ts" and lt: "tok_Supply token < tok_MaxSupply token"
    using op by (auto simp: Mint_def case_sum_Inr if_Inl_Inr)
  let ?m = "min amount (tok_MaxSupply token - tok_Supply token)"
  note id = read_ids(3) [OF assms(1) f(3)] read_ids(2) [OF assms(1) b]
  have "balances (commit (ledger_of st) ws) = credit (ai_GetID (JAC jac)) ?m (balances (ledger_of st)) \<and>
    commit (ledger_of st) ws (tok_key code) =
      Some (marshal_Token (token\<lparr>tok_Supply := tok_Supply token + ?m, tok_UpdatedTime := Some ts\<rparr>))"
    using op id ts balances_read [OF b]
    by (cases "tok_MaxSupply token < tok_Supply token + amount")
       (auto simp: Mint_def Supply_def Let_def ok_simps key_simps credit_def min_def algebra_simps)
  moreover have "0 \<le> ?m" using f(10) lt by simp
  ultimately show ?thesis using f ts by blast
qed

theorem mint_effect_witness:
  "\<exists>p ws. tokenMint demo_stub [''PCI'', ''100''] = Success p ws \<and>
     commit (ledger_of demo_stub) ws (tok_key ''PCI'') = Some (marshal_Token
       (demo_token\<lparr>tok_Supply := 1600, tok_UpdatedTime := Some (GoTime 1600000000000000005)\<rparr>))"
proof -
  obtain p ws where r: "tokenMint demo_stub [''PCI'', ''100''] = Success p ws" "ws \<noteq> []"
    using demo_tokenMint_run by blast
  from mint_effect [OF demo_world r] r(1) show ?thesis by (fastforce simp: demo demo_knt)
qed

text \<open>C23: burning.  An instant burn needs a holder of the genesis account; at most what that account has
  is burnt, and it leaves the account and the supply together.\<close>

theorem burn_effect:
  assumes "world_ok st" and "tokenBurn st ps = Success p ws" and "ws \<noteq> []"
  shows "\<exists>kid code token addr jac bal amount ts m. get_kid st True = Inr kid \<and>
    ValidateTokenCode (ps ! 0) = Inr code \<and> GetToken st code = Inr token \<and>
    ParseAddress st (tok_GenesisAccount token) = Inr addr \<and> GetAccount st addr = Inr (JAC jac) \<and>
    ai_HasHolder (JAC jac) kid = Inr True \<and> \<not> 1 < set_size (jac_Holders jac) \<and>
    (\<exists>args answer. invokeKNT st code (''burn'' # args) = Inr answer \<and> NewAmount answer = Inr amount) \<and>
    GetBalance st (ai_GetID (JAC jac)) = Inr bal \<and> amount \<le> tok_Supply token \<and> get_time st = Inr ts \<and>
    m = min amount (bal_Amount bal) \<and> 0 < m \<and>
    balances (commit (ledger_of st) ws) = hold (ai_GetID (JAC jac)) m (balances (ledger_of st)) \<and>
    commit (ledger_of st) ws (tok_key code) =
      Some (marshal_Token (token\<lparr>tok_Supply := tok_Supply token - m, tok_UpdatedTime := Some ts\<rparr>))"
proof -
  obtain kid code token addr jac args answer amount bal r where f: "get_kid st True = Inr kid" "ValidateTokenCode (ps ! 0) = Inr code" "GetToken st code = Inr token"
    "ParseAddress st (tok_GenesisAccount token) = Inr addr" "GetAccount st addr = Inr (JAC jac)"
    "ai_HasHolder (JAC jac) kid = Inr True" "\<not> 1 < set_size (jac_Holders jac)"
    "invokeKNT st code (''burn'' # args) = Inr answer" "NewAmount answer = Inr amount"
    "GetBalance st (ai_GetID (JAC jac)) = Inr bal" "amount \<le> tok_Supply token"
    and op: "Burn st [] token bal amount = Inr (r, ws)"
    using assms(2,3) by (auto simp: tokenBurn_def Let_def ok_simps if_cases_Success not_less)
  let ?m = "min amount (bal_Amount bal)"
  obtain ts where ts: "get_time st = Inr ts" and lt: "0 < ?m"
    using op assms(3) by (auto simp: Burn_def Let_def case_sum_Inr if_Inl_Inr split: if_splits)
  note id = read_ids(3) [OF assms(1) f(3)] read_ids(2) [OF assms(1) f(10)]
  have "balances (commit (ledger_of st) ws) = hold (ai_GetID (JAC jac)) ?m (balances (ledger_of st)) \<and>
    commit (ledger_of st) ws (tok_key code) =
      Some (marshal_Token (token\<lparr>tok_Supply := tok_Supply token - ?m, tok_UpdatedTime := Some ts\<rparr>))"
    using op id ts lt balances_read [OF f(10)]
    by (cases "bal_Amount bal < amount")
       (auto simp: Burn_def Supply_def Let_def ok_simps key_simps hold_def credit_def min_def)
  then show ?thesis using f ts lt by blast
qed

theorem burn_effect_witness:
  "\<exists>p ws. tokenBurn demo_stub [''PCI'', ''100''] = Success p ws \<and>
     commit (ledger_of demo_stub) ws (tok_key ''PCI'') = Some (marshal_Token
       (demo_token\<lparr>tok_Supply := 1400, tok_UpdatedTime := Some (GoTime 1600000000000000005)\<rparr>))"
proof -
  obtain p ws where r: "tokenBurn demo_stub [''PCI'', ''100''] = Success p ws" "ws \<noteq> []"
    using demo_tokenBurn_run by blast
  from burn_effect [OF demo_world r] r(1) show ?thesis by (fastforce simp: demo demo_knt)
qed

end
