(* ===== verification/Props_Access.thy ===== *)
theory Props_Access
  imports Example_Runs
begin

text \<open>Signers, contracts, suspension and the holders of joint accounts.\<close>

subsection \<open>Signers\<close>

lemma other_holder_signs:
  assumes "k \<in> set (jac_Holders j)" and "k \<noteq> kid"
  shows "1 < set_size (base_signers kid (JAC j))"
proof -
  let ?s = "base_signers kid (JAC j)"
  have "{kid, k} \<subseteq> set ?s" using assms by (auto simp: base_signers_def)
  then have "card {kid, k} \<le> card (set ?s)" by (intro card_mono) simp_all
  then show ?thesis using assms(2) by (simp add: set_size_card)
qed

lemma opts_signers_mono:
  "transfer_opts st tok kid sender ps = Inr opts \<Longrightarrow>
   set (base_signers kid sender) \<subseteq> set (so_signers opts) \<and> distinct (so_signers opts)"
  by (auto simp: transfer_opts_def extra_signers_def Let_def ok_simps split: if_splits dest!: add_signers_mono)

text \<open>C8: one holder alone cannot spend from a joint account: when it has another holder, a transfer from
  it only holds the amount and the fee, and a contract with all the holders as signers is created.\<close>

theorem joint_transfer_held:
  assumes "world_ok st" and "transfer st ps = Success p ws"
    and R: "transfer_ready st ps kid amount fee sAddr rAddr (JAC j) receiver sBal rBal opts"
    and K: "k \<in> set (jac_Holders j)" "k \<noteq> kid"
  shows "balances (commit (ledger_of st) ws) = hold (ai_GetID (JAC j)) (amount + fee) (balances (ledger_of st)) \<and>
    insert kid (set (jac_Holders j)) \<subseteq> set (so_signers opts) \<and>
    (\<exists>doc con. create_contract st doc (so_expiry opts) (so_signers opts) = Inr con)"
proof -
  have o: "transfer_opts st (addr_Code rAddr) kid (JAC j) ps = Inr opts" using R by (simp add: transfer_ready_def)
  have s: "insert kid (set (jac_Holders j)) \<subseteq> set (so_signers opts)" and d: "distinct (so_signers opts)"
    using opts_signers_mono [OF o] by (auto simp: base_signers_def)
  have "card {kid, k} \<le> card (set (so_signers opts))" using s K by (intro card_mono) auto
  then have m: "1 < set_size (so_signers opts)" using d K(2) by (simp add: set_size_card)
  have "\<exists>doc con. create_contract st doc (so_expiry opts) (so_signers opts) = Inr con"
    using assms(2) transfer_ready_send [OF R transfer_length [OF assms(2)]] m
    by (auto simp: transfer_send_def Let_def ok_simps)
  then show ?thesis using transfer_held(1) [OF assms(1,2) R m] s by blast
qed

theorem joint_transfer_held_witness:
  "\<exists>p ws. transfer demo_stub [addrJ, addrB, ''100''] = Success p ws \<and>
     balances (commit (ledger_of demo_stub) ws) = hold addrJ 101 (balances (ledger_of demo_stub))"
proof -
  obtain p ws where r: "transfer demo_stub [addrJ, addrB, ''100''] = Success p ws" using joint_transfer by blast
  have "kidB \<in> set (jac_Holders demo_joint)" "kidB \<noteq> kidA" by (simp_all add: demo_joint_def demo)
  from joint_transfer_held [OF demo_world r joint_ready this] r show ?thesis by (auto simp: demo)
qed



subsection \<open>Contracts\<close>

text \<open>C21: only the contract chaincode can execute or cancel a contract.\<close>

theorem callback_guard:
  assumes "Invoke st = Success p ws" and "st_function st \<in> {''contract/execute'', ''contract/cancel''}"
  shows "st_ccid st = Inr ''kiesnet-contract'' \<or> st_ccid st = Inr ''kiesnet-cc-contract''"
  using assms
  by (auto simp: Invoke_def routes_def contractExecute_def contractCancel_def contractCallback_def ok_simps)

theorem callback_guard_witness:
  "\<exists>st p ws. Invoke st = Success p ws \<and> st_function st = ''contract/cancel'' \<and> st_ccid st = Inr ''kiesnet-contract''"
proof -
  let ?st = "demo_stub\<lparr>st_function := ''contract/cancel'', st_params := [''con'', ''doc''],
    st_json := (\<lambda>s. Inr (JArr [JStr ''token/mint'']))\<rparr>"
  have k: "get_kid ?st b = Inr kidA" for b by (simp add: get_kid_def kid_cc_def demo demo_invoke_def)
  have c: "st_ccid ?st = Inr ''kiesnet-contract''" by (simp add: demo)
  have r: "Invoke ?st = Success NoPayload []"
    using k [of True] c
    by (simp add: Invoke_def routes_def contractCancel_def contractCallback_def json_array_def doc_str_def as_string_def
        ctr_lookup_def ctrRoutes_def contractVoid_def)
  have "st_function ?st \<in> {''contract/execute'', ''contract/cancel''}" by simp
  from callback_guard [OF r this] r c show ?thesis by (intro exI [of _ ?st]) auto
qed

lemma ctr_money:
  "d \<in> {''transfer'', ''pay'', ''wrap''} \<Longrightarrow>
   ctr_lookup d = [cancelTransfer, if d = ''transfer'' then executeTransfer else if d = ''pay'' then executePay else executeWrap]"
  by (auto simp: ctr_lookup_def ctrRoutes_def)

text \<open>C20: what a contract holds is used once, and by that contract only.  A callback of a transfer, pay or
  wrap contract finds a pending balance of this very contract, and removes it.\<close>

theorem contract_uses_its_own:
  assumes "keyed (ledger_of st)" and "fresh st" and "contractCallback st n ps = Success p ws"
    and "st_json st (ps ! 1) = Inr (JArr (JStr d # JStr i # doc))" and "d \<in> {''transfer'', ''pay'', ''wrap''}"
  shows "\<exists>pb. GetPendingBalance st i = Inr pb \<and> pb_Type pb = PendingBalanceTypeContract \<and> pb_RID pb = ps ! 0 \<and>
    commit (ledger_of st) ws (pb_key i) = None"
proof -
  let ?doc = "JStr d # JStr i # doc"
  have ne: "pb_key i \<noteq> pb_key (st_txid st)" if "GetPendingBalance st i = Inr pb" for pb
    using that fresh_simps(1) [OF assms(2)]
    by (auto dest!: pending_store.get_Inr_ledger)
  have "n < 2" "(ctr_lookup d ! n) st (ps ! 0) ?doc = Success p ws"
    using assms(3,4) ctr_money [OF assms(5)]
    by (auto simp: contractCallback_def json_array_def doc_str_def as_string_def Let_def ok_simps split: if_splits)
  then have "cancelTransfer st (ps ! 0) ?doc = Success p ws \<or> executeTransfer st (ps ! 0) ?doc = Success p ws \<or>
    executePay st (ps ! 0) ?doc = Success p ws \<or> executeWrap st (ps ! 0) ?doc = Success p ws"
    using ctr_money [OF assms(5)] by (auto simp: less_2_cases_iff split: if_splits)
  then obtain pb where pb: "GetPendingBalance st i = Inr pb" "pb_Type pb = PendingBalanceTypeContract" "pb_RID pb = ps ! 0"
    and w: "(\<exists>l. Withdraw st [] pb = Inr (l, ws)) \<or> (\<exists>s r t. TransferPendingBalance st [] pb s r t = Inr ws) \<or>
      (\<exists>s f m oid o' x. PayPendingBalance st [] pb s f m oid o' = Inr (x, ws)) \<or>
      (\<exists>s c e m oid x. WrapPendingBalance st [] pb s c e m oid = Inr (x, ws))"
    by (elim disjE)
       (simp add: cancelTransfer_def executeTransfer_def executePay_def executeWrap_def doc_str_def as_string_def
         case_sum_Success case_prod_Success if_Failure_Success; blast)+
  have "pb_DOCTYPEID pb = i" using keyed_reads(2) [OF assms(1) pb(1)] .
  then have "commit (ledger_of st) ws (pb_key i) = None"
    using w ne [OF pb(1)]
    by (elim disjE exE)
       (auto simp: Withdraw_def TransferPendingBalance_def PayPendingBalance_def WrapPendingBalance_def Let_def ok_simps)
  then show ?thesis using pb by blast
qed

theorem contract_uses_its_own_witness:
  "\<exists>L ws. commit L ws (pb_key ''tx1'') = None \<and> L (pb_key ''tx1'') \<noteq> None"
proof -
  obtain p l where T: "transfer demo_stub (multi_ps []) = Success p (multi_writes [] l)" using multi_transfer by blast
  let ?L = "commit (ledger_of demo_stub) (multi_writes [] l)"
  have k: "keyed (ledger_of (later [] ?L))" and s: "1 < set_size (so_signers (multi_opts []))"
    using transfer_held(3) [OF demo_world T multi_ready] by (simp_all add: multi_fields set_size_def)
  obtain p2 ws2 where C: "contractCallback (later [] ?L) 0 [''con1'', []] = Success p2 ws2"
    using multi_cancel [OF refl, unfolded contractCancel_def] by blast
  have "\<exists>pb. GetPendingBalance (later [] ?L) ''tx1'' = Inr pb \<and> pb_Type pb = PendingBalanceTypeContract \<and>
      pb_RID pb = [''con1'', []] ! 0 \<and> commit (ledger_of (later [] ?L)) ws2 (pb_key ''tx1'') = None"
    by (rule contract_uses_its_own [OF k later_fresh [OF refl] C, of "''transfer''"])
       (simp_all add: multi_doc_def transfer_doc_def)
  then show ?thesis by (intro exI [of _ ?L] exI [of _ ws2]) (auto simp: multi_writes_def key_simps)
qed

subsection \<open>Suspension and holders\<close>




lemma set_unmarshal_distinct: "set_unmarshal s j = Inr hs \<Longrightarrow> distinct s \<Longrightarrow> distinct hs"
  by (cases "(s, j)" rule: set_unmarshal.cases) (auto simp: map_sum_Inr)

lemma unmarshal_distinct: "unmarshal_JointAccount j = Inr jac \<Longrightarrow> distinct (jac_Holders jac)"
  by (cases j) (auto simp: unmarshal_JointAccount_def dec_JointAccount_def dec_struct_def case_sum_Inr
      split: option.splits dest: set_unmarshal_distinct)

lemma holders_distinct: "GetAccount st addr = Inr (JAC jac) \<Longrightarrow> distinct (jac_Holders jac)"
  by (auto simp: GetAccount_Inr unmarshal_distinct)

lemma validated_joint:
  "getValidatedAccountHolderParameters st ps = Inr (jac, taddr) \<Longrightarrow> \<exists>addr. GetAccount st addr = Inr (JAC jac)"
  by (auto simp: getValidatedAccountHolderParameters_def case_sum_Inr if_Inl_Inr split: if_splits AccountI.splits)
     (metis AccountI.exhaust)

lemma RemoveHolder_puts:
  assumes "RemoveHolder st [] jac k = Inr (j, ws)" and "distinct (jac_Holders jac)" and "Put (acc_key i) v \<in> set ws"
  shows "v = marshal_JointAccount st j \<and> set (jac_Holders j) = set (jac_Holders jac) - {k} \<and>
    set_size (jac_Holders jac) = set_size (jac_Holders j) + 1"
proof -
  have "k \<in> set (jac_Holders jac)" "jac_Holders j = set_remove (jac_Holders jac) k" "v = marshal_JointAccount st j"
    using assms(1,3) by (auto simp: RemoveHolder_def touch_def set_contains_def Let_def ok_simps)
  then show ?thesis
    using assms(2) card.remove [of "set (jac_Holders jac)" k] by (simp add: set_size_card)
qed

lemma AddHolder_puts:
  assumes "AddHolder st [] jac k = Inr (j, ws)" and "Put (acc_key i) v \<in> set ws"
  shows "v = marshal_JointAccount st j \<and> set (jac_Holders j) = insert k (set (jac_Holders jac)) \<and>
    set_size (jac_Holders j) = set_size (jac_Holders jac) + 1"
  using assms
  by (auto simp: AddHolder_def touch_def NewHolder_def set_contains_def set_size_def set_add_def Let_def ok_simps key_simps)

text \<open>C28: the holders of a joint account stay between two and 128: whatever removes a holder leaves at least
  two, and the callback that adds one leaves at most 128.\<close>

theorem holder_bounds:
  assumes "Put (acc_key i) v \<in> set ws"
  shows "(accountHolderRemove st ps = Success p ws \<or> executeAccountHolderRemove st cid doc = Success p ws \<longrightarrow>
      (\<exists>jac. v = marshal_JointAccount st jac \<and> 2 \<le> set_size (jac_Holders jac))) \<and>
    (executeAccountHolderAdd st cid doc = Success p ws \<longrightarrow>
      (\<exists>jac. v = marshal_JointAccount st jac \<and> set_size (jac_Holders jac) \<le> 128))"
proof (intro conjI impI)
  assume "accountHolderRemove st ps = Success p ws \<or> executeAccountHolderRemove st cid doc = Success p ws"
  then obtain addr jac k j where "GetAccount st addr = Inr (JAC jac)" "3 \<le> set_size (jac_Holders jac)"
    and "RemoveHolder st [] jac k = Inr (j, ws)"
  proof
    assume "accountHolderRemove st ps = Success p ws"
    then obtain jac taddr k j where "getValidatedAccountHolderParameters st ps = Inr (jac, taddr)"
      "3 \<le> set_size (jac_Holders jac)" "RemoveHolder st [] jac k = Inr (j, ws)"
      using assms
      by (auto simp: accountHolderRemove_def responseAccountWithBalanceState_def Let_def ok_simps not_less
          if_cases_Success dest!: invokeContract_Success)
    then show ?thesis using that validated_joint by blast
  next
    assume "executeAccountHolderRemove st cid doc = Success p ws"
    then show ?thesis using that by (auto simp: executeAccountHolderRemove_def ok_simps not_less)
  qed
  with RemoveHolder_puts [OF _ holders_distinct assms]
  show "\<exists>jac. v = marshal_JointAccount st jac \<and> 2 \<le> set_size (jac_Holders jac)" by fastforce
next
  assume "executeAccountHolderAdd st cid doc = Success p ws"
  then obtain jac k j where "set_size (jac_Holders jac) \<le> 127" "AddHolder st [] jac k = Inr (j, ws)"
    by (auto simp: executeAccountHolderAdd_def ok_simps not_less)
  with AddHolder_puts [OF _ assms]
  show "\<exists>jac. v = marshal_JointAccount st jac \<and> set_size (jac_Holders jac) \<le> 128" by fastforce
qed

theorem holder_bounds_witness:
  "\<exists>p ws jac. executeAccountHolderAdd demo_stub [] [JNull, JStr addrJ, JStr ''cc''] = Success p ws \<and>
     set_size (jac_Holders jac) \<le> 128 \<and> Put (acc_key addrJ) (marshal_JointAccount demo_stub jac) \<in> set ws"
proof -
  obtain p ws v where r: "executeAccountHolderAdd demo_stub [] [JNull, JStr addrJ, JStr ''cc''] = Success p ws"
    and v: "Put (acc_key addrJ) v \<in> set ws" using demo_holder_add by blast
  obtain jac where "v = marshal_JointAccount demo_stub jac" "set_size (jac_Holders jac) \<le> 128"
    using holder_bounds [OF v, THEN conjunct2, THEN mp, OF r] by blast
  with r v show ?thesis by (intro exI [of _ p] exI [of _ ws] exI [of _ jac] conjI) simp_all
qed

end
