(* ===== verification/Props_Bridge.thy ===== *)
theory Props_Bridge
  imports Example_Runs
begin

text \<open>Tokens that leave for another chain and come back.\<close>

text \<open>C24: a wrap takes the amount from an account its invoker holds, at once or into a pending balance; an
  instant wrap leaves a record with the amount that waits for its completion.\<close>

theorem wrap_effect:
  assumes "world_ok st" and "wrap st ps = Success p ws"
  shows "\<exists>kid sAddr sender sBal amount. get_kid st True = Inr kid \<and> GetAccount st sAddr = Inr sender \<and>
    ai_HasHolder sender kid = Inr True \<and> NewAmount (ps ! 3) = Inr amount \<and> 0 < amount \<and>
    GetBalance st (ai_GetID sender) = Inr sBal \<and> amount \<le> bal_Amount sBal \<and>
    balances (commit (ledger_of st) ws) = hold (ai_GetID sender) amount (balances (ledger_of st)) \<and>
    ((\<exists>pb. commit (ledger_of st) ws (pb_key (st_txid st)) = Some (marshal_PendingBalance pb) \<and> pb_Amount pb = amount) \<or>
     (\<exists>w. commit (ledger_of st) ws (wrap_key (st_txid st)) = Some (marshal_Wrap w) \<and> wr_Amount w = amount \<and>
        wr_Address w = ai_GetID sender \<and> wr_CompleteTxID w = []))"
  using assms(2)
proof (cases rule: wrapE)
  case (multi kid sAddr sender sBal con amount memo oid log)
  have id: "bal_DOCTYPEID sBal = ai_GetID sender" using read_ids(2) [OF assms(1) multi(1)] .
  have "\<exists>pb. commit (ledger_of st) ws (pb_key (st_txid st)) = Some (marshal_PendingBalance pb) \<and> pb_Amount pb = amount"
    using multi(2) by (auto simp: Deposit_def NewPendingBalance_def Let_def ok_simps key_simps)
  moreover have "balances (commit (ledger_of st) ws) = hold (ai_GetID sender) amount (balances (ledger_of st))"
    using Deposit_balances [OF multi(2) balance_read [OF assms(1) multi(1)]] id by (simp add: applied_def)
  ultimately show ?thesis using multi by blast
next
  case (instant kid sAddr sender sBal amount memo oid log ec ei)
  have id: "bal_DOCTYPEID sBal = ai_GetID sender" using read_ids(2) [OF assms(1) instant(1)] .
  have "\<exists>w. commit (ledger_of st) ws (wrap_key (st_txid st)) = Some (marshal_Wrap w) \<and> wr_Amount w = amount \<and>
      wr_Address w = ai_GetID sender \<and> wr_CompleteTxID w = []"
    using instant(2) id by (auto simp: WrapOp_def Let_def ok_simps key_simps)
  moreover have "balances (commit (ledger_of st) ws) = hold (ai_GetID sender) amount (balances (ledger_of st))"
    using WrapOp_balances [OF instant(2) balance_read [OF assms(1) instant(1)]] id by simp
  ultimately show ?thesis using instant by blast
qed

theorem wrap_effect_witness:
  "\<exists>p ws acc. wrap demo_stub wrap_ps = Success p ws \<and> ai_HasHolder acc kidA = Inr True \<and>
     balances (commit (ledger_of demo_stub) ws) = hold (ai_GetID acc) 100 (balances (ledger_of demo_stub))"
proof -
  obtain p ws where r: "wrap demo_stub wrap_ps = Success p ws" using demo_wrap_run by blast
  have "NewAmount (wrap_ps ! 3) = Inr 100" by (simp add: wrap_ps_def demo)
  with wrap_effect [OF demo_world r] r show ?thesis by (fastforce simp: demo)
qed

text \<open>C25: completing a wrap.  Only a holder of the wrap account of the token's bridge completes a wrap, a
  completed one is refused, and the wrapped amount less the fee is credited to the wrap account; the
  record is completed by a non-empty transaction id.\<close>

theorem wrap_complete_effect:
  assumes "world_ok st" and "wrapComplete st ps = Success p ws"
  shows "\<exists>kid w token wAddr wrapper fee tx. get_kid st True = Inr kid \<and> GetWrap st (ps ! 0) = Inr w \<and>
    wr_CompleteTxID w = [] \<and> GetToken st (tcode (wr_Address w)) = Inr token \<and>
    GetWrapAddress st token (wr_ExtCode w) = Inr wAddr \<and> GetAccount st wAddr = Inr wrapper \<and>
    ai_HasHolder wrapper kid = Inr True \<and> \<not> ai_IsSuspended wrapper \<and>
    complete_fee ps = Inr fee \<and> 0 \<le> fee \<and> fee < wr_Amount w \<and>
    balances (commit (ledger_of st) ws) = credit (ai_GetID wrapper) (wr_Amount w - fee) (balances (ledger_of st)) \<and>
    tx \<noteq> [] \<and> commit (ledger_of st) ws (wrap_key (ps ! 0)) = Some (marshal_Wrap (w\<lparr>wr_CompleteTxID := tx\<rparr>))"
proof -
  obtain kid w token wAddr wrapper wBal fee t log where f: "get_kid st True = Inr kid" "GetWrap st (ps ! 0) = Inr w"
    "GetToken st (tcode (wr_Address w)) = Inr token"
    "GetWrapAddress st token (wr_ExtCode w) = Inr wAddr" "GetAccount st wAddr = Inr wrapper"
    "ai_HasHolder wrapper kid = Inr True" "\<not> ai_IsSuspended wrapper"
    and fee: "complete_fee ps = Inr fee" and b: "GetBalance st (ai_GetID wrapper) = Inr wBal"
    and op: "WrapComplete st [] w wBal fee t = Inr (log, ws)"
    using assms(2) by (auto simp: wrapComplete_def Let_def ParseCode_tcode ok_simps split: if_splits)
  have c: "wr_CompleteTxID w = []" "fee < wr_Amount w" and ne: "wr_DOCTYPEID w = ps ! 0" "ps ! 0 \<noteq> []"
    using op read_ids(5) [OF assms(1) f(2)] by (auto simp: WrapComplete_def Let_def case_sum_Inr if_Inl_Inr split: if_splits)
  let ?tx = "if t \<noteq> [] then t else ps ! 0"
  have "commit (ledger_of st) ws (wrap_key (ps ! 0)) = Some (marshal_Wrap (w\<lparr>wr_CompleteTxID := ?tx\<rparr>))"
    using op ne by (auto simp: WrapComplete_def Let_def ok_simps key_simps split: if_splits)
  moreover have "?tx \<noteq> []" using ne by simp
  moreover have "0 \<le> fee" using fee by (auto simp: complete_fee_def ok_simps not_less split: if_splits sum.splits)
  moreover have "balances (commit (ledger_of st) ws) = credit (ai_GetID wrapper) (wr_Amount w - fee) (balances (ledger_of st))"
    using WrapComplete_balances [OF op balance_read [OF assms(1) b]] read_ids(2) [OF assms(1) b] by simp
  ultimately show ?thesis using f c fee by blast
qed

theorem wrap_complete_effect_witness:
  "\<exists>p ws. wrapComplete demo_stub [''txw''] = Success p ws \<and>
     balances (commit (ledger_of demo_stub) ws) addrG = Some 530"
proof -
  obtain p ws where r: "wrapComplete demo_stub [''txw''] = Success p ws" using demo_wrapComplete_run by blast
  have "complete_fee [''txw''] = Inr 0" by (simp add: complete_fee_def)
  with wrap_complete_effect [OF demo_world r] r show ?thesis by (fastforce simp: demo credit_def)
qed



end
