(* ===== verification/Props_Codec.thy ===== *)
theory Props_Codec
  imports Prune_Marks
begin

text \<open>Addresses, documents, identifiers and fees: round trips and bounds.\<close>

subsection \<open>Addresses and documents\<close>



text \<open>A personal account has one holder, the invoker it was made for.\<close>

theorem personal_account_holder:
  assumes "shake_ok st" and "keyed (ledger_of st)" and "kid_ok kid" and "token_code_ok code"
    and "GetAccount st (NewAddress st code AccountTypePersonal kid) = Inr acc"
  shows "ai_HasHolder acc kid' = Inr (kid' = kid)"
proof -
  obtain a where a: "acc = PAC a" using assms(5) by (auto simp: GetAccount_Inr account_types)
  have "acc_DOCTYPEID a = addr_String (NewAddress st code AccountTypePersonal kid)"
    using keyed_account [OF assms(2,5)] a by simp
  from acc_Holder_NewAddress [OF assms(3,1,4) this] show ?thesis using a by auto
qed

theorem personal_account_holder_witness:
  "ai_HasHolder (PAC (demo_personal addrA)) kidB = Inr False"
proof -
  have "kid_ok kidA" "token_code_ok ''PCI''" by code_simp+
  from personal_account_holder [OF _ demo_keyed this demo_accounts(1), of kidB] show ?thesis by (simp add: demo)
qed



subsection \<open>Identifiers\<close>

text \<open>The time in an identifier.  The id of a fee or a pay begins with the time of its transaction, and
  the start of the next prune is that time again, from 2001 to 2262.\<close>

theorem id_time_roundtrip:
  assumes "10 ^ 18 \<le> nanos ts" and "nanos ts < 2 ^ 63"
  shows "id_time (fee_id ts txid) = Inr ts"
  using assms by (rule id_time_fee_id)

theorem id_time_roundtrip_witness:
  "id_time (fee_id (GoTime 1600000000000000005) ''tx1'') = Inr (GoTime 1600000000000000005)"
  by (rule id_time_roundtrip) simp_all

subsection \<open>Fees\<close>



text \<open>A fee policy that parses can be charged: its operations are transfer and pay, without repetition,
  and every rate is a rational number.\<close>

theorem fee_policy_chargeable:
  assumes "ParseFeePolicy s = Inr policy"
  shows "distinct (map fst (fp_Rates policy)) \<and> fst ` set (fp_Rates policy) \<subseteq> {''transfer'', ''pay''} \<and>
    (\<forall>fr\<in>snd ` set (fp_Rates policy). \<exists>r. rat_set_string (fr_Rate fr) = Some r \<and> 0 < rat_denom r)"
  using ParseFeePolicy_valid [OF assms] rat_set_string_denom_pos
  by (fastforce simp: rates_valid_def isValidFn_def)

theorem fee_policy_chargeable_witness:
  "\<exists>policy. ParseFeePolicy ''transfer=0.015;pay=3/100'' = Inr policy \<and> distinct (map fst (fp_Rates policy))"
proof -
  have r: "ParseFeePolicy ''transfer=0.015;pay=3/100'' = Inr \<lparr>fp_TargetAddress = [],
      fp_Rates = [(''transfer'', \<lparr>fr_Rate = ''0.015'', fr_MaxAmount = 0\<rparr>), (''pay'', \<lparr>fr_Rate = ''3/100'', fr_MaxAmount = 0\<rparr>)]\<rparr>"
    by code_simp
  from fee_policy_chargeable [OF r] r show ?thesis by blast
qed

end
