(* ===== verification/Time_Text.thy ===== *)
theory Time_Text
  imports CcPkg "HOL-Library.Char_ord" "HOL-Library.List_Lexorder"
begin

text \<open>
  The text of times: \<open>Time.String\<close> and \<open>Parse\<close> of \<open>txtime\<close> on the fixed-width layout
  \<open>2006-01-02T15:04:05.000000000Z\<close>, with what they use of package \<open>time\<close>: the calendar, padded
  fields and the parser of the layout.  A \<open>txtime\<close> time is shown in the zone of the peer, whose
  distance from UTC in seconds is the parameter \<open>zone\<close>, behind a literal \<open>Z\<close>; what is read is
  taken for UTC.  The main facts: in UTC a time is read back as it was written, and the texts
  are ordered as the times are, which is what the range queries of \<open>queries.go\<close> compare.
\<close>

subsection \<open>The calendar\<close>

text \<open>
  Days are counted from the Unix epoch.  Years begin in March here, so that the leap day is
  the last day of its year; \<open>civil\<close> turns the year and the month back.
\<close>

definition year_start :: "int \<Rightarrow> int" where
  "year_start y = 365 * y + y div 4 - y div 100 + y div 400 - 719468"

definition month_start :: "int \<Rightarrow> int" where
  "month_start m = (153 * m + 2) div 5"

definition march_year :: "int \<Rightarrow> int \<times> int" where
  "march_year z =
     (let e = z + 719468; doe = e mod 146097; c = min 3 (doe div 36524); r = doe - 36524 * c;
          s = r mod 1461; n = min 3 (s div 365)
      in (400 * (e div 146097) + 100 * c + 4 * (r div 1461) + n, s - 365 * n))"

definition civil :: "int \<Rightarrow> int \<times> int \<times> int" where
  "civil z =
     (case march_year z of (y, doy) \<Rightarrow>
      let m = (5 * doy + 2) div 153; d = doy - month_start m + 1
      in if m < 10 then (y, m + 3, d) else (y + 1, m - 9, d))"

definition day_number :: "int \<Rightarrow> int \<Rightarrow> int \<Rightarrow> int" where
  "day_number y m d = year_start (if m \<le> 2 then y - 1 else y) + month_start ((m + 9) mod 12) + d - 1"

definition leap :: "int \<Rightarrow> bool" where
  "leap y \<longleftrightarrow> y mod 4 = 0 \<and> (y mod 100 \<noteq> 0 \<or> y mod 400 = 0)"

definition days_in :: "int \<Rightarrow> int \<Rightarrow> int" where
  "days_in y m = (if m = 2 then (if leap y then 29 else 28) else if m \<in> {4, 6, 9, 11} then 30 else 31)"

lemma euclid:
  assumes "(0::int) < k"
  obtains q r where "x div k = q" "x mod k = r" "x = k * q + r" "0 \<le> r" "r < k"
  using that [OF refl refl] assms by simp

lemma div_succ:
  assumes "(0::int) < k"
  shows "(x + 1) div k = x div k + (if (x + 1) mod k = 0 then 1 else 0)"
proof -
  obtain q r where qr: "x div k = q" "x mod k = r" "x = k * q + r" "0 \<le> r" "r < k" using assms by (rule euclid)
  show ?thesis
  proof (cases "r = k - 1")
    case True
    then have "x + 1 = k * (q + 1) + 0" using qr(3) by (simp add: distrib_left)
    then have "(x + 1) div k = q + 1" "(x + 1) mod k = 0"
      using assms int_div_pos_eq [of "x + 1" k "q + 1" 0] int_mod_pos_eq [of "x + 1" k "q + 1" 0] by auto
    then show ?thesis using qr(1) by simp
  next
    case False
    then have "(x + 1) div k = q" "(x + 1) mod k = r + 1"
      using qr int_div_pos_eq [of "x + 1" k q "r + 1"] int_mod_pos_eq [of "x + 1" k q "r + 1"] by auto
    then show ?thesis using qr(1,4) by simp
  qed
qed

lemma year_start_parts:
  assumes "0 \<le> c" "c \<le> 3" "0 \<le> q" "q \<le> 24" "0 \<le> n" "n \<le> 3"
  shows "year_start (400 * a + 100 * c + 4 * q + n) = 146097 * a + 36524 * c + 1461 * q + 365 * n - 719468"
proof -
  have "(400 * a + 100 * c + 4 * q + n) div 4 = 100 * a + 25 * c + q"
    using assms by (intro int_div_pos_eq [of _ _ _ n]) auto
  moreover have "(400 * a + 100 * c + 4 * q + n) div 100 = 4 * a + c"
    using assms by (intro int_div_pos_eq [of _ _ _ "4 * q + n"]) auto
  moreover have "(400 * a + 100 * c + 4 * q + n) div 400 = a"
    using assms by (intro int_div_pos_eq [of _ _ _ "100 * c + 4 * q + n"]) auto
  ultimately show ?thesis by (simp add: year_start_def)
qed

lemma leap_count:
  assumes "r \<longrightarrow> q" and "q \<longrightarrow> p"
  shows "(if p then 1 else 0) - (if q then 1 else 0) + (if r then 1 else 0) = (if p \<and> (\<not> q \<or> r) then 1 else (0::int))"
  using assms by (cases p; cases q; cases r; simp)

lemma year_sum:
  "a' = a + i \<Longrightarrow> b' = b + j \<Longrightarrow> c' = c + k \<Longrightarrow>
   365 * (y + 1) + a' - b' + c' - d = 365 * y + a - b + c - d + 365 + (i - j + (k::int))"
  by simp

lemma year_start_leap: "year_start (y + 1) = year_start y + (if leap (y + 1) then 366 else 365)"
proof -
  have m: "x mod 400 = 0 \<Longrightarrow> x mod 100 = 0" "x mod 100 = 0 \<Longrightarrow> x mod 4 = 0" for x :: int
    using mod_mod_cancel [of 100 400 x] mod_mod_cancel [of 4 100 x] by simp_all
  have count: "(if (y + 1) mod 4 = 0 then 1 else 0) - (if (y + 1) mod 100 = 0 then 1 else 0) +
      (if (y + 1) mod 400 = 0 then 1 else 0) = (if leap (y + 1) then 1 else (0::int))"
    unfolding leap_def by (intro leap_count impI) (rule m, assumption)+
  have "year_start (y + 1) = year_start y + 365 + (if leap (y + 1) then 1 else 0)"
    unfolding count [symmetric] year_start_def
    by (rule year_sum) (rule div_succ, simp)+
  then show ?thesis by (simp only: split: if_split) simp
qed

lemma march_year:
  assumes "march_year z = (y, doy)"
  shows "year_start y + doy = z" "0 \<le> doy" "z < year_start (y + 1)"
proof -
  define e where "e = z + 719468"
  define a where "a = e div 146097"
  define x where "x = e mod 146097"
  define c where "c = min 3 (x div 36524)"
  define r where "r = x - 36524 * c"
  define q where "q = r div 1461"
  define s where "s = r mod 1461"
  define n where "n = min 3 (s div 365)"
  have "march_year z = (400 * a + 100 * c + 4 * q + n, s - 365 * n)"
    by (simp only: march_year_def Let_def a_def x_def c_def r_def q_def s_def n_def e_def)
  then have y: "y = 400 * a + 100 * c + 4 * q + n" and doy: "doy = s - 365 * n" using assms by simp_all
  have z: "z = 146097 * a + 36524 * c + r - 719468" and rs: "r = 1461 * q + s"
    using div_mult_mod_eq [of e 146097] div_mult_mod_eq [of r 1461]
    unfolding a_def [symmetric] x_def [symmetric] q_def [symmetric] s_def [symmetric]
    by (simp_all only: r_def e_def)
  have x: "0 \<le> x" "x < 146097" unfolding x_def by (rule pos_mod_sign pos_mod_bound, simp)+
  obtain k m where k: "x div 36524 = k" "x = 36524 * k + m" "0 \<le> m" "m < 36524" by (rule euclid [of 36524 x]) simp
  have c: "0 \<le> c" "c \<le> 3" and r: "0 \<le> r" "r \<le> 36524" "c < 3 \<Longrightarrow> r < 36524"
    using x k(2-4) unfolding r_def c_def k(1) by linarith+
  obtain q' s' where q': "r div 1461 = q'" "r mod 1461 = s'" "r = 1461 * q' + s'" "0 \<le> s'" "s' < 1461"
    by (rule euclid [of 1461 r]) simp
  have q: "0 \<le> q" "q \<le> 24" and s: "0 \<le> s" "s \<le> 1460"
    using r q'(3-5) unfolding q_def s_def q'(1,2) by linarith+
  obtain n' t where n': "s div 365 = n'" "s = 365 * n' + t" "0 \<le> t" "t < 365" by (rule euclid [of 365 s]) simp
  have n: "0 \<le> n" "n \<le> 3" "0 \<le> doy" "doy \<le> 365" "n < 3 \<Longrightarrow> doy < 365"
    using s n'(2-4) unfolding doy n_def n'(1) by linarith+
  show eq: "year_start y + doy = z" using year_start_parts [OF c q n(1,2), of a] z rs doy y by simp
  show "0 \<le> doy" by fact
  consider "n < 3" | "n = 3" "q < 24" | "n = 3" "q = 24" "c < 3" | "n = 3" "q = 24" "c = 3"
    using n(2) q(2) c(2) by linarith
  then show "z < year_start (y + 1)"
  proof cases
    case 1
    then show ?thesis
      using year_start_parts [OF c q, of "n + 1" a] year_start_parts [OF c q n(1,2), of a] n eq y by (simp add: algebra_simps)
  next
    case 2
    then show ?thesis
      using year_start_parts [OF c, of "q + 1" 0 a] year_start_parts [OF c q n(1,2), of a] q n eq y by (simp add: algebra_simps)
  next
    case 3
    then have "doy < 365" using r(3) rs doy by simp
    with 3 show ?thesis
      using year_start_parts [of "c + 1" 0 0 a] year_start_parts [OF c q n(1,2), of a] c eq y by (simp add: algebra_simps)
  next
    case 4
    then show ?thesis
      using year_start_parts [of 0 0 0 "a + 1"] year_start_parts [OF c q n(1,2), of a] n eq y by (simp add: algebra_simps)
  qed
qed

text \<open>The first day of a month, with the months counted through the years.\<close>

definition first_day :: "int \<Rightarrow> int" where
  "first_day k = year_start ((k - 2) div 12) + month_start ((k - 2) mod 12)"

lemma first_day_march: "0 \<le> m \<Longrightarrow> m < 12 \<Longrightarrow> first_day (12 * y + m + 2) = year_start y + month_start m"
  by (simp add: first_day_def)

lemma month_start_ge: "x \<le> month_start m \<longleftrightarrow> 5 * x \<le> 153 * m + 2"
proof -
  obtain q r where "(153 * m + 2) div 5 = q" "153 * m + 2 = 5 * q + r" "0 \<le> r" "r < 5" by (rule euclid [of 5]) simp
  then show ?thesis unfolding month_start_def by linarith
qed

lemma month_start_mono:
  assumes "m < m'"
  shows "month_start m < month_start m'"
proof -
  have "5 * month_start m \<le> 153 * m + 2" using month_start_ge [of "month_start m" m] by simp
  with assms have "month_start m + 1 \<le> month_start m'" unfolding month_start_ge [of _ m'] distrib_left by linarith
  then show ?thesis by simp
qed

lemma first_day_Suc: "first_day k < first_day (k + 1)"
proof -
  obtain y m where "k - 2 = 12 * y + m" "0 \<le> m" "m < 12" by (rule euclid [of 12 "k - 2"]) simp
  then have k: "k = 12 * y + m + 2" by simp
  show ?thesis
  proof (cases "m = 11")
    case True
    then show ?thesis
      using first_day_march [of m y] first_day_march [of 0 "y + 1"] k year_start_leap [of y]
      by (auto simp: month_start_def algebra_simps split: if_splits)
  next
    case False
    then show ?thesis
      using first_day_march [of m y] first_day_march [of "m + 1" y] k \<open>0 \<le> m\<close> \<open>m < 12\<close> month_start_mono [of m "m + 1"]
      by (simp add: algebra_simps)
  qed
qed

lemma first_day_mono: "k \<le> k' \<Longrightarrow> first_day k \<le> first_day k'"
proof (induction k' rule: int_ge_induct)
  case (step k')
  then show ?case using first_day_Suc [of k'] by simp
qed simp

lemma civil:
  assumes "civil z = (y, m, d)"
  shows "1 \<le> m" "m \<le> 12" "1 \<le> d" "first_day (12 * y + m - 1) + d - 1 = z" "z < first_day (12 * y + m)"
proof -
  obtain y' doy where md: "march_year z = (y', doy)" by fastforce
  note r = march_year [OF md]
  define m' where "m' = (5 * doy + 2) div 153"
  have "doy \<le> 365" using r year_start_leap [of y'] by (simp split: if_splits)
  moreover obtain b where "5 * doy + 2 = 153 * m' + b" "0 \<le> b" "b < 153"
    unfolding m'_def by (rule euclid [of 153 "5 * doy + 2"]) simp_all
  ultimately have "0 \<le> m'" "m' \<le> 11" "153 * m' + 2 < 5 * (doy + 1)" "5 * (doy + 1) \<le> 153 * (m' + 1) + 2"
    using r(2) unfolding distrib_left by linarith+
  then have m': "0 \<le> m'" "m' \<le> 11" "month_start m' \<le> doy" "doy < month_start (m' + 1)"
    using month_start_ge [of "doy + 1" m'] month_start_ge [of "doy + 1" "m' + 1"] by auto
  have c: "civil z = (if m' < 10 then (y', m' + 3, doy - month_start m' + 1) else (y' + 1, m' - 9, doy - month_start m' + 1))"
    by (simp add: civil_def md Let_def m'_def)
  have d: "d = doy - month_start m' + 1" and k: "12 * y + m - 1 = 12 * y' + m' + 2" and "1 \<le> m \<and> m \<le> 12"
    using c assms m' by (auto split: if_splits)
  then show "1 \<le> m" "m \<le> 12" "1 \<le> d" using m' by auto
  show "first_day (12 * y + m - 1) + d - 1 = z"
    using first_day_march [of m' y'] m' r d unfolding k by simp
  have k': "12 * y + m = 12 * y' + (m' + 1) + 2" using k by simp
  show "z < first_day (12 * y + m)"
  proof (cases "m' = 11")
    case True
    then show ?thesis using first_day_march [of 0 "y' + 1"] r k' by (simp add: algebra_simps month_start_def)
  next
    case False
    then show ?thesis using first_day_march [of "m' + 1" y'] m' r unfolding k' by simp
  qed
qed

lemma day_number_first: "1 \<le> m \<Longrightarrow> m \<le> 12 \<Longrightarrow> day_number y m d = first_day (12 * y + m - 1) + d - 1"
proof -
  assume m: "1 \<le> m" "m \<le> 12"
  show ?thesis
  proof (cases "m \<le> 2")
    case True
    then show ?thesis using m first_day_march [of "m + 9" "y - 1"] by (simp add: day_number_def algebra_simps)
  next
    case False
    then have "(m + 9) mod 12 = m - 3" using m int_mod_pos_eq [of "m + 9" 12 1 "m - 3"] by simp
    then have "day_number y m d = year_start y + month_start (m - 3) + d - 1" using False by (simp add: day_number_def)
    then show ?thesis using False m first_day_march [of "m - 3" y] by (simp add: algebra_simps)
  qed
qed

lemma days_in_first:
  assumes "1 \<le> m" "m \<le> 12"
  shows "first_day (12 * y + m) = first_day (12 * y + m - 1) + days_in y m"
proof -
  have jan: "first_day (12 * y) = year_start (y - 1) + 306" "first_day (12 * y + 1) = year_start (y - 1) + 337"
    using first_day_march [of 10 "y - 1"] first_day_march [of 11 "y - 1"] by (simp_all add: month_start_def algebra_simps)
  have year: "year_start y = year_start (y - 1) + (if leap y then 366 else 365)"
    using year_start_leap [of "y - 1"] by simp
  have mar: "first_day (12 * y + k) = year_start y + month_start (k - 2)" if "2 \<le> k" "k \<le> 12" for k
    using that first_day_march [of "k - 2" y] first_day_march [of "k - 2" y] by simp
  have "m = 1 \<or> m = 2 \<or> m = 3 \<or> m = 4 \<or> m = 5 \<or> m = 6 \<or> m = 7 \<or> m = 8 \<or> m = 9 \<or> m = 10 \<or> m = 11 \<or> m = 12"
    using assms by presburger
  then show ?thesis
    using jan year mar [of 2] mar [of "m - 1"] mar [of m]
    by (elim disjE) (simp_all add: days_in_def month_start_def algebra_simps)
qed

lemma civil_valid:
  assumes "civil z = (y, m, d)"
  shows "day_number y m d = z" "d \<le> days_in y m"
  using civil [OF assms] day_number_first [of m y d] days_in_first [of m y] by simp_all

subsection \<open>Fields of fixed width\<close>

primrec pad :: "nat \<Rightarrow> int \<Rightarrow> string" where
  "pad 0 k = []"
| "pad (Suc n) k = pad n (k div 10) @ [digit_char (nat (k mod 10))]"

lemma length_pad [simp]: "length (pad n k) = n"
  by (induction n arbitrary: k) simp_all

lemma scan_pad: "0 \<le> k \<Longrightarrow> k < 10 ^ n \<Longrightarrow> scan_nat 10 0 (pad n k) = Some (nat k)"
proof (induction n arbitrary: k)
  case (Suc n)
  then have "scan_nat 10 0 (pad n (k div 10)) = Some (nat (k div 10))" by simp
  then have "scan_nat 10 0 (pad (Suc n) k) = Some (nat (k div 10) * 10 + nat (k mod 10))"
    by (simp add: scan_nat_snoc [where d = "nat (k mod 10)"] nat_less_iff)
  moreover have "int (nat (k div 10) * 10 + nat (k mod 10)) = int (nat k)"
    using Suc.prems(1) by (simp add: pos_imp_zdiv_nonneg_iff)
  ultimately show ?case by (simp only: of_nat_eq_iff)
qed simp

lemma parse_pad: "0 < n \<Longrightarrow> 0 \<le> k \<Longrightarrow> k < 10 ^ n \<Longrightarrow> parse_nat 10 (pad n k) = Some (nat k)"
  using scan_pad [of k n] length_pad [of n k] by (auto simp: parse_nat_def simp del: length_pad)

text \<open>Strings are compared byte by byte, so fields of one width compare as their numbers do.\<close>

lemma append_less:
  "length a = length b \<Longrightarrow> a @ c < b @ d \<longleftrightarrow> a < b \<or> a = b \<and> c < (d :: string)"
  by (induction a b rule: list_induct2) (auto simp: list_less_def lexord_cons_cons)

lemma append_same_less: "a @ c < a @ d \<longleftrightarrow> c < (d :: string)"
  by (simp add: append_less)

lemma digit_char_less: "i < 10 \<Longrightarrow> j < 10 \<Longrightarrow> digit_char i < digit_char j \<longleftrightarrow> i < j"
  using byte_of_digit_char [of i] byte_of_digit_char [of j] by (simp add: less_char_def)

lemma pad_less: "0 \<le> j \<Longrightarrow> j < k \<Longrightarrow> k < 10 ^ n \<Longrightarrow> pad n j < pad n k"
proof (induction n arbitrary: j k)
  case (Suc n)
  have k: "0 \<le> k div 10" "k div 10 < 10 ^ n" using Suc.prems by (simp_all add: pos_imp_zdiv_nonneg_iff)
  have digit: "nat (i mod 10) < 10" for i :: int by (simp add: nat_less_iff)
  show ?case
  proof (cases "j div 10 = k div 10")
    case True
    then have "j mod 10 < k mod 10" using Suc.prems(2) div_mult_mod_eq [of j 10] div_mult_mod_eq [of k 10] by linarith
    then have "nat (j mod 10) < nat (k mod 10)" by simp
    then show ?thesis using True digit by (simp add: append_less digit_char_less)
  next
    case False
    then have "j div 10 < k div 10" using zdiv_mono1 [of j k 10] Suc.prems(2) by simp
    then show ?thesis
      using Suc.IH [OF _ _ k(2)] Suc.prems(1) by (simp add: append_less pos_imp_zdiv_nonneg_iff)
  qed
qed simp

subsection \<open>Time.String and Parse\<close>

text \<open>The year has at least four digits and may have a sign; every other field has its width.\<close>

definition year_text :: "int \<Rightarrow> string" where
  "year_text y = (let digits = (\<lambda>k. if k < 10000 then pad 4 k else show_nat (nat k))
     in if y < 0 then CHR ''-'' # digits (- y) else digits y)"

definition clock_text :: "int \<Rightarrow> string" where
  "clock_text s = pad 2 (s div 3600) @ CHR '':'' # pad 2 (s mod 3600 div 60) @ CHR '':'' # pad 2 (s mod 60)"

definition time_text :: "int \<Rightarrow> gotime \<Rightarrow> string" where
  "time_text zone t =
     (let s = nanos t div 10 ^ 9 + zone
      in case civil (s div 86400) of (y, m, d) \<Rightarrow>
         year_text y @ CHR ''-'' # pad 2 m @ CHR ''-'' # pad 2 d @ CHR ''T'' # clock_text (s mod 86400)
         @ CHR ''.'' # pad 9 (nanos t mod 10 ^ 9) @ ''Z'')"

definition is_digit :: "char \<Rightarrow> bool" where
  "is_digit c \<longleftrightarrow> 48 \<le> byte_of c \<and> byte_of c \<le> 57"

text \<open>
  \<open>time.Parse\<close> on the layout: a year of four digits, fields of two digits (the hour may have
  one), a fraction of nine bytes that is an integer, and the range of every field.
\<close>

fun getnum :: "bool \<Rightarrow> string \<Rightarrow> (int \<times> string) option" where
  "getnum fixed [] = None"
| "getnum fixed (c # cs) =
     (if \<not> is_digit c then None
      else case cs of
        d # ds \<Rightarrow> if is_digit d then Some (10 * int (byte_of c - 48) + int (byte_of d - 48), ds)
                  else if fixed then None else Some (int (byte_of c - 48), cs)
      | [] \<Rightarrow> if fixed then None else Some (int (byte_of c - 48), []))"

fun skip_char :: "char \<Rightarrow> string \<Rightarrow> string option" where
  "skip_char x [] = None"
| "skip_char x (c # cs) = (if c = x then Some cs else None)"

definition get_year :: "string \<Rightarrow> (int \<times> string) option" where
  "get_year s = (if length s < 4 \<or> \<not> is_digit (hd s) then None
     else map_option (\<lambda>y. (int y, drop 4 s)) (parse_nat 10 (take 4 s)))"

definition get_fraction :: "string \<Rightarrow> (int \<times> string) option" where
  "get_fraction s = (if length s < 10 \<or> hd s \<noteq> CHR ''.'' then None
     else case set_string10 (take 9 (tl s)) of
       None \<Rightarrow> None | Some n \<Rightarrow> if 0 \<le> n \<and> n < 10 ^ 9 then Some (n, drop 9 (tl s)) else None)"

definition ranged :: "int \<Rightarrow> int \<Rightarrow> (int \<times> 'a) option \<Rightarrow> (int \<times> 'a) option" where
  "ranged lo hi r = (case r of Some (n, s) \<Rightarrow> if lo \<le> n \<and> n \<le> hi then r else None | None \<Rightarrow> None)"

definition parse_time :: "string \<Rightarrow> gotime option" where
  "parse_time s0 =
     (case get_year s0 of None \<Rightarrow> None | Some (y, s) \<Rightarrow>
      case Option.bind (skip_char CHR ''-'' s) (ranged 1 12 \<circ> getnum True) of None \<Rightarrow> None | Some (m, s) \<Rightarrow>
      case Option.bind (skip_char CHR ''-'' s) (getnum True) of None \<Rightarrow> None | Some (d, s) \<Rightarrow>
      case Option.bind (skip_char CHR ''T'' s) (ranged 0 23 \<circ> getnum False) of None \<Rightarrow> None | Some (h, s) \<Rightarrow>
      case Option.bind (skip_char CHR '':'' s) (ranged 0 59 \<circ> getnum True) of None \<Rightarrow> None | Some (mi, s) \<Rightarrow>
      case Option.bind (skip_char CHR '':'' s) (ranged 0 59 \<circ> getnum True) of None \<Rightarrow> None | Some (se, s) \<Rightarrow>
      case get_fraction s of None \<Rightarrow> None | Some (ns, s) \<Rightarrow>
      if s = ''Z'' \<and> 1 \<le> d \<and> d \<le> days_in y m
      then Some (GoTime ((day_number y m d * 86400 + h * 3600 + mi * 60 + se) * 10 ^ 9 + ns)) else None)"

subsection \<open>A time is read back as it was written\<close>

lemma digit_char_is_digit: "n < 10 \<Longrightarrow> is_digit (digit_char n) \<and> byte_of (digit_char n) - 48 = n"
  by (simp add: is_digit_def byte_of_digit_char)

lemma pad_2: "pad 2 k = [digit_char (nat (k div 10 mod 10)), digit_char (nat (k mod 10))]"
  by (simp add: numeral_2_eq_2)

lemma getnum_digits:
  "i < 10 \<Longrightarrow> j < 10 \<Longrightarrow> getnum fixed (digit_char i # digit_char j # s) = Some (10 * int i + int j, s)"
  using digit_char_is_digit [of i] digit_char_is_digit [of j] by simp

lemma getnum_pad:
  assumes "0 \<le> k" "k < 100"
  shows "getnum fixed (pad 2 k @ s) = Some (k, s)"
proof -
  obtain a b where k: "k div 10 = a" "k mod 10 = b" "k = 10 * a + b" "0 \<le> b" "b < 10" by (rule euclid [of 10 k]) simp
  then have a: "0 \<le> a" "a < 10" using assms by linarith+
  then have "a mod 10 = a" by simp
  then have "pad 2 k = [digit_char (nat a), digit_char (nat b)]" unfolding pad_2 k(1,2) by simp
  then show ?thesis using getnum_digits [of "nat a" "nat b" fixed s] a k(3-5) by (simp del: getnum.simps)
qed

lemma ranged_Some [simp]: "lo \<le> n \<Longrightarrow> n \<le> hi \<Longrightarrow> ranged lo hi (Some (n, s)) = Some (n, s)"
  by (simp add: ranged_def)

lemma pad_hd: "0 < n \<Longrightarrow> is_digit (hd (pad n k @ s))"
proof (induction n arbitrary: k s)
  case (Suc n)
  have "nat (k mod 10) < 10" by (simp add: nat_less_iff)
  then show ?case using Suc digit_char_is_digit by (cases "n = 0") auto
qed simp

lemma get_year_text:
  assumes "0 \<le> y" "y \<le> 9999"
  shows "get_year (year_text y @ s) = Some (y, s)"
proof -
  have "year_text y = pad 4 y" using assms by (simp add: year_text_def)
  then show ?thesis using assms pad_hd [of 4 y s] parse_pad [of 4 y] by (simp add: get_year_def)
qed

lemma get_fraction_pad:
  assumes "0 \<le> n" "n < 10 ^ 9"
  shows "get_fraction (CHR ''.'' # pad 9 n @ s) = Some (n, s)"
proof -
  have "pad 9 n \<noteq> []" using length_pad [of 9 n] by (metis list.size(3) zero_neq_numeral)
  then have "48 \<le> byte_of (hd (pad 9 n))" using pad_hd [of 9 n "[]"] by (simp add: is_digit_def)
  then have "scan_sign (pad 9 n) = (False, pad 9 n)" using \<open>pad 9 n \<noteq> []\<close> by (intro scan_sign_digit)
  then have "set_string10 (pad 9 n) = Some n"
    using assms parse_pad [of 9 n] by (simp add: set_string10_def signed_def)
  then show ?thesis using assms by (simp add: get_fraction_def)
qed

definition within_years :: "int \<Rightarrow> gotime \<Rightarrow> bool" where
  "within_years zone t \<longleftrightarrow>
     (let s = nanos t div 10 ^ 9 + zone in - 62167219200 \<le> s \<and> s < 253402300800)"

lemma civil_year:
  assumes "civil (s div 86400) = (y, m, d)" and "- 62167219200 \<le> s" and "s < 253402300800"
  shows "0 \<le> y" "y \<le> 9999"
proof -
  have z: "- 719528 \<le> s div 86400" "s div 86400 < 2932897"
    using assms(2,3) zdiv_mono1 [of "- 62167219200" s 86400] zdiv_mono1 [of s 253402300799 86400] by simp_all
  have f: "first_day 0 = - 719528" "first_day 120000 = 2932897"
    by (simp_all add: first_day_def year_start_def month_start_def)
  note c = civil [OF assms(1)]
  have "\<not> 12 * y + m \<le> 0" using first_day_mono [of "12 * y + m" 0] c(5) z(1) f(1) by linarith
  then show "0 \<le> y" using c(2) by linarith
  have "\<not> 120000 \<le> 12 * y + m - 1" using first_day_mono [of 120000 "12 * y + m - 1"] c(3,4) z(2) f(2) by linarith
  then show "y \<le> 9999" using c(1) by linarith
qed

lemma clock_parts:
  assumes "0 \<le> s" "s < (86400::int)"
  shows "0 \<le> s div 3600" "s div 3600 \<le> 23" "0 \<le> s mod 3600 div 60" "s mod 3600 div 60 \<le> 59"
    "0 \<le> s mod 60" "s mod 60 \<le> 59" "s div 3600 * 3600 + s mod 3600 div 60 * 60 + s mod 60 = s"
proof -
  obtain h r where h: "s div 3600 = h" "s mod 3600 = r" "s = 3600 * h + r" "0 \<le> r" "r < 3600" by (rule euclid [of 3600]) simp
  obtain m x where m: "r div 60 = m" "r mod 60 = x" "r = 60 * m + x" "0 \<le> x" "x < 60" by (rule euclid [of 60]) simp
  have "s mod 60 = x" using h(3) m int_mod_pos_eq [of s 60 "60 * h + m" x] by simp
  then show "0 \<le> s div 3600" "s div 3600 \<le> 23" "0 \<le> s mod 3600 div 60" "s mod 3600 div 60 \<le> 59"
    "0 \<le> s mod 60" "s mod 60 \<le> 59" "s div 3600 * 3600 + s mod 3600 div 60 * 60 + s mod 60 = s"
    unfolding h(1,2) m(1) using h(3-5) m(3-5) assms by linarith+
qed

lemma parse_fields:
  assumes "0 \<le> y" "y \<le> 9999" "1 \<le> m" "m \<le> 12" "1 \<le> d" "d \<le> days_in y m"
    and "0 \<le> h" "h \<le> 23" "0 \<le> mi" "mi \<le> 59" "0 \<le> se" "se \<le> 59" "0 \<le> ns" "ns < 10 ^ 9"
  shows "parse_time (year_text y @ CHR ''-'' # pad 2 m @ CHR ''-'' # pad 2 d @ CHR ''T'' #
      (pad 2 h @ CHR '':'' # pad 2 mi @ CHR '':'' # pad 2 se) @ CHR ''.'' # pad 9 ns @ ''Z'') =
    Some (GoTime ((day_number y m d * 86400 + h * 3600 + mi * 60 + se) * 10 ^ 9 + ns))"
proof -
  have "d < 100" using assms(6) by (auto simp: days_in_def split: if_splits)
  then show ?thesis
    using assms unfolding parse_time_def
    by (simp add: get_year_text getnum_pad get_fraction_pad del: getnum.simps pad.simps)
qed

lemma parse_time_text_zone:
  assumes "within_years zone t"
  shows "parse_time (time_text zone t) = Some (GoTime (nanos t + zone * 10 ^ 9))"
proof -
  define s where "s = nanos t div 10 ^ 9 + zone"
  define ns where "ns = nanos t mod 10 ^ 9"
  obtain y m d where civ: "civil (s div 86400) = (y, m, d)" by (cases "civil (s div 86400)") auto
  have y: "0 \<le> y" "y \<le> 9999" using civil_year [OF civ] assms by (simp_all add: within_years_def Let_def s_def)
  note c = civil [OF civ] and v = civil_valid [OF civ]
  have r: "0 \<le> s mod 86400" "s mod 86400 < 86400" by simp_all
  note k = clock_parts [OF r]
  have ns: "0 \<le> ns" "ns < 10 ^ 9" by (simp_all add: ns_def)
  have t: "nanos t = nanos t div 10 ^ 9 * 10 ^ 9 + ns" unfolding ns_def by (rule div_mult_mod_eq [symmetric])
  have "time_text zone t = year_text y @ CHR ''-'' # pad 2 m @ CHR ''-'' # pad 2 d @ CHR ''T'' #
      clock_text (s mod 86400) @ CHR ''.'' # pad 9 ns @ ''Z''"
    unfolding time_text_def Let_def s_def [symmetric] ns_def [symmetric] civ by (simp only: prod.case)
  then have "parse_time (time_text zone t) =
      Some (GoTime ((s div 86400 * 86400 + s mod 86400 div 3600 * 3600 + s mod 86400 mod 3600 div 60 * 60
        + s mod 86400 mod 60) * 10 ^ 9 + ns))"
    unfolding clock_text_def v(1) [symmetric]
    by (simp only: parse_fields [OF y c(1-3) v(2) k(1-6) ns])
  also have "s div 86400 * 86400 + s mod 86400 div 3600 * 3600 + s mod 86400 mod 3600 div 60 * 60
      + s mod 86400 mod 60 = s"
    using k(7) div_mult_mod_eq [of s 86400] by linarith
  also have "s * 10 ^ 9 + ns = nanos t + zone * 10 ^ 9"
    unfolding s_def distrib_right using t by linarith
  finally show ?thesis .
qed

text \<open>In UTC the text of a time denotes that time; elsewhere it is off by the zone.\<close>

lemma parse_time_text: "within_years 0 t \<Longrightarrow> parse_time (time_text 0 t) = Some t"
  using parse_time_text_zone [of 0 t] by simp

subsection \<open>Texts are ordered as the times are\<close>

lemma civil_mono:
  assumes "civil z = (y, m, d)" and "civil z' = (y', m', d')" and "z < z'"
  shows "y < y' \<or> y = y' \<and> (m < m' \<or> m = m' \<and> d < d')"
proof -
  note c = civil [OF assms(1)] and c' = civil [OF assms(2)]
  have "\<not> 12 * y' + m' \<le> 12 * y + m - 1"
    using first_day_mono [of "12 * y' + m'" "12 * y + m - 1"] c c' assms(3) by linarith
  then have le: "12 * y + m \<le> 12 * y' + m'" by linarith
  then have "y \<le> y'" using c(1,2) c'(1,2) by linarith
  moreover have "m \<le> m'" if "y = y'" using le that by simp
  moreover have "d < d'" if "y = y'" "m = m'" using c(4) c'(4) assms(3) that by simp
  ultimately show ?thesis by linarith
qed

lemma pad_field:
  assumes "h < h' \<or> h = h' \<and> t < t'" and "0 \<le> h" and "h' < 10 ^ n"
  shows "pad n h @ t < pad n h' @ t'"
  using assms pad_less [of h h' n] by (auto simp: append_less)

lemma later_parts: "(i::int) < j \<Longrightarrow> 0 < k \<Longrightarrow> i div k < j div k \<or> i div k = j div k \<and> i mod k < j mod k"
proof -
  assume "i < j" "0 < k"
  then have "i div k \<le> j div k" by (simp add: zdiv_mono1)
  moreover have "i mod k < j mod k" if "i div k = j div k"
    using that \<open>i < j\<close> div_mult_mod_eq [of i k] div_mult_mod_eq [of j k] by (metis add_less_cancel_left)
  ultimately show ?thesis by linarith
qed

lemma length_clock_text [simp]: "length (clock_text s) = 8"
  by (simp add: clock_text_def)

lemma clock_mono:
  assumes "0 \<le> s" "s < s'" "s' < 86400"
  shows "clock_text s < clock_text s'"
proof -
  have s: "0 \<le> s" "s < 86400" "0 \<le> s'" "s' < 86400" using assms by simp_all
  note k = clock_parts [OF s(1,2)] and k' = clock_parts [OF s(3,4)]
  have le: "h < h' \<or> h = h' \<and> (m < m' \<or> m = m' \<and> x < x')"
    if "h * 3600 + m * 60 + x < h' * 3600 + m' * 60 + (x'::int)"
      "0 \<le> m" "0 \<le> m'" "m \<le> 59" "m' \<le> 59" "0 \<le> x" "0 \<le> x'" "x \<le> 59" "x' \<le> 59" for h h' m m' x x'
    using that by linarith
  have order: "s div 3600 < s' div 3600 \<or> s div 3600 = s' div 3600 \<and>
      (s mod 3600 div 60 < s' mod 3600 div 60 \<or> s mod 3600 div 60 = s' mod 3600 div 60 \<and> s mod 60 < s' mod 60)"
    by (rule le [OF _ k(3) k'(3) k(4) k'(4) k(5) k'(5) k(6) k'(6)]) (simp only: k(7) k'(7) assms(2))
  have w: "s' div 3600 < 10 ^ 2" "s' mod 3600 div 60 < 10 ^ 2" "s' mod 60 < 10 ^ 2" using k'(2,4,6) by simp_all
  show ?thesis
    unfolding clock_text_def
    using order pad_field [OF _ k(1) w(1)] pad_field [OF _ k(3) w(2)] pad_less [OF k(5) _ w(3)]
    by (metis Cons_less_Cons)
qed

text \<open>The theorem behind the range queries: later times have larger texts.\<close>

lemma time_text_mono:
  assumes "within_years zone t" and "within_years zone t'" and "t < t'"
  shows "time_text zone t < time_text zone t'"
proof -
  define s where "s = nanos t div 10 ^ 9 + zone"
  define s' where "s' = nanos t' div 10 ^ 9 + zone"
  obtain y m d where civ: "civil (s div 86400) = (y, m, d)" by (cases "civil (s div 86400)") auto
  obtain y' m' d' where civ': "civil (s' div 86400) = (y', m', d')" by (cases "civil (s' div 86400)") auto
  have y: "0 \<le> y" "y \<le> 9999" using civil_year [OF civ] assms(1) by (simp_all add: within_years_def Let_def s_def)
  have y': "0 \<le> y'" "y' \<le> 9999" using civil_year [OF civ'] assms(2) by (simp_all add: within_years_def Let_def s'_def)
  note c = civil [OF civ] civil_valid(2) [OF civ] and c' = civil [OF civ'] civil_valid(2) [OF civ']
  have shape: "time_text zone t = pad 4 y @ CHR ''-'' # pad 2 m @ CHR ''-'' # pad 2 d @ CHR ''T'' #
        clock_text (s mod 86400) @ CHR ''.'' # pad 9 (nanos t mod 10 ^ 9) @ ''Z''"
    "time_text zone t' = pad 4 y' @ CHR ''-'' # pad 2 m' @ CHR ''-'' # pad 2 d' @ CHR ''T'' #
        clock_text (s' mod 86400) @ CHR ''.'' # pad 9 (nanos t' mod 10 ^ 9) @ ''Z''"
    using y y' unfolding time_text_def Let_def s_def [symmetric] s'_def [symmetric] civ civ'
    by (simp_all only: prod.case year_text_def Let_def) simp_all
  have w: "y' < 10 ^ 4" "m' < 10 ^ 2" "d' < 10 ^ 2" using y' c' by (simp_all add: days_in_def split: if_splits)
  have "nanos t < nanos t'" using assms(3) unfolding less_gotime_def .
  then have "s < s' \<or> s = s' \<and> nanos t mod 10 ^ 9 < nanos t' mod 10 ^ 9"
    unfolding s_def s'_def using later_parts [of "nanos t" "nanos t'" "10 ^ 9"] by simp
  then have "s div 86400 < s' div 86400 \<or> s div 86400 = s' div 86400 \<and> (s mod 86400 < s' mod 86400 \<or>
      s mod 86400 = s' mod 86400 \<and> nanos t mod 10 ^ 9 < nanos t' mod 10 ^ 9)"
    using later_parts [of s s' 86400] by auto
  then consider (day) "s div 86400 < s' div 86400" | (clock) "s div 86400 = s' div 86400" "s mod 86400 < s' mod 86400"
    | (fraction) "s div 86400 = s' div 86400" "s mod 86400 = s' mod 86400" "nanos t mod 10 ^ 9 < nanos t' mod 10 ^ 9"
    by blast
  then show ?thesis
  proof cases
    case day
    have "pad 2 m @ CHR ''-'' # pad 2 d @ u < pad 2 m' @ CHR ''-'' # pad 2 d' @ u'" if "m < m' \<or> m = m' \<and> d < d'" for u u'
      using that c c' w by (intro pad_field) (auto intro!: pad_field)
    then show ?thesis
      unfolding shape using civil_mono [OF civ civ' day] y w by (intro pad_field) auto
  next
    case clock
    then have "clock_text (s mod 86400) < clock_text (s' mod 86400)" by (intro clock_mono) simp_all
    moreover have "y = y'" "m = m'" "d = d'" using clock(1) civ civ' by simp_all
    ultimately show ?thesis
      unfolding shape by (simp only: append_same_less Cons_less_Cons less_irrefl simp_thms append_less length_clock_text)
  next
    case fraction
    then have "pad 9 (nanos t mod 10 ^ 9) < pad 9 (nanos t' mod 10 ^ 9)" by (intro pad_less pos_mod_sign pos_mod_bound) simp_all
    moreover have "y = y'" "m = m'" "d = d'" using fraction(1) civ civ' by simp_all
    ultimately show ?thesis
      unfolding shape fraction(2)
      by (simp only: append_same_less Cons_less_Cons less_irrefl simp_thms append_less length_pad)
  qed
qed

lemma time_text_less_iff:
  assumes "within_years zone t" and "within_years zone t'"
  shows "time_text zone t < time_text zone t' \<longleftrightarrow> t < t'"
  using time_text_mono assms by (metis less_asym' linorder_cases less_irrefl)

end
