(* ===== verification/Query_Text.thy ===== *)
theory Query_Text
  imports Queries Time_Text
begin

text \<open>
  The queries of \<open>queries.go\<close> as the text that is sent to the state database: the format
  strings as they are in the source, \<open>fmt.Sprintf\<close> with the verb \<open>%s\<close>, and the constructors.
  A reader of such texts (JSON with integers, as a Mango query) gives their meaning; the theory
  shows that it reads back the structured query of \<open>Queries\<close> wherever the parameters are plain,
  that is free of quotes, backslashes and control characters, and what happens where they are not.
\<close>

subsection \<open>fmt.Sprintf with %s\<close>

fun extra_args :: "string list \<Rightarrow> string" where
  "extra_args [] = []"
| "extra_args [a] = ''string='' @ a"
| "extra_args (a # as) = ''string='' @ a @ '', '' @ extra_args as"

fun Sprintf :: "string \<Rightarrow> string list \<Rightarrow> string" where
  "Sprintf [] as = (if as = [] then [] else ''%!(EXTRA '' @ extra_args as @ '')'')"
| "Sprintf (c # f) as =
     (case f of
        d # g \<Rightarrow>
          if c = CHR ''%'' \<and> d = CHR ''s''
          then (case as of a # as' \<Rightarrow> a @ Sprintf g as' | [] \<Rightarrow> ''%!s(MISSING)'' @ Sprintf g [])
          else c # Sprintf f as
      | [] \<Rightarrow> c # Sprintf f as)"

lemma Sprintf_steps [simp]:
  "Sprintf (CHR ''%'' # CHR ''s'' # f) (a # as) = a @ Sprintf f as"
  "c \<noteq> CHR ''%'' \<Longrightarrow> Sprintf (c # f) as = c # Sprintf f as"
  by (auto split: list.split)

declare Sprintf.simps(2) [simp del]

subsection \<open>The format strings\<close>

definition QueryDocumentById :: string where
  \<open>QueryDocumentById = ''{
	"selector": {
	   "_id": "%s"
	}
 }''\<close>

definition QueryBalanceLogsByID :: string where
  \<open>QueryBalanceLogsByID = ''{
	"selector": {
		"@balance_log": "%s"
		%s
	},
	"sort": [%s],
	"use_index": ["balance", "%s"]
}''\<close>

definition QueryBalanceLogByOrderID :: string where
  \<open>QueryBalanceLogByOrderID = ''{
	"selector":{
		"order_id":"%s"
		%s
	},
	"sort":["order_id"],
	"use_index":["balance","order-id"]
}''\<close>

definition QueryBalanceLogsByIDAndTimes :: string where
  \<open>QueryBalanceLogsByIDAndTimes = ''{
	"selector": {
		"@balance_log": "%s",
		%s
		"$and": [
            {
                "created_time": {
                    "$gte": "%s"
                }
            },
            {
                "created_time": {
                    "$lt": "%s"
                }
            }
        ]
	},
	"sort": [%s],
	"use_index": ["balance", "%s"]
}''\<close>

definition QueryHoldersByID :: string where
  \<open>QueryHoldersByID = ''{
	"selector": {
		"@holder": "%s"
	},
	"sort": ["@holder", "token", "type"],
	"use_index": ["account", "holder"]
}''\<close>

definition QueryHoldersByIDAndTokenCode :: string where
  \<open>QueryHoldersByIDAndTokenCode = ''{
	"selector": {
		"@holder": "%s",
		"token": "%s"
	},
	"sort": ["@holder", "token", "type"],
	"use_index": ["account", "holder"]
}''\<close>

definition QueryPendingBalancesByAddress :: string where
  \<open>QueryPendingBalancesByAddress = ''{
	"selector": {
		"@pending_balance": {
			"$exists": true
		},
		"account": "%s"
	},
	"sort": [%s],
	"use_index": "pending-balance"
}''\<close>

definition QueryPrunePays :: string where
  \<open>QueryPrunePays = ''{
	"selector":{		
		"@pay": "%s",
		"$and":[
			{
				"created_time":{
					"$gt": "%s"
				}
			},{
				"created_time":{
					"$lte": "%s"
				}

			}
		] 
	},
	"use_index":["pay","list"]
}''\<close>

definition QueryPaysByIDAndTime :: string where
  \<open>QueryPaysByIDAndTime = ''{
	"selector":{
		"@pay":"%s",
		"$and":[
			{
				"created_time":{
					"$gte": "%s"
				}
			},
			{
				"created_time":{
					"$lte": "%s"
				}
			}
		]
	},
	"use_index":["pay","list"],
	"sort":[{"created_time":"%s"}]
}''\<close>

definition QueryPaysByID :: string where
  \<open>QueryPaysByID = ''{
	"selector":{
		"@pay":"%s"
	},
	"use_index":["pay","list"],
	"sort":[{"@pay":"%s"},{"created_time":"%s"}]
}''\<close>

definition QueryPayByOrderID :: string where
  \<open>QueryPayByOrderID = ''{
	"selector":{
		"order_id":"%s"
	},
	"sort":["order_id"],
	"use_index":["pay","order-id"]
}''\<close>

definition QueryPruneFee :: string where
  \<open>QueryPruneFee = ''{
	"selector":{
		"@fee":"%s",
		"$and":[
			{"created_time":{"$gt":"%s"}},
			{"created_time":{"$lte":"%s"}}
		]
	},
	"sort":["created_time"],
	"use_index":["fee","list"]
}''\<close>

definition QueryFeesByCodeAndTime :: string where
  \<open>QueryFeesByCodeAndTime = ''{
	"selector":{
		"@fee":"%s",
		"$and":[
			{"created_time":{"$gte":"%s"}},
			{"created_time":{"$lte":"%s"}}
		]
	},
	"sort":[{"@fee":"desc"},{"created_time":"desc"}],
	"use_index":["fee","list"]
}''\<close>

definition QueryFeesByCode :: string where
  \<open>QueryFeesByCode = ''{
	"selector":{
		"@fee":"%s"
	},
	"sort":[{"@fee":"desc"},{"created_time":"desc"}],
	"use_index":["fee","list"]
}''\<close>

subsection \<open>The constructors\<close>

text \<open>
  The texts carry times as \<open>txtime\<close> shows them in the peer's zone.  The name of a constructor is
  that of the source with \<open>_text\<close>, since the structured query has the plain name.
\<close>

definition CreateQueryDocumentByID_text :: "string \<Rightarrow> string" where
  "CreateQueryDocumentByID_text i = Sprintf QueryDocumentById [i]"

definition logs_sort_text :: "string \<Rightarrow> string" where
  \<open>logs_sort_text typeStr =
     (if typeStr \<noteq> [] then ''{"@balance_log": "desc"}, {"type": "desc"}, {"created_time": "desc"}''
      else ''{"@balance_log": "desc"}, {"created_time": "desc"}'')\<close>

definition logs_index_text :: "string \<Rightarrow> string" where
  "logs_index_text typeStr = (if typeStr \<noteq> [] then ''logs-type'' else ''logs'')"

definition CreateQueryBalanceLogsByID_text :: "string \<Rightarrow> string \<Rightarrow> string" where
  \<open>CreateQueryBalanceLogsByID_text i typeStr =
     Sprintf QueryBalanceLogsByID
       [i, if typeStr \<noteq> [] then Sprintf '',"type":%s'' [typeStr] else [], logs_sort_text typeStr, logs_index_text typeStr]\<close>

definition CreateQueryBalanceLogByOrderID_text :: "string \<Rightarrow> string \<Rightarrow> string" where
  \<open>CreateQueryBalanceLogByOrderID_text orderID typeStr =
     Sprintf QueryBalanceLogByOrderID [orderID, if typeStr \<noteq> [] then Sprintf '',"type":%s'' [typeStr] else []]\<close>

definition CreateQueryBalanceLogsByIDAndTimes_text ::
  "int \<Rightarrow> string \<Rightarrow> string \<Rightarrow> gotime option \<Rightarrow> gotime option \<Rightarrow> string" where
  \<open>CreateQueryBalanceLogsByIDAndTimes_text zone i typeStr stime etime =
     Sprintf QueryBalanceLogsByIDAndTimes
       [i, if typeStr \<noteq> [] then Sprintf ''"type":%s,'' [typeStr] else [],
        time_text zone (time_or first_time stime), time_text zone (time_or last_time etime),
        logs_sort_text typeStr, logs_index_text typeStr]\<close>

definition CreateQueryHoldersByID_text :: "string \<Rightarrow> string" where
  "CreateQueryHoldersByID_text i = Sprintf QueryHoldersByID [i]"

definition CreateQueryHoldersByIDAndTokenCode_text :: "string \<Rightarrow> string \<Rightarrow> string" where
  "CreateQueryHoldersByIDAndTokenCode_text i tokenCode = Sprintf QueryHoldersByIDAndTokenCode [i, tokenCode]"

definition CreateQueryPendingBalancesByAddress_text :: "string \<Rightarrow> string \<Rightarrow> string" where
  \<open>CreateQueryPendingBalancesByAddress_text addr sorting =
     Sprintf QueryPendingBalancesByAddress
       [addr, if ''created_time'' = sorting then ''{"account":"desc"},{"created_time":"desc"}''
              else ''"account","pending_time"'']\<close>

definition CreateQueryPrunePays_text :: "int \<Rightarrow> string \<Rightarrow> gotime \<Rightarrow> gotime \<Rightarrow> string" where
  "CreateQueryPrunePays_text zone i stime etime =
     Sprintf QueryPrunePays [i, time_text zone stime, time_text zone etime]"

definition CreateQueryPaysByIDAndTime_text ::
  "int \<Rightarrow> string \<Rightarrow> string \<Rightarrow> gotime option \<Rightarrow> gotime option \<Rightarrow> string" where
  "CreateQueryPaysByIDAndTime_text zone i sortOrder stime etime =
     Sprintf QueryPaysByIDAndTime
       [i, time_text zone (time_or first_time stime), time_text zone (time_or last_time etime), sortOrder]"

definition CreateQueryPaysByID_text :: "string \<Rightarrow> string \<Rightarrow> string" where
  "CreateQueryPaysByID_text i sortOrder = Sprintf QueryPaysByID [i, sortOrder, sortOrder]"

definition CreateQueryPayByOrderID_text :: "string \<Rightarrow> string" where
  "CreateQueryPayByOrderID_text orderID = Sprintf QueryPayByOrderID [orderID]"

definition CreateQueryPruneFee_text :: "int \<Rightarrow> string \<Rightarrow> gotime \<Rightarrow> gotime \<Rightarrow> string" where
  "CreateQueryPruneFee_text zone tokenCode stime etime =
     Sprintf QueryPruneFee [tokenCode, time_text zone stime, time_text zone etime]"

definition CreateQueryFeesByCodeAndTimes_text ::
  "int \<Rightarrow> string \<Rightarrow> gotime option \<Rightarrow> gotime option \<Rightarrow> string" where
  "CreateQueryFeesByCodeAndTimes_text zone tokenCode stime etime =
     Sprintf QueryFeesByCodeAndTime
       [tokenCode, time_text zone (time_or first_time stime), time_text zone (time_or last_time etime)]"

definition CreateQueryFeesByCode_text :: "string \<Rightarrow> string" where
  "CreateQueryFeesByCode_text tokenCode = Sprintf QueryFeesByCode [tokenCode]"

subsection \<open>Reading JSON\<close>

datatype token =
    TBrace | TEndBrace | TBracket | TEndBracket | TColon | TComma
  | TString string | TLiteral json

definition is_space :: "char \<Rightarrow> bool" where
  "is_space c \<longleftrightarrow> byte_of c \<in> {9, 10, 13, 32}"

definition punctuation :: "char \<Rightarrow> token option" where
  \<open>punctuation c =
     (if c = CHR ''{'' then Some TBrace else if c = CHR ''}'' then Some TEndBrace
      else if c = CHR ''['' then Some TBracket else if c = CHR '']'' then Some TEndBracket
      else if c = CHR '':'' then Some TColon else if c = CHR '','' then Some TComma else None)\<close>

definition unescape :: "char \<Rightarrow> char option" where
  \<open>unescape c =
     (if c = CHR ''"'' \<or> c = CHR 0x5C \<or> c = CHR ''/'' then Some c
      else if c = CHR ''b'' then Some (CHR 0x08) else if c = CHR ''f'' then Some (CHR 0x0C)
      else if c = CHR ''n'' then Some (CHR 0x0A) else if c = CHR ''r'' then Some (CHR 0x0D)
      else if c = CHR ''t'' then Some (CHR 0x09) else None)\<close>

definition code_point :: "string \<Rightarrow> char option" where
  "code_point hs = (case parse_nat 16 hs of None \<Rightarrow> None | Some n \<Rightarrow> if n < 128 then Some (char_of n) else None)"

text \<open>The rest of a string after its opening quote; the escape \<open>\u\<close> is read for ASCII only.\<close>

fun lex_string :: "string \<Rightarrow> (string \<times> string) option" where
  "lex_string [] = None"
| "lex_string (c # cs) =
     (if c = CHR 0x22 then Some ([], cs)
      else if c = CHR 0x5C then
        (case cs of [] \<Rightarrow> None
         | e # ds \<Rightarrow>
             if e = CHR ''u''
             then (case ds of
                     h1 # h2 # h3 # h4 # r \<Rightarrow>
                       (case code_point [h1, h2, h3, h4] of None \<Rightarrow> None | Some x \<Rightarrow> map_option (apfst (Cons x)) (lex_string r))
                   | _ \<Rightarrow> None)
             else (case unescape e of None \<Rightarrow> None | Some x \<Rightarrow> map_option (apfst (Cons x)) (lex_string ds)))
      else if byte_of c < 32 then None
      else map_option (apfst (Cons c)) (lex_string cs))"

text \<open>An integer: no leading zero, no fraction and no exponent.\<close>

definition lex_digits :: "string \<Rightarrow> (nat \<times> string) option" where
  "lex_digits s =
     (let ds = takeWhile is_digit s; r = dropWhile is_digit s
      in if ds = [] \<or> 1 < length ds \<and> hd ds = CHR ''0'' \<or> r \<noteq> [] \<and> hd r \<in> {CHR ''.'', CHR ''e'', CHR ''E''} then None
         else map_option (\<lambda>n. (n, r)) (parse_nat 10 ds))"

definition lex_number :: "string \<Rightarrow> (int \<times> string) option" where
  "lex_number s =
     (case s of
        c # cs \<Rightarrow> if c = CHR ''-'' then map_option (map_prod (\<lambda>n. - int n) id) (lex_digits cs)
                  else map_option (map_prod int id) (lex_digits s)
      | [] \<Rightarrow> None)"

definition lex_word :: "string \<Rightarrow> (json \<times> string) option" where
  "lex_word s =
     (if take 4 s = ''true'' then Some (JBool True, drop 4 s)
      else if take 5 s = ''false'' then Some (JBool False, drop 5 s)
      else if take 4 s = ''null'' then Some (JNull, drop 4 s)
      else map_option (apfst JNum) (lex_number s))"

lemma lex_string_length: "lex_string s = Some (x, r) \<Longrightarrow> length r < length s"
  by (induction s arbitrary: x r rule: lex_string.induct) (fastforce split: if_splits list.splits option.splits)+

lemma lex_digits_length: "lex_digits s = Some (n, r) \<Longrightarrow> length r < length s"
  by (cases s) (auto simp: lex_digits_def Let_def length_dropWhile_le less_Suc_eq_le split: if_splits)

lemma lex_word_length: "lex_word s = Some (j, r) \<Longrightarrow> length r < length s"
  by (cases s) (auto simp: lex_word_def lex_number_def apfst_def dest: lex_digits_length split: if_splits)

function (sequential) lex :: "string \<Rightarrow> token list option" where
  "lex [] = Some []"
| "lex (c # cs) =
     (if is_space c then lex cs
      else case punctuation c of
        Some t \<Rightarrow> map_option (Cons t) (lex cs)
      | None \<Rightarrow>
          if c = CHR 0x22
          then (case lex_string cs of None \<Rightarrow> None | Some (s, r) \<Rightarrow> map_option (Cons (TString s)) (lex r))
          else (case lex_word (c # cs) of None \<Rightarrow> None | Some (j, r) \<Rightarrow> map_option (Cons (TLiteral j)) (lex r)))"
  by pat_completeness auto

termination
  by (relation "measure length") (auto dest: lex_string_length lex_word_length)

text \<open>
  The parser is a pushdown automaton: what it waits for, and the objects and arrays it is
  inside of.  It reads every token once.
\<close>

datatype frame = FObj members | FKey members string | FArr "json list"

datatype wait = WValue | WElem | WKey bool | WColon string | WMore json

fun value_token :: "token \<Rightarrow> frame list \<Rightarrow> (wait \<times> frame list) option" where
  "value_token (TString s) st = Some (WMore (JStr s), st)"
| "value_token (TLiteral j) st = Some (WMore j, st)"
| "value_token TBrace st = Some (WKey True, FObj [] # st)"
| "value_token TBracket st = Some (WElem, FArr [] # st)"
| "value_token _ st = None"

fun read_key :: "bool \<Rightarrow> frame list \<Rightarrow> token \<Rightarrow> (wait \<times> frame list) option" where
  "read_key first (FObj ms # st) TEndBrace = (if first then Some (WMore (JObj ms), st) else None)"
| "read_key first st (TString k) = Some (WColon k, st)"
| "read_key first st _ = None"

fun read_more :: "json \<Rightarrow> frame list \<Rightarrow> token \<Rightarrow> (wait \<times> frame list) option" where
  "read_more j (FKey ms k # st) TComma = Some (WKey False, FObj (ms @ [(k, j)]) # st)"
| "read_more j (FKey ms k # st) TEndBrace = Some (WMore (JObj (ms @ [(k, j)])), st)"
| "read_more j (FArr js # st) TComma = Some (WValue, FArr (js @ [j]) # st)"
| "read_more j (FArr js # st) TEndBracket = Some (WMore (JArr (js @ [j])), st)"
| "read_more j _ _ = None"

fun read_elem :: "frame list \<Rightarrow> token \<Rightarrow> (wait \<times> frame list) option" where
  "read_elem (FArr js # st) TEndBracket = Some (WMore (JArr js), st)"
| "read_elem st t = value_token t st"

fun read_colon :: "string \<Rightarrow> frame list \<Rightarrow> token \<Rightarrow> (wait \<times> frame list) option" where
  "read_colon k (FObj ms # st) TColon = Some (WValue, FKey ms k # st)"
| "read_colon k _ _ = None"

fun read_token :: "wait \<times> frame list \<Rightarrow> token \<Rightarrow> (wait \<times> frame list) option" where
  "read_token (WValue, st) t = value_token t st"
| "read_token (WElem, st) t = read_elem st t"
| "read_token (WKey first, st) t = read_key first st t"
| "read_token (WColon k, st) t = read_colon k st t"
| "read_token (WMore j, st) t = read_more j st t"

fun read_tokens :: "wait \<times> frame list \<Rightarrow> token list \<Rightarrow> json option" where
  "read_tokens (w, st) [] = (case (w, st) of (WMore j, []) \<Rightarrow> Some j | _ \<Rightarrow> None)"
| "read_tokens q (t # ts) = (case read_token q t of None \<Rightarrow> None | Some q' \<Rightarrow> read_tokens q' ts)"

definition parse_json :: "string \<Rightarrow> json option" where
  "parse_json s = Option.bind (lex s) (read_tokens (WValue, []))"

subsection \<open>Reading a Mango query\<close>

text \<open>
  A selector is a conjunction: its members, with those of the selectors under \<open>$and\<close>.  A member
  with an object of operators stands for one condition each.
\<close>

fun operator :: "string \<times> json \<Rightarrow> cond option" where
  "operator (k, j) =
     (if k = ''$exists'' then (if j = JBool True then Some CExists else None)
      else if k = ''$gt'' then Some (CGt j) else if k = ''$gte'' then Some (CGte j)
      else if k = ''$lt'' then Some (CLt j) else if k = ''$lte'' then Some (CLte j) else None)"

fun all_some :: "'a option list \<Rightarrow> 'a list option" where
  "all_some [] = Some []"
| "all_some (x # xs) = (case (x, all_some xs) of (Some a, Some as) \<Rightarrow> Some (a # as) | _ \<Rightarrow> None)"

fun field_conds :: "string \<times> json \<Rightarrow> (string \<times> cond) list option" where
  "field_conds (k, JObj ops) = map_option (map (Pair k)) (all_some (map operator ops))"
| "field_conds (k, j) = Some [(k, CEq j)]"

fun and_conds :: "json \<Rightarrow> (string \<times> cond) list option" where
  "and_conds (JObj ms) = map_option concat (all_some (map field_conds ms))"
| "and_conds _ = None"

fun member_conds :: "string \<times> json \<Rightarrow> (string \<times> cond) list option" where
  "member_conds (k, j) =
     (if k = ''$and'' then (case j of JArr js \<Rightarrow> map_option concat (all_some (map and_conds js)) | _ \<Rightarrow> None)
      else field_conds (k, j))"

fun sort_field :: "json \<Rightarrow> (string \<times> string) option" where
  "sort_field (JStr f) = Some (asc f)"
| "sort_field (JObj [(f, JStr d)]) = Some (f, d)"
| "sort_field _ = None"

fun sort_fields :: "json option \<Rightarrow> (string \<times> string) list option" where
  "sort_fields None = Some []"
| "sort_fields (Some (JArr js)) = all_some (map sort_field js)"
| "sort_fields _ = None"

fun index_name :: "json \<Rightarrow> string option" where
  "index_name (JStr f) = Some f"
| "index_name _ = None"

fun index_names :: "json option \<Rightarrow> string list option" where
  "index_names None = Some []"
| "index_names (Some (JStr s)) = Some [s]"
| "index_names (Some (JArr js)) = all_some (map index_name js)"
| "index_names _ = None"

fun query_of :: "json \<Rightarrow> query option" where
  "query_of (JObj ms) =
     (case jlast ''selector'' ms of
        Some (JObj sel) \<Rightarrow>
          (case (all_some (map member_conds sel), sort_fields (jlast ''sort'' ms), index_names (jlast ''use_index'' ms)) of
             (Some cs, Some so, Some ix) \<Rightarrow> Some \<lparr>q_selector = concat cs, q_sort = so, q_index = ix\<rparr>
           | _ \<Rightarrow> None)
      | _ \<Rightarrow> None)"
| "query_of _ = None"

definition read_query :: "string \<Rightarrow> query option" where
  "read_query s = Option.bind (parse_json s) query_of"

text \<open>What the structured query is in text: times as strings, the pasted type as a number.\<close>

fun text_value :: "int \<Rightarrow> json \<Rightarrow> json" where
  "text_value zone (JTime t) = JStr (time_text zone t)"
| "text_value zone j = j"

fun text_cond :: "int \<Rightarrow> cond \<Rightarrow> cond" where
  "text_cond zone (CEq j) = CEq (text_value zone j)"
| "text_cond zone (CRaw s) = CEq (case set_string10 s of Some n \<Rightarrow> JNum n | None \<Rightarrow> JNull)"
| "text_cond zone CExists = CExists"
| "text_cond zone (CGt j) = CGt (text_value zone j)"
| "text_cond zone (CGte j) = CGte (text_value zone j)"
| "text_cond zone (CLt j) = CLt (text_value zone j)"
| "text_cond zone (CLte j) = CLte (text_value zone j)"

definition text_query :: "int \<Rightarrow> query \<Rightarrow> query" where
  "text_query zone q = q\<lparr>q_selector := map (map_prod id (text_cond zone)) (q_selector q)\<rparr>"

subsection \<open>The texts of plain parameters\<close>

definition plain :: "string \<Rightarrow> bool" where
  "plain s \<longleftrightarrow> (\<forall>c\<in>set s. c \<noteq> CHR 0x22 \<and> c \<noteq> CHR 0x5C \<and> 32 \<le> byte_of c)"

lemma lex_string_plain: "plain s \<Longrightarrow> lex_string (s @ CHR 0x22 # r) = Some (s, r)"
  by (induction s) (auto simp: plain_def)

lemma digit_plain: "is_digit c \<Longrightarrow> c \<noteq> CHR 0x22 \<and> c \<noteq> CHR 0x5C \<and> 32 \<le> byte_of c"
  by (auto simp: is_digit_def)

lemma plain_append [simp]:
  "plain (s @ t) \<longleftrightarrow> plain s \<and> plain t" "plain []"
  "plain (c # s) \<longleftrightarrow> c \<noteq> CHR 0x22 \<and> c \<noteq> CHR 0x5C \<and> 32 \<le> byte_of c \<and> plain s"
  by (auto simp: plain_def)

lemma plain_pad [simp]: "plain (pad n k)"
proof (induction n arbitrary: k)
  case (Suc n)
  have "nat (k mod 10) < 10" by (simp add: nat_less_iff)
  then have "is_digit (digit_char (nat (k mod 10)))" using digit_char_is_digit by blast
  with Suc show ?case using digit_plain by simp
qed simp

lemma show_nat_is_digit: "c \<in> set (show_nat n) \<Longrightarrow> is_digit c"
  using show_nat_digits by (auto simp: is_digit_def)

lemma plain_show_nat [simp]: "plain (show_nat n)"
  using show_nat_is_digit digit_plain by (auto simp: plain_def)

lemma plain_time_text [simp]: "plain (time_text zone t)"
  by (auto simp: time_text_def year_text_def clock_text_def Let_def split: prod.splits)

text \<open>A pasted number ends at the byte that follows it.\<close>

definition ends_number :: "char \<Rightarrow> bool" where
  "ends_number c \<longleftrightarrow> \<not> is_digit c \<and> c \<noteq> CHR ''.'' \<and> c \<noteq> CHR ''e'' \<and> c \<noteq> CHR ''E''"

lemma lex_digits_show: "ends_number c \<Longrightarrow> lex_digits (show_nat n @ c # r) = Some (n, c # r)"
proof -
  assume c: "ends_number c"
  have "takeWhile is_digit (show_nat n @ c # r) = show_nat n" "dropWhile is_digit (show_nat n @ c # r) = c # r"
    using c show_nat_is_digit [of _ n] by (simp_all add: ends_number_def)
  moreover have "hd (show_nat n) \<noteq> CHR ''0''" if "1 < length (show_nat n)"
    using that show_nat_hd [of n] show_nat.simps [of n] by (cases "n < 10") simp_all
  ultimately show ?thesis using c by (simp add: lex_digits_def Let_def ends_number_def)
qed

lemma lex_number_start:
  assumes "is_digit c \<or> c = CHR ''-''"
  shows "lex (c # s) = (case lex_number (c # s) of None \<Rightarrow> None | Some (n, r) \<Rightarrow> map_option (Cons (TLiteral (JNum n))) (lex r))"
proof -
  have "\<not> is_space c" "punctuation c = None" "c \<noteq> CHR 0x22" "c \<noteq> CHR ''t''" "c \<noteq> CHR ''f''" "c \<noteq> CHR ''n''"
    using assms by (auto simp: is_space_def punctuation_def is_digit_def)
  moreover from this have "lex_word (c # s) = map_option (apfst JNum) (lex_number (c # s))"
    by (simp add: lex_word_def)
  ultimately show ?thesis by (auto split: option.split)
qed

lemma show_nat_head: "\<exists>c s. show_nat n = c # s \<and> is_digit c"
  using show_nat_is_digit [of _ n] by (cases "show_nat n") auto

lemma lex_show_int: "ends_number c \<Longrightarrow> lex (show_int n @ c # r) = map_option (Cons (TLiteral (JNum n))) (lex (c # r))"
proof -
  assume c: "ends_number c"
  obtain d s where s: "show_int n @ c # r = d # s" and d: "is_digit d \<or> d = CHR ''-''"
    using show_nat_head [of "nat n"] by (cases "n < 0") (auto simp: show_int_def)
  have "lex_number (show_int n @ c # r) = Some (n, c # r)"
  proof (cases "n < 0")
    case False
    obtain e t where e: "show_nat (nat n) = e # t" "is_digit e" using show_nat_head by blast
    then have "e \<noteq> CHR ''-''" by (auto simp: is_digit_def)
    then show ?thesis using e False lex_digits_show [OF c, of "nat n" r] by (simp add: lex_number_def show_int_def)
  qed (simp add: lex_number_def show_int_def lex_digits_show [OF c])
  then show ?thesis using lex_number_start [OF d, of s] by (simp add: s)
qed

text \<open>The steps of the lexer, one rule per byte.\<close>

lemma lex_steps:
  "lex (CHR ''{'' # s) = map_option (Cons TBrace) (lex s)" "lex (CHR ''}'' # s) = map_option (Cons TEndBrace) (lex s)"
  "lex (CHR ''['' # s) = map_option (Cons TBracket) (lex s)" "lex (CHR '']'' # s) = map_option (Cons TEndBracket) (lex s)"
  "lex (CHR '':'' # s) = map_option (Cons TColon) (lex s)" "lex (CHR '','' # s) = map_option (Cons TComma) (lex s)"
  "lex (CHR 0x09 # s) = lex s" "lex (CHR 0x0A # s) = lex s" "lex (CHR '' '' # s) = lex s"
  "lex (CHR 0x22 # s) = (case lex_string s of None \<Rightarrow> None | Some (x, r) \<Rightarrow> map_option (Cons (TString x)) (lex r))"
  "lex (CHR ''t'' # CHR ''r'' # CHR ''u'' # CHR ''e'' # s) = map_option (Cons (TLiteral (JBool True))) (lex s)"
  by (simp_all add: is_space_def punctuation_def lex_word_def)

lemma lex_string_steps:
  "lex_string (CHR 0x22 # s) = Some ([], s)"
  "plain [c] \<Longrightarrow> lex_string (c # s) = map_option (apfst (Cons c)) (lex_string s)"
  by simp_all

lemma lex_no_token:
  "lex (CHR ''+'' # s) = None" "lex_string (CHR 0x0A # s) = None"
  by (simp_all add: is_space_def punctuation_def lex_word_def lex_number_def lex_digits_def is_digit_def)

declare lex.simps(2) [simp del] lex_string.simps(2) [simp del]

lemmas read_simps = read_query_def parse_json_def text_query_def lex_steps lex_string_steps lex_string_plain
  asc_def desc_def lex_show_int ends_number_def is_digit_def

subsection \<open>The texts denote the structured queries\<close>

lemma read_by_id:
  assumes "plain i"
  shows "read_query (CreateQueryDocumentByID_text i) = Some (text_query zone (CreateQueryDocumentByID i))"
    and "read_query (CreateQueryHoldersByID_text i) = Some (text_query zone (CreateQueryHoldersByID i))"
    and "read_query (CreateQueryPayByOrderID_text i) = Some (text_query zone (CreateQueryPayByOrderID i))"
    and "read_query (CreateQueryFeesByCode_text i) = Some (text_query zone (CreateQueryFeesByCode i))"
    and "plain tok \<Longrightarrow> read_query (CreateQueryHoldersByIDAndTokenCode_text i tok) =
      Some (text_query zone (CreateQueryHoldersByIDAndTokenCode i tok))"
    and "read_query (CreateQueryPendingBalancesByAddress_text i so) =
      Some (text_query zone (CreateQueryPendingBalancesByAddress i so))"
    and "plain so \<Longrightarrow> read_query (CreateQueryPaysByID_text i so) = Some (text_query zone (CreateQueryPaysByID i so))"
  using assms
  by (simp_all add: read_simps CreateQueryDocumentByID_text_def QueryDocumentById_def CreateQueryDocumentByID_def
      CreateQueryHoldersByID_text_def QueryHoldersByID_def CreateQueryHoldersByID_def
      CreateQueryPayByOrderID_text_def QueryPayByOrderID_def CreateQueryPayByOrderID_def
      CreateQueryFeesByCode_text_def QueryFeesByCode_def CreateQueryFeesByCode_def
      CreateQueryHoldersByIDAndTokenCode_text_def QueryHoldersByIDAndTokenCode_def CreateQueryHoldersByIDAndTokenCode_def
      CreateQueryPendingBalancesByAddress_text_def QueryPendingBalancesByAddress_def CreateQueryPendingBalancesByAddress_def
      CreateQueryPaysByID_text_def QueryPaysByID_def CreateQueryPaysByID_def)

lemma read_by_time:
  assumes "plain i"
  shows "read_query (CreateQueryPrunePays_text zone i s e) = Some (text_query zone (CreateQueryPrunePays i s e))"
    and "read_query (CreateQueryPruneFee_text zone i s e) = Some (text_query zone (CreateQueryPruneFee i s e))"
    and "read_query (CreateQueryFeesByCodeAndTimes_text zone i s' e') =
      Some (text_query zone (CreateQueryFeesByCodeAndTimes i s' e'))"
    and "plain so \<Longrightarrow> read_query (CreateQueryPaysByIDAndTime_text zone i so s' e') =
      Some (text_query zone (CreateQueryPaysByIDAndTime i so s' e'))"
  using assms
  by (simp_all add: read_simps CreateQueryPrunePays_text_def QueryPrunePays_def CreateQueryPrunePays_def
      CreateQueryPruneFee_text_def QueryPruneFee_def CreateQueryPruneFee_def
      CreateQueryFeesByCodeAndTimes_text_def QueryFeesByCodeAndTime_def CreateQueryFeesByCodeAndTimes_def
      CreateQueryPaysByIDAndTime_text_def QueryPaysByIDAndTime_def CreateQueryPaysByIDAndTime_def)

lemmas log_query_simps = type_cond_def logs_sort_text_def logs_sort_def logs_index_text_def logs_index_def

lemma read_logs:
  assumes "plain i" and "ty = [] \<or> ty = show_int n"
  shows "read_query (CreateQueryBalanceLogsByID_text i ty) = Some (text_query zone (CreateQueryBalanceLogsByID i ty))"
    and "read_query (CreateQueryBalanceLogByOrderID_text i ty) =
      Some (text_query zone (CreateQueryBalanceLogByOrderID i ty))"
    and "read_query (CreateQueryBalanceLogsByIDAndTimes_text zone i ty s e) =
      Some (text_query zone (CreateQueryBalanceLogsByIDAndTimes i ty s e))"
  using assms
  by (auto simp: read_simps log_query_simps CreateQueryBalanceLogsByID_text_def QueryBalanceLogsByID_def
      CreateQueryBalanceLogsByID_def CreateQueryBalanceLogByOrderID_text_def QueryBalanceLogByOrderID_def
      CreateQueryBalanceLogByOrderID_def CreateQueryBalanceLogsByIDAndTimes_text_def
      QueryBalanceLogsByIDAndTimes_def CreateQueryBalanceLogsByIDAndTimes_def)

end
