(* ===== verification/Doc_Text.thy ===== *)
theory Doc_Text
  imports Query_Text
begin

text \<open>
  The text of JSON documents as \<open>json.Marshal\<close> writes it, without spaces and with its escapes, for
  strings of ASCII bytes.  The contract documents cross to the contract chaincode and back in this
  form; the reader of \<open>Query_Text\<close> reads it back.
\<close>

subsection \<open>Writing\<close>

definition escape :: "char \<Rightarrow> string" where
  "escape c =
     (if c = CHR 0x22 \<or> c = CHR 0x5C then [CHR 0x5C, c]
      else if c = CHR 0x0A then [CHR 0x5C, CHR ''n''] else if c = CHR 0x0D then [CHR 0x5C, CHR ''r'']
      else if c = CHR 0x09 then [CHR 0x5C, CHR ''t'']
      else if byte_of c < 32 \<or> c \<in> set ''<>&'' then CHR 0x5C # ''u00'' @ hex_byte c
      else [c])"

definition quote :: "string \<Rightarrow> string" where
  "quote s = CHR 0x22 # concat (map escape s) @ [CHR 0x22]"

fun json_text :: "int \<Rightarrow> json \<Rightarrow> string"
  and elems_text :: "int \<Rightarrow> json list \<Rightarrow> string"
  and members_text :: "int \<Rightarrow> members \<Rightarrow> string" where
  "json_text zone JNull = ''null''"
| "json_text zone (JBool b) = (if b then ''true'' else ''false'')"
| "json_text zone (JNum n) = show_int n"
| "json_text zone (JStr s) = quote s"
| "json_text zone (JTime t) = quote (time_text zone t)"
| "json_text zone (JArr js) = CHR ''['' # elems_text zone js"
| "json_text zone (JObj ms) = CHR ''{'' # members_text zone ms"
| "elems_text zone [] = '']''"
| "elems_text zone (j # js) = json_text zone j @ (if js = [] then '']'' else CHR '','' # elems_text zone js)"
| "members_text zone [] = ''}''"
| "members_text zone (m # ms) = quote (fst m) @ CHR '':'' # json_text zone (snd m) @
     (if ms = [] then ''}'' else CHR '','' # members_text zone ms)"

text \<open>What is read back: times are the strings of their texts.\<close>

fun as_text :: "int \<Rightarrow> json \<Rightarrow> json" where
  "as_text zone (JTime t) = JStr (time_text zone t)"
| "as_text zone (JArr js) = JArr (map (as_text zone) js)"
| "as_text zone (JObj ms) = JObj (map (\<lambda>(k, j). (k, as_text zone j)) ms)"
| "as_text zone j = j"

definition ascii :: "string \<Rightarrow> bool" where
  "ascii s \<longleftrightarrow> (\<forall>c\<in>set s. byte_of c < 128)"

fun ascii_json :: "json \<Rightarrow> bool" where
  "ascii_json (JStr s) \<longleftrightarrow> ascii s"
| "ascii_json (JArr js) \<longleftrightarrow> (\<forall>j\<in>set js. ascii_json j)"
| "ascii_json (JObj ms) \<longleftrightarrow> (\<forall>m\<in>set ms. ascii (fst m) \<and> ascii_json (snd m))"
| "ascii_json j \<longleftrightarrow> True"

subsection \<open>Strings\<close>

lemma lex_string_escape:
  assumes "byte_of c < 128"
  shows "lex_string (escape c @ r) = map_option (apfst (Cons c)) (lex_string r)"
proof -
  define n where "n = byte_of c"
  have "n div 16 < 16" "n mod 16 < 16" "digit_val (CHR ''0'') = Some 0"
    using assms by (simp_all add: n_def digit_val_def)
  then have "parse_nat 16 (CHR ''0'' # CHR ''0'' # hex_byte c) = Some (n div 16 * 16 + n mod 16)"
    by (simp add: hex_byte_def parse_nat_def flip: n_def)
  then have "code_point (CHR ''0'' # CHR ''0'' # hex_byte c) = Some c"
    using assms by (simp add: code_point_def n_def)
  then show ?thesis
    by (auto simp: escape_def lex_string.simps(2) unescape_def hex_byte_def)
qed

lemma lex_quote: "ascii s \<Longrightarrow> lex (quote s @ r) = map_option (Cons (TString s)) (lex r)"
proof -
  assume "ascii s"
  then have "lex_string (concat (map escape s) @ CHR 0x22 # r) = Some (s, r)"
    by (induction s) (simp_all add: ascii_def lex_string_escape lex_string_steps)
  then show ?thesis by (simp add: quote_def lex_steps)
qed

subsection \<open>Reading back\<close>

fun tokens :: "int \<Rightarrow> json \<Rightarrow> token list"
  and elems_tokens :: "int \<Rightarrow> json list \<Rightarrow> token list"
  and members_tokens :: "int \<Rightarrow> members \<Rightarrow> token list" where
  "tokens zone (JStr s) = [TString s]"
| "tokens zone (JTime t) = [TString (time_text zone t)]"
| "tokens zone (JArr js) = TBracket # elems_tokens zone js"
| "tokens zone (JObj ms) = TBrace # members_tokens zone ms"
| "tokens zone j = [TLiteral j]"
| "elems_tokens zone [] = [TEndBracket]"
| "elems_tokens zone (j # js) = tokens zone j @ (if js = [] then [TEndBracket] else TComma # elems_tokens zone js)"
| "members_tokens zone [] = [TEndBrace]"
| "members_tokens zone (m # ms) = TString (fst m) # TColon # tokens zone (snd m) @
     (if ms = [] then [TEndBrace] else TComma # members_tokens zone ms)"

lemma lex_word_steps:
  "lex (CHR ''n'' # CHR ''u'' # CHR ''l'' # CHR ''l'' # s) = map_option (Cons (TLiteral JNull)) (lex s)"
  "lex (CHR ''f'' # CHR ''a'' # CHR ''l'' # CHR ''s'' # CHR ''e'' # s) = map_option (Cons (TLiteral (JBool False))) (lex s)"
  by (simp_all add: lex.simps(2) is_space_def punctuation_def lex_word_def)

lemma ascii_append [simp]: "ascii (s @ t) \<longleftrightarrow> ascii s \<and> ascii t" "ascii (c # s) \<longleftrightarrow> byte_of c < 128 \<and> ascii s" "ascii []"
  by (auto simp: ascii_def)

lemma ascii_digits: "\<forall>c\<in>set s. is_digit c \<Longrightarrow> ascii s"
  by (auto simp: ascii_def is_digit_def)

lemma pad_is_digit: "c \<in> set (pad n k) \<Longrightarrow> is_digit c"
proof (induction n arbitrary: k)
  case (Suc n)
  have "is_digit (digit_char (nat (k mod 10)))" using digit_char_is_digit by (simp add: nat_less_iff)
  with Suc show ?case by auto
qed simp

lemma ascii_show_int: "ascii (show_int n)"
  using ascii_digits [of "show_nat k" for k] show_nat_is_digit by (simp add: show_int_def)

lemma ascii_time_text: "ascii (time_text zone t)"
  using ascii_digits [of "pad n k" for n k] pad_is_digit ascii_digits [of "show_nat n" for n] show_nat_is_digit
  by (auto simp: time_text_def year_text_def clock_text_def Let_def split: prod.splits)

text \<open>A text is followed by a comma, a closing bracket or the end.\<close>

lemma ends_number_bytes: "ends_number (CHR '','')" "ends_number (CHR '']'')" "ends_number (CHR ''}'')"
  by (simp_all add: ends_number_def is_digit_def)

lemma lex_texts:
  "ascii_json j \<Longrightarrow> ends_number c \<Longrightarrow> lex (json_text zone j @ c # r) = map_option ((@) (tokens zone j)) (lex (c # r))"
  "\<forall>j\<in>set js. ascii_json j \<Longrightarrow> lex (elems_text zone js @ r) = map_option ((@) (elems_tokens zone js)) (lex r)"
  "\<forall>m\<in>set ms. ascii (fst m) \<and> ascii_json (snd m) \<Longrightarrow>
     lex (members_text zone ms @ r) = map_option ((@) (members_tokens zone ms)) (lex r)"
proof (induction zone j and zone js and zone ms arbitrary: c r and r and r
    rule: json_text_elems_text_members_text.induct)
qed (simp_all add: lex_quote lex_steps lex_word_steps lex_show_int ascii_time_text ends_number_bytes
  option.map_comp comp_def option.map_id0 cong: option.map_cong)

lemma read_first_elem:
  "read_tokens (WElem, FArr js # st) (tokens zone j @ ts) = read_tokens (WValue, FArr js # st) (tokens zone j @ ts)"
  by (cases j) simp_all

lemma read_texts:
  "read_tokens (WValue, st) (tokens zone j @ ts) = read_tokens (WMore (as_text zone j), st) ts"
  "js \<noteq> [] \<Longrightarrow> read_tokens (WValue, FArr acc # st) (elems_tokens zone js @ ts) =
     read_tokens (WMore (JArr (acc @ map (as_text zone) js)), st) ts"
  "ms \<noteq> [] \<Longrightarrow> read_tokens (WKey b, FObj ac # st) (members_tokens zone ms @ ts) =
     read_tokens (WMore (JObj (ac @ map (\<lambda>(k, j). (k, as_text zone j)) ms)), st) ts"
proof (induction zone j and zone js and zone ms arbitrary: st ts and acc st ts and b ac st ts
    rule: tokens_elems_tokens_members_tokens.induct)
  case (3 zone js)
  then show ?case by (cases js) (simp_all add: read_first_elem)
next
  case (4 zone ms)
  then show ?case by (cases ms) simp_all
qed (auto split: prod.splits)

text \<open>A document is read back from its text, with times as their texts.\<close>

lemma parse_json_text:
  "ascii_json (JArr js) \<Longrightarrow> parse_json (json_text zone (JArr js)) = Some (as_text zone (JArr js))"
  "ascii_json (JObj ms) \<Longrightarrow> parse_json (json_text zone (JObj ms)) = Some (as_text zone (JObj ms))"
  using lex_texts(2) [of js zone "[]"] lex_texts(3) [of ms zone "[]"]
    read_texts(1) [of "[]" zone "JArr js" "[]"] read_texts(1) [of "[]" zone "JObj ms" "[]"]
  by (simp_all add: parse_json_def lex_steps)

end
