(* ===== verification/Props_Query.thy ===== *)
theory Props_Query
  imports Doc_Text BalanceTx PayTx WrapTx TokenTx
begin

text \<open>
  The properties of what leaves the chaincode as text: times, contract documents and rich queries,
  and what an unescaped parameter does to a query.
\<close>



text \<open>C31: the texts of the queries.  Read as JSON and as a Mango query, the text of every rich query is the
  structured query the transactions are modelled with, when the pasted identifiers hold no quote,
  backslash or control character and the pasted log type is an integer.\<close>

theorem query_texts_read:
  assumes "plain i" and "plain tok" and "plain so" and "ty = [] \<or> ty = show_int n"
  shows "list_all (\<lambda>(text, q). read_query text = Some (text_query zone q))
    [(CreateQueryDocumentByID_text i, CreateQueryDocumentByID i),
     (CreateQueryBalanceLogsByID_text i ty, CreateQueryBalanceLogsByID i ty),
     (CreateQueryBalanceLogByOrderID_text i ty, CreateQueryBalanceLogByOrderID i ty),
     (CreateQueryBalanceLogsByIDAndTimes_text zone i ty s' e', CreateQueryBalanceLogsByIDAndTimes i ty s' e'),
     (CreateQueryHoldersByID_text i, CreateQueryHoldersByID i),
     (CreateQueryHoldersByIDAndTokenCode_text i tok, CreateQueryHoldersByIDAndTokenCode i tok),
     (CreateQueryPendingBalancesByAddress_text i so, CreateQueryPendingBalancesByAddress i so),
     (CreateQueryPrunePays_text zone i s e, CreateQueryPrunePays i s e),
     (CreateQueryPaysByIDAndTime_text zone i so s' e', CreateQueryPaysByIDAndTime i so s' e'),
     (CreateQueryPaysByID_text i so, CreateQueryPaysByID i so),
     (CreateQueryPayByOrderID_text i, CreateQueryPayByOrderID i),
     (CreateQueryPruneFee_text zone i s e, CreateQueryPruneFee i s e),
     (CreateQueryFeesByCodeAndTimes_text zone i s' e', CreateQueryFeesByCodeAndTimes i s' e'),
     (CreateQueryFeesByCode_text i, CreateQueryFeesByCode i)]"
  using read_by_id [OF assms(1)] read_by_time [OF assms(1)] read_logs [OF assms(1,4)] assms(2,3) by simp

theorem query_texts_read_witness:
  "read_query (CreateQueryBalanceLogsByID_text ''TKN00'' ''5'') = Some \<lparr>q_selector = [(''@balance_log'', CEq (JStr ''TKN00'')),
     (''type'', CEq (JNum 5))], q_sort = [(''@balance_log'', ''desc''), (''type'', ''desc''), (''created_time'', ''desc'')],
     q_index = [''balance'', ''logs-type'']\<rparr>"
proof -
  have n: "show_int 5 = ''5''" by code_simp
  have "plain ''TKN00''" "plain ''asc''" by simp_all
  then show ?thesis
    using query_texts_read [of "''TKN00''" "''TKN00''" "''asc''" "''5''" 5 0 None None "GoTime 0" "GoTime 0"] n
      set_string10_show_int [of 5]
    by (simp add: text_query_def CreateQueryBalanceLogsByID_def log_query_simps desc_def)
qed

text \<open>C39: the parameters of a query are not escaped.  An order id that contains a quote adds conditions of
  the caller's choice to the query for the pay of that order; one that ends in a quote, and a log type that
  is an integer for \<open>strconv.ParseInt\<close> but not for JSON, make a text that is no query.\<close>

theorem query_injection:
  assumes "plain i" and "plain m"
  shows \<open>read_query (CreateQueryPayByOrderID_text (i @ ''","memo":"'' @ m)) =
        Some \<lparr>q_selector = [(''order_id'', CEq (JStr i)), (''memo'', CEq (JStr m))],
          q_sort = [asc ''order_id''], q_index = [''pay'', ''order-id'']\<rparr> \<and>
      read_query (CreateQueryPayByOrderID_text (i @ [CHR 0x22])) = None \<and>
      valid_log_type ''+5'' \<and> read_query (CreateQueryBalanceLogsByID_text i ''+5'') = None\<close>
proof (intro conjI)
  show \<open>read_query (CreateQueryPayByOrderID_text (i @ ''","memo":"'' @ m)) =
      Some \<lparr>q_selector = [(''order_id'', CEq (JStr i)), (''memo'', CEq (JStr m))],
        q_sort = [asc ''order_id''], q_index = [''pay'', ''order-id'']\<rparr>\<close>
    using assms by (simp add: read_simps CreateQueryPayByOrderID_text_def QueryPayByOrderID_def)
  show "read_query (CreateQueryPayByOrderID_text (i @ [CHR 0x22])) = None"
    using assms(1) by (simp add: read_simps lex_no_token CreateQueryPayByOrderID_text_def QueryPayByOrderID_def)
  show "read_query (CreateQueryBalanceLogsByID_text i ''+5'') = None"
    using assms(1)
    by (simp add: read_simps lex_no_token log_query_simps CreateQueryBalanceLogsByID_text_def QueryBalanceLogsByID_def)
  show "valid_log_type ''+5''"
    by (simp add: valid_log_type_def parse_int64_opt_def parse_int64_def parse_uint64_def signed_def)
qed

theorem query_injection_witness:
  \<open>read_query (CreateQueryPayByOrderID_text ''A","memo":"B'') \<noteq> Some (text_query 0 (CreateQueryPayByOrderID ''A","memo":"B''))\<close>
proof -
  have "plain ''A''" "plain ''B''" by simp_all
  from query_injection [OF this] show ?thesis
    by (simp add: text_query_def CreateQueryPayByOrderID_def)
qed



end
