(* ===== verification/Amount_Heap.thy ===== *)
theory Amount_Heap
  imports Main
begin

text \<open>
  Amounts as the code has them: \<open>Amount\<close> is a struct around a \<open>big.Int\<close>, a sign and a slice of
  64-bit words.  Copying the struct shares the words, \<open>Neg\<close> changes the sign of one copy only, and
  \<open>Add\<close> overwrites the words in place when they fit.  The transactions are modelled with values; this
  theory gives the store they abstract from and a check that a sequence of such statements has the
  values of the model, whatever the sharing.
\<close>

subsection \<open>The words of a magnitude\<close>

definition word_base :: nat where "word_base = 2 ^ 64"

lemma word_base: "1 < word_base" by (simp add: word_base_def)

fun mag_of :: "nat list \<Rightarrow> nat" where
  "mag_of [] = 0"
| "mag_of (w # ws) = w + word_base * mag_of ws"

fun words_of :: "nat \<Rightarrow> nat \<Rightarrow> nat list" where
  "words_of 0 n = []"
| "words_of (Suc k) n = n mod word_base # words_of k (n div word_base)"

text \<open>\<open>norm\<close> drops the leading zero words.\<close>

fun norm_len :: "nat list \<Rightarrow> nat" where
  "norm_len [] = 0"
| "norm_len (w # ws) = (if norm_len ws = 0 then (if w = 0 then 0 else 1) else Suc (norm_len ws))"

lemma length_words_of [simp]: "length (words_of k n) = k"
  by (induction k arbitrary: n) simp_all

lemma words_of_bound: "w \<in> set (words_of k n) \<Longrightarrow> w < word_base"
  using word_base by (induction k arbitrary: n) auto

lemma mag_words_of: "n < word_base ^ k \<Longrightarrow> mag_of (words_of k n) = n"
proof (induction k arbitrary: n)
  case (Suc k)
  then have "n div word_base < word_base ^ k" using word_base by (simp add: less_mult_imp_div_less mult.commute)
  with Suc.IH show ?case by simp
qed simp

lemma mag_of_bound: "\<forall>w\<in>set ws. w < word_base \<Longrightarrow> mag_of ws < word_base ^ length ws"
proof (induction ws)
  case (Cons w ws)
  then have "mag_of ws + 1 \<le> word_base ^ length ws" "w < word_base" by auto
  then have "w + word_base * mag_of ws < word_base * (mag_of ws + 1)" by simp
  also have "\<dots> \<le> word_base * word_base ^ length ws" using \<open>mag_of ws + 1 \<le> _\<close> by (rule mult_le_mono2)
  finally show ?case by simp
qed simp

lemma norm_len_le: "norm_len ws \<le> length ws"
  by (induction ws) auto

lemma norm_len_0: "norm_len ws = 0 \<longleftrightarrow> mag_of ws = 0"
  using word_base by (induction ws) auto

lemma mag_of_norm: "mag_of (take (norm_len ws) ws) = mag_of ws"
  by (induction ws) (auto simp: norm_len_0)

subsection \<open>The store\<close>

record BigInt =
  bi_neg :: bool
  bi_base :: "nat option"
  bi_len :: nat

record mem =
  arrays :: "nat \<Rightarrow> nat list"
  next_base :: nat

definition capacity :: "mem \<Rightarrow> BigInt \<Rightarrow> nat" where
  "capacity m h = (case bi_base h of None \<Rightarrow> 0 | Some b \<Rightarrow> length (arrays m b))"

definition words :: "mem \<Rightarrow> BigInt \<Rightarrow> nat list" where
  "words m h = (case bi_base h of None \<Rightarrow> [] | Some b \<Rightarrow> take (bi_len h) (arrays m b))"

definition mag :: "mem \<Rightarrow> BigInt \<Rightarrow> nat" where
  "mag m h = mag_of (words m h)"

definition val :: "mem \<Rightarrow> BigInt \<Rightarrow> int" where
  "val m h = (if bi_neg h then - int (mag m h) else int (mag m h))"

text \<open>
  \<open>z.make(k)\<close> and the loop that fills it with the words of \<open>n\<close>: in place when \<open>k\<close> words fit, in a new
  array with four spare words (none for a single word) otherwise.
\<close>

definition put_words :: "mem \<Rightarrow> BigInt \<Rightarrow> nat \<Rightarrow> nat \<Rightarrow> mem \<times> BigInt" where
  "put_words m z k n =
     (let ws = words_of k n; l = norm_len ws
      in if k \<le> capacity m z
         then (case bi_base z of
                 None \<Rightarrow> (m, z\<lparr>bi_len := 0\<rparr>)
               | Some b \<Rightarrow> (m\<lparr>arrays := (arrays m)(b := ws @ drop k (arrays m b))\<rparr>, z\<lparr>bi_len := l\<rparr>))
         else (m\<lparr>arrays := (arrays m)(next_base m := ws @ replicate (if k = 1 then 0 else 4) 0), next_base := Suc (next_base m)\<rparr>,
               z\<lparr>bi_base := Some (next_base m), bi_len := l\<rparr>))"

text \<open>\<open>z.Add(x, y)\<close> of \<open>big.Int\<close>: the words \<open>nat.add\<close> and \<open>nat.sub\<close> ask for, and the sign.\<close>

definition int_Add :: "mem \<Rightarrow> BigInt \<Rightarrow> BigInt \<Rightarrow> BigInt \<Rightarrow> mem \<times> BigInt" where
  "int_Add m z x y =
     (let lx = bi_len x; ly = bi_len y; nx = mag m x; ny = mag m y;
          (k, n, neg) =
            (if bi_neg x = bi_neg y
             then (if lx = 0 \<or> ly = 0 then max lx ly else Suc (max lx ly), nx + ny, bi_neg x)
             else if ny \<le> nx then (lx, nx - ny, bi_neg x) else (ly, ny - nx, \<not> bi_neg x));
          (m', z') = put_words m z k n
      in (m', z'\<lparr>bi_neg := 0 < bi_len z' \<and> neg\<rparr>))"

subsection \<open>The operations of amount.go\<close>

definition ZeroAmount :: BigInt where
  "ZeroAmount = \<lparr>bi_neg = False, bi_base = None, bi_len = 0\<rparr>"

definition NewAmountWithBigInt :: "BigInt \<Rightarrow> BigInt" where
  "NewAmountWithBigInt i = i"

definition amt_Add :: "mem \<Rightarrow> BigInt \<Rightarrow> BigInt \<Rightarrow> mem \<times> BigInt" where
  "amt_Add m a x = int_Add m a a x"

definition amt_Copy :: "mem \<Rightarrow> BigInt \<Rightarrow> mem \<times> BigInt" where
  "amt_Copy m a = amt_Add m ZeroAmount a"

definition amt_Neg :: "BigInt \<Rightarrow> BigInt" where
  "amt_Neg a = a\<lparr>bi_neg := 0 < bi_len a \<and> \<not> bi_neg a\<rparr>"

definition amt_Cmp :: "mem \<Rightarrow> BigInt \<Rightarrow> BigInt \<Rightarrow> int" where
  "amt_Cmp m a x =
     (if bi_neg a = bi_neg x
      then (let c = (if mag m a < mag m x then - 1 else if mag m x < mag m a then 1 else 0) in if bi_neg a then - c else c)
      else if bi_neg a then - 1 else 1)"

definition amt_Sign :: "BigInt \<Rightarrow> int" where
  "amt_Sign a = (if bi_len a = 0 then 0 else if bi_neg a then - 1 else 1)"

subsection \<open>Values\<close>

lemma mag_sign: "mag m (h\<lparr>bi_neg := s\<rparr>) = mag m h"
  by (cases "bi_base h") (simp_all add: mag_def words_def)

definition mem_ok :: "mem \<Rightarrow> bool" where
  "mem_ok m \<longleftrightarrow> (\<forall>b. \<forall>w\<in>set (arrays m b). w < word_base)"

definition int_ok :: "mem \<Rightarrow> BigInt \<Rightarrow> bool" where
  "int_ok m h \<longleftrightarrow> (case bi_base h of None \<Rightarrow> bi_len h = 0 | Some b \<Rightarrow> b < next_base m \<and> bi_len h \<le> length (arrays m b)) \<and>
     (0 < bi_len h \<longleftrightarrow> 0 < mag m h) \<and> (bi_neg h \<longrightarrow> 0 < bi_len h)"

lemma amt_Neg: "int_ok m a \<Longrightarrow> val m (amt_Neg a) = - val m a \<and> int_ok m (amt_Neg a) \<and> bi_base (amt_Neg a) = bi_base a"
  by (auto simp: amt_Neg_def val_def mag_def words_def int_ok_def split: option.splits)

lemma amt_Cmp: "int_ok m a \<Longrightarrow> int_ok m x \<Longrightarrow> amt_Cmp m a x < 0 \<longleftrightarrow> val m a < val m x"
  by (auto simp: amt_Cmp_def val_def Let_def int_ok_def)

lemma amt_Sign: "int_ok m a \<Longrightarrow> amt_Sign a = sgn (val m a)"
  by (auto simp: amt_Sign_def val_def int_ok_def)

lemma mag_bound: "mem_ok m \<Longrightarrow> int_ok m h \<Longrightarrow> mag m h < word_base ^ bi_len h"
  using mag_of_bound [of "words m h"] set_take_subset
  by (fastforce simp: mag_def words_def int_ok_def mem_ok_def split: option.splits)

text \<open>What a write leaves alone: the integers on other arrays.\<close>

definition kept :: "mem \<Rightarrow> mem \<Rightarrow> nat option \<Rightarrow> bool" where
  "kept m m' z \<longleftrightarrow> (\<forall>h. int_ok m h \<longrightarrow> (bi_base h = None \<or> bi_base h \<noteq> z) \<longrightarrow> val m' h = val m h \<and> int_ok m' h)"

lemma put_words:
  assumes M: "mem_ok m" and Z: "int_ok m z" and N: "n < word_base ^ k" and P: "put_words m z k n = (m', z')"
  shows "mem_ok m'" and "mag m' z' = n" and "0 < bi_len z' \<longleftrightarrow> 0 < n"
    and "case bi_base z' of None \<Rightarrow> bi_len z' = 0 | Some b \<Rightarrow> b < next_base m' \<and> bi_len z' \<le> length (arrays m' b)"
    and "kept m m' (bi_base z)" and "bi_base z' = bi_base z \<or> bi_base z' = Some (next_base m)"
    and "next_base m \<le> next_base m'" and "bi_base z' = Some (next_base m) \<Longrightarrow> next_base m < next_base m'"
proof -
  let ?ws = "words_of k n"
  have l: "norm_len ?ws \<le> k" using norm_len_le [of ?ws] by simp
  have mag: "mag_of (take (norm_len ?ws) (?ws @ r)) = n" for r
    using l mag_of_norm [of ?ws] mag_words_of [OF N] by simp
  have pos: "0 < norm_len ?ws \<longleftrightarrow> 0 < n" using norm_len_0 [of ?ws] mag_words_of [OF N] by auto
  have set: "\<forall>w\<in>set ?ws. w < word_base" using words_of_bound by blast
  consider (none) "bi_base z = None" "k = 0" "m' = m" "z' = z\<lparr>bi_len := 0\<rparr>"
    | (inplace) b where "bi_base z = Some b" "k \<le> length (arrays m b)" "z' = z\<lparr>bi_len := norm_len ?ws\<rparr>"
        "m' = m\<lparr>arrays := (arrays m)(b := ?ws @ drop k (arrays m b))\<rparr>"
    | (new) "z' = z\<lparr>bi_base := Some (next_base m), bi_len := norm_len ?ws\<rparr>"
        "m' = m\<lparr>arrays := (arrays m)(next_base m := ?ws @ replicate (if k = 1 then 0 else 4) 0), next_base := Suc (next_base m)\<rparr>"
  proof (cases "k \<le> capacity m z")
    case True
    show thesis
    proof (cases "bi_base z")
      case None
      with True P show thesis by (intro none) (simp_all add: put_words_def capacity_def Let_def)
    next
      case (Some b)
      with True P show thesis by (intro inplace [of b]) (simp_all add: put_words_def capacity_def Let_def)
    qed
  next
    case False
    with P show thesis by (intro new) (simp_all only: put_words_def Let_def if_False prod.inject)
  qed
  then have "mem_ok m' \<and> mag m' z' = n \<and> (0 < bi_len z' \<longleftrightarrow> 0 < n) \<and>
    (case bi_base z' of None \<Rightarrow> bi_len z' = 0 | Some b \<Rightarrow> b < next_base m' \<and> bi_len z' \<le> length (arrays m' b)) \<and>
    kept m m' (bi_base z) \<and> (bi_base z' = bi_base z \<or> bi_base z' = Some (next_base m)) \<and> next_base m \<le> next_base m' \<and>
    (bi_base z' = Some (next_base m) \<longrightarrow> next_base m < next_base m')"
  proof cases
    case none
    then show ?thesis using M N by (simp add: mag_def words_def kept_def)
  next
    case inplace
    have "kept m m' (bi_base z)"
      using inplace by (auto simp: kept_def val_def mag_def words_def int_ok_def split: option.splits)
    then show ?thesis
      using inplace M Z mag pos set l by (auto simp: mem_ok_def mag_def words_def int_ok_def dest: in_set_dropD)
  next
    case new
    have "kept m m' (bi_base z)"
      using new by (auto simp: kept_def val_def mag_def words_def int_ok_def split: option.splits)
    moreover have "mem_ok m'"
      unfolding mem_ok_def
    proof (intro allI ballI)
      fix b w
      assume "w \<in> set (arrays m' b)"
      then have "w \<in> set ?ws \<or> w = 0 \<or> w \<in> set (arrays m b)" by (auto simp: new split: if_splits)
      then show "w < word_base" using set M word_base unfolding mem_ok_def by auto
    qed
    moreover have "words m' z' = take (norm_len ?ws) (?ws @ replicate (if k = 1 then 0 else 4) 0)"
      by (simp add: new words_def)
    then have "mag m' z' = n" unfolding mag_def by (simp only: mag)
    ultimately show ?thesis using pos l by (simp add: new)
  qed
  then show "mem_ok m'" "mag m' z' = n" "0 < bi_len z' \<longleftrightarrow> 0 < n"
    "case bi_base z' of None \<Rightarrow> bi_len z' = 0 | Some b \<Rightarrow> b < next_base m' \<and> bi_len z' \<le> length (arrays m' b)"
    "kept m m' (bi_base z)" "bi_base z' = bi_base z \<or> bi_base z' = Some (next_base m)"
    "next_base m \<le> next_base m'" "bi_base z' = Some (next_base m) \<Longrightarrow> next_base m < next_base m'"
    by blast+
qed

lemma int_Add:
  assumes M: "mem_ok m" and Z: "int_ok m z" and X: "int_ok m x" and Y: "int_ok m y" and A: "int_Add m z x y = (m', z')"
  shows "mem_ok m'" and "val m' z' = val m x + val m y" and "int_ok m' z'" and "kept m m' (bi_base z)"
    and "bi_base z' = bi_base z \<or> bi_base z' = Some (next_base m)" and "next_base m \<le> next_base m'"
proof -
  let ?k = "if bi_neg x = bi_neg y then (if bi_len x = 0 \<or> bi_len y = 0 then max (bi_len x) (bi_len y) else Suc (max (bi_len x) (bi_len y)))
    else if mag m y \<le> mag m x then bi_len x else bi_len y"
  let ?n = "if bi_neg x = bi_neg y then mag m x + mag m y else if mag m y \<le> mag m x then mag m x - mag m y else mag m y - mag m x"
  let ?s = "if bi_neg x = bi_neg y then bi_neg x else if mag m y \<le> mag m x then bi_neg x else \<not> bi_neg x"
  obtain z1 where P: "put_words m z ?k ?n = (m', z1)" and z': "z' = z1\<lparr>bi_neg := 0 < bi_len z1 \<and> ?s\<rparr>"
    using A by (auto simp: int_Add_def Let_def split: prod.splits if_splits)
  note x = mag_bound [OF M X] and y = mag_bound [OF M Y]
  have zero: "bi_len x = 0 \<Longrightarrow> mag m x = 0" "bi_len y = 0 \<Longrightarrow> mag m y = 0" using X Y by (auto simp: int_ok_def)
  have up: "word_base ^ i \<le> word_base ^ max i j" "word_base ^ j \<le> word_base ^ max i j" for i j
    by (rule power_increasing; simp add: word_base_def)+
  have sum: "mag m x + mag m y < word_base ^ Suc (max (bi_len x) (bi_len y))"
  proof -
    let ?p = "word_base ^ max (bi_len x) (bi_len y)"
    have "mag m x < ?p" "mag m y < ?p" using x y up less_le_trans by blast+
    then have "mag m x + mag m y < 2 * ?p" by simp
    also have "\<dots> \<le> word_base * ?p" by (rule mult_le_mono1) (simp add: word_base_def)
    finally show ?thesis by simp
  qed
  have N: "?n < word_base ^ ?k" using x y zero sum by (auto simp: max_def)
  note p = put_words [OF M Z N P]
  show "mem_ok m'" "kept m m' (bi_base z)" "next_base m \<le> next_base m'" by (fact p)+
  have mag: "mag m' z1 = ?n" and pos: "0 < bi_len z1 \<longleftrightarrow> 0 < ?n" by (fact p(2,3))+
  have val: "val m' z' = (if ?s then - int ?n else int ?n)"
    using pos by (simp add: z' val_def mag_sign mag)
  show "val m' z' = val m x + val m y"
    unfolding val by (cases "bi_neg x"; cases "bi_neg y"; cases "mag m y \<le> mag m x") (simp_all add: val_def of_nat_diff)
  show "int_ok m' z'"
    using p(4) pos unfolding z' int_ok_def mag_sign mag by (cases "bi_base z1") simp_all
  show "bi_base z' = bi_base z \<or> bi_base z' = Some (next_base m)" using p(6) by (simp add: z')
qed

subsection \<open>Sequences of amount statements\<close>

text \<open>
  The statements of the stubs on their amounts: \<open>Clear v\<close> makes a zero \<open>Amount\<close>, \<open>Share v w\<close> copies the struct (\<open>v = *w\<close>, a composite
  literal or a parameter passed by value), \<open>Copy\<close>, \<open>Negate\<close> and \<open>AddTo\<close> call the methods, \<open>Out v\<close> writes the
  value of \<open>v\<close> into a document, and \<open>Cond\<close> branches on a comparison or a sign.
\<close>

datatype test = Less string string | Negative string | Positive string | Zero string

datatype stm = Clear string | Share string string | Copy string string | Negate string | AddTo string string | Out string
  | Cond test "stm list" "stm list"

type_synonym vars = "string \<Rightarrow> BigInt"

fun holds :: "mem \<Rightarrow> vars \<Rightarrow> test \<Rightarrow> bool" where
  "holds m e (Less v w) \<longleftrightarrow> amt_Cmp m (e v) (e w) < 0"
| "holds m e (Negative v) \<longleftrightarrow> amt_Sign (e v) < 0"
| "holds m e (Positive v) \<longleftrightarrow> 0 < amt_Sign (e v)"
| "holds m e (Zero v) \<longleftrightarrow> amt_Sign (e v) = 0"

function exec :: "stm list \<Rightarrow> mem \<Rightarrow> vars \<Rightarrow> int list" where
  "exec [] m e = []"
| "exec (Clear v # p) m e = exec p m (e(v := ZeroAmount))"
| "exec (Share v w # p) m e = exec p m (e(v := e w))"
| "exec (Copy v w # p) m e = (case amt_Copy m (e w) of (m', h) \<Rightarrow> exec p m' (e(v := h)))"
| "exec (Negate v # p) m e = exec p m (e(v := amt_Neg (e v)))"
| "exec (AddTo v w # p) m e = (case amt_Add m (e v) (e w) of (m', h) \<Rightarrow> exec p m' (e(v := h)))"
| "exec (Out v # p) m e = val m (e v) # exec p m e"
| "exec (Cond t p q # r) m e = exec ((if holds m e t then p else q) @ r) m e"
  by pat_completeness auto
termination by (relation "measure (size_list size \<circ> fst)") auto

text \<open>The same statements on values.\<close>

fun true_of :: "(string \<Rightarrow> int) \<Rightarrow> test \<Rightarrow> bool" where
  "true_of s (Less v w) \<longleftrightarrow> s v < s w"
| "true_of s (Negative v) \<longleftrightarrow> s v < 0"
| "true_of s (Positive v) \<longleftrightarrow> 0 < s v"
| "true_of s (Zero v) \<longleftrightarrow> s v = 0"

function eval :: "stm list \<Rightarrow> (string \<Rightarrow> int) \<Rightarrow> int list" where
  "eval [] s = []"
| "eval (Clear v # p) s = eval p (s(v := 0))"
| "eval (Share v w # p) s = eval p (s(v := s w))"
| "eval (Copy v w # p) s = eval p (s(v := s w))"
| "eval (Negate v # p) s = eval p (s(v := - s v))"
| "eval (AddTo v w # p) s = eval p (s(v := s v + s w))"
| "eval (Out v # p) s = s v # eval p s"
| "eval (Cond t p q # r) s = eval ((if true_of s t then p else q) @ r) s"
  by pat_completeness auto
termination by (relation "measure (size_list size \<circ> fst)") auto

text \<open>
  The check keeps the variables in groups that may share words.  An \<open>AddTo\<close> spoils the others of its
  group: they may not be used again.
\<close>

fun names :: "test \<Rightarrow> string list" where
  "names (Less v w) = [v, w]"
| "names (Negative v) = [v]"
| "names (Positive v) = [v]"
| "names (Zero v) = [v]"

function alias_safe :: "stm list \<Rightarrow> (string \<Rightarrow> nat option) \<Rightarrow> nat \<Rightarrow> bool" where
  "alias_safe [] g n \<longleftrightarrow> True"
| "alias_safe (Clear v # p) g n \<longleftrightarrow> alias_safe p (g(v := Some n)) (Suc n)"
| "alias_safe (Share v w # p) g n \<longleftrightarrow> g w \<noteq> None \<and> alias_safe p (g(v := g w)) n"
| "alias_safe (Copy v w # p) g n \<longleftrightarrow> g w \<noteq> None \<and> alias_safe p (g(v := Some n)) (Suc n)"
| "alias_safe (Negate v # p) g n \<longleftrightarrow> g v \<noteq> None \<and> alias_safe p g n"
| "alias_safe (AddTo v w # p) g n \<longleftrightarrow> g v \<noteq> None \<and> g w \<noteq> None \<and>
     alias_safe p (\<lambda>u. if u = v \<or> g u \<noteq> g v then g u else None) n"
| "alias_safe (Out v # p) g n \<longleftrightarrow> g v \<noteq> None \<and> alias_safe p g n"
| "alias_safe (Cond t p q # r) g n \<longleftrightarrow> list_all (\<lambda>v. g v \<noteq> None) (names t) \<and>
     alias_safe (p @ r) g n \<and> alias_safe (q @ r) g n"
  by pat_completeness auto
termination by (relation "measure (size_list size \<circ> fst)") auto

definition groups_ok :: "mem \<Rightarrow> vars \<Rightarrow> (string \<Rightarrow> nat option) \<Rightarrow> nat \<Rightarrow> (string \<Rightarrow> int) \<Rightarrow> bool" where
  "groups_ok m e g n s \<longleftrightarrow> mem_ok m \<and>
     (\<forall>v k. g v = Some k \<longrightarrow> k < n \<and> int_ok m (e v) \<and> val m (e v) = s v) \<and>
     (\<forall>u v j k. g u = Some j \<longrightarrow> g v = Some k \<longrightarrow> j \<noteq> k \<longrightarrow> bi_base (e u) = None \<or> bi_base (e u) \<noteq> bi_base (e v))"

lemma int_ok_base: "int_ok m h \<Longrightarrow> bi_base h = Some b \<Longrightarrow> b < next_base m"
  by (simp add: int_ok_def)

lemma groups_share: "groups_ok m e g n s \<Longrightarrow> g w \<noteq> None \<Longrightarrow> groups_ok m (e(v := e w)) (g(v := g w)) n (s(v := s w))"
  by (simp add: groups_ok_def)

lemma zero_amount: "int_ok m ZeroAmount" "val m ZeroAmount = 0" "bi_base ZeroAmount = None"
  by (simp_all add: int_ok_def ZeroAmount_def val_def mag_def words_def)

lemma groups_clear: "groups_ok m e g n s \<Longrightarrow> groups_ok m (e(v := ZeroAmount)) (g(v := Some n)) (Suc n) (s(v := 0))"
  by (auto simp: groups_ok_def zero_amount less_Suc_eq)

lemma groups_neg:
  assumes "groups_ok m e g n s" and "g v \<noteq> None"
  shows "groups_ok m (e(v := amt_Neg (e v))) g n (s(v := - s v))"
proof -
  have "int_ok m (e v)" "val m (e v) = s v" using assms by (auto simp: groups_ok_def)
  then show ?thesis using amt_Neg [of m "e v"] assms(1) by (auto simp: groups_ok_def)
qed

lemma groups_copy:
  assumes G: "groups_ok m e g n s" and w: "g w \<noteq> None" and C: "amt_Copy m (e w) = (m', h)"
  shows "groups_ok m' (e(v := h)) (g(v := Some n)) (Suc n) (s(v := s w))"
proof -
  have M: "mem_ok m" and W: "int_ok m (e w)" "val m (e w) = s w" using G w by (auto simp: groups_ok_def)
  note Z = zero_amount(1,2) [of m] zero_amount(3)
  note a = int_Add [OF M Z(1,1) W(1) C [unfolded amt_Copy_def amt_Add_def]]
  have K: "val m' (e u) = s u \<and> int_ok m' (e u) \<and> k < n" if "g u = Some k" for u k
  proof -
    have "k < n" "int_ok m (e u)" "val m (e u) = s u" using that G unfolding groups_ok_def by blast+
    moreover have "kept m m' None" using a(4) by (simp only: Z(3))
    ultimately show ?thesis unfolding kept_def by (metis option.exhaust)
  qed
  have B: "bi_base (e u) = None \<or> bi_base (e u) \<noteq> bi_base h" if "g u = Some k" for u k
    using that G a(5) int_ok_base [of m "e u"] by (fastforce simp: groups_ok_def Z(3))
  show ?thesis
    using a(1-3) W(2) Z(2) K B G by (simp add: groups_ok_def less_Suc_eq) metis
qed

lemma groups_add:
  assumes G: "groups_ok m e g n s" and v: "g v \<noteq> None" and w: "g w \<noteq> None" and A: "amt_Add m (e v) (e w) = (m', h)"
  shows "groups_ok m' (e(v := h)) (\<lambda>u. if u = v \<or> g u \<noteq> g v then g u else None) n (s(v := s v + s w))"
proof -
  obtain i where i: "g v = Some i" using v by blast
  have M: "mem_ok m" and V: "int_ok m (e v)" "val m (e v) = s v" and W: "int_ok m (e w)" "val m (e w) = s w"
    using G v w by (auto simp: groups_ok_def)
  note a = int_Add [OF M V(1,1) W(1) A [unfolded amt_Add_def]]
  have K: "val m' (e u) = s u \<and> int_ok m' (e u) \<and> k < n" if "g u = Some k" "k \<noteq> i" for u k
    using that G i a(4) unfolding groups_ok_def kept_def by metis
  have B: "bi_base (e u) = None \<or> bi_base (e u) \<noteq> bi_base h" if "g u = Some k" "k \<noteq> i" for u k
  proof -
    have "bi_base (e u) = None \<or> bi_base (e u) \<noteq> bi_base (e v)" "int_ok m (e u)"
      using that G i unfolding groups_ok_def by metis+
    then show ?thesis using a(5) int_ok_base [of m "e u"] by fastforce
  qed
  show ?thesis
    unfolding groups_ok_def
  proof (intro conjI allI impI)
    fix u j assume "(if u = v \<or> g u \<noteq> g v then g u else None) = Some j"
    then show "j < n" "int_ok m' ((e(v := h)) u)" "val m' ((e(v := h)) u) = (s(v := s v + s w)) u"
      using K [of u j] a(2,3) V W i G by (auto simp: groups_ok_def split: if_splits)
  next
    fix u u' j k
    assume "(if u = v \<or> g u \<noteq> g v then g u else None) = Some j" "(if u' = v \<or> g u' \<noteq> g v then g u' else None) = Some k" "j \<noteq> k"
    then show "bi_base ((e(v := h)) u) = None \<or> bi_base ((e(v := h)) u) \<noteq> bi_base ((e(v := h)) u')"
      using B [of u j] B [of u' k] i G by (auto simp: groups_ok_def split: if_splits)
  qed (fact a(1))
qed

lemma groups_test:
  assumes G: "groups_ok m e g n s" and t: "list_all (\<lambda>v. g v \<noteq> None) (names t)"
  shows "holds m e t \<longleftrightarrow> true_of s t"
proof -
  have v: "int_ok m (e v) \<and> val m (e v) = s v" if "v \<in> set (names t)" for v
    using G t that by (auto simp: groups_ok_def list_all_iff)
  then show ?thesis
    by (cases t) (auto simp: amt_Cmp amt_Sign sgn_0_0)
qed

theorem alias_safe_sound: "alias_safe p g n \<Longrightarrow> groups_ok m e g n s \<Longrightarrow> exec p m e = eval p s"
proof (induction p s arbitrary: g n m e rule: eval.induct)
  case (2 v p s)
  then have "alias_safe p (g(v := Some n)) (Suc n)" by auto
  then show ?case unfolding exec.simps eval.simps by (blast intro: 2(1) groups_clear [OF 2(3)])
next
  case (3 v w p s)
  then have "g w \<noteq> None" "alias_safe p (g(v := g w)) n" by auto
  then show ?case unfolding exec.simps eval.simps by (blast intro: 3(1) groups_share [OF 3(3)])
next
  case (4 v w p s)
  obtain m' h where c: "amt_Copy m (e w) = (m', h)" by fastforce
  have "g w \<noteq> None" "alias_safe p (g(v := Some n)) (Suc n)" using 4(2) by auto
  then show ?case unfolding exec.simps eval.simps c prod.case by (blast intro: 4(1) groups_copy [OF 4(3) _ c])
next
  case (5 v p s)
  then have "g v \<noteq> None" "alias_safe p g n" by auto
  then show ?case unfolding exec.simps eval.simps by (blast intro: 5(1) groups_neg [OF 5(3)])
next
  case (6 v w p s)
  obtain m' h where a: "amt_Add m (e v) (e w) = (m', h)" by fastforce
  have "g v \<noteq> None" "g w \<noteq> None" "alias_safe p (\<lambda>u. if u = v \<or> g u \<noteq> g v then g u else None) n" using 6(2) by auto
  then show ?case unfolding exec.simps eval.simps a prod.case by (blast intro: 6(1) groups_add [OF 6(3) _ _ a])
next
  case (7 v p s)
  then have "val m (e v) = s v" by (auto simp: groups_ok_def)
  with 7 show ?case by auto
next
  case (8 t p q r s)
  then show ?case using groups_test [OF 8(3)] by auto
qed simp

text \<open>
  Variables that hold given values on arrays of their own: what a document read from the ledger, a parsed
  parameter or a \<open>Copy\<close> is.
\<close>

definition held :: "mem \<Rightarrow> vars \<Rightarrow> (string \<times> int) list \<Rightarrow> bool" where
  "held m e xs \<longleftrightarrow> mem_ok m \<and> (\<forall>(v, n)\<in>set xs. int_ok m (e v) \<and> val m (e v) = n) \<and>
     (\<forall>u\<in>fst ` set xs. \<forall>v\<in>fst ` set xs. u \<noteq> v \<longrightarrow> bi_base (e u) = None \<or> bi_base (e u) \<noteq> bi_base (e v))"

fun own_groups :: "(string \<times> int) list \<Rightarrow> string \<Rightarrow> nat option" where
  "own_groups [] = Map.empty"
| "own_groups ((v, n) # xs) = (own_groups xs)(v := Some (length xs))"

fun env_of :: "(string \<times> int) list \<Rightarrow> string \<Rightarrow> int" where
  "env_of [] = (\<lambda>_. 0)"
| "env_of ((v, n) # xs) = (env_of xs)(v := n)"

lemma own_groups: "own_groups xs v = Some k \<Longrightarrow> k < length xs \<and> (v, env_of xs v) \<in> set xs"
  by (induction xs rule: own_groups.induct) (auto split: if_splits)

theorem exec_held: "held m e xs \<Longrightarrow> alias_safe p (own_groups xs) (length xs) \<Longrightarrow> exec p m e = eval p (env_of xs)"
proof (rule alias_safe_sound, assumption)
  assume H: "held m e xs"
  have V: "k < length xs \<and> int_ok m (e v) \<and> val m (e v) = env_of xs v" if "own_groups xs v = Some k" for v k
  proof -
    have "\<forall>(v, n)\<in>set xs. int_ok m (e v) \<and> val m (e v) = n" using H by (simp add: held_def)
    with own_groups [OF that] show ?thesis by auto
  qed
  have B: "bi_base (e u) = None \<or> bi_base (e u) \<noteq> bi_base (e v)"
    if u: "own_groups xs u = Some j" and v: "own_groups xs v = Some k" and "j \<noteq> k" for u v j k
  proof -
    have "u \<noteq> v" using that by auto
    have f: "u \<in> fst ` set xs" "v \<in> fst ` set xs" using own_groups [OF u] own_groups [OF v] by force+
    have "\<forall>u\<in>fst ` set xs. \<forall>v\<in>fst ` set xs. u \<noteq> v \<longrightarrow> bi_base (e u) = None \<or> bi_base (e u) \<noteq> bi_base (e v)"
      by (fact H [unfolded held_def, THEN conjunct2, THEN conjunct2])
    from bspec [OF bspec [OF this f(1)] f(2)] \<open>u \<noteq> v\<close> show ?thesis by simp
  qed
  have "mem_ok m" using H by (simp add: held_def)
  then show "groups_ok m e (own_groups xs) (length xs) (env_of xs)"
    using V B unfolding groups_ok_def by blast
qed

end
