(* ===== verification/Amount_Use.thy ===== *)
theory Amount_Use
  imports Amount_Heap Tokens Pays Wraps
begin

text \<open>
  The statements of the stubs on amounts, in the order of the code and with its sharing: for each
  operation the list \<open><Operation>_stms\<close> writes the amounts of its documents.  Its values are those of the
  documents the operation of the model writes.
\<close>

subsection \<open>The amounts of documents\<close>

definition amount_members :: "string set" where
  "amount_members = {''amount'', ''fee'', ''diff'', ''total_refund'', ''max_supply'', ''supply''}"

fun member_amount :: "string \<times> json \<Rightarrow> int list" where
  "member_amount (k, v) =
     (if k \<in> amount_members then (case amount_unmarshal v of Inl e \<Rightarrow> [] | Inr n \<Rightarrow> [n]) else [])"

fun doc_amounts :: "json \<Rightarrow> int list" where
  "doc_amounts (JObj ms) = concat (map member_amount ms)"
| "doc_amounts _ = []"

fun write_amounts :: "write_op \<Rightarrow> int list" where
  "write_amounts (Put k j) = doc_amounts j"
| "write_amounts (Del k) = []"

definition written :: "writes \<Rightarrow> int list" where
  "written ws = concat (map write_amounts ws)"

lemma written_amounts [simp]: "written (ws @ vs) = written ws @ written vs" "written [] = []"
  "written (w # ws) = write_amounts w @ written ws"
  by (simp_all add: written_def)

lemma doc_amounts_obj:
  "doc_amounts (obj []) = []"
  "doc_amounts (obj ((k, None) # fs)) = doc_amounts (obj fs)"
  "doc_amounts (obj ((k, Some v) # fs)) = member_amount (k, v) @ doc_amounts (obj fs)"
  by (simp_all add: obj_def members_of.simps)

lemma doc_amounts_other: "k \<notin> amount_members \<Longrightarrow> doc_amounts (obj ((k, v) # fs)) = doc_amounts (obj fs)"
  by (cases v) (simp_all add: doc_amounts_obj)

lemma doc_amounts_amount: "k \<in> amount_members \<Longrightarrow> doc_amounts (obj ((k, Some (amount_marshal n)) # fs)) = n # doc_amounts (obj fs)"
  by (simp add: doc_amounts_obj)

lemma doc_amounts_omit: "k \<in> amount_members \<Longrightarrow>
    doc_amounts (obj ((k, omit_amount a) # fs)) = (case a of None \<Rightarrow> [] | Some n \<Rightarrow> [n]) @ doc_amounts (obj fs)"
  by (cases a) (simp_all add: omit_amount_def doc_amounts_obj)

lemma doc_amounts_marshal [simp]:
  "doc_amounts (marshal_Balance b) = [bal_Amount b]"
  "doc_amounts (marshal_BalanceLog l) = bl_Diff l # (case bl_Fee l of None \<Rightarrow> [] | Some f \<Rightarrow> [f]) @ [bl_Amount l]"
  "doc_amounts (marshal_PendingBalance p) = pb_Amount p # (case pb_Fee p of None \<Rightarrow> [] | Some f \<Rightarrow> [f])"
  "doc_amounts (marshal_Pay y) = [pay_Amount y, pay_Fee y, pay_TotalRefund y]"
  "doc_amounts (marshal_Fee f) = [fee_Amount f]"
  "doc_amounts (marshal_Wrap w) = [wr_Amount w]"
  "doc_amounts (marshal_Token t) = [tok_MaxSupply t, tok_Supply t]"
  by (simp_all add: marshal_Balance_def marshal_BalanceLog_def marshal_PendingBalance_def marshal_Pay_def marshal_Fee_def
      marshal_Wrap_def marshal_Token_def doc_amounts_other doc_amounts_amount doc_amounts_omit doc_amounts_obj(1) amount_members_def
      del: member_amount.simps)
subsection \<open>BalanceStub\<close>

text \<open>A log literal takes the difference and the balance; \<open>CreateFee\<close> writes no zero fee.\<close>

definition log_stms :: "string \<Rightarrow> string \<Rightarrow> stm list" where
  "log_stms diff bal = [Share ''log.Diff'' diff, Share ''log.Amount'' bal, Out ''log.Diff'', Out ''log.Amount'']"

definition fee_log_stms :: "string \<Rightarrow> string \<Rightarrow> string \<Rightarrow> stm list" where
  "fee_log_stms diff fee bal =
     [Share ''log.Diff'' diff, Share ''log.Amount'' bal, Out ''log.Diff'', Out fee, Out ''log.Amount'']"

text \<open>The log returned is marshalled into the payload of the response.\<close>

definition returned_stms :: "stm list" where
  "returned_stms = [Out ''log.Diff'', Out ''log.Amount'']"

definition CreateFee_stms :: "stm list" where
  "CreateFee_stms = [Cond (Zero ''fee'') [] [Share ''fee.Amount'' ''fee'', Out ''fee.Amount'']]"

definition Supply_stms :: "stm list" where
  "Supply_stms = [AddTo ''bal'' ''diff'', Out ''bal''] @ log_stms ''diff'' ''bal''"

definition receive_stms :: "bool \<Rightarrow> stm list" where
  "receive_stms lock =
     (if lock then [Share ''pb.Amount'' ''amount'', Out ''pb.Amount'']
      else [AddTo ''receiver'' ''amount'', Out ''receiver'',
            Cond (Negative ''amount'') (log_stms ''amount'' ''sender'') (log_stms ''amount'' ''receiver'')])"

definition Transfer_stms :: "bool \<Rightarrow> stm list" where
  "Transfer_stms lock = receive_stms lock @
     [Negate ''amount'', AddTo ''sender'' ''amount'', Copy ''t'' ''fee'', Negate ''t'', AddTo ''sender'' ''t'', Out ''sender'',
      Cond (Negative ''amount'') (fee_log_stms ''amount'' ''fee'' ''sender'') (log_stms ''amount'' ''receiver'')] @
     CreateFee_stms @ returned_stms"

definition Deposit_stms :: "bool \<Rightarrow> stm list" where
  "Deposit_stms has_fee =
     [Share ''pb.Amount'' ''amount'', Out ''pb.Amount''] @ (if has_fee then [Out ''fee''] else []) @
     [Copy ''applied'' ''amount''] @ (if has_fee then [AddTo ''applied'' ''fee''] else []) @
     [Negate ''applied'', AddTo ''sender'' ''applied'', Out ''sender'', Copy ''diff'' ''pb.Amount'', Negate ''diff''] @
     (if has_fee then fee_log_stms ''diff'' ''fee'' ''sender'' else log_stms ''diff'' ''sender'') @ returned_stms"

definition Withdraw_stms :: "bool \<Rightarrow> stm list" where
  "Withdraw_stms has_fee =
     [Copy ''applied'' ''pb.Amount''] @ (if has_fee then [AddTo ''applied'' ''pb.Fee''] else []) @
     [AddTo ''bal'' ''applied'', Out ''bal'', Copy ''diff'' ''pb.Amount''] @
     (if has_fee then [AddTo ''diff'' ''pb.Fee''] else []) @ log_stms ''diff'' ''bal'' @ returned_stms"

subsection \<open>TokenStub\<close>

definition token_stms :: "stm list" where
  "token_stms = [Out ''token.MaxSupply'', Out ''token.Supply'']"

definition Mint_stms :: "stm list" where
  "Mint_stms =
     [AddTo ''token.Supply'' ''amount'',
      Cond (Less ''token.MaxSupply'' ''token.Supply'')
        [AddTo ''amount'' ''token.MaxSupply'', Negate ''token.Supply'', AddTo ''amount'' ''token.Supply'',
         Share ''token.Supply'' ''token.MaxSupply''] []] @
     token_stms @ [Share ''diff'' ''amount''] @ Supply_stms @ returned_stms"

definition Burn_stms :: "stm list" where
  "Burn_stms =
     [Cond (Less ''bal'' ''amount'') [Copy ''t'' ''bal'', Share ''amount'' ''t''] [],
      Cond (Positive ''amount'')
        ([Negate ''amount'', Share ''diff'' ''amount''] @ Supply_stms @ [AddTo ''token.Supply'' ''amount''] @ token_stms @ returned_stms) []]"

subsection \<open>PayStub\<close>

definition pay_stms :: "stm list" where
  "pay_stms = [Clear ''pay.TotalRefund'', Out ''pay.Amount'', Out ''pay.Fee'', Out ''pay.TotalRefund'']"

definition pay_log_stms :: "string \<Rightarrow> stm list" where
  "pay_log_stms bal = [Copy ''diff'' ''pay.Amount'', Negate ''diff''] @ log_stms ''diff'' bal"

definition Pay_stms :: "stm list" where
  "Pay_stms = [Share ''pay.Amount'' ''amount'', Share ''pay.Fee'' ''fee''] @ pay_stms @
     [Negate ''amount'', AddTo ''sender'' ''amount'', Out ''sender''] @ pay_log_stms ''sender'' @ returned_stms"

definition Refund_stms :: "stm list" where
  "Refund_stms =
     [Copy ''pay.Amount'' ''amount'', Negate ''pay.Amount'', Copy ''pay.Fee'' ''fee'', Negate ''pay.Fee''] @ pay_stms @
     [AddTo ''parent.TotalRefund'' ''amount'', Out ''parent.Amount'', Out ''parent.Fee'', Out ''parent.TotalRefund'',
      AddTo ''receiver'' ''amount'', Out ''receiver''] @ pay_log_stms ''receiver'' @ returned_stms"

subsection \<open>WrapStub\<close>

definition Wrap_stms :: "stm list" where
  "Wrap_stms = [Share ''wrap.Amount'' ''amount'', Out ''wrap.Amount'', Negate ''amount'', AddTo ''sender'' ''amount'', Out ''sender''] @
     log_stms ''amount'' ''sender'' @ returned_stms"

definition WrapComplete_stms :: "stm list" where
  "WrapComplete_stms = [Copy ''diff'' ''wrap.Amount'', Copy ''t'' ''fee'', Negate ''t'', AddTo ''diff'' ''t'',
      Cond (Positive ''diff'')
        ([Out ''wrap.Amount'', AddTo ''wBal'' ''diff'', Out ''wBal'', Copy ''log.Fee'' ''fee''] @
         fee_log_stms ''wrap.Amount'' ''log.Fee'' ''wBal'' @ CreateFee_stms @ returned_stms) []]"

text \<open>\<open>Unwrap\<close> returns its first log, made before the sign of \<open>amount\<close> is changed.\<close>

definition Unwrap_stms :: "stm list" where
  "Unwrap_stms =
     [AddTo ''receiver'' ''amount'', Out ''receiver'', Share ''rbl.Diff'' ''amount'', Share ''rbl.Amount'' ''receiver'',
      Out ''rbl.Diff'', Out ''rbl.Amount'', Negate ''amount'', AddTo ''wrapper'' ''amount'', Out ''wrapper''] @
     log_stms ''amount'' ''wrapper'' @ [Out ''rbl.Diff'', Out ''rbl.Amount'']"

lemmas stms_defs = log_stms_def fee_log_stms_def CreateFee_stms_def Supply_stms_def receive_stms_def token_stms_def
  pay_stms_def pay_log_stms_def returned_stms_def

subsection \<open>The operations write what their statements write\<close>

lemmas log_defs = zero_BalanceLog_def NewBalanceTransferLog_def NewBalanceSupplyLog_def NewBalanceDepositLog_def
  NewBalanceWithdrawLog_def NewBalancePayLog_def NewBalanceRefundLog_def NewBalanceWrapLog_def NewBalanceWrapCompleteLog_def
  NewBalanceUnwrapLog_def NewBalanceUnwrapCompleteLog_def

definition fee_of :: "int option \<Rightarrow> int" where
  "fee_of f = (case f of None \<Rightarrow> 0 | Some n \<Rightarrow> n)"

definition log_amounts :: "BalanceLog \<Rightarrow> int list" where
  "log_amounts l = [bl_Diff l, bl_Amount l]"

lemma exec_writes:
  "held m e xs \<Longrightarrow> alias_safe p (own_groups xs) (length xs) \<Longrightarrow> zs = ws @ eval p (env_of xs) \<Longrightarrow> zs = ws @ exec p m e"
  by (simp only: exec_held)

lemma Transfer_eval:
  "eval (Transfer_stms lock) (env_of [(''sender'', x), (''receiver'', y), (''amount'', a), (''fee'', f)]) =
     (let y' = (if lock then y else y + a); x' = x - a - f
      in (if lock then [a] else if a < 0 then [y', a, x] else [y', a, y']) @
         (if 0 < a then [x', - a, f, x'] else [x', - a, y']) @ (if f = 0 then [] else [f]) @ [- a, if 0 < a then x' else y'])"
  by (simp add: Transfer_stms_def stms_defs Let_def)

lemma Transfer_written:
  assumes "held m e [(''sender'', bal_Amount s), (''receiver'', bal_Amount r), (''amount'', a), (''fee'', f)]"
    and "Transfer st ws s r a f memo oid pt = Inr (l, vs)" and "get_time st = Inr ts"
  shows "written vs @ log_amounts l = written ws @ exec (Transfer_stms (locked pt ts)) m e"
  by (rule exec_writes [OF assms(1)], simp add: Transfer_stms_def stms_defs, unfold Transfer_eval,
      use assms(2-) in \<open>auto simp: Transfer_def transfer_receive_def NewPendingBalance_def Let_def ok_simps log_defs log_amounts_def split: if_splits\<close>)

lemma Deposit_written:
  assumes "held m e [(''sender'', bal_Amount s), (''amount'', a), (''fee'', fee_of f)]"
    and "Deposit st ws i s con a f memo oid = Inr (l, vs)"
  shows "written vs @ log_amounts l = written ws @ exec (Deposit_stms (f \<noteq> None)) m e"
  by (rule exec_writes [OF assms(1)], simp add: Deposit_stms_def stms_defs,
      use assms(2-) in \<open>auto simp: Deposit_def NewPendingBalance_def applied_def Let_def ok_simps fee_of_def log_defs log_amounts_def Deposit_stms_def stms_defs split: option.splits\<close>)

lemma Withdraw_written:
  assumes "held m e [(''bal'', bal_Amount b), (''pb.Amount'', pb_Amount p), (''pb.Fee'', fee_of (pb_Fee p))]"
    and "Withdraw st ws p = Inr (l, vs)" and "GetBalance st (pb_Account p) = Inr b"
  shows "written vs @ log_amounts l = written ws @ exec (Withdraw_stms (pb_Fee p \<noteq> None)) m e"
  by (rule exec_writes [OF assms(1)], simp add: Withdraw_stms_def stms_defs,
      use assms(2-) in \<open>auto simp: Withdraw_def applied_def Let_def ok_simps fee_of_def log_defs log_amounts_def Withdraw_stms_def stms_defs split: option.splits\<close>)

lemma Mint_written:
  assumes "held m e [(''token.MaxSupply'', tok_MaxSupply t), (''token.Supply'', tok_Supply t), (''bal'', bal_Amount b), (''amount'', a)]"
    and "Mint st ws t b a = Inr ((t', l), vs)"
  shows "written vs @ log_amounts l = written ws @ exec Mint_stms m e"
  by (rule exec_writes [OF assms(1)], simp add: Mint_stms_def stms_defs,
      use assms(2-) in \<open>auto simp: Mint_def Supply_def Let_def ok_simps fee_of_def log_defs log_amounts_def Mint_stms_def stms_defs split: if_splits\<close>)

lemma Burn_written:
  assumes "held m e [(''token.MaxSupply'', tok_MaxSupply t), (''token.Supply'', tok_Supply t), (''bal'', bal_Amount b), (''amount'', a)]"
    and "Burn st ws t b a = Inr ((t', lo), vs)"
  shows "written vs @ (case lo of None \<Rightarrow> [] | Some l \<Rightarrow> log_amounts l) = written ws @ exec Burn_stms m e"
  by (rule exec_writes [OF assms(1)], simp add: Burn_stms_def stms_defs,
      use assms(2-) in \<open>auto simp: Burn_def Supply_def Let_def ok_simps fee_of_def log_defs log_amounts_def Burn_stms_def stms_defs split: if_splits\<close>)

lemma Pay_written:
  assumes "held m e [(''sender'', bal_Amount s), (''amount'', a), (''fee'', f)]"
    and "PayOp st ws s i a f oid memo = Inr ((y, l), vs)"
  shows "written vs @ log_amounts l = written ws @ exec Pay_stms m e"
  by (rule exec_writes [OF assms(1)], simp add: Pay_stms_def stms_defs,
      use assms(2-) in \<open>auto simp: PayOp_def NewPay_def Let_def ok_simps fee_of_def log_defs log_amounts_def Pay_stms_def stms_defs\<close>)

lemma Refund_written:
  assumes "held m e [(''receiver'', bal_Amount r), (''amount'', a), (''fee'', f), (''parent.Amount'', pay_Amount y), (''parent.Fee'', pay_Fee y), (''parent.TotalRefund'', pay_TotalRefund y)]"
    and "Refund st ws s r a f memo oid y = Inr (l, vs)"
  shows "written vs @ log_amounts l = written ws @ exec Refund_stms m e"
  by (rule exec_writes [OF assms(1)], simp add: Refund_stms_def stms_defs,
      use assms(2-) in \<open>auto simp: Refund_def NewPay_def Let_def ok_simps fee_of_def log_defs log_amounts_def Refund_stms_def stms_defs\<close>)

lemma Wrap_written:
  assumes "held m e [(''sender'', bal_Amount s), (''amount'', a)]"
    and "WrapOp st ws s a ec ei memo oid = Inr (l, vs)"
  shows "written vs @ log_amounts l = written ws @ exec Wrap_stms m e"
  by (rule exec_writes [OF assms(1)], simp add: Wrap_stms_def stms_defs,
      use assms(2-) in \<open>auto simp: WrapOp_def Let_def ok_simps fee_of_def log_defs log_amounts_def Wrap_stms_def stms_defs\<close>)

lemma WrapComplete_written:
  assumes "held m e [(''wrap.Amount'', wr_Amount w), (''wBal'', bal_Amount b), (''fee'', f)]"
    and "WrapComplete st ws w b f tx = Inr (l, vs)"
  shows "written vs @ log_amounts l = written ws @ exec WrapComplete_stms m e"
  by (rule exec_writes [OF assms(1)], simp add: WrapComplete_stms_def stms_defs,
      use assms(2-) in \<open>auto simp: WrapComplete_def Let_def ok_simps fee_of_def log_defs log_amounts_def WrapComplete_stms_def stms_defs split: if_splits\<close>)

lemma Unwrap_written:
  assumes "held m e [(''wrapper'', bal_Amount w), (''receiver'', bal_Amount r), (''amount'', a)]"
    and "UnwrapOp st ws w r a ec ei tx = Inr (l, vs)"
  shows "written vs @ log_amounts l = written ws @ exec Unwrap_stms m e"
  by (rule exec_writes [OF assms(1)], simp add: Unwrap_stms_def stms_defs,
      use assms(2-) in \<open>auto simp: UnwrapOp_def Let_def ok_simps fee_of_def log_defs log_amounts_def Unwrap_stms_def stms_defs\<close>)

subsection \<open>Runs\<close>

text \<open>
  \<open>op_run st ws vs out p xs\<close>: an operation of the stubs succeeds, its writes extend \<open>ws\<close> to \<open>vs\<close>, the log
  it returns has the amounts \<open>out\<close>, and its statements are \<open>p\<close> with the amounts \<open>xs\<close> as arguments.
\<close>

inductive op_run :: "stub \<Rightarrow> writes \<Rightarrow> writes \<Rightarrow> int list \<Rightarrow> stm list \<Rightarrow> (string \<times> int) list \<Rightarrow> bool" for st ws where
  run_Transfer: "Transfer st ws s r a f memo oid pt = Inr (l, vs) \<Longrightarrow> get_time st = Inr ts \<Longrightarrow>
    op_run st ws vs (log_amounts l) (Transfer_stms (locked pt ts))
      [(''sender'', bal_Amount s), (''receiver'', bal_Amount r), (''amount'', a), (''fee'', f)]"
| run_Deposit: "Deposit st ws i s con a fo memo oid = Inr (l, vs) \<Longrightarrow>
    op_run st ws vs (log_amounts l) (Deposit_stms (fo \<noteq> None)) [(''sender'', bal_Amount s), (''amount'', a), (''fee'', fee_of fo)]"
| run_Withdraw: "Withdraw st ws p = Inr (l, vs) \<Longrightarrow> GetBalance st (pb_Account p) = Inr b \<Longrightarrow>
    op_run st ws vs (log_amounts l) (Withdraw_stms (pb_Fee p \<noteq> None))
      [(''bal'', bal_Amount b), (''pb.Amount'', pb_Amount p), (''pb.Fee'', fee_of (pb_Fee p))]"
| run_Mint: "Mint st ws t b a = Inr ((t', l), vs) \<Longrightarrow>
    op_run st ws vs (log_amounts l) Mint_stms
      [(''token.MaxSupply'', tok_MaxSupply t), (''token.Supply'', tok_Supply t), (''bal'', bal_Amount b), (''amount'', a)]"
| run_Burn: "Burn st ws t b a = Inr ((t', lo), vs) \<Longrightarrow>
    op_run st ws vs (case lo of None \<Rightarrow> [] | Some l \<Rightarrow> log_amounts l) Burn_stms
      [(''token.MaxSupply'', tok_MaxSupply t), (''token.Supply'', tok_Supply t), (''bal'', bal_Amount b), (''amount'', a)]"
| run_Pay: "PayOp st ws s i a f oid memo = Inr ((y, l), vs) \<Longrightarrow>
    op_run st ws vs (log_amounts l) Pay_stms [(''sender'', bal_Amount s), (''amount'', a), (''fee'', f)]"
| run_Refund: "Refund st ws s r a f memo oid y = Inr (l, vs) \<Longrightarrow>
    op_run st ws vs (log_amounts l) Refund_stms
      [(''receiver'', bal_Amount r), (''amount'', a), (''fee'', f), (''parent.Amount'', pay_Amount y),
       (''parent.Fee'', pay_Fee y), (''parent.TotalRefund'', pay_TotalRefund y)]"
| run_Wrap: "WrapOp st ws s a ec ei memo oid = Inr (l, vs) \<Longrightarrow>
    op_run st ws vs (log_amounts l) Wrap_stms [(''sender'', bal_Amount s), (''amount'', a)]"
| run_WrapComplete: "WrapComplete st ws w b f tx = Inr (l, vs) \<Longrightarrow>
    op_run st ws vs (log_amounts l) WrapComplete_stms [(''wrap.Amount'', wr_Amount w), (''wBal'', bal_Amount b), (''fee'', f)]"
| run_Unwrap: "UnwrapOp st ws w' r a ec ei tx = Inr (l, vs) \<Longrightarrow>
    op_run st ws vs (log_amounts l) Unwrap_stms [(''wrapper'', bal_Amount w'), (''receiver'', bal_Amount r), (''amount'', a)]"

lemmas op_written = Transfer_written Deposit_written Withdraw_written Mint_written Burn_written Pay_written Refund_written
  Wrap_written WrapComplete_written Unwrap_written

end
