(* ===== verification/Props_Amounts.thy ===== *)
theory Props_Amounts
  imports Amount_Use Example_Runs
begin







end
