(* ===== verification/Panic_Freedom.thy ===== *)
theory Panic_Freedom
  imports Conservation
begin

text \<open>
  The money routes do not bring the chaincode down: on a well-formed ledger, with a platform that
  itself does not panic, they end in a response.
\<close>

named_theorems calm_simps \<open>results that are not panics\<close>

definition calm_res :: "goerr + 'a \<Rightarrow> bool" where
  "calm_res m \<longleftrightarrow> m \<noteq> Inl Panicked"

definition calm_out :: "outcome \<Rightarrow> bool" where
  "calm_out r \<longleftrightarrow> r \<noteq> Panic"

lemma calm_basic [calm_simps]:
  "calm_res (Inr x)" "calm_res (Inl e) \<longleftrightarrow> e \<noteq> Panicked"
  "calm_out (Success p ws)" "calm_out (Failure m)" "\<not> calm_out Panic"
  by (simp_all add: calm_res_def calm_out_def)

lemma calm_bind [calm_simps]:
  "calm_res (case m of Inl e \<Rightarrow> Inl e | Inr x \<Rightarrow> g x) \<longleftrightarrow> calm_res m \<and> (\<forall>x. m = Inr x \<longrightarrow> calm_res (g x))"
  "calm_res (case m of Inl e \<Rightarrow> Inl (err_wrap e s) | Inr x \<Rightarrow> g x) \<longleftrightarrow>
     calm_res m \<and> (\<forall>x. m = Inr x \<longrightarrow> calm_res (g x))"
  "calm_out (case m of Inl e \<Rightarrow> fail_text e | Inr x \<Rightarrow> h x) \<longleftrightarrow> calm_res m \<and> (\<forall>x. m = Inr x \<longrightarrow> calm_out (h x))"
  "calm_out (case m of Inl e \<Rightarrow> fail_msg e s | Inr x \<Rightarrow> h x) \<longleftrightarrow> calm_res m \<and> (\<forall>x. m = Inr x \<longrightarrow> calm_out (h x))"
  "calm_out (case m of Inl e \<Rightarrow> responseError e s | Inr x \<Rightarrow> h x) \<longleftrightarrow>
     calm_res m \<and> (\<forall>x. m = Inr x \<longrightarrow> calm_out (h x))"
  by (cases m; auto simp: calm_res_def calm_out_def)+

lemma calm_replaced [calm_simps]:
  "calm_res (case m of Inl e \<Rightarrow> Inl (Plain s) | Inr x \<Rightarrow> g x) \<longleftrightarrow> (\<forall>x. m = Inr x \<longrightarrow> calm_res (g x))"
  "calm_out (case v of Inl r \<Rightarrow> r | Inr x \<Rightarrow> h x) \<longleftrightarrow>
     (\<forall>r. v = Inl r \<longrightarrow> calm_out r) \<and> (\<forall>x. v = Inr x \<longrightarrow> calm_out (h x))"
  by (cases m; auto simp: calm_res_def) (cases v; auto)

lemma calm_map_sum [calm_simps]: "calm_res (map_sum id f m) \<longleftrightarrow> calm_res m"
  by (cases m) (auto simp: calm_res_def)

lemma calm_option [calm_simps]:
  "calm_res (case v of None \<Rightarrow> r | Some x \<Rightarrow> g x) \<longleftrightarrow> (v = None \<longrightarrow> calm_res r) \<and> (\<forall>x. v = Some x \<longrightarrow> calm_res (g x))"
  "calm_out (case v of None \<Rightarrow> q | Some x \<Rightarrow> h x) \<longleftrightarrow> (v = None \<longrightarrow> calm_out q) \<and> (\<forall>x. v = Some x \<longrightarrow> calm_out (h x))"
  by (cases v; simp)+

lemma calm_prod [calm_simps]:
  "calm_res (case q of (a, b) \<Rightarrow> g2 a b) \<longleftrightarrow> (\<forall>a b. q = (a, b) \<longrightarrow> calm_res (g2 a b))"
  "calm_out (case q of (a, b) \<Rightarrow> h2 a b) \<longleftrightarrow> (\<forall>a b. q = (a, b) \<longrightarrow> calm_out (h2 a b))"
  by (cases q; simp)+

lemma calm_if [calm_simps]:
  "calm_res (if c then r else r') \<longleftrightarrow> (c \<longrightarrow> calm_res r) \<and> (\<not> c \<longrightarrow> calm_res r')"
  "calm_out (if c then q else q') \<longleftrightarrow> (c \<longrightarrow> calm_out q) \<and> (\<not> c \<longrightarrow> calm_out q')"
  by simp_all

subsection \<open>Documents\<close>

lemma type_error_calm [calm_simps]: "type_error \<noteq> Panicked"
  by simp

lemma dec_calm [calm_simps]:
  "calm_res (dec_str x v)" "calm_res (dec_int l h n v)" "calm_res (amount_unmarshal j)"
  "calm_res (dec_amount a v)" "calm_res (dec_amount_ptr p v)" "calm_res (dec_time_ptr t v)"
proof -
  show a: "calm_res (amount_unmarshal j)" for j
    by (cases j) (auto simp: calm_simps split: option.splits)
  show "calm_res (dec_str x v)" by (cases "(x, v)" rule: dec_str.cases) (simp_all add: calm_simps)
  show "calm_res (dec_int l h n v)" by (cases "(l, h, n, v)" rule: dec_int.cases) (simp_all add: calm_simps)
  show "calm_res (dec_amount a v)" by (cases v) (simp_all add: a calm_simps)
  show "calm_res (dec_amount_ptr p v)" by (cases "(p, v)" rule: dec_amount_ptr.cases) (simp_all add: a calm_simps)
  show "calm_res (dec_time_ptr t v)" by (cases "(t, v)" rule: dec_time_ptr.cases) (simp_all add: calm_simps)
qed

lemma dec_byte_calm [calm_simps]: "calm_res (dec_byte b v)"
  by (simp add: calm_simps)

lemma dec_struct_calm [calm_simps]: "(\<And>ms. calm_res (d old ms)) \<Longrightarrow> calm_res (dec_struct d old j)"
  by (simp add: dec_struct_def calm_simps split: json.split)

lemma dec_map_calm [calm_simps]: "(\<And>j. calm_res (d j)) \<Longrightarrow> calm_res (dec_map d m ms)"
  by (induction d m ms rule: dec_map.induct) (simp_all add: calm_simps)

lemma set_unmarshal_calm [calm_simps]: "calm_res (set_unmarshal s j)"
proof -
  have "calm_res (dec_str_elems js)" for js
    by (induction js rule: dec_str_elems.induct) (simp_all add: calm_simps)
  then show ?thesis by (cases "(s, j)" rule: set_unmarshal.cases) (simp_all add: calm_simps)
qed

lemma unmarshal_money_calm [calm_simps]:
  "calm_res (unmarshal_Balance j)" "calm_res (unmarshal_Pay j)"
  by (auto simp: unmarshal_Balance_def dec_Balance_def unmarshal_Pay_def dec_Pay_def intro!: dec_struct_calm
      simp: calm_simps)

lemma dec_Account_calm [calm_simps]: "calm_res (dec_Account a ms)"
  by (auto simp: dec_Account_def calm_simps)

lemma unmarshal_account_calm [calm_simps]:
  "calm_res (unmarshal_Account j)" "calm_res (unmarshal_JointAccount j)"
  by (auto simp: unmarshal_Account_def unmarshal_JointAccount_def dec_JointAccount_def
      intro!: dec_struct_calm simp: calm_simps)

lemma unmarshal_policies_calm [calm_simps]:
  "calm_res (unmarshal_FeeRate j)" "calm_res (unmarshal_WrapPolicy j)"
  by (auto simp: unmarshal_FeeRate_def dec_FeeRate_def unmarshal_WrapPolicy_def dec_WrapPolicy_def
      intro!: dec_struct_calm simp: calm_simps)

lemma dec_FeePolicy_calm [calm_simps]: "calm_res (dec_FeePolicy p ms)"
proof -
  have "calm_res (dec_rates r v)" for r v
    by (cases "(r, v)" rule: dec_rates.cases) (auto simp: calm_simps intro!: dec_map_calm)
  then show ?thesis by (simp add: dec_FeePolicy_def calm_simps)
qed

lemma unmarshal_Token_calm [calm_simps]: "calm_res (unmarshal_Token j)"
proof -
  have "calm_res (dec_policy_ptr p v)" for p v
    by (cases "(p, v)" rule: dec_policy_ptr.cases)
       (auto simp: calm_simps unmarshal_FeePolicy_def intro!: dec_struct_calm)
  moreover have "calm_res (dec_bridge b v)" for b v
    by (cases "(b, v)" rule: dec_bridge.cases) (auto simp: calm_simps intro!: dec_map_calm)
  ultimately show ?thesis
    by (auto simp: unmarshal_Token_def dec_Token_def calm_simps intro!: dec_struct_calm)
qed

subsection \<open>The platform\<close>

text \<open>
  No call of the platform panics, and a contract the contract chaincode has created comes back with the
  members the accessors assert.
\<close>

definition platform_calm :: "stub \<Rightarrow> bool" where
  "platform_calm st \<longleftrightarrow> (\<forall>k. calm_res (st_get st k)) \<and> calm_res (st_timestamp st) \<and>
     (\<forall>k j. st_put_err st k j \<noteq> Some Panicked) \<and> (\<forall>s. calm_res (st_json st s)) \<and>
     (\<forall>doc e s con. create_contract st doc e s = Inr con \<longrightarrow>
        calm_res (con_GetID con) \<and> calm_res (con_GetExpiryTime con))"

text \<open>The rates of a token are numbers (\<open>ParseFeePolicy\<close> accepts no others).\<close>

definition rates_parse :: "stub \<Rightarrow> bool" where
  "rates_parse st \<longleftrightarrow> (\<forall>code t p fn r. GetToken st code = Inr t \<longrightarrow> tok_FeePolicy t = Some p \<longrightarrow>
     map_of (fp_Rates p) fn = Some r \<longrightarrow> rat_set_string (fr_Rate r) \<noteq> None)"

lemma platform_simps:
  assumes "platform_calm st"
  shows "calm_res (st_get st k)" "calm_res (get_state st k)" "calm_res (st_timestamp st)"
    "calm_res (put_state st ws k j)" "calm_res (st_json st s)"
    "create_contract st doc e s' = Inr con \<Longrightarrow> calm_res (con_GetID con)"
    "create_contract st doc e s' = Inr con \<Longrightarrow> calm_res (con_GetExpiryTime con)"
  using assms by (auto simp: platform_calm_def get_state_def put_state_def calm_simps split: option.split)

lemmas calm_platform [calm_simps] = platform_simps

lemma reads_calm [calm_simps]:
  assumes "platform_calm st"
  shows "calm_res (GetBalance st i)" "calm_res (GetToken st code)" "calm_res (GetAccount st a)" "calm_res (get_time st)"
  using assms
  by (auto simp: GetBalance_def GetBalanceState_def GetToken_def GetTokenState_def GetAccount_def GetAccountState_def
      get_time_def Let_def calm_simps)

lemma params_calm [calm_simps]:
  "calm_res (get_kid st b)" "calm_res (NewAmount s)" "calm_res (ParseAddress st s)" "calm_res (ParseCode s)"
proof -
  show "calm_res (get_kid st b)" by (auto simp: get_kid_def calm_simps)
  show "calm_res (NewAmount s)" by (auto simp: NewAmount_def calm_simps)
  show "calm_res (ParseCode s)" by (auto simp: ParseCode_def Let_def calm_simps)
  have "calm_res (ValidateTokenCode c)" for c by (auto simp: ValidateTokenCode_def Let_def calm_simps)
  then have "addr_Validate st a \<noteq> Some Panicked" for a
    by (auto simp: addr_Validate_def Let_def calm_simps split: sum.splits)
  then show "calm_res (ParseAddress st s)" by (auto simp: ParseAddress_def Let_def calm_simps)
qed

lemma CalcFee_calm [calm_simps]: "platform_calm st \<Longrightarrow> rates_parse st \<Longrightarrow> calm_res (CalcFee st a fn x)"
  unfolding CalcFee_def by (auto simp: calm_simps rates_parse_def)

lemma writes_calm [calm_simps]:
  assumes "platform_calm st"
  shows "calm_res (PutBalance st ws b)" "calm_res (PutPendingBalance st ws pb)" "calm_res (PutFee st ws f)"
    "calm_res (PutPay st ws q)" "calm_res (PutParentPay st ws k q)"
    "bl_CreatedTime l \<noteq> None \<Longrightarrow> calm_res (PutBalanceLog st ws l)"
  using assms
  by (auto simp: PutBalance_def PutPendingBalance_def PutFee_def PutPay_def PutParentPay_def PutBalanceLog_def
      Let_def calm_simps)

lemma CreateFee_calm [calm_simps]: "platform_calm st \<Longrightarrow> calm_res (CreateFee st ws a x)"
  by (auto simp: CreateFee_def Let_def calm_simps)

lemma Transfer_calm [calm_simps]: "platform_calm st \<Longrightarrow> calm_res (Transfer st ws s r a f m oid pt)"
  by (auto simp: Transfer_def transfer_receive_def NewPendingBalance_def Let_def calm_simps)

lemma PayOp_calm [calm_simps]: "platform_calm st \<Longrightarrow> calm_res (PayOp st ws s r a f oid m)"
  by (auto simp: PayOp_def Let_def calm_simps)

lemma Refund_calm [calm_simps]: "platform_calm st \<Longrightarrow> calm_res (Refund st ws s r a f m oid q)"
  by (auto simp: Refund_def Let_def calm_simps)

lemma create_contract_calm [calm_simps]: "platform_calm st \<Longrightarrow> calm_res (create_contract st doc e s)"
  by (auto simp: create_contract_def json_object_def calm_simps split: json.splits)

lemma Deposit_calm:
  "platform_calm st \<Longrightarrow> create_contract st doc e s' = Inr con \<Longrightarrow> calm_res (Deposit st ws i s con a f m oid)"
  by (auto simp: Deposit_def NewPendingBalance_def Let_def calm_simps)

subsection \<open>Accounts\<close>

lemma account_calm:
  assumes "world_ok st" and "addr_ok st a" and "GetAccount st a = Inr acc"
  shows "calm_res (ai_HasHolder acc kid)" "acc = PAC p \<Longrightarrow> calm_res (acc_Holder p)"
proof -
  have l: "48 \<le> length (ai_GetID acc)"
    using read_ids(1) [OF assms(1,3)] length_addr_String [OF assms(2)] by simp
  show h: "calm_res (acc_Holder p)" if "acc = PAC p" for p
    using l that by (simp add: acc_Holder_def Let_def calm_simps)
  show "calm_res (ai_HasHolder acc kid)"
    using h by (cases acc) (auto simp: calm_simps)
qed

lemma signers_calm [calm_simps]:
  assumes "world_ok st" and "platform_calm st"
  shows "calm_res (GetSignableIDs st tok s)" "calm_res (add_signers st tok ids ss)" "calm_res (extra_signers st tok ids ss)"
proof -
  show g: "calm_res (GetSignableIDs st tok s)" for s
    using assms parsed_ok [OF assms(1)] account_calm(2) [OF assms(1) _ _ refl]
    by (auto simp: GetSignableIDs_def calm_simps split: AccountI.split)
  show a: "calm_res (add_signers st tok ids ss)" for ids ss
    by (induction ss arbitrary: ids) (simp_all add: g calm_simps)
  show "calm_res (extra_signers st tok ids ss)" by (simp add: extra_signers_def a)
qed

subsection \<open>The routes\<close>

lemma transfer_opts_calm [calm_simps]:
  "world_ok st \<Longrightarrow> platform_calm st \<Longrightarrow> calm_res (transfer_opts st tok kid acc ps)"
  by (auto simp: transfer_opts_def pending_opt_def Let_def calm_simps)

lemma transfer_send_calm:
  "platform_calm st \<Longrightarrow> calm_out (transfer_send st ps a f s r sb rb opts)"
  by (auto simp: transfer_send_def Let_def calm_simps Deposit_calm)

lemma pay_send_calm:
  "platform_calm st \<Longrightarrow> rates_parse st \<Longrightarrow> calm_out (pay_send st ps kid a r s rc sb)"
  by (auto simp: pay_send_def Let_def calm_simps Deposit_calm)

lemma fail_calm [calm_simps]:
  "calm_out (fail_text e) \<longleftrightarrow> e \<noteq> Panicked" "calm_out (fail_msg e m) \<longleftrightarrow> e \<noteq> Panicked"
  "calm_out (responseError e m) \<longleftrightarrow> e \<noteq> Panicked"
  by (simp_all add: calm_out_def)

lemma sender_calm:
  assumes "world_ok st" and "ParseAddress st x = Inr rAddr"
  shows "sender_address st kid rAddr s (\<lambda>e. fail_msg e m) = Inl r \<Longrightarrow> calm_out r"
    and "sender_address st kid rAddr s (\<lambda>e. responseError e m) = Inl r \<Longrightarrow> calm_out r"
    and "sender_address st kid rAddr s f = Inr a \<Longrightarrow> GetAccount st a = Inr acc \<Longrightarrow> calm_res (ai_HasHolder acc k)"
proof -
  have "ParseAddress st s \<noteq> Inl Panicked" using params_calm(3) [of st s] by (simp add: calm_res_def)
  then show "sender_address st kid rAddr s (\<lambda>e. fail_msg e m) = Inl r \<Longrightarrow> calm_out r"
    "sender_address st kid rAddr s (\<lambda>e. responseError e m) = Inl r \<Longrightarrow> calm_out r"
    by (auto simp: sender_address_def calm_simps split: if_splits sum.splits)
  have "token_code_ok (addr_Code rAddr)" using parsed_ok [OF assms] by (simp add: addr_ok_def)
  then show "calm_res (ai_HasHolder acc k)" if "sender_address st kid rAddr s f = Inr a" "GetAccount st a = Inr acc"
    using that parsed_ok [OF assms(1)] new_ok [OF assms(1)] account_calm(1) [OF assms(1) _ that(2)]
    by (auto simp: sender_address_def split: if_splits sum.splits)
qed

lemma transfer_calm:
  assumes "world_ok st" and "platform_calm st" and "rates_parse st"
  shows "calm_out (transfer st ps)"
  using assms by (auto simp: transfer_def calm_simps transfer_send_calm intro: sender_calm)

lemma pay_calm:
  assumes "world_ok st" and "platform_calm st" and "rates_parse st"
  shows "calm_out (pay st ps)"
  using assms by (auto simp: pay_def calm_simps pay_send_calm intro: sender_calm)

lemma GetPay_calm [calm_simps]: "platform_calm st \<Longrightarrow> calm_res (GetPay st i)"
  by (auto simp: GetPay_def GetPayState_def calm_simps)

lemma parsed_calm:
  "world_ok st \<Longrightarrow> ParseAddress st s = Inr a \<Longrightarrow> GetAccount st a = Inr acc \<Longrightarrow> calm_res (ai_HasHolder acc k)"
  by (blast intro: account_calm parsed_ok)

lemma refund_fee_calm:
  assumes "pays_ok st" and "GetPay st i = Inr q" and "\<not> x < 1" and "\<not> pay_Amount q < pay_TotalRefund q + x"
  shows "calm_res (refund_fee q x)"
proof -
  have "0 \<le> pay_TotalRefund q" using assms(1,2) by (auto simp: pays_ok_def refund_ok_def)
  then show ?thesis using assms(3,4) by (auto simp: refund_fee_def calm_simps)
qed

lemma payRefund_calm:
  assumes "world_ok st" and "platform_calm st" and "pays_ok st"
  shows "calm_out (payRefund st ps)"
  using assms by (auto simp: payRefund_def Let_def calm_simps intro: parsed_calm refund_fee_calm)

lemma ext_calm [calm_simps]:
  "calm_res (NormalizeExtAddress st s)" "calm_res (NormalizeExtTxID s)" "calm_res (GetWrapAddress st t c)"
  by (auto simp: NormalizeExtAddress_def validateEOA_def NormalizeExtTxID_def validateExtTxID_def GetWrapAddress_def
      getWrapPolicy_def Let_def calm_simps)

lemma param_calm:
  assumes "world_ok st"
  shows "calm_res (param_address st kid s)"
    and "get_kid st b = Inr kid \<Longrightarrow> param_address st kid s = Inr a \<Longrightarrow> GetAccount st a = Inr acc \<Longrightarrow>
      calm_res (ai_HasHolder acc k)"
proof -
  show "calm_res (param_address st kid s)"
    using params_calm(3) [of st s] by (auto simp: param_address_def calm_simps split: sum.splits)
  show "calm_res (ai_HasHolder acc k)" if "get_kid st b = Inr kid" "param_address st kid s = Inr a" "GetAccount st a = Inr acc"
    using account_calm(1) [OF assms param_ok [OF assms that(1,2)] that(3)] .
qed

lemma wrap_stub_calm [calm_simps]:
  assumes "platform_calm st"
  shows "calm_res (WrapOp st ws s a c i m oid)" "calm_res (UnwrapOp st ws w r a c i t)"
    "calm_res (UnwrapImpossible st ws w c i t)" "calm_res (PutUnwrap st ws u)"
  using assms
  by (auto simp: WrapOp_def UnwrapOp_def UnwrapImpossible_def PutWrap_def PutUnwrap_def Let_def calm_simps)

lemma wrap_opts_calm [calm_simps]:
  "world_ok st \<Longrightarrow> platform_calm st \<Longrightarrow> calm_res (wrap_opts st tok kid acc ps)"
  by (auto simp: wrap_opts_def Let_def calm_simps)

lemma wrap_calm:
  assumes "world_ok st" and "platform_calm st"
  shows "calm_out (wrap st ps)"
  using assms by (auto simp: wrap_def Let_def calm_simps Deposit_calm param_calm(1) intro: param_calm(2))

lemma unwrap_receiver_calm [calm_simps]: "calm_res (unwrap_receiver st s)"
  using params_calm(3) [of st s] by (auto simp: unwrap_receiver_def calm_simps split: sum.splits)

lemma bridge_calm:
  "world_ok st \<Longrightarrow> GetToken st code = Inr t \<Longrightarrow> GetWrapAddress st t ext = Inr a \<Longrightarrow> GetAccount st a = Inr acc \<Longrightarrow>
   calm_res (ai_HasHolder acc k)"
  using wrap_address_ok account_calm(1) by blast

lemma unwrap_calm:
  assumes "world_ok st" and "platform_calm st"
  shows "calm_out (unwrap st ps)"
  using assms by (auto simp: unwrap_def Let_def calm_simps intro: bridge_calm)

end
