(* ===== verification/Props_Errors.thy ===== *)
theory Props_Errors
  imports Example_Runs Panic_Freedom
begin

text \<open>Error paths: what fails, what is ignored, and what brings the chaincode down.\<close>

text \<open>A malformed expiry of a pay is ignored: the pay goes on exactly as if none were given.\<close>

theorem pay_ignores_bad_expiry:
  assumes "5 < length ps" and "parse_int64 (ps ! 5) = (0, False)"
  shows "pay st ps = pay st (ps[5 := []])"
proof -
  have "pay_opts (ps[5 := []]) = pay_opts ps" using assms by (simp add: pay_opts_def)
  then have "pay_send st (ps[5 := []]) = pay_send st ps" by (simp add: pay_send_def fun_eq_iff)
  moreover have "ps[5 := []] ! 0 = ps ! 0" "ps[5 := []] ! 1 = ps ! 1" "ps[5 := []] ! 2 = ps ! 2" by simp_all
  ultimately show ?thesis by (simp only: pay_def length_list_update)
qed

theorem pay_ignores_bad_expiry_witness:
  "pay demo_stub [[], addrB, ''100'', [], [], ''soon''] = pay demo_stub [[], addrB, ''100'', [], [], []]"
proof -
  have "parse_int64 ''soon'' = (0, False)" by (simp add: parse_int64_def parse_uint64_def)
  then show ?thesis
    using pay_ignores_bad_expiry [of "[[], addrB, ''100'', [], [], ''soon'']" demo_stub] by simp
qed

text \<open>A contract of an unknown type brings the callback down: the document's type selects no functions,
  and indexing them panics instead of answering that the contract is unknown.\<close>

theorem unknown_contract_panics:
  assumes "length ps = 2" and "st_ccid st = Inr ''kiesnet-contract''" and "get_kid st True = Inr kid"
    and "st_json st (ps ! 1) = Inr (JArr (JStr dtype # doc))" and "dtype \<notin> fst ` set ctrRoutes"
  shows "contractExecute st ps = Panic \<and> contractCancel st ps = Panic"
proof -
  have "map_of ctrRoutes dtype = None" using assms(5) by (simp add: map_of_eq_None_iff)
  then show ?thesis
    using assms(1-4)
    by (simp add: contractExecute_def contractCancel_def contractCallback_def json_array_def doc_str_def as_string_def
        ctr_lookup_def Let_def)
qed

definition strange_stub :: stub where
  "strange_stub = demo_stub\<lparr>st_json := (\<lambda>s. Inr (JArr [JStr ''vote'']))\<rparr>"

theorem unknown_contract_panics_witness:
  "contractExecute strange_stub [''con'', ''doc''] = Panic"
proof -
  have "get_kid strange_stub True = Inr kidA" "st_ccid strange_stub = Inr ''kiesnet-contract''"
    by (simp_all add: strange_stub_def get_kid_def kid_cc_def demo demo_invoke_def)
  then show ?thesis
    using unknown_contract_panics [of "[''con'', ''doc'']" strange_stub kidA "''vote''" "[]"]
    by (simp add: strange_stub_def ctrRoutes_def)
qed

text \<open>A wrap contract's document of six or seven members passes the check of its length and then brings
  the callback down, because the memo and the order id are read from places it does not have.\<close>

lemma short_wrap_panics:
  assumes "length doc = 6 \<or> length doc = 7" and "doc ! 1 = JStr i" and "doc ! 2 = JStr s" and "doc ! 4 = JStr ec" and "doc ! 5 = JStr ei"
    and "length doc = 7 \<longrightarrow> doc ! 6 = JStr memo"
    and "GetPendingBalance st i = Inr pb" and "pb_Type pb = PendingBalanceTypeContract" and "GetBalance st s = Inr bal"
  shows "executeWrap st (pb_RID pb) doc = Panic"
  using assms by (auto simp: executeWrap_def doc_str_def as_string_def)

text \<open>C36: an instant transfer that is ready goes through.  With one signer, a transaction time, no fault of the
  platform, and no balance log of the two accounts at this very time, it succeeds.\<close>

theorem transfer_goes_through:
  assumes W: "world_ok st" and L: "3 \<le> length ps"
    and R: "transfer_ready st ps kid amount fee sAddr rAddr sender receiver sBal rBal opts"
    and S: "set_size (so_signers opts) \<le> 1" and T: "get_time st = Inr ts" and P: "\<forall>k v. st_put_err st k v = None"
    and G: "st_get st (log_key (ai_GetID sender) (unix_nano ts)) = Inr None"
      "st_get st (log_key (ai_GetID receiver) (unix_nano ts)) = Inr None"
  shows "\<exists>p ws. transfer st ps = Success p ws"
proof -
  have id: "bal_DOCTYPEID sBal = ai_GetID sender" "bal_DOCTYPEID rBal = ai_GetID receiver" and a: "0 < amount"
    using read_ids(2) [OF W] R by (auto simp: transfer_ready_def)
  have "\<exists>log ws. Transfer st [] sBal rBal amount fee (so_memo opts) (so_orderID opts) (so_pendingTime opts) = Inr (log, ws)"
    using id a T P G
    by (cases "locked (so_pendingTime opts) ts")
       (simp_all add: Transfer_def transfer_receive_def NewPendingBalance_def NewBalanceTransferLog_def PutPendingBalance_def
         PutBalance_def PutBalanceLog_def CreateFee_def PutFee_def put_state_def get_state_def Let_def)
  then show ?thesis using transfer_ready_send [OF R L] S by (auto simp: transfer_send_def)
qed

theorem transfer_goes_through_witness:
  "\<exists>p ws. transfer demo_stub drop_ps = Success p ws"
  by (rule transfer_goes_through [OF demo_world _ drop_ready _ demo_time_now])
     (simp_all add: drop_ps_def drop_opts_def set_size_def demo)






end
